(* ===== verification/Prelude.thy ===== *)
theory Prelude
  imports Main "HOL-Library.Word" "HOL-Library.Monad_Syntax"
begin

text \<open>
  Shared vocabulary of the development.  Nothing here models code of its own: the theory
  holds the type abbreviations, the fact collections the component theories fill, and the
  generic lemmas on association lists, folds and prefixes that several components use.

  A Go \<open>map[string]V\<close> that the code only stores to and looks up in is a HOL map
  \<open>string \<rightharpoonup> 'v\<close>; one that the code ranges over or that JSON produced is an
  association list with the entries in iteration order.
\<close>

section \<open>Types and fact collections\<close>

type_synonym time = int   \<comment> \<open>nanoseconds after the zero \<open>time.Time\<close>\<close>
type_synonym duration = int   \<comment> \<open>a \<open>time.Duration\<close> in nanoseconds\<close>

abbreviation (input) zero_time :: time where
  "zero_time \<equiv> 0"

abbreviation (input) second :: duration where
  "second \<equiv> 1000000000"

named_theorems go_defs \<open>definitions that proofs unfold freely\<close>
named_theorems frame \<open>what an operation leaves unchanged\<close>
named_theorems inv_intros \<open>preservation lemmas of the component invariants\<close>

section \<open>Lists and prefixes\<close>

lemma butlast_append_last: "xs \<noteq> [] \<Longrightarrow> butlast xs @ [last xs] = xs"
  by (rule append_butlast_last_id)

lemma filter_Cons_ne_Nil: "filter P xs = y # ys \<Longrightarrow> P y \<and> y \<in> set xs"
  by (metis filter_eq_ConsD in_set_conv_decomp)

lemma find_SomeD: "find P xs = Some x \<Longrightarrow> x \<in> set xs \<and> P x"
  by (induction xs) (auto split: if_splits)

lemma find_None_iff_all: "find P xs = None \<longleftrightarrow> (\<forall>x \<in> set xs. \<not> P x)"
  by (induction xs) auto

lemma find_append:
  "find P (xs @ ys) = (case find P xs of None \<Rightarrow> find P ys | Some x \<Rightarrow> Some x)"
  by (induction xs) auto

section \<open>Association lists and maps\<close>

text \<open>
  Building a map by a loop of stores, \<open>for _, x := range xs { m[key(x)] = val(x) }\<close>.
  The last store of a key wins; the lemmas say what a lookup returns afterwards.
\<close>

definition index_by :: "('x \<Rightarrow> 'k) \<Rightarrow> ('x \<Rightarrow> 'v) \<Rightarrow> 'x list \<Rightarrow> ('k \<rightharpoonup> 'v)" where
  "index_by key val xs = fold (\<lambda>x m. m(key x \<mapsto> val x)) xs Map.empty"

lemma fold_store_apply:
  "fold (\<lambda>x m. m(key x \<mapsto> val x)) xs m k =
     (case find (\<lambda>x. key x = k) (rev xs) of None \<Rightarrow> m k | Some x \<Rightarrow> Some (val x))"
  by (induction xs arbitrary: m) (auto simp: find_append split: option.splits)

lemma index_by_apply:
  "index_by key val xs k = map_option val (find (\<lambda>x. key x = k) (rev xs))"
  by (simp add: index_by_def fold_store_apply split: option.splits)

lemma index_by_eq_None: "index_by key val xs k = None \<longleftrightarrow> k \<notin> key ` set xs"
  by (auto simp: index_by_apply find_None_iff_all)

lemma index_by_Some:
  assumes "index_by key val xs k = Some v"
  shows "\<exists>x \<in> set xs. key x = k \<and> val x = v"
proof -
  from assms obtain x where "find (\<lambda>x. key x = k) (rev xs) = Some x" "v = val x"
    by (auto simp: index_by_apply)
  with find_SomeD [of "\<lambda>x. key x = k" "rev xs" x] show ?thesis by auto
qed

lemma dom_index_by: "dom (index_by key val xs) = key ` set xs"
proof -
  have "k \<in> dom (index_by key val xs) \<longleftrightarrow> k \<in> key ` set xs" for k
    using index_by_eq_None [of key val xs k] by (metis domIff)
  then show ?thesis by blast
qed

lemma index_by_distinct:
  assumes "distinct (map key xs)" "x \<in> set xs"
  shows "index_by key val xs (key x) = Some (val x)"
proof -
  obtain y where y: "find (\<lambda>z. key z = key x) (rev xs) = Some y"
    using assms(2) find_None_iff_all [of "\<lambda>z. key z = key x" "rev xs"] by fastforce
  with find_SomeD [OF this] assms have "y = x"
    by (auto simp: distinct_map inj_on_def)
  with y show ?thesis by (simp add: index_by_apply)
qed

end
