(* ===== verification/Breaker.thy ===== *)
theory Breaker
  imports Prelude
begin

text \<open>
  Package \<open>circuitbreaker\<close>.  The open state decays to half-open when it is looked at, so
  every operation first applies \<open>current_state\<close>.  \<open>time.Now()\<close> is the argument \<open>now\<close>; the
  mutex makes every operation atomic, so a concurrent run is a sequence of operations.  The
  counters are Go's \<open>int\<close>, here integers: by the invariant they stay below thresholds that are
  \<open>int\<close> themselves, so no increment wraps.
\<close>

datatype breaker_mode = StateClosed | StateOpen | StateHalfOpen

record breaker =
  bk_failure_threshold :: int
  bk_open_interval :: duration
  bk_recovery_threshold :: int
  bk_failures :: int
  bk_successes :: int
  bk_state :: breaker_mode
  bk_opened_at :: time

definition new_breaker :: "int \<Rightarrow> duration \<Rightarrow> int \<Rightarrow> breaker" where
  "new_breaker ft oi rt =
     \<lparr>bk_failure_threshold = ft, bk_open_interval = oi, bk_recovery_threshold = rt,
      bk_failures = 0, bk_successes = 0, bk_state = StateClosed, bk_opened_at = 0\<rparr>"

text \<open>\<open>currentStateLocked\<close>\<close>

definition current_state :: "time \<Rightarrow> breaker \<Rightarrow> breaker" where
  "current_state now b =
     (if bk_state b = StateOpen \<and> now - bk_opened_at b \<ge> bk_open_interval b
      then b\<lparr>bk_state := StateHalfOpen\<rparr> else b)"

definition record_failure :: "time \<Rightarrow> breaker \<Rightarrow> breaker" where
  "record_failure now b0 = (let b = current_state now b0 in
     (case bk_state b of
        StateHalfOpen \<Rightarrow> b\<lparr>bk_state := StateOpen, bk_opened_at := now, bk_successes := 0\<rparr>
      | StateOpen \<Rightarrow> b
      | StateClosed \<Rightarrow>
          (let b1 = b\<lparr>bk_failures := bk_failures b + 1\<rparr> in
           if bk_failures b1 \<ge> bk_failure_threshold b1
           then b1\<lparr>bk_state := StateOpen, bk_opened_at := now, bk_failures := 0\<rparr>
           else b1)))"

definition record_success :: "time \<Rightarrow> breaker \<Rightarrow> breaker" where
  "record_success now b0 = (let b = current_state now b0 in
     (case bk_state b of
        StateHalfOpen \<Rightarrow>
          (let b1 = b\<lparr>bk_successes := bk_successes b + 1\<rparr> in
           if bk_successes b1 \<ge> bk_recovery_threshold b1
           then b1\<lparr>bk_state := StateClosed, bk_successes := 0, bk_failures := 0\<rparr>
           else b1)
      | _ \<Rightarrow> b\<lparr>bk_failures := 0\<rparr>))"

definition breaker_query :: "time \<Rightarrow> breaker \<Rightarrow> breaker_mode \<times> breaker" where
  "breaker_query now b = (let b' = current_state now b in (bk_state b', b'))"

section \<open>Runs and the invariant\<close>

datatype breaker_op = RecordFailure | RecordSuccess | QueryState

fun breaker_step :: "breaker \<Rightarrow> time \<times> breaker_op \<Rightarrow> breaker" where
  "breaker_step b (now, RecordFailure) = record_failure now b"
| "breaker_step b (now, RecordSuccess) = record_success now b"
| "breaker_step b (now, QueryState) = snd (breaker_query now b)"

definition breaker_run :: "breaker \<Rightarrow> (time \<times> breaker_op) list \<Rightarrow> breaker" where
  "breaker_run b ops = foldl breaker_step b ops"

text \<open>
  Counters stay below their thresholds, and each counter is zero outside the mode that
  counts it.
\<close>

definition breaker_inv :: "breaker \<Rightarrow> bool" where
  "breaker_inv b \<longleftrightarrow>
     0 \<le> bk_failures b \<and> bk_failures b < max 1 (bk_failure_threshold b) \<and>
     0 \<le> bk_successes b \<and> bk_successes b < max 1 (bk_recovery_threshold b) \<and>
     (bk_state b \<noteq> StateClosed \<longrightarrow> bk_failures b = 0) \<and>
     (bk_state b \<noteq> StateHalfOpen \<longrightarrow> bk_successes b = 0)"

lemma breaker_inv_new: "breaker_inv (new_breaker ft oi rt)"
  by (simp add: breaker_inv_def new_breaker_def less_max_iff_disj)

lemma breaker_inv_current [inv_intros]: "breaker_inv b \<Longrightarrow> breaker_inv (current_state now b)"
  by (auto simp: breaker_inv_def current_state_def)

lemma breaker_inv_failure [inv_intros]:
  assumes "breaker_inv b"
  shows "breaker_inv (record_failure now b)"
  using breaker_inv_current [OF assms, of now]
  by (auto simp: record_failure_def breaker_inv_def Let_def split: breaker_mode.splits)

lemma breaker_inv_success [inv_intros]:
  assumes "breaker_inv b"
  shows "breaker_inv (record_success now b)"
  using breaker_inv_current [OF assms, of now]
  by (auto simp: record_success_def breaker_inv_def Let_def split: breaker_mode.splits)

lemma breaker_inv_step [inv_intros]: "breaker_inv b \<Longrightarrow> breaker_inv (breaker_step b e)"
  by (cases e; cases "snd e") (auto simp: breaker_query_def Let_def intro: inv_intros)

lemma breaker_inv_run: "breaker_inv b \<Longrightarrow> breaker_inv (breaker_run b ops)"
  unfolding breaker_run_def by (induction ops arbitrary: b) (auto intro: inv_intros)

section \<open>Mode changes\<close>

text \<open>The only changes of mode one operation can make.\<close>

inductive mode_change :: "breaker_mode \<Rightarrow> breaker_mode \<Rightarrow> bool" where
  stay: "mode_change m m"
| trip: "mode_change StateClosed StateOpen"
| decay: "mode_change StateOpen StateHalfOpen"
| retrip: "mode_change StateHalfOpen StateOpen"
| recover: "mode_change StateHalfOpen StateClosed"
| decay_recover: "mode_change StateOpen StateClosed"

inductive_simps mode_change_closed [simp]: "mode_change StateClosed m"
inductive_simps mode_change_half [simp]: "mode_change StateHalfOpen m"
inductive_simps mode_change_open [simp]: "mode_change StateOpen m"

lemma step_mode_change: "mode_change (bk_state b) (bk_state (breaker_step b e))"
  by (cases e; cases "snd e"; cases "bk_state b")
     (auto simp: record_failure_def record_success_def breaker_query_def current_state_def
       Let_def split: breaker_mode.splits)

text \<open>Before the interval is over, an open breaker stays open whatever is recorded.\<close>

lemma open_holds:
  assumes "bk_state b = StateOpen" "now - bk_opened_at b < bk_open_interval b"
  shows "bk_state (breaker_step b (now, op)) = StateOpen \<and>
         bk_opened_at (breaker_step b (now, op)) = bk_opened_at b"
  using assms
  by (cases op) (auto simp: record_failure_def record_success_def breaker_query_def
      current_state_def Let_def)

lemma breaker_frame [frame]:
  "bk_failure_threshold (breaker_step b e) = bk_failure_threshold b"
  "bk_open_interval (breaker_step b e) = bk_open_interval b"
  "bk_recovery_threshold (breaker_step b e) = bk_recovery_threshold b"
  by (cases e; cases "snd e"; auto simp: record_failure_def record_success_def breaker_query_def
      current_state_def Let_def split: breaker_mode.splits)+

lemma breaker_run_frame [frame]:
  "bk_failure_threshold (breaker_run b ops) = bk_failure_threshold b"
  "bk_open_interval (breaker_run b ops) = bk_open_interval b"
  "bk_recovery_threshold (breaker_run b ops) = bk_recovery_threshold b"
  unfolding breaker_run_def by (induction ops arbitrary: b) (simp_all add: frame)

section \<open>Counting failures and successes\<close>

lemma closed_failures:
  assumes "bk_state b = StateClosed" "breaker_inv b"
    "bk_failures b + int (length ts) < bk_failure_threshold b"
  shows "breaker_run b (map (\<lambda>t. (t, RecordFailure)) ts) =
           b\<lparr>bk_failures := bk_failures b + int (length ts)\<rparr>"
  using assms
proof (induction ts arbitrary: b)
  case Nil
  then show ?case by (simp add: breaker_run_def)
next
  case (Cons t ts)
  let ?b = "b\<lparr>bk_failures := bk_failures b + 1\<rparr>"
  have "breaker_step b (t, RecordFailure) = ?b"
    using Cons.prems by (simp add: record_failure_def current_state_def Let_def)
  moreover have "breaker_inv ?b"
    using Cons.prems by (auto simp: breaker_inv_def)
  ultimately show ?case
    using Cons.IH [of ?b] Cons.prems by (simp add: breaker_run_def algebra_simps)
qed

lemma breaker_run_snoc: "breaker_run b (ops @ [e]) = breaker_step (breaker_run b ops) e"
  by (simp add: breaker_run_def)

section \<open>The open window\<close>

lemma open_run:
  assumes "bk_state b = StateOpen" "\<forall>(now, op) \<in> set evs. now - bk_opened_at b < bk_open_interval b"
  shows "bk_state (breaker_run b evs) = StateOpen \<and> bk_opened_at (breaker_run b evs) = bk_opened_at b"
  using assms
proof (induction evs arbitrary: b)
  case Nil
  then show ?case by (simp add: breaker_run_def)
next
  case (Cons e evs)
  obtain now op where e: "e = (now, op)" by fastforce
  let ?b = "breaker_step b e"
  have o: "bk_state ?b = StateOpen \<and> bk_opened_at ?b = bk_opened_at b"
    using open_holds [of b now op] Cons.prems e by simp
  with Cons.IH [of ?b] Cons.prems show ?case by (simp add: breaker_run_def frame)
qed

lemma open_decays:
  "bk_state b = StateOpen \<Longrightarrow> bk_open_interval b \<le> now - bk_opened_at b \<Longrightarrow>
     fst (breaker_query now b) = StateHalfOpen"
  by (simp add: breaker_query_def current_state_def Let_def)

lemma breaker_run_append: "breaker_run b (xs @ ys) = breaker_run (breaker_run b xs) ys"
  by (simp add: breaker_run_def)

text \<open>The failure that reaches the threshold.\<close>

lemma threshold_opens:
  assumes "bk_state b = StateClosed" "breaker_inv b"
    "bk_failures b + int (length ts) = bk_failure_threshold b - 1"
  shows "breaker_run b (map (\<lambda>t. (t, RecordFailure)) (ts @ [t])) =
    b\<lparr>bk_failures := 0, bk_state := StateOpen, bk_opened_at := t\<rparr>"
proof -
  have "breaker_run b (map (\<lambda>t. (t, RecordFailure)) ts) = b\<lparr>bk_failures := bk_failure_threshold b - 1\<rparr>"
    using closed_failures [OF assms(1,2), of ts] assms(3) by simp
  then show ?thesis
    using assms(1) by (simp add: breaker_run_snoc record_failure_def current_state_def)
qed

end
