(* ===== verification/Go_Strings.thy ===== *)
theory Go_Strings
  imports Prelude
begin

text \<open>
  The functions of Go's \<open>strings\<close> package the router calls, on byte strings: a Go
  string is a sequence of bytes and a HOL \<open>char\<close> is a byte.  Case mapping is exact
  on ASCII and on the three non-ASCII runes whose other case is an ASCII letter; every
  other rune is left as it is, which no comparison with an ASCII constant can see.
\<close>

section \<open>Prefixes, suffixes and substrings\<close>

fun has_prefix :: "string \<Rightarrow> string \<Rightarrow> bool" where
  "has_prefix s [] = True"
| "has_prefix [] (p # ps) = False"
| "has_prefix (c # s) (p # ps) = (c = p \<and> has_prefix s ps)"

definition has_suffix :: "string \<Rightarrow> string \<Rightarrow> bool" where
  "has_suffix s p = has_prefix (rev s) (rev p)"

definition trim_prefix :: "string \<Rightarrow> string \<Rightarrow> string" where
  "trim_prefix s p = (if has_prefix s p then drop (length p) s else s)"

definition trim_suffix :: "string \<Rightarrow> string \<Rightarrow> string" where
  "trim_suffix s p = (if has_suffix s p then take (length s - length p) s else s)"

fun contains :: "string \<Rightarrow> string \<Rightarrow> bool" where
  "contains [] p = (p = [])"
| "contains (c # s) p = (has_prefix (c # s) p \<or> contains s p)"

text \<open>\<open>strings.IndexByte\<close>, \<open>strings.LastIndexByte\<close> and \<open>strings.Cut\<close> at one byte.\<close>

fun index_byte :: "string \<Rightarrow> char \<Rightarrow> nat option" where
  "index_byte [] c = None"
| "index_byte (x # s) c = (if x = c then Some 0 else map_option Suc (index_byte s c))"

definition last_index_byte :: "string \<Rightarrow> char \<Rightarrow> nat option" where
  "last_index_byte s c = map_option (\<lambda>i. length s - Suc i) (index_byte (rev s) c)"

definition cut_byte :: "string \<Rightarrow> char \<Rightarrow> string \<times> string \<times> bool" where
  "cut_byte s c =
     (case index_byte s c of
        None \<Rightarrow> (s, [], False)
      | Some i \<Rightarrow> (take i s, drop (Suc i) s, True))"

text \<open>\<open>strings.SplitN(s, sep, 2)\<close> for a one-byte separator.\<close>

definition split_n2 :: "string \<Rightarrow> char \<Rightarrow> string list" where
  "split_n2 s c =
     (case index_byte s c of None \<Rightarrow> [s] | Some i \<Rightarrow> [take i s, drop (Suc i) s])"

definition trim_right_byte :: "string \<Rightarrow> char \<Rightarrow> string" where
  "trim_right_byte s c = rev (dropWhile (\<lambda>x. x = c) (rev s))"

section \<open>White space\<close>

text \<open>
  \<open>unicode.IsSpace\<close>: the ASCII blanks, and the UTF-8 encodings of U+0085, U+00A0,
  U+1680, U+2000 to U+200A, U+2028, U+2029, U+202F, U+205F and U+3000.
\<close>

definition ascii_space :: "char \<Rightarrow> bool" where
  "ascii_space c \<longleftrightarrow> c \<in> {CHR 0x09, CHR 0x0A, CHR 0x0B, CHR 0x0C, CHR 0x0D, CHR '' ''}"

fun leading_space :: "string \<Rightarrow> nat" where
  "leading_space [] = 0"
| "leading_space (c # s) =
     (if ascii_space c then 1
      else if c = CHR 0xC2 \<and> (has_prefix s [CHR 0x85] \<or> has_prefix s [CHR 0xA0]) then 2
      else if c = CHR 0xE1 \<and> has_prefix s [CHR 0x9A, CHR 0x80] then 3
      else if c = CHR 0xE2 \<and> has_prefix s [CHR 0x80] then
        (case drop 1 s of
           [] \<Rightarrow> 0
         | d # _ \<Rightarrow> let n = (of_char d :: nat) in
             if 0x80 \<le> n \<and> n \<le> 0x8A \<or> n = 0xA8 \<or> n = 0xA9 \<or> n = 0xAF then 3 else 0)
      else if c = CHR 0xE2 \<and> has_prefix s [CHR 0x81, CHR 0x9F] then 3
      else if c = CHR 0xE3 \<and> has_prefix s [CHR 0x80, CHR 0x80] then 3
      else 0)"

lemma has_prefix_iff: "has_prefix s p \<longleftrightarrow> (\<exists>t. s = p @ t)"
  by (induction s p rule: has_prefix.induct) auto

lemma has_prefix_length: "has_prefix s p \<Longrightarrow> length p \<le> length s"
  by (auto simp: has_prefix_iff)

function trim_left_space :: "string \<Rightarrow> string" where
  "trim_left_space s = (let k = leading_space s in
     if k = 0 then s else trim_left_space (drop k s))"
  by pat_completeness auto
termination
proof (relation "measure length")
  fix s :: string and k
  assume "k = leading_space s" "k \<noteq> 0"
  then show "(drop k s, s) \<in> measure length"
    by (cases s) auto
qed simp

declare trim_left_space.simps [simp del]

text \<open>
  The last rune is a blank when some suffix of at most three bytes is exactly one blank;
  UTF-8 is self-synchronising, so the suffix is the rune \<open>utf8.DecodeLastRune\<close> returns.
\<close>

definition trailing_space :: "string \<Rightarrow> nat" where
  "trailing_space s =
     (case find (\<lambda>k. k \<le> length s \<and> leading_space (drop (length s - k) s) = k) [1, 2, 3] of
        None \<Rightarrow> 0 | Some k \<Rightarrow> k)"

lemma trailing_space_le: "trailing_space s \<le> length s"
  by (auto simp: trailing_space_def)

function trim_right_space :: "string \<Rightarrow> string" where
  "trim_right_space s = (let k = trailing_space s in
     if k = 0 then s else trim_right_space (take (length s - k) s))"
  by pat_completeness auto
termination
proof (relation "measure length")
  fix s :: string and k
  assume "k = trailing_space s" "k \<noteq> 0"
  then show "(take (length s - k) s, s) \<in> measure length"
    using trailing_space_le [of s] by (cases s) (auto simp: trailing_space_def)
qed simp

declare trim_right_space.simps [simp del]

definition trim_space :: "string \<Rightarrow> string" where
  "trim_space s = trim_right_space (trim_left_space s)"

section \<open>Case\<close>

definition upper_char :: "char \<Rightarrow> char" where
  "upper_char c = (let n = (of_char c :: nat) in
     if 97 \<le> n \<and> n \<le> 122 then char_of (n - 32) else c)"

definition lower_char :: "char \<Rightarrow> char" where
  "lower_char c = (let n = (of_char c :: nat) in
     if 65 \<le> n \<and> n \<le> 90 then char_of (n + 32) else c)"

text \<open>U+0131 and U+017F have ASCII upper cases, U+0130 and U+212A ASCII lower cases.\<close>

fun to_upper :: "string \<Rightarrow> string" where
  "to_upper (c # d # s) =
     (if c = CHR 0xC4 \<and> d = CHR 0xB1 then CHR ''I'' # to_upper s
      else if c = CHR 0xC5 \<and> d = CHR 0xBF then CHR ''S'' # to_upper s
      else upper_char c # to_upper (d # s))"
| "to_upper s = map upper_char s"

fun to_lower :: "string \<Rightarrow> string" where
  "to_lower (c # d # s) =
     (if c = CHR 0xC4 \<and> d = CHR 0xB0 then CHR ''i'' # to_lower s
      else if c = CHR 0xE2 \<and> has_prefix (d # s) [CHR 0x84, CHR 0xAA]
        then CHR ''k'' # to_lower (drop 1 s)
      else lower_char c # to_lower (d # s))"
| "to_lower s = map lower_char s"

text \<open>
  Simple case folding, as \<open>strings.EqualFold\<close> and the field lookup of
  \<open>encoding/json\<close> use it: ASCII letters, the long s U+017F and the Kelvin sign
  U+212A fold to ASCII, everything else keeps its bytes.
\<close>

fun fold_case :: "string \<Rightarrow> string" where
  "fold_case (c # d # s) =
     (if c = CHR 0xC5 \<and> d = CHR 0xBF then CHR ''S'' # fold_case s
      else if c = CHR 0xE2 \<and> has_prefix (d # s) [CHR 0x84, CHR 0xAA]
        then CHR ''K'' # fold_case (drop 1 s)
      else upper_char c # fold_case (d # s))"
| "fold_case s = map upper_char s"

definition equal_fold :: "string \<Rightarrow> string \<Rightarrow> bool" where
  "equal_fold s t \<longleftrightarrow> fold_case s = fold_case t"

section \<open>Lemmas\<close>

lemma has_prefix_append [simp]: "has_prefix (p @ t) p"
  by (auto simp: has_prefix_iff)

lemma has_prefix_refl [simp]: "has_prefix s s"
  by (auto simp: has_prefix_iff)

lemma has_prefix_trans: "has_prefix s p \<Longrightarrow> has_prefix p q \<Longrightarrow> has_prefix s q"
  by (auto simp: has_prefix_iff)

lemma has_suffix_iff: "has_suffix s p \<longleftrightarrow> (\<exists>t. s = t @ p)"
proof
  assume "has_suffix s p"
  then obtain t where "rev s = rev p @ t" by (auto simp: has_suffix_def has_prefix_iff)
  then have "s = rev t @ p" by (metis rev_append rev_rev_ident)
  then show "\<exists>t. s = t @ p" ..
qed (auto simp: has_suffix_def)

lemma trim_suffix_append [simp]: "trim_suffix (t @ p) p = t"
  by (auto simp: trim_suffix_def has_suffix_iff)

lemma trim_prefix_append [simp]: "trim_prefix (p @ t) p = t"
  by (auto simp: trim_prefix_def)

lemma index_byte_None: "index_byte s c = None \<longleftrightarrow> c \<notin> set s"
  by (induction s) auto

lemma index_byte_Some:
  "index_byte s c = Some i \<Longrightarrow> i < length s \<and> s ! i = c \<and> c \<notin> set (take i s)"
  by (induction s arbitrary: i) (auto split: if_splits)

lemma index_byte_append:
  "c \<notin> set s \<Longrightarrow> index_byte (s @ c # t) c = Some (length s)"
  by (induction s) auto

lemma split_n2_append: "c \<notin> set s \<Longrightarrow> split_n2 (s @ c # t) c = [s, t]"
  by (simp add: split_n2_def index_byte_append)

lemma split_n2_join: "split_n2 s c = [a, b] \<Longrightarrow> s = a @ c # b"
  by (auto simp: split_n2_def id_take_nth_drop split: option.splits dest!: index_byte_Some)

lemma trim_right_byte_idem: "trim_right_byte (trim_right_byte s c) c = trim_right_byte s c"
  by (simp add: trim_right_byte_def)

lemma trim_right_byte_no_suffix: "\<not> has_suffix (trim_right_byte s c) [c]"
proof -
  have "\<not> has_prefix (dropWhile (\<lambda>x. x = c) r) [c]" for r
    by (induction r) auto
  then show ?thesis by (simp add: trim_right_byte_def has_suffix_def)
qed

lemma trim_left_space_fixed: "leading_space (trim_left_space s) = 0"
  by (induction s rule: trim_left_space.induct)
     (subst trim_left_space.simps, auto simp: Let_def)

end
