(* ===== verification/Go_Numbers.thy ===== *)
theory Go_Numbers
  imports Go_Strings
begin

text \<open>
  The numbers of the router: \<open>float64\<close> values as JSON yields them, the conversion
  \<open>int(x)\<close>, and \<open>time.ParseDuration\<close>, whose fractional part goes through
  \<open>float64\<close> arithmetic.  A finite \<open>float64\<close> is a dyadic rational \<open>m * 2 ^ e\<close>;
  every operation rounds to nearest, ties to even, with 53 bits of precision and the least
  exponent \<open>-1074\<close>.
\<close>

section \<open>float64\<close>

datatype float64 = F64 (mantissa: int) (exponent: int)

type_synonym go_int = "64 word"

function bit_length :: "int \<Rightarrow> int" where
  "bit_length n = (if n \<le> 0 then 0 else 1 + bit_length (n div 2))"
  by pat_completeness auto
termination by (relation "measure nat") auto

declare bit_length.simps [simp del]

text \<open>The quotient of two non-negative integers rounded to the nearest, ties to even.\<close>

definition div_round :: "int \<Rightarrow> int \<Rightarrow> int" where
  "div_round n d = (let q = n div d; r = n mod d in
     if 2 * r < d then q else if d < 2 * r then q + 1 else if even q then q else q + 1)"

text \<open>A mantissa that rounded up to \<open>2 ^ 53\<close> moves to the next exponent, and zero has one exponent,
  so a value has one representation.\<close>

definition normal64 :: "int \<Rightarrow> int \<Rightarrow> float64" where
  "normal64 m e = (if m = 0 then F64 0 0 else if m = 2 ^ 53 then F64 (2 ^ 52) (e + 1) else F64 m e)"

text \<open>\<open>n / d\<close> as a \<open>float64\<close>, for \<open>0 \<le> n\<close> and \<open>0 < d\<close>; \<open>None\<close> when it overflows to infinity.\<close>

definition round64 :: "int \<Rightarrow> int \<Rightarrow> float64 option" where
  "round64 n d = (if n = 0 then Some (F64 0 0) else
     (let e0 = bit_length n - bit_length d - 53;
          at = (\<lambda>e. if e \<ge> 0 then div_round n (d * 2 ^ nat e) else div_round (n * 2 ^ nat (- e)) d);
          wide = (if e0 \<ge> 0 then d * 2 ^ nat e0 * 2 ^ 53 \<le> n else d * 2 ^ 53 \<le> n * 2 ^ nat (- e0));
          e = max (if wide then e0 + 1 else e0) (-1074);
          m = at e
      in if e + bit_length m > 1024 then None else Some (normal64 m e)))"

definition neg64 :: "float64 \<Rightarrow> float64" where
  "neg64 x = F64 (- mantissa x) (exponent x)"

text \<open>Numerator and denominator.\<close>

definition num64 :: "float64 \<Rightarrow> int" where
  "num64 x = mantissa x * (if exponent x \<ge> 0 then 2 ^ nat (exponent x) else 1)"

definition den64 :: "float64 \<Rightarrow> int" where
  "den64 x = (if exponent x \<ge> 0 then 1 else 2 ^ nat (- exponent x))"

text \<open>Truncation towards zero, and \<open>int(x)\<close> on a 64-bit platform.  Go leaves the result
  of a conversion that does not fit to the implementation: it is the argument \<open>oob\<close>.\<close>

definition trunc64 :: "float64 \<Rightarrow> int" where
  "trunc64 x = sgn (num64 x) * (\<bar>num64 x\<bar> div den64 x)"

definition int_of_float64 :: "(float64 \<Rightarrow> go_int) \<Rightarrow> float64 \<Rightarrow> go_int" where
  "int_of_float64 oob x = (let t = trunc64 x in
     if - (2 ^ 63) \<le> t \<and> t < 2 ^ 63 then word_of_int t else oob x)"

section \<open>Decimal digits\<close>

definition is_digit :: "char \<Rightarrow> bool" where
  "is_digit c \<longleftrightarrow> (48::int) \<le> of_char c \<and> of_char c \<le> (57::int)"

definition digit_val :: "char \<Rightarrow> int" where
  "digit_val c = of_char c - 48"

definition digits_val :: "string \<Rightarrow> int" where
  "digits_val s = foldl (\<lambda>n c. 10 * n + digit_val c) 0 s"

section \<open>time.ParseDuration\<close>

text \<open>\<open>leadingInt\<close>: the leading digits and the rest; \<open>None\<close> on overflow.\<close>

fun leading_int :: "int \<Rightarrow> string \<Rightarrow> (int \<times> string) option" where
  "leading_int x [] = Some (x, [])"
| "leading_int x (c # s) =
     (if \<not> is_digit c then Some (x, c # s)
      else if x > 2 ^ 63 div 10 then None
      else let y = x * 10 + digit_val c in
        if y > 2 ^ 63 then None else leading_int y s)"

text \<open>\<open>leadingFraction\<close>: digits past the overflow point are read and dropped.  The scale
  is a \<open>float64\<close> that is multiplied by ten for every digit kept.\<close>

definition scale10 :: "float64 \<Rightarrow> float64" where
  "scale10 x = (case round64 (num64 x * 10) (den64 x) of Some y \<Rightarrow> y | None \<Rightarrow> x)"

fun leading_fraction :: "int \<Rightarrow> float64 \<Rightarrow> bool \<Rightarrow> string \<Rightarrow> int \<times> float64 \<times> string" where
  "leading_fraction x sc ovf [] = (x, sc, [])"
| "leading_fraction x sc ovf (c # s) =
     (if \<not> is_digit c then (x, sc, c # s)
      else if ovf then leading_fraction x sc True s
      else if x > (2 ^ 63 - 1) div 10 then leading_fraction x sc True s
      else let y = x * 10 + digit_val c in
        if y > 2 ^ 63 then leading_fraction x sc True s
        else leading_fraction y (scale10 sc) False s)"

definition unit_map :: "string \<Rightarrow> int option" where
  "unit_map u =
     (if u = ''ns'' then Some 1
      else if u = ''us'' \<or> u = [CHR 0xC2, CHR 0xB5, CHR ''s'']
           \<or> u = [CHR 0xCE, CHR 0xBC, CHR ''s''] then Some 1000
      else if u = ''ms'' then Some 1000000
      else if u = ''s'' then Some 1000000000
      else if u = ''m'' then Some 60000000000
      else if u = ''h'' then Some 3600000000000
      else None)"

text \<open>\<open>uint64(float64(f) * (float64(unit) / scale))\<close>.\<close>

definition fraction_ns :: "int \<Rightarrow> int \<Rightarrow> float64 \<Rightarrow> int" where
  "fraction_ns f unit sc =
     (case (round64 f 1, round64 (unit * den64 sc) (num64 sc)) of
        (Some x, Some y) \<Rightarrow>
          (case round64 (num64 x * num64 y) (den64 x * den64 y) of
             Some z \<Rightarrow> trunc64 z | None \<Rightarrow> 0)
      | _ \<Rightarrow> 0)"

text \<open>The optional fraction after the integer part: its digits, their scale, the rest, and
  whether there was a digit.\<close>

definition group_fraction :: "string \<Rightarrow> int \<times> float64 \<times> string \<times> bool" where
  "group_fraction s =
     (if has_prefix s ''.''
      then (case leading_fraction 0 (F64 1 0) False (drop 1 s) of
              (f, sc, r) \<Rightarrow> (f, sc, r, length r \<noteq> length (drop 1 s)))
      else (0, F64 1 0, s, False))"

definition unit_char :: "char \<Rightarrow> bool" where
  "unit_char c \<longleftrightarrow> \<not> (c = CHR ''.'' \<or> is_digit c)"

text \<open>Adding \<open>v\<close> units and the fraction to the accumulator, with the overflow checks; the
  accumulator wraps like the \<open>uint64\<close> it is.\<close>

definition add_group :: "int \<Rightarrow> int \<Rightarrow> int \<Rightarrow> float64 \<Rightarrow> int \<Rightarrow> int option" where
  "add_group d v f sc unit =
     (if v > 2 ^ 63 div unit then None else
      (let v1 = v * unit;
           v2 = (if f > 0 then v1 + fraction_ns f unit sc else v1);
           d1 = (d + v2) mod 2 ^ 64
       in if f > 0 \<and> v2 > 2 ^ 63 then None
          else if d1 > 2 ^ 63 then None else Some d1))"

text \<open>One \<open>value unit\<close> group.\<close>

definition duration_group :: "int \<Rightarrow> string \<Rightarrow> (int \<times> string) option" where
  "duration_group d s =
     (if s = [] \<or> unit_char (hd s) then None else
      (case leading_int 0 s of None \<Rightarrow> None | Some (v, s1) \<Rightarrow>
       (case group_fraction s1 of (f, sc, s2, post) \<Rightarrow>
         if length s1 = length s \<and> \<not> post then None
         else if takeWhile unit_char s2 = [] then None
         else (case unit_map (takeWhile unit_char s2) of None \<Rightarrow> None | Some unit \<Rightarrow>
           (case add_group d v f sc unit of None \<Rightarrow> None
            | Some d1 \<Rightarrow> Some (d1, dropWhile unit_char s2))))))"

lemma leading_int_length: "leading_int x s = Some (v, r) \<Longrightarrow> length r \<le> length s"
  by (induction x s rule: leading_int.induct) (auto simp: Let_def split: if_splits)

lemma leading_fraction_length: "leading_fraction x sc ov s = (f, sc', r) \<Longrightarrow> length r \<le> length s"
  by (induction x sc ov s rule: leading_fraction.induct) (auto simp: Let_def split: if_splits)

lemma group_fraction_length: "group_fraction s = (f, sc, r, post) \<Longrightarrow> length r \<le> length s"
  by (auto simp: group_fraction_def split: if_splits prod.splits dest!: leading_fraction_length)

lemma take_while_drop_length: "takeWhile P s \<noteq> [] \<Longrightarrow> length (dropWhile P s) < length s"
  by (cases s) (auto simp: length_dropWhile_le less_Suc_eq_le split: if_splits)

lemma duration_group_length:
  assumes "duration_group d s = Some (d', r)"
  shows "length r < length s"
proof -
  from assms obtain v s1 f sc s2 post where
    "leading_int 0 s = Some (v, s1)" and "group_fraction s1 = (f, sc, s2, post)"
    and "takeWhile unit_char s2 \<noteq> []" and "r = dropWhile unit_char s2"
    by (auto simp: duration_group_def split: if_splits option.splits prod.splits)
  with leading_int_length [of 0 s v s1] group_fraction_length [of s1 f sc s2 post]
    take_while_drop_length [of unit_char s2] show ?thesis by simp
qed

function duration_loop :: "int \<Rightarrow> string \<Rightarrow> int option" where
  "duration_loop d s = (if s = [] then Some d else
     (case duration_group d s of None \<Rightarrow> None | Some (d', r) \<Rightarrow> duration_loop d' r))"
  by pat_completeness auto
termination
  by (relation "measure (length \<circ> snd)") (auto simp: duration_group_length)

declare duration_loop.simps [simp del]

definition parse_duration :: "string \<Rightarrow> duration option" where
  "parse_duration s =
     (let neg = has_prefix s ''-'';
          s1 = (if neg \<or> has_prefix s ''+'' then drop 1 s else s)
      in if s1 = ''0'' then Some 0
         else if s1 = [] then None
         else (case duration_loop 0 s1 of
                 None \<Rightarrow> None
               | Some d \<Rightarrow> if neg then Some (- d)
                          else if d > 2 ^ 63 - 1 then None else Some d))"

lemma duration_group_bound: "duration_group d s = Some (d', r) \<Longrightarrow> 0 \<le> d' \<and> d' \<le> 2 ^ 63"
  by (auto simp: duration_group_def add_group_def Let_def
      split: if_splits option.splits prod.splits)

lemma duration_loop_bound:
  "0 \<le> d \<and> d \<le> 2 ^ 63 \<Longrightarrow> duration_loop d s = Some n \<Longrightarrow> 0 \<le> n \<and> n \<le> 2 ^ 63"
proof (induction d s rule: duration_loop.induct)
  case (1 d s)
  show ?case
  proof (cases "s = []")
    case False
    with 1(3) obtain d' r where g: "duration_group d s = Some (d', r)" "duration_loop d' r = Some n"
      by (auto simp: duration_loop.simps [of d s] split: option.splits)
    show ?thesis by (rule 1(1) [OF False g(1) refl duration_group_bound [OF g(1)] g(2)])
  next
    case True
    with 1(2,3) show ?thesis by (simp add: duration_loop.simps [of d "[]"])
  qed
qed

text \<open>Every parsed duration fits the \<open>int64\<close> it is stored in.\<close>

lemma parse_duration_range:
  "parse_duration s = Some d \<Longrightarrow> - (2 ^ 63) \<le> d \<and> d < 2 ^ 63"
  using duration_loop_bound [of 0]
  by (fastforce simp: parse_duration_def Let_def split: if_splits option.splits)

end
