(* ===== verification/Go_Json.thy ===== *)
theory Go_Json
  imports Go_Numbers
begin

text \<open>
  What the router uses of \<open>encoding/json\<close>: the syntax of a JSON text, the values an
  \<open>any\<close> holds after \<open>json.Unmarshal\<close>, and the rules by which a value is stored
  into a typed field (a \<open>null\<close> leaves scalars alone and clears pointers, slices and
  maps; a value of another kind is an error).  Object members keep their order and their
  repetitions in the syntax tree; struct fields are matched without regard to case.
\<close>

section \<open>JSON syntax trees and Go values\<close>

datatype json =
    JNull
  | JBool bool
  | JNum string   \<comment> \<open>the literal, as the typed decoders re-read it\<close>
  | JStr string
  | JArr "json list"
  | JObj "(string \<times> json) list"

text \<open>A Go map whose entries are ranged over; \<open>None\<close> is the nil map.\<close>

type_synonym 'a gmap = "(string \<times> 'a) list option"

text \<open>The dynamic values of an \<open>any\<close>, one constructor per type the code switches on.\<close>

datatype any =
    ANil
  | ABool bool
  | AInt go_int
  | AInt8 "8 word"
  | AInt16 "16 word"
  | AInt32 "32 word"
  | AInt64 "64 word"
  | AFloat32 float64
  | AFloat64 float64
  | AStr string
  | ASlice "any list"
  | AMap "any gmap"

type_synonym object = "any gmap"

definition entries :: "'a gmap \<Rightarrow> (string \<times> 'a) list" where
  "entries m = (case m of None \<Rightarrow> [] | Some kvs \<Rightarrow> kvs)"

definition mget :: "'a gmap \<Rightarrow> string \<Rightarrow> 'a option" where
  "mget m k = map_of (entries m) k"

definition mlen :: "'a gmap \<Rightarrow> nat" where
  "mlen m = length (entries m)"

text \<open>The comma-ok type assertions \<open>v.(string)\<close>, \<open>v.(map[string]any)\<close>, \<open>v.([]any)\<close>; a
  failed one yields the zero value.\<close>

definition as_string :: "any option \<Rightarrow> string option" where
  "as_string v = (case v of Some (AStr s) \<Rightarrow> Some s | _ \<Rightarrow> None)"

definition string_or_empty :: "any option \<Rightarrow> string" where
  "string_or_empty v = (case as_string v of Some s \<Rightarrow> s | None \<Rightarrow> [])"

fun put :: "string \<Rightarrow> 'a \<Rightarrow> (string \<times> 'a) list \<Rightarrow> (string \<times> 'a) list" where
  "put k v [] = [(k, v)]"
| "put k v ((k', v') # m) = (if k = k' then (k, v) # m else (k', v') # put k v m)"

section \<open>UTF-8\<close>

definition in_range :: "nat \<Rightarrow> nat \<Rightarrow> char \<Rightarrow> bool" where
  "in_range lo hi c \<longleftrightarrow> (int lo \<le> of_char c \<and> of_char c \<le> int hi)"

text \<open>The length of the rune at the head of a string, 0 when the bytes are not UTF-8.\<close>

fun rune_len :: "string \<Rightarrow> nat" where
  "rune_len [] = 0"
| "rune_len (a # s) =
     (let second = (\<lambda>lo hi. s \<noteq> [] \<and> in_range lo hi (hd s));
          tail = (\<lambda>k. length s > k \<and> in_range 0x80 0xBF (s ! k))
      in if in_range 0 0x7F a then 1
         else if in_range 0xC2 0xDF a then (if second 0x80 0xBF then 2 else 0)
         else if a = CHR 0xE0 then (if second 0xA0 0xBF \<and> tail 1 then 3 else 0)
         else if a = CHR 0xED then (if second 0x80 0x9F \<and> tail 1 then 3 else 0)
         else if in_range 0xE1 0xEF a then (if second 0x80 0xBF \<and> tail 1 then 3 else 0)
         else if a = CHR 0xF0 then (if second 0x90 0xBF \<and> tail 1 \<and> tail 2 then 4 else 0)
         else if in_range 0xF1 0xF3 a then (if second 0x80 0xBF \<and> tail 1 \<and> tail 2 then 4 else 0)
         else if a = CHR 0xF4 then (if second 0x80 0x8F \<and> tail 1 \<and> tail 2 then 4 else 0)
         else 0)"

definition replacement :: string where
  "replacement = [CHR 0xEF, CHR 0xBF, CHR 0xBD]"

text \<open>Every byte that is not part of a rune becomes U+FFFD.\<close>

function coerce_utf8 :: "string \<Rightarrow> string" where
  "coerce_utf8 s =
     (if s = [] then []
      else if rune_len s = 0 then replacement @ coerce_utf8 (drop 1 s)
      else take (rune_len s) s @ coerce_utf8 (drop (rune_len s) s))"
  by pat_completeness auto
termination by (relation "measure length") (auto simp: neq_Nil_conv)

declare coerce_utf8.simps [simp del]

definition encode_rune :: "int \<Rightarrow> string" where
  "encode_rune r =
     (if r < 0x80 then [char_of r]
      else if r < 0x800 then [char_of (0xC0 + r div 0x40), char_of (0x80 + r mod 0x40)]
      else if r < 0x10000 then
        [char_of (0xE0 + r div 0x1000), char_of (0x80 + r div 0x40 mod 0x40),
         char_of (0x80 + r mod 0x40)]
      else
        [char_of (0xF0 + r div 0x40000), char_of (0x80 + r div 0x1000 mod 0x40),
         char_of (0x80 + r div 0x40 mod 0x40), char_of (0x80 + r mod 0x40)])"

section \<open>Parsing\<close>

definition hex_val :: "char \<Rightarrow> int option" where
  "hex_val c = (let n = (of_char c :: int) in
     if 48 \<le> n \<and> n \<le> 57 then Some (n - 48)
     else if 97 \<le> n \<and> n \<le> 102 then Some (n - 87)
     else if 65 \<le> n \<and> n \<le> 70 then Some (n - 55)
     else None)"

fun hex4 :: "string \<Rightarrow> int option" where
  "hex4 (a # b # c # d # s) =
     (case (hex_val a, hex_val b, hex_val c, hex_val d) of
        (Some w, Some x, Some y, Some z) \<Rightarrow> Some (((w * 16 + x) * 16 + y) * 16 + z)
      | _ \<Rightarrow> None)"
| "hex4 s = None"

definition escape_char :: "char \<Rightarrow> char option" where
  "escape_char c =
     (if c = CHR 0x22 \<or> c = CHR 0x5C \<or> c = CHR ''/'' then Some c
      else if c = CHR ''b'' then Some (CHR 0x08)
      else if c = CHR ''f'' then Some (CHR 0x0C)
      else if c = CHR ''n'' then Some (CHR 0x0A)
      else if c = CHR ''r'' then Some (CHR 0x0D)
      else if c = CHR ''t'' then Some (CHR 0x09)
      else None)"

text \<open>A \<open>\u\<close> escape at the head: its rune and its length, joining a surrogate pair; a lone
  surrogate is U+FFFD.\<close>

definition unicode_escape :: "string \<Rightarrow> (string \<times> nat) option" where
  "unicode_escape s =
     (case hex4 s of None \<Rightarrow> None | Some r \<Rightarrow>
        if 0xD800 \<le> r \<and> r < 0xDC00 then
          (case (if has_prefix (drop 4 s) [CHR 0x5C, CHR ''u''] then hex4 (drop 6 s) else None) of
             Some l \<Rightarrow> if 0xDC00 \<le> l \<and> l < 0xE000
               then Some (encode_rune (0x10000 + (r - 0xD800) * 0x400 + (l - 0xDC00)), 10)
               else Some (replacement, 4)
           | None \<Rightarrow> Some (replacement, 4))
        else if 0xDC00 \<le> r \<and> r < 0xE000 then Some (replacement, 4)
        else Some (encode_rune r, 4))"

text \<open>The characters of a string literal after its opening quote, and the rest.\<close>

function scan_string :: "string \<Rightarrow> (string \<times> string) option" where
  "scan_string s =
     (case s of [] \<Rightarrow> None
      | c # r \<Rightarrow>
        if c = CHR 0x22 then Some ([], r)
        else if of_char c < (0x20 :: int) then None
        else if c = CHR 0x5C then
          (case r of [] \<Rightarrow> None
           | e # r' \<Rightarrow>
             (case (if e = CHR ''u'' then unicode_escape r'
                    else map_option (\<lambda>x. ([x], 0)) (escape_char e)) of
                None \<Rightarrow> None
              | Some (u, k) \<Rightarrow> map_option (\<lambda>(t, z). (u @ t, z)) (scan_string (drop k r'))))
        else map_option (\<lambda>(t, z). (c # t, z)) (scan_string r))"
  by pat_completeness auto
termination by (relation "measure length") auto

declare scan_string.simps [simp del]

definition parse_string :: "string \<Rightarrow> (string \<times> string) option" where
  "parse_string s = map_option (\<lambda>(t, r). (coerce_utf8 t, r)) (scan_string s)"

definition json_space :: "char \<Rightarrow> bool" where
  "json_space c \<longleftrightarrow> c \<in> {CHR '' '', CHR 0x09, CHR 0x0D, CHR 0x0A}"

definition skip_ws :: "string \<Rightarrow> string" where
  "skip_ws s = dropWhile json_space s"

text \<open>Number literals: an optional minus, an integer part without leading zeros, an
  optional fraction and an optional exponent.\<close>

definition scan_int_part :: "string \<Rightarrow> (string \<times> string) option" where
  "scan_int_part s =
     (case s of [] \<Rightarrow> None
      | c # r \<Rightarrow> if c = CHR ''0'' then Some ([c], r)
                else if is_digit c then Some (takeWhile is_digit s, dropWhile is_digit s)
                else None)"

definition scan_frac_part :: "string \<Rightarrow> (string \<times> string) option" where
  "scan_frac_part s =
     (if has_prefix s ''.''
      then (let t = drop 1 s; ds = takeWhile is_digit t in
            if ds = [] then None else Some (ds, drop (length ds) t))
      else Some ([], s))"

definition scan_exp_part :: "string \<Rightarrow> (int option \<times> string \<times> string) option" where
  "scan_exp_part s =
     (if has_prefix s ''e'' \<or> has_prefix s ''E''
      then (let t = drop 1 s;
                sg = (if has_prefix t ''-'' \<or> has_prefix t ''+'' then take 1 t else []);
                ds = takeWhile is_digit (drop (length sg) t)
            in if ds = [] then None
               else Some (Some (if sg = ''-'' then - digits_val ds else digits_val ds),
                          take 1 s @ sg @ ds, drop (length sg + length ds) t))
      else Some (None, [], s))"

record number_parts =
  np_neg :: bool
  np_int :: string
  np_frac :: string
  np_exp :: "int option"

definition scan_number :: "string \<Rightarrow> (number_parts \<times> string \<times> string) option" where
  "scan_number s =
     (let neg = has_prefix s ''-''; s0 = (if neg then drop 1 s else s) in
      case scan_int_part s0 of None \<Rightarrow> None | Some (i, s1) \<Rightarrow>
      case scan_frac_part s1 of None \<Rightarrow> None | Some (f, s2) \<Rightarrow>
      case scan_exp_part s2 of None \<Rightarrow> None | Some (e, _, s3) \<Rightarrow>
        Some (\<lparr>np_neg = neg, np_int = i, np_frac = f, np_exp = e\<rparr>,
              take (length s - length s3) s, s3))"

definition parse_number :: "string \<Rightarrow> (json \<times> string) option" where
  "parse_number s = map_option (\<lambda>(_, lit, r). (JNum lit, r)) (scan_number s)"

definition max_nesting :: int where
  "max_nesting = 10000"

lemma skip_ws_length: "length (skip_ws s) \<le> length s"
  by (simp add: skip_ws_def length_dropWhile_le)

lemma skip_ws_Cons_length: "skip_ws s = c # r \<Longrightarrow> length r < length s"
  using skip_ws_length [of s] by simp

text \<open>
  The value parser.  Every loop re-enters with a strictly shorter text; the comparison in
  the two loops is always true (lemma \<open>parse_shorter\<close> below) and only serves termination.
\<close>

function (sequential) parse_value :: "int \<Rightarrow> string \<Rightarrow> (json \<times> string) option"
  and parse_elems :: "int \<Rightarrow> string \<Rightarrow> (json list \<times> string) option"
  and parse_members :: "int \<Rightarrow> string \<Rightarrow> ((string \<times> json) list \<times> string) option"
where
  "parse_value d s =
     (case skip_ws s of [] \<Rightarrow> None
      | c # r \<Rightarrow>
        if c = CHR ''{'' then
          (if d \<ge> max_nesting then None
           else if has_prefix (skip_ws r) ''}'' then Some (JObj [], drop 1 (skip_ws r))
           else map_option (\<lambda>(ms, z). (JObj ms, z)) (parse_members (d + 1) r))
        else if c = CHR ''['' then
          (if d \<ge> max_nesting then None
           else if has_prefix (skip_ws r) '']'' then Some (JArr [], drop 1 (skip_ws r))
           else map_option (\<lambda>(xs, z). (JArr xs, z)) (parse_elems (d + 1) r))
        else if c = CHR 0x22 then map_option (\<lambda>(t, z). (JStr t, z)) (parse_string r)
        else if c = CHR ''-'' \<or> is_digit c then parse_number (c # r)
        else if has_prefix (c # r) ''true'' then Some (JBool True, drop 3 r)
        else if has_prefix (c # r) ''false'' then Some (JBool False, drop 4 r)
        else if has_prefix (c # r) ''null'' then Some (JNull, drop 3 r)
        else None)"
| "parse_elems d s =
     (case parse_value d s of None \<Rightarrow> None
      | Some (v, r) \<Rightarrow>
        (case skip_ws r of [] \<Rightarrow> None
         | c # r' \<Rightarrow>
           if c = CHR '']'' then Some ([v], r')
           else if c = CHR '','' \<and> length r' < length s
             then map_option (\<lambda>(vs, z). (v # vs, z)) (parse_elems d r')
           else None))"
| "parse_members d s =
     (case skip_ws s of [] \<Rightarrow> None
      | q # t \<Rightarrow>
        if q \<noteq> CHR 0x22 then None else
        (case parse_string t of None \<Rightarrow> None
         | Some (k, t1) \<Rightarrow>
           (case skip_ws t1 of [] \<Rightarrow> None
            | c # t2 \<Rightarrow>
              if c = CHR '':'' \<and> length t2 < length s then
                (case parse_value d t2 of None \<Rightarrow> None
                 | Some (v, r) \<Rightarrow>
                   (case skip_ws r of [] \<Rightarrow> None
                    | e # r' \<Rightarrow>
                      if e = CHR ''}'' then Some ([(k, v)], r')
                      else if e = CHR '','' \<and> length r' < length s
                        then map_option (\<lambda>(ms, z). ((k, v) # ms, z)) (parse_members d r')
                      else None))
              else None)))"
  by pat_completeness auto

termination
  by (relation "measure (\<lambda>x. case x of Inl (d, s) \<Rightarrow> 2 * length s
        | Inr (Inl (d, s)) \<Rightarrow> 2 * length s + 1 | Inr (Inr (d, s)) \<Rightarrow> 2 * length s + 1)")
     (auto dest: skip_ws_Cons_length)

declare parse_value.simps [simp del] parse_elems.simps [simp del] parse_members.simps [simp del]

text \<open>A value leaves a strictly shorter text, so the guards of the loops always hold.\<close>

lemma scan_string_length: "scan_string s = Some (t, r) \<Longrightarrow> length r < length s"
proof (induction s arbitrary: t r rule: scan_string.induct)
  case (1 s)
  then show ?case
    by (subst (asm) (3) scan_string.simps)
       (force split: list.splits if_splits option.splits simp: less_Suc_eq_le intro: less_imp_le)
qed

lemma parse_string_length: "parse_string s = Some (t, r) \<Longrightarrow> length r < length s"
  by (auto simp: parse_string_def dest: scan_string_length)

lemma scan_number_length:
  assumes "scan_number s = Some (p, lit, r)"
  shows "length r < length s"
proof -
  have i: "length t < length u" if "scan_int_part u = Some (x, t)" for u x t
    using that by (auto simp: scan_int_part_def length_dropWhile_le less_Suc_eq_le
        split: list.splits if_splits)
  have f: "length t \<le> length u" if "scan_frac_part u = Some (x, t)" for u x t
    using that by (auto simp: scan_frac_part_def Let_def split: if_splits)
  have e: "length t \<le> length u" if "scan_exp_part u = Some (x, y, t)" for u x y t
    using that by (auto simp: scan_exp_part_def Let_def split: if_splits)
  from assms show ?thesis
    by (auto simp: scan_number_def Let_def split: option.splits if_splits dest!: i f e, linarith)
qed

lemma parse_shorter:
  "parse_value d s = Some (v, r) \<Longrightarrow> length r < length s"
  "parse_elems d s = Some (vs, r) \<Longrightarrow> length r < length s"
  "parse_members d s = Some (ms, r) \<Longrightarrow> length r < length s"
proof (induction d s and d s and d s arbitrary: v r and vs r and ms r
    rule: parse_value_parse_elems_parse_members.induct)
  case (1 d s)
  show ?case
  proof (cases "skip_ws s")
    case (Cons c t)
    note t = skip_ws_Cons_length [OF Cons]
    have w: "length (drop 1 (skip_ws t)) < length s" using skip_ws_length [of t] t by simp
    show ?thesis
      using 1(3) [unfolded parse_value.simps [of d s]] 1(1,2) Cons t w
      by (fastforce simp: parse_number_def split: if_splits
           dest: parse_string_length scan_number_length)
  qed (use 1(3) in \<open>simp add: parse_value.simps\<close>)
next
  case (2 d s)
  show ?case
    using 2(3) [unfolded parse_elems.simps [of d s]] 2(1,2) skip_ws_Cons_length
    by (fastforce split: option.splits list.splits if_splits)
next
  case (3 d s)
  from 3(3) obtain q t k t1 c t2 where
    h: "skip_ws s = q # t" "\<not> q \<noteq> CHR 0x22" "parse_string t = Some (k, t1)" "skip_ws t1 = c # t2"
      "c = CHR '':'' \<and> length t2 < length s"
    by (auto simp: parse_members.simps [of d s] split: option.splits list.splits if_splits)
  from 3(3) h obtain w r1 e r2 where
    h': "parse_value d t2 = Some (w, r1)" "skip_ws r1 = e # r2"
      "e = CHR ''}'' \<and> r = r2 \<or> e \<noteq> CHR ''}'' \<and> (e = CHR '','' \<and> length r2 < length s) \<and>
         (\<exists>zs. parse_members d r2 = Some (zs, r))"
    by (auto simp: parse_members.simps [of d s] split: option.splits list.splits if_splits)
  have "length r1 < length t2" by (rule 3(1) [OF h(1-3) refl h(4,5) h'(1)])
  moreover have "length r < length r2" if "e \<noteq> CHR ''}''" "e = CHR '','' \<and> length r2 < length s"
    "parse_members d r2 = Some (zs, r)" for zs
    by (rule 3(2) [OF h(1-3) refl h(4,5) h'(1) refl h'(2) that])
  ultimately show ?case using h'(3) h(5) skip_ws_Cons_length [OF h'(2)] by auto
qed

text \<open>\<open>json.Unmarshal\<close> takes the whole text.\<close>

definition json_unmarshal :: "string \<Rightarrow> json option" where
  "json_unmarshal s =
     (case parse_value 0 s of Some (v, r) \<Rightarrow> if skip_ws r = [] then Some v else None | None \<Rightarrow> None)"

section \<open>Numbers and \<open>any\<close>\<close>

definition parse_float :: "string \<Rightarrow> float64 option" where
  "parse_float lit =
     (case scan_number lit of None \<Rightarrow> None
      | Some (p, _, _) \<Rightarrow>
        (let n = digits_val (np_int p @ np_frac p);
             e = (case np_exp p of None \<Rightarrow> 0 | Some x \<Rightarrow> x) - int (length (np_frac p));
             v = (if e \<ge> 0 then round64 (n * 10 ^ nat e) 1 else round64 n (10 ^ nat (- e)))
         in map_option (\<lambda>x. if np_neg p then neg64 x else x) v))"

text \<open>\<open>strconv.ParseInt(lit, 10, 64)\<close>: a fraction or an exponent is an error, and so is a
  value outside the range.\<close>

definition parse_int64 :: "string \<Rightarrow> go_int option" where
  "parse_int64 lit =
     (case scan_number lit of None \<Rightarrow> None
      | Some (p, _, r) \<Rightarrow>
        if np_frac p \<noteq> [] \<or> np_exp p \<noteq> None \<or> r \<noteq> [] then None
        else (let v = (if np_neg p then - digits_val (np_int p) else digits_val (np_int p)) in
              if - (2 ^ 63) \<le> v \<and> v < 2 ^ 63 then Some (word_of_int v) else None))"

fun to_any :: "json \<Rightarrow> any option"
  and to_any_list :: "json list \<Rightarrow> any list option"
  and to_any_members :: "(string \<times> json) list \<Rightarrow> (string \<times> any) list \<Rightarrow> (string \<times> any) list option"
where
  "to_any JNull = Some ANil"
| "to_any (JBool b) = Some (ABool b)"
| "to_any (JNum lit) = map_option AFloat64 (parse_float lit)"
| "to_any (JStr s) = Some (AStr s)"
| "to_any (JArr js) = map_option ASlice (to_any_list js)"
| "to_any (JObj ms) = map_option (\<lambda>kvs. AMap (Some kvs)) (to_any_members ms [])"
| "to_any_list [] = Some []"
| "to_any_list (j # js) =
     (case to_any j of None \<Rightarrow> None | Some v \<Rightarrow> map_option ((#) v) (to_any_list js))"
| "to_any_members [] m = Some m"
| "to_any_members ((k, j) # ms) m =
     (case to_any j of None \<Rightarrow> None | Some v \<Rightarrow> to_any_members ms (put k v m))"

section \<open>Typed fields\<close>

text \<open>Storing a value into a field that holds \<open>old\<close>; \<open>None\<close> is an \<open>UnmarshalTypeError\<close>.\<close>

definition dec_string :: "string \<Rightarrow> json \<Rightarrow> string option" where
  "dec_string old j = (case j of JNull \<Rightarrow> Some old | JStr s \<Rightarrow> Some s | _ \<Rightarrow> None)"

definition dec_bool :: "bool \<Rightarrow> json \<Rightarrow> bool option" where
  "dec_bool old j = (case j of JNull \<Rightarrow> Some old | JBool b \<Rightarrow> Some b | _ \<Rightarrow> None)"

definition dec_float_ptr :: "json \<Rightarrow> float64 option option" where
  "dec_float_ptr j = (case j of JNull \<Rightarrow> Some None
     | JNum lit \<Rightarrow> map_option Some (parse_float lit) | _ \<Rightarrow> None)"

definition dec_int_ptr :: "json \<Rightarrow> go_int option option" where
  "dec_int_ptr j = (case j of JNull \<Rightarrow> Some None
     | JNum lit \<Rightarrow> map_option Some (parse_int64 lit) | _ \<Rightarrow> None)"

text \<open>An object stored into a map field adds to the entries the map already has.\<close>

definition dec_object :: "object \<Rightarrow> json \<Rightarrow> object option" where
  "dec_object old j = (case j of JNull \<Rightarrow> Some None
     | JObj ms \<Rightarrow> map_option Some (to_any_members ms (entries old)) | _ \<Rightarrow> None)"

text \<open>A pointer to a struct: the object is stored into the pointee there is, or a new one.\<close>

definition dec_ptr :: "('a \<Rightarrow> json \<Rightarrow> 'a option) \<Rightarrow> 'a \<Rightarrow> 'a option \<Rightarrow> json \<Rightarrow> 'a option option" where
  "dec_ptr f zero old j = (case j of JNull \<Rightarrow> Some None
     | _ \<Rightarrow> map_option Some (f (case old of None \<Rightarrow> zero | Some x \<Rightarrow> x) j))"

fun dec_list :: "(json \<Rightarrow> 'a option) \<Rightarrow> json list \<Rightarrow> 'a list option" where
  "dec_list f [] = Some []"
| "dec_list f (j # js) = (case f j of None \<Rightarrow> None | Some x \<Rightarrow> map_option ((#) x) (dec_list f js))"

definition dec_slice :: "(json \<Rightarrow> 'a option) \<Rightarrow> json \<Rightarrow> 'a list option" where
  "dec_slice f j = (case j of JNull \<Rightarrow> Some [] | JArr js \<Rightarrow> dec_list f js | _ \<Rightarrow> None)"

text \<open>
  An array stored into a slice field that may hold elements of an earlier repetition of the
  member: element \<open>i\<close> is decoded into what the backing array has at \<open>i\<close>.  A slice is the
  visible elements and the old ones behind them in the backing array.
\<close>

type_synonym 'a slice = "'a list \<times> 'a list"

fun dec_elems :: "('a \<Rightarrow> json \<Rightarrow> 'a option) \<Rightarrow> 'a \<Rightarrow> 'a list \<Rightarrow> json list \<Rightarrow> 'a list option" where
  "dec_elems f zero olds [] = Some []"
| "dec_elems f zero olds (j # js) =
     (case f (case olds of [] \<Rightarrow> zero | x # _ \<Rightarrow> x) j of None \<Rightarrow> None
      | Some y \<Rightarrow> map_option ((#) y) (dec_elems f zero (drop 1 olds) js))"

definition dec_slice_field ::
  "('a \<Rightarrow> json \<Rightarrow> 'a option) \<Rightarrow> 'a \<Rightarrow> 'a slice \<Rightarrow> json \<Rightarrow> 'a slice option" where
  "dec_slice_field f zero old j =
     (let olds = fst old @ snd old in
      case j of
        JNull \<Rightarrow> Some ([], [])
      | JArr [] \<Rightarrow> Some ([], [])
      | JArr js \<Rightarrow> map_option (\<lambda>ys. (ys, drop (length js) olds)) (dec_elems f zero olds js)
      | _ \<Rightarrow> None)"

text \<open>A struct: \<open>step\<close> stores one member; \<open>null\<close> leaves the struct as it is.\<close>

fun dec_fields :: "('a \<Rightarrow> string \<Rightarrow> json \<Rightarrow> 'a option) \<Rightarrow> (string \<times> json) list \<Rightarrow> 'a \<Rightarrow> 'a option" where
  "dec_fields step [] r = Some r"
| "dec_fields step ((k, j) # ms) r =
     (case step r k j of None \<Rightarrow> None | Some r' \<Rightarrow> dec_fields step ms r')"

definition dec_struct :: "('a \<Rightarrow> string \<Rightarrow> json \<Rightarrow> 'a option) \<Rightarrow> 'a \<Rightarrow> json \<Rightarrow> 'a option" where
  "dec_struct step r j = (case j of JNull \<Rightarrow> Some r | JObj ms \<Rightarrow> dec_fields step ms r | _ \<Rightarrow> None)"

text \<open>\<open>map[string]string\<close>: a \<open>null\<close> element is the empty string.\<close>

fun dec_string_members :: "(string \<times> json) list \<Rightarrow> (string \<times> string) list \<Rightarrow> (string \<times> string) list option" where
  "dec_string_members [] m = Some m"
| "dec_string_members ((k, j) # ms) m =
     (case dec_string [] j of None \<Rightarrow> None | Some v \<Rightarrow> dec_string_members ms (put k v m))"

definition dec_string_map :: "string gmap \<Rightarrow> json \<Rightarrow> string gmap option" where
  "dec_string_map old j = (case j of JNull \<Rightarrow> Some None
     | JObj ms \<Rightarrow> map_option Some (dec_string_members ms (entries old)) | _ \<Rightarrow> None)"

text \<open>\<open>json.NewDecoder(r).Decode\<close>: the first value of a body.  An object or an array ends at
  its own bracket; any other value needs a byte or the end of the body after it.\<close>

definition decode_body :: "string \<times> 'e option \<Rightarrow> json option" where
  "decode_body body =
     (case parse_value 0 (fst body) of None \<Rightarrow> None
      | Some (v, r) \<Rightarrow>
        (case v of JObj _ \<Rightarrow> Some v | JArr _ \<Rightarrow> Some v
         | _ \<Rightarrow> if r = [] \<and> snd body \<noteq> None then None else Some v))"

end
