(* ===== verification/Errors.thy ===== *)
theory Errors
  imports Go_Json
begin

text \<open>
  Go errors as values.  A message is kept as the list of pieces \<open>fmt.Errorf\<close> puts
  together, with quoted and foreign pieces left unrendered; every error type the router
  tests for with \<open>errors.Is\<close>, \<open>errors.As\<close> or a type assertion is a constructor, and the
  wrapping verb \<open>%w\<close> is the constructor \<open>Wrapped\<close>.
\<close>

section \<open>Messages and error values\<close>

datatype fragment =
    Lit string            \<comment> \<open>literal text of the format\<close>
  | Quoted string         \<comment> \<open>an argument under \<open>%q\<close>\<close>
  | Verbatim string       \<comment> \<open>an argument under \<open>%s\<close>\<close>
  | Number int            \<comment> \<open>an argument under \<open>%d\<close>\<close>
  | Foreign               \<comment> \<open>text produced by code outside the repository\<close>

type_synonym message = "fragment list"

datatype gerror =
    ErrorString message                                  \<comment> \<open>\<open>errors.New\<close>, \<open>fmt.Errorf\<close> without \<open>%w\<close>\<close>
  | ErrUnsupportedCapability                             \<comment> \<open>the sentinel of package capabilities\<close>
  | Wrapped message "gerror option" message              \<comment> \<open>\<open>fmt.Errorf\<close> with one \<open>%w\<close>\<close>
  | ExecutionError "gerror option" (exec_retryable: bool) (exec_committed: bool)
  | OpenAIClassified int bool string                     \<comment> \<open>\<open>openai.ClassifiedError\<close>\<close>
  | AnthropicClassified int bool string                  \<comment> \<open>\<open>anthropic.ClassifiedError\<close>\<close>
  | OpenAIStreamError "gerror option" bool               \<comment> \<open>\<open>openai.StreamDecodeError\<close>\<close>
  | AnthropicStreamError "gerror option" bool            \<comment> \<open>\<open>anthropic.StreamDecodeError\<close>\<close>
  | ExternalError string                                 \<comment> \<open>an error of the standard library\<close>

text \<open>\<open>err.Error()\<close>.\<close>

fun error_text :: "gerror \<Rightarrow> message" where
  "error_text (ErrorString m) = m"
| "error_text ErrUnsupportedCapability = [Lit ''unsupported capability'']"
| "error_text (Wrapped pre None post) = pre @ [Lit ''%!w(<nil>)''] @ post"
| "error_text (Wrapped pre (Some e) post) = pre @ error_text e @ post"
| "error_text (ExecutionError None _ _) = [Lit ''provider execution error'']"
| "error_text (ExecutionError (Some e) _ _) = error_text e"
| "error_text (OpenAIClassified st r m) =
     [Lit ''openai upstream error: status='', Number st, Lit '' retryable='',
      Lit (if r then ''true'' else ''false''), Lit '' message='', Verbatim m]"
| "error_text (AnthropicClassified st r m) =
     [Lit ''anthropic upstream error: status='', Number st, Lit '' retryable='',
      Lit (if r then ''true'' else ''false''), Lit '' message='', Verbatim m]"
| "error_text (OpenAIStreamError None _) = [Lit ''openai stream decode error'']"
| "error_text (OpenAIStreamError (Some e) _) = error_text e"
| "error_text (AnthropicStreamError None _) = [Lit ''anthropic stream decode error'']"
| "error_text (AnthropicStreamError (Some e) _) = error_text e"
| "error_text (ExternalError _) = [Foreign]"

text \<open>
  \<open>errors.Is\<close> and \<open>errors.As\<close> walk the \<open>Unwrap\<close> chain: \<open>Wrapped\<close> and the stream errors
  have one, an \<open>ExecutionError\<close> does not.
\<close>

fun unwrap :: "gerror \<Rightarrow> gerror option" where
  "unwrap (Wrapped _ e _) = e"
| "unwrap (OpenAIStreamError e _) = e"
| "unwrap (AnthropicStreamError e _) = e"
| "unwrap _ = None"

fun is_unsupported :: "gerror \<Rightarrow> bool" where
  "is_unsupported ErrUnsupportedCapability = True"
| "is_unsupported (Wrapped _ (Some e) _) = is_unsupported e"
| "is_unsupported (OpenAIStreamError (Some e) _) = is_unsupported e"
| "is_unsupported (AnthropicStreamError (Some e) _) = is_unsupported e"
| "is_unsupported _ = False"

fun as_execution_error :: "gerror \<Rightarrow> (gerror option \<times> bool \<times> bool) option" where
  "as_execution_error (ExecutionError e r c) = Some (e, r, c)"
| "as_execution_error (Wrapped _ (Some e) _) = as_execution_error e"
| "as_execution_error (OpenAIStreamError (Some e) _) = as_execution_error e"
| "as_execution_error (AnthropicStreamError (Some e) _) = as_execution_error e"
| "as_execution_error _ = None"

fun as_openai_classified :: "gerror \<Rightarrow> bool option" where
  "as_openai_classified (OpenAIClassified _ r _) = Some r"
| "as_openai_classified (Wrapped _ (Some e) _) = as_openai_classified e"
| "as_openai_classified (OpenAIStreamError (Some e) _) = as_openai_classified e"
| "as_openai_classified (AnthropicStreamError (Some e) _) = as_openai_classified e"
| "as_openai_classified _ = None"

fun as_anthropic_classified :: "gerror \<Rightarrow> bool option" where
  "as_anthropic_classified (AnthropicClassified _ r _) = Some r"
| "as_anthropic_classified (Wrapped _ (Some e) _) = as_anthropic_classified e"
| "as_anthropic_classified (OpenAIStreamError (Some e) _) = as_anthropic_classified e"
| "as_anthropic_classified (AnthropicStreamError (Some e) _) = as_anthropic_classified e"
| "as_anthropic_classified _ = None"

fun as_openai_stream :: "gerror \<Rightarrow> (gerror option \<times> bool) option" where
  "as_openai_stream (OpenAIStreamError e c) = Some (e, c)"
| "as_openai_stream (Wrapped _ (Some e) _) = as_openai_stream e"
| "as_openai_stream (AnthropicStreamError (Some e) _) = as_openai_stream e"
| "as_openai_stream _ = None"

fun as_anthropic_stream :: "gerror \<Rightarrow> (gerror option \<times> bool) option" where
  "as_anthropic_stream (AnthropicStreamError e c) = Some (e, c)"
| "as_anthropic_stream (Wrapped _ (Some e) _) = as_anthropic_stream e"
| "as_anthropic_stream (OpenAIStreamError (Some e) _) = as_anthropic_stream e"
| "as_anthropic_stream _ = None"

text \<open>
  \<open>strings.HasPrefix(err.Error(), p)\<close>.  The first piece of every message the router tests
  is a literal at least as long as the prefixes it is tested for, or foreign text of
  \<open>encoding/json\<close>, which starts with none of them.
\<close>

definition message_has_prefix :: "message \<Rightarrow> string \<Rightarrow> bool" where
  "message_has_prefix m p = (case m of Lit s # _ \<Rightarrow> has_prefix s p | _ \<Rightarrow> False)"

text \<open>\<open>err.(*providers.ExecutionError)\<close>: no unwrapping.\<close>

definition is_execution_error :: "gerror \<Rightarrow> bool" where
  "is_execution_error e = (case e of ExecutionError _ _ _ \<Rightarrow> True | _ \<Rightarrow> False)"

text \<open>The two public error classes of the request decoders.\<close>

definition invalid_request_error :: "message \<Rightarrow> gerror" where
  "invalid_request_error m = ErrorString (Lit ''invalid_request: '' # m)"

definition unsupported_capability_error :: "message \<Rightarrow> gerror" where
  "unsupported_capability_error m = ErrorString (Lit ''unsupported_capability: '' # m)"

section \<open>Lemmas\<close>

lemma as_execution_error_ExecutionError:
  "is_execution_error e \<Longrightarrow> as_execution_error e \<noteq> None"
  by (cases e) (auto simp: is_execution_error_def)

lemma invalid_request_prefix:
  "\<not> message_has_prefix (error_text (invalid_request_error m)) ''unsupported_capability:''"
  by (simp add: invalid_request_error_def message_has_prefix_def)

lemma unsupported_capability_prefix:
  "message_has_prefix (error_text (unsupported_capability_error m)) ''unsupported_capability:''"
  by (simp add: unsupported_capability_error_def message_has_prefix_def)

lemma is_unsupported_public [simp]:
  "\<not> is_unsupported (invalid_request_error m)"
  "\<not> is_unsupported (unsupported_capability_error m)"
  by (simp_all add: invalid_request_error_def unsupported_capability_error_def)

lemma wrapped_prefix [simp]:
  "message_has_prefix (error_text (Wrapped (Lit s # m) e post)) p = has_prefix s p"
  by (cases e) (simp_all add: message_has_prefix_def)

section \<open>The unwrap chain\<close>

text \<open>\<open>errors.Is\<close> as its documentation states it: some error of the chain that \<open>Unwrap\<close> makes
  is the sentinel.\<close>

inductive unwraps_to :: "gerror \<Rightarrow> gerror \<Rightarrow> bool" where
  self: "unwraps_to e e"
| inner: "unwrap e = Some e' \<Longrightarrow> unwraps_to e' f \<Longrightarrow> unwraps_to e f"

fun_cases unwrap_SomeE: "unwrap e = Some e'"

inductive_cases unwraps_toE: "unwraps_to e f"

lemma is_unsupported_chain: "is_unsupported e \<longleftrightarrow> unwraps_to e ErrUnsupportedCapability"
proof
  show "is_unsupported e \<Longrightarrow> unwraps_to e ErrUnsupportedCapability"
    by (induction e rule: is_unsupported.induct) (auto intro: unwraps_to.intros)
next
  assume "unwraps_to e ErrUnsupportedCapability"
  then show "is_unsupported e"
    by (induction e "ErrUnsupportedCapability" rule: unwraps_to.induct)
       (auto elim!: unwrap_SomeE)
qed

lemma as_execution_error_chain:
  "as_execution_error e = Some (i, r, c) \<longleftrightarrow> unwraps_to e (ExecutionError i r c)"
proof
  show "as_execution_error e = Some (i, r, c) \<Longrightarrow> unwraps_to e (ExecutionError i r c)"
    by (induction e rule: as_execution_error.induct) (auto intro: unwraps_to.intros)
next
  assume "unwraps_to e (ExecutionError i r c)"
  then show "as_execution_error e = Some (i, r, c)"
    by (induction e "ExecutionError i r c" rule: unwraps_to.induct)
       (auto elim!: unwrap_SomeE)
qed

text \<open>An execution error hides what it wraps from both.\<close>

lemma execution_error_opaque: "is_execution_error e \<Longrightarrow> \<not> is_unsupported e"
  by (cases e) (auto simp: is_execution_error_def)

end
