(* ===== verification/Config.thy ===== *)
theory Config
  imports Errors
begin

text \<open>
  Package \<open>config\<close>: the configuration records of \<open>config.go\<close>, \<open>Validate\<close> of \<open>validate.go\<close>
  and \<open>Load\<close> of \<open>load.go\<close>.  The YAML library is not part of the repository: its decoders
  are arguments of \<open>load\<close>, and its node tree is the type \<open>yaml_node\<close>.
\<close>

section \<open>Configuration records (\<open>config.go\<close>)\<close>

record tls_config =
  tls_mode :: string
  tls_cert_file :: string
  tls_key_file :: string

record server_config =
  srv_listen_addr :: string
  srv_admin_listen_addr :: string
  srv_tls :: tls_config

record client_key_config =
  key_id :: string
  key_secret :: string
  key_active :: bool
  key_allowed_model_patterns :: "string list"
  key_allow_streaming :: bool
  key_allow_tools :: bool
  key_allow_vision :: bool
  key_allow_structured :: bool

record auth_config =
  auth_client_keys :: "client_key_config list"

record model_config =
  mdl_pattern :: string
  mdl_route_group :: string

record probe_config =
  prb_method :: string
  prb_path :: string
  prb_headers :: "string gmap"
  prb_expected_statuses :: "int list"
  prb_interval :: string
  prb_timeout :: string

record provider_config =
  prv_name :: string
  prv_provider :: string
  prv_base_url :: string
  prv_api_key_env :: string
  prv_probe :: probe_config

record route_group_config =
  grp_name :: string
  grp_primary :: string
  grp_fallbacks :: "string list"

record routing_config =
  rt_route_groups :: "route_group_config list"

record health_config =
  hl_probe_interval :: string
  hl_probe_timeout :: string
  hl_require_initial_probe :: bool

record breaker_config =
  brk_failure_threshold :: int
  brk_recovery_success_threshold :: int
  brk_open_interval :: string

record limits_config =
  lim_max_request_bytes :: int

record config =
  cfg_server :: server_config
  cfg_auth :: auth_config
  cfg_models :: "model_config list"
  cfg_providers :: "provider_config list"
  cfg_routing :: routing_config
  cfg_health :: health_config
  cfg_breaker :: breaker_config
  cfg_limits :: limits_config

abbreviation cfg_groups :: "config \<Rightarrow> route_group_config list" where
  "cfg_groups c \<equiv> rt_route_groups (cfg_routing c)"

section \<open>Validation (\<open>validate.go\<close>)\<close>

definition supported_probe_methods :: "string list" where
  "supported_probe_methods =
     [''GET'', ''HEAD'', ''POST'', ''PUT'', ''PATCH'', ''DELETE'', ''CONNECT'', ''OPTIONS'', ''TRACE'']"

text \<open>A check returns the error, or \<open>None\<close> when it passes; \<open>or_else\<close> runs the next one.\<close>

definition or_else :: "gerror option \<Rightarrow> gerror option \<Rightarrow> gerror option" where
  "or_else a b = (case a of None \<Rightarrow> b | Some e \<Rightarrow> Some e)"

definition guard_err :: "bool \<Rightarrow> message \<Rightarrow> gerror option" where
  "guard_err bad m = (if bad then Some (ErrorString m) else None)"

fun first_err :: "('a \<Rightarrow> gerror option) \<Rightarrow> 'a list \<Rightarrow> gerror option" where
  "first_err f [] = None"
| "first_err f (x # xs) = or_else (f x) (first_err f xs)"

definition validate_positive_duration :: "string \<Rightarrow> string \<Rightarrow> gerror option" where
  "validate_positive_duration field value =
     (case parse_duration value of
        None \<Rightarrow> Some (Wrapped [Lit field, Lit '' '', Quoted value, Lit '' is invalid duration: '']
                      (Some (ExternalError ''time.ParseDuration'')) [])
      | Some d \<Rightarrow> guard_err (d \<le> 0) [Lit field, Lit '' '', Quoted value, Lit '' must be > 0''])"

definition validate_route_group :: "route_group_config \<Rightarrow> gerror option" where
  "validate_route_group g =
     guard_err (grp_name g = []) [Lit ''routing.route_groups[].name must not be empty'']"

fun validate_models :: "string list \<Rightarrow> string list \<Rightarrow> model_config list \<Rightarrow> gerror option" where
  "validate_models groups seen [] = None"
| "validate_models groups seen (m # ms) =
     or_else (guard_err (mdl_pattern m = []) [Lit ''models[].pattern must not be empty''])
    (or_else (guard_err (mdl_pattern m \<in> set seen)
                [Lit ''duplicate model pattern '', Quoted (mdl_pattern m)])
    (or_else (guard_err (mdl_route_group m \<notin> set groups)
                [Lit ''models[].route_group '', Quoted (mdl_route_group m), Lit '' is undefined''])
             (validate_models groups (mdl_pattern m # seen) ms)))"

definition validate_status :: "int \<Rightarrow> gerror option" where
  "validate_status st = guard_err (st < 100 \<or> st > 599)
     [Lit ''providers[].probe.expected_statuses contains invalid status '', Number st]"

definition validate_provider :: "provider_config \<Rightarrow> gerror option" where
  "validate_provider p = (let q = prv_probe p in
     or_else (guard_err (prv_name p = [] \<or> prv_provider p = [] \<or> prv_base_url p = [])
                [Lit ''provider entries require name, provider, and base_url: '', Foreign])
    (or_else (if prb_method q \<noteq> []
              then guard_err (prb_method q \<notin> set supported_probe_methods)
                [Lit ''providers[].probe.method '', Quoted (prb_method q), Lit '' is unsupported'']
              else None)
    (or_else (guard_err (prb_path q \<noteq> [] \<and> \<not> has_prefix (prb_path q) ''/'')
                [Lit ''providers[].probe.path '', Quoted (prb_path q), Lit '' must start with '', Lit [CHR 0x27, CHR ''/'', CHR 0x27]])
    (or_else (first_err validate_status (prb_expected_statuses q))
    (or_else (if prb_interval q \<noteq> []
              then validate_positive_duration ''providers[].probe.interval'' (prb_interval q)
              else None)
             (if prb_timeout q \<noteq> []
              then validate_positive_duration ''providers[].probe.timeout'' (prb_timeout q)
              else None))))))"

definition quoted_file :: message where
  "quoted_file = [Lit [CHR 0x27], Lit ''file'', Lit [CHR 0x27]]"

definition validate_tls :: "tls_config \<Rightarrow> gerror option" where
  "validate_tls t =
     (if tls_mode t = [] \<or> tls_mode t = ''disabled''
      then guard_err (tls_cert_file t \<noteq> [] \<or> tls_key_file t \<noteq> [])
             (Lit ''server.tls cert/key require tls mode '' # quoted_file)
      else if tls_mode t = ''file''
      then guard_err (tls_cert_file t = [] \<or> tls_key_file t = [])
             (Lit ''server.tls mode '' # quoted_file @ [Lit '' requires cert_file and key_file''])
      else guard_err True [Lit ''unsupported server.tls.mode '', Quoted (tls_mode t)])"

definition validate_set_duration :: "string \<Rightarrow> string \<Rightarrow> gerror option" where
  "validate_set_duration field value =
     (if value \<noteq> [] then validate_positive_duration field value else None)"

definition validate :: "config \<Rightarrow> gerror option" where
  "validate c =
     or_else (guard_err (auth_client_keys (cfg_auth c) = [])
                [Lit ''auth.client_keys must not be empty''])
    (or_else (first_err validate_route_group (cfg_groups c))
    (or_else (validate_models (map grp_name (cfg_groups c)) [] (cfg_models c))
    (or_else (first_err validate_provider (cfg_providers c))
    (or_else (validate_set_duration ''health.probe_interval'' (hl_probe_interval (cfg_health c)))
    (or_else (validate_set_duration ''health.probe_timeout'' (hl_probe_timeout (cfg_health c)))
    (or_else (validate_set_duration ''breaker.open_interval'' (brk_open_interval (cfg_breaker c)))
    (or_else (guard_err (brk_failure_threshold (cfg_breaker c) < 1)
                [Lit ''breaker.failure_threshold must be >= 1''])
    (or_else (guard_err (brk_recovery_success_threshold (cfg_breaker c) < 1)
                [Lit ''breaker.recovery_success_threshold must be >= 1''])
             (validate_tls (srv_tls (cfg_server c)))))))))))"

section \<open>What a valid configuration guarantees\<close>

definition positive_duration :: "string \<Rightarrow> bool" where
  "positive_duration s = (case parse_duration s of Some d \<Rightarrow> 0 < d | None \<Rightarrow> False)"

definition probe_ok :: "probe_config \<Rightarrow> bool" where
  "probe_ok q \<longleftrightarrow>
     (prb_method q = [] \<or> prb_method q \<in> set supported_probe_methods) \<and>
     (prb_path q = [] \<or> has_prefix (prb_path q) ''/'') \<and>
     list_all (\<lambda>st. 100 \<le> st \<and> st \<le> 599) (prb_expected_statuses q) \<and>
     (prb_interval q = [] \<or> positive_duration (prb_interval q)) \<and>
     (prb_timeout q = [] \<or> positive_duration (prb_timeout q))"

definition provider_ok :: "provider_config \<Rightarrow> bool" where
  "provider_ok p \<longleftrightarrow> prv_name p \<noteq> [] \<and> prv_provider p \<noteq> [] \<and> prv_base_url p \<noteq> [] \<and>
     probe_ok (prv_probe p)"

definition tls_ok :: "tls_config \<Rightarrow> bool" where
  "tls_ok t \<longleftrightarrow>
     (tls_mode t \<in> {[], ''disabled''} \<and> tls_cert_file t = [] \<and> tls_key_file t = []) \<or>
     (tls_mode t = ''file'' \<and> tls_cert_file t \<noteq> [] \<and> tls_key_file t \<noteq> [])"

definition duration_field_ok :: "string \<Rightarrow> bool" where
  "duration_field_ok s \<longleftrightarrow> s = [] \<or> positive_duration s"

text \<open>The declarative reading of \<open>Validate\<close>, one conjunct per promise to the other packages.\<close>

definition config_ok :: "config \<Rightarrow> bool" where
  "config_ok c \<longleftrightarrow>
     auth_client_keys (cfg_auth c) \<noteq> [] \<and>
     [] \<notin> set (map grp_name (cfg_groups c)) \<and>
     [] \<notin> set (map mdl_pattern (cfg_models c)) \<and>
     distinct (map mdl_pattern (cfg_models c)) \<and>
     set (map mdl_route_group (cfg_models c)) \<subseteq> set (map grp_name (cfg_groups c)) \<and>
     list_all provider_ok (cfg_providers c) \<and>
     duration_field_ok (hl_probe_interval (cfg_health c)) \<and>
     duration_field_ok (hl_probe_timeout (cfg_health c)) \<and>
     duration_field_ok (brk_open_interval (cfg_breaker c)) \<and>
     1 \<le> brk_failure_threshold (cfg_breaker c) \<and>
     1 \<le> brk_recovery_success_threshold (cfg_breaker c) \<and>
     tls_ok (srv_tls (cfg_server c))"

lemma or_else_None [simp]: "or_else a b = None \<longleftrightarrow> a = None \<and> b = None"
  by (cases a) (simp_all add: or_else_def)

lemma guard_err_None [simp]: "guard_err bad m = None \<longleftrightarrow> \<not> bad"
  by (simp add: guard_err_def)

lemma first_err_None: "first_err f xs = None \<longleftrightarrow> list_all (\<lambda>x. f x = None) xs"
  by (induction xs) auto

lemma validate_positive_duration_None:
  "validate_positive_duration field s = None \<longleftrightarrow> positive_duration s"
  by (auto simp: validate_positive_duration_def positive_duration_def split: option.splits)

lemma validate_set_duration_None:
  "validate_set_duration field s = None \<longleftrightarrow> duration_field_ok s"
  by (auto simp: validate_set_duration_def duration_field_ok_def validate_positive_duration_None)

lemma validate_models_None:
  "validate_models groups seen ms = None \<longleftrightarrow>
     [] \<notin> set (map mdl_pattern ms) \<and> distinct (map mdl_pattern ms) \<and>
     set (map mdl_pattern ms) \<inter> set seen = {} \<and> set (map mdl_route_group ms) \<subseteq> set groups"
  by (induction groups seen ms rule: validate_models.induct) auto

lemma validate_provider_None: "validate_provider p = None \<longleftrightarrow> provider_ok p"
  by (auto simp: validate_provider_def provider_ok_def probe_ok_def Let_def first_err_None
      validate_status_def validate_positive_duration_None list_all_iff)

lemma validate_tls_None: "validate_tls t = None \<longleftrightarrow> tls_ok t"
  by (auto simp: validate_tls_def tls_ok_def)

lemma validate_route_groups_None:
  "first_err validate_route_group gs = None \<longleftrightarrow> [] \<notin> set (map grp_name gs)"
  by (induction gs) (auto simp: validate_route_group_def)

lemma validate_providers_None:
  "first_err validate_provider ps = None \<longleftrightarrow> list_all provider_ok ps"
  by (induction ps) (auto simp: validate_provider_None)

text \<open>\<open>Validate\<close> accepts exactly the configurations that satisfy \<open>config_ok\<close>.\<close>

lemma validate_None_iff: "validate c = None \<longleftrightarrow> config_ok c"
  by (simp add: validate_def config_ok_def validate_route_groups_None validate_models_None
      validate_providers_None validate_set_duration_None validate_tls_None not_less
      del: set_map)

end
