(* ===== verification/Router.thy ===== *)
theory Router
  imports Config
begin

text \<open>
  Package \<open>router\<close>: matching a public model against the configured patterns
  (\<open>selection.go\<close>) and planning the ordered upstream attempts (\<open>planner.go\<close>).  The planner
  asks an \<open>Eligibility\<close> for every known candidate; asking may change the answerer's state,
  so the interface is state passing.  The locale \<open>eligibility\<close> is the contract the planner
  relies on; \<open>Health_Runtime\<close> and \<open>Health_Manager\<close> provide it.
\<close>

section \<open>Selection (\<open>selection.go\<close>)\<close>

definition route_matches_pattern :: "string \<Rightarrow> string \<Rightarrow> bool" where
  "route_matches_pattern value pattern =
     (if has_suffix pattern ''*'' then has_prefix value (trim_suffix pattern ''*'')
      else value = pattern)"

fun match_model :: "string \<Rightarrow> model_config list \<Rightarrow> model_config option" where
  "match_model public_model [] = None"
| "match_model public_model (m # ms) =
     (if route_matches_pattern public_model (mdl_pattern m) then Some m
      else match_model public_model ms)"

fun find_route_group :: "string \<Rightarrow> route_group_config list \<Rightarrow> route_group_config option" where
  "find_route_group name [] = None"
| "find_route_group name (g # gs) =
     (if grp_name g = name then Some g else find_route_group name gs)"

section \<open>Planning (\<open>planner.go\<close>)\<close>

record attempt =
  att_upstream :: string

record plan =
  plan_attempts :: "attempt list"

type_synonym 's eligibility_fn = "'s \<Rightarrow> string \<Rightarrow> bool \<times> 's"

record 's planner =
  pln_cfg :: config
  pln_eligibility :: "'s eligibility_fn option"   \<comment> \<open>\<open>None\<close> is the nil interface\<close>

definition new_planner :: "config \<Rightarrow> 's eligibility_fn option \<Rightarrow> 's planner" where
  "new_planner cfg e = \<lparr>pln_cfg = cfg, pln_eligibility = e\<rparr>"

definition known_providers :: "provider_config list \<Rightarrow> string set" where
  "known_providers ps = set (map prv_name ps)"

definition candidates :: "route_group_config \<Rightarrow> string list" where
  "candidates g = grp_primary g # grp_fallbacks g"

fun plan_loop :: "'s eligibility_fn option \<Rightarrow> string set \<Rightarrow> string list \<Rightarrow> 's \<Rightarrow> attempt list \<times> 's" where
  "plan_loop e known [] s = ([], s)"
| "plan_loop e known (c # cs) s =
     (if c \<notin> known then plan_loop e known cs s
      else (case e of
          None \<Rightarrow> (case plan_loop e known cs s of (as, s') \<Rightarrow> (\<lparr>att_upstream = c\<rparr> # as, s'))
        | Some f \<Rightarrow>
            (case f s c of (ok, s1) \<Rightarrow>
               if \<not> ok then plan_loop e known cs s1
               else (case plan_loop e known cs s1 of (as, s') \<Rightarrow> (\<lparr>att_upstream = c\<rparr> # as, s')))))"

definition plan_route :: "'s planner \<Rightarrow> string \<Rightarrow> 's \<Rightarrow> (gerror + plan) \<times> 's" where
  "plan_route p public_model s =
     (case match_model public_model (cfg_models (pln_cfg p)) of
        None \<Rightarrow> (Inl (ErrorString [Lit ''no route configured for model '', Quoted public_model]), s)
      | Some m \<Rightarrow>
        (case find_route_group (mdl_route_group m) (cfg_groups (pln_cfg p)) of
           None \<Rightarrow> (Inl (ErrorString [Lit ''route group '', Quoted (mdl_route_group m), Lit '' not found'']), s)
         | Some g \<Rightarrow>
           (case plan_loop (pln_eligibility p) (known_providers (cfg_providers (pln_cfg p)))
                   (candidates g) s of
              (as, s') \<Rightarrow> (Inr \<lparr>plan_attempts = as\<rparr>, s'))))"

definition plan_upstreams :: "plan \<Rightarrow> string list" where
  "plan_upstreams p = map att_upstream (plan_attempts p)"

section \<open>Selection lemmas\<close>

lemma match_model_Some:
  "match_model x ms = Some m \<Longrightarrow> m \<in> set ms \<and> route_matches_pattern x (mdl_pattern m)"
  by (induction ms) (auto split: if_splits)

text \<open>The first matching pattern wins.\<close>

lemma match_model_append:
  "\<forall>a \<in> set as. \<not> route_matches_pattern x (mdl_pattern a) \<Longrightarrow>
     match_model x (as @ ms) = match_model x ms"
  by (induction as) auto

lemma match_model_split:
  "match_model x ms = Some m \<Longrightarrow>
     \<exists>as bs. ms = as @ m # bs \<and> (\<forall>a \<in> set as. \<not> route_matches_pattern x (mdl_pattern a))"
proof (induction ms)
  case (Cons a ms)
  show ?case
  proof (cases "route_matches_pattern x (mdl_pattern a)")
    case True
    with Cons.prems show ?thesis by (intro exI [of _ "[]"] exI [of _ ms]) simp
  next
    case False
    with Cons obtain as bs where "ms = as @ m # bs"
      "\<forall>a \<in> set as. \<not> route_matches_pattern x (mdl_pattern a)" by auto
    with False show ?thesis by (intro exI [of _ "a # as"] exI [of _ bs]) simp
  qed
qed simp

lemma match_model_None: "match_model x ms = None \<longleftrightarrow> (\<forall>m \<in> set ms. \<not> route_matches_pattern x (mdl_pattern m))"
  by (induction ms) auto

lemma find_route_group_Some:
  "find_route_group n gs = Some g \<Longrightarrow> g \<in> set gs \<and> grp_name g = n"
  by (induction gs) (auto split: if_splits)

lemma find_route_group_None: "find_route_group n gs = None \<longleftrightarrow> n \<notin> set (map grp_name gs)"
  by (induction gs) auto

text \<open>Validation leaves no dangling route group, so a match never fails on its group.\<close>

lemma config_ok_group:
  assumes "config_ok c" "match_model x (cfg_models c) = Some m"
  shows "find_route_group (mdl_route_group m) (cfg_groups c) \<noteq> None"
  using assms match_model_Some [OF assms(2)]
  by (auto simp: config_ok_def find_route_group_None)

section \<open>The eligibility contract and the planner over it\<close>

locale eligibility =
  fixes is_eligible :: "'s \<Rightarrow> string \<Rightarrow> bool \<times> 's"
    and verdict :: "'s \<Rightarrow> string \<Rightarrow> bool"
    and inv :: "'s \<Rightarrow> bool"
  assumes answer: "inv s \<Longrightarrow> fst (is_eligible s u) = verdict s u"
    and stable: "inv s \<Longrightarrow> verdict (snd (is_eligible s u)) v = verdict s v"
    and keeps: "inv s \<Longrightarrow> inv (snd (is_eligible s u))"
begin

text \<open>The plan is the candidate list filtered by known provider and verdict, in order.\<close>

lemma loop_filter:
  "inv s \<Longrightarrow> map att_upstream (fst (plan_loop (Some is_eligible) known cs s)) =
     filter (\<lambda>c. c \<in> known \<and> verdict s c) cs"
proof (induction cs arbitrary: s)
  case (Cons c cs)
  obtain b s1 where f: "is_eligible s c = (b, s1)" by fastforce
  have "b = verdict s c" using answer [OF Cons.prems, of c] f by simp
  moreover have "verdict s1 v = verdict s v" for v using stable [OF Cons.prems, of c v] f by simp
  moreover have "inv s1" using keeps [OF Cons.prems, of c] f by simp
  ultimately show ?case
    using Cons.IH [OF Cons.prems] Cons.IH [of s1] f by (simp add: case_prod_beta)
qed simp

lemma loop_inv: "inv s \<Longrightarrow> inv (snd (plan_loop (Some is_eligible) known cs s))"
proof (induction cs arbitrary: s)
  case (Cons c cs)
  obtain b s1 where f: "is_eligible s c = (b, s1)" by fastforce
  have "inv s1" using keeps [OF Cons.prems, of c] f by simp
  then show ?case
    using Cons.IH [OF Cons.prems] Cons.IH [of s1] f by (simp add: case_prod_beta)
qed simp

lemma loop_verdict:
  "inv s \<Longrightarrow> verdict (snd (plan_loop (Some is_eligible) known cs s)) v = verdict s v"
proof (induction cs arbitrary: s)
  case (Cons c cs)
  obtain b s1 where f: "is_eligible s c = (b, s1)" by fastforce
  have "inv s1" "verdict s1 v = verdict s v"
    using keeps [OF Cons.prems, of c] stable [OF Cons.prems, of c v] f by simp_all
  then show ?case
    using Cons.IH [OF Cons.prems] Cons.IH [of s1] f by (simp add: case_prod_beta)
qed simp

lemma plan_Inr:
  assumes "inv s"
    and "match_model x (cfg_models cfg) = Some m"
    and "find_route_group (mdl_route_group m) (cfg_groups cfg) = Some g"
  shows "\<exists>p s'. plan_route (new_planner cfg (Some is_eligible)) x s = (Inr p, s') \<and>
      plan_upstreams p =
        filter (\<lambda>c. c \<in> known_providers (cfg_providers cfg) \<and> verdict s c) (candidates g) \<and>
      inv s' \<and> (\<forall>v. verdict s' v = verdict s v)"
proof -
  let ?known = "known_providers (cfg_providers cfg)"
  obtain as s' where l: "plan_loop (Some is_eligible) ?known (candidates g) s = (as, s')"
    by fastforce
  have "map att_upstream as = filter (\<lambda>c. c \<in> ?known \<and> verdict s c) (candidates g)"
    using loop_filter [OF assms(1), of ?known "candidates g"] l by simp
  moreover have "inv s'" using loop_inv [OF assms(1), of ?known "candidates g"] l by simp
  moreover have "verdict s' v = verdict s v" for v
    using loop_verdict [OF assms(1), of ?known "candidates g" v] l by simp
  ultimately show ?thesis
    using l assms(2,3) by (simp add: plan_route_def new_planner_def plan_upstreams_def)
qed

lemma plan_state:
  assumes "inv s"
  shows "inv (snd (plan_route (new_planner cfg (Some is_eligible)) x s)) \<and>
    verdict (snd (plan_route (new_planner cfg (Some is_eligible)) x s)) v = verdict s v"
  using loop_inv [OF assms] loop_verdict [OF assms] assms
  by (simp add: plan_route_def new_planner_def case_prod_beta split: option.splits)

end

text \<open>Without an eligibility the plan is every known candidate.\<close>

lemma plan_loop_nil:
  "map att_upstream (fst (plan_loop None known cs s)) = filter (\<lambda>c. c \<in> known) cs"
  by (induction cs) (auto split: prod.splits)

end
