(* ===== verification/Health_Manager.thy ===== *)
theory Health_Manager
  imports Router
begin

text \<open>
  \<open>health/manager.go\<close>: temporary ejection of upstreams with an expiry.  An expired entry is
  deleted by the query that notices it.  \<open>time.Now()\<close> is the argument \<open>now\<close>.
\<close>

record manager =
  mgr_ejected_until :: "string \<rightharpoonup> time"

definition new_manager :: manager where
  "new_manager = \<lparr>mgr_ejected_until = Map.empty\<rparr>"

definition eject :: "time \<Rightarrow> string \<Rightarrow> duration \<Rightarrow> manager \<Rightarrow> manager" where
  "eject now upstream d m =
     m\<lparr>mgr_ejected_until := (mgr_ejected_until m)(upstream \<mapsto> now + d)\<rparr>"

definition manager_is_eligible :: "time \<Rightarrow> manager \<Rightarrow> string \<Rightarrow> bool \<times> manager" where
  "manager_is_eligible now m upstream =
     (case mgr_ejected_until m upstream of
        None \<Rightarrow> (True, m)
      | Some until \<Rightarrow>
          if now > until
          then (True, m\<lparr>mgr_ejected_until := (mgr_ejected_until m)(upstream := None)\<rparr>)
          else (False, m))"

definition manager_verdict :: "time \<Rightarrow> manager \<Rightarrow> string \<Rightarrow> bool" where
  "manager_verdict now m u =
     (case mgr_ejected_until m u of None \<Rightarrow> True | Some until \<Rightarrow> now > until)"

text \<open>Deleting an expired entry changes no later answer: the manager is an eligibility at
  every instant.\<close>

interpretation mgr: eligibility "manager_is_eligible now" "manager_verdict now" "\<lambda>_. True"
  for now
  by unfold_locales
     (auto simp: manager_is_eligible_def manager_verdict_def split: option.splits)

lemma manager_eject_window:
  "manager_verdict now (eject t u d m) u \<longleftrightarrow> now > t + d"
  by (simp add: manager_verdict_def eject_def)

lemma manager_eject_other: "v \<noteq> u \<Longrightarrow> manager_verdict now (eject t u d m) v = manager_verdict now m v"
  by (simp add: manager_verdict_def eject_def)

lemma manager_verdict_mono: "manager_verdict t m u \<Longrightarrow> t \<le> t' \<Longrightarrow> manager_verdict t' m u"
  by (auto simp: manager_verdict_def split: option.splits)

text \<open>A query at an earlier instant does not change the answers at later ones.\<close>

lemma manager_query_later:
  "t \<le> t' \<Longrightarrow> manager_verdict t' (snd (manager_is_eligible t m u)) v = manager_verdict t' m v"
  by (auto simp: manager_is_eligible_def manager_verdict_def split: option.splits)

end
