(* ===== verification/Canonical.thy ===== *)
theory Canonical
  imports Errors
begin

text \<open>
  Package \<open>canonical\<close>: the provider-neutral request and event model every other package
  speaks.  The string-typed enumerations are datatypes with the source's constants; pointers
  are options; a Go map that may be nil is a \<open>gmap\<close>.
\<close>

section \<open>Content\<close>

datatype role = RoleSystem | RoleUser | RoleAssistant | RoleTool

definition role_string :: "role \<Rightarrow> string" where
  "role_string r = (case r of RoleSystem \<Rightarrow> ''system'' | RoleUser \<Rightarrow> ''user''
     | RoleAssistant \<Rightarrow> ''assistant'' | RoleTool \<Rightarrow> ''tool'')"

datatype content_type =
  ContentTypeText | ContentTypeImage | ContentTypeToolCall | ContentTypeToolResult

record image_input =
  img_url :: string
  img_mime :: string

record content_block =
  blk_type :: content_type
  blk_text :: string
  blk_image :: "image_input option"

record turn =
  turn_role :: role
  turn_content :: "content_block list"

section \<open>Requests\<close>

datatype endpoint_kind = EndpointKindChatCompletions | EndpointKindResponses

record generation =
  gen_temperature :: "float64 option"
  gen_top_p :: "float64 option"
  gen_max_output_tokens :: "go_int option"
  gen_stop :: "string list"

record tool =
  tool_name :: string
  tool_schema :: object

record tool_choice =
  choice_name :: string

datatype response_contract_kind =
  ResponseContractNone | ResponseContractJSONObject | ResponseContractJSONSchema

record response_contract =
  rc_kind :: response_contract_kind
  rc_schema :: object

record request =
  req_endpoint :: endpoint_kind
  req_model :: string
  req_conversation :: "turn list"
  req_generation :: generation
  req_tools :: "tool list"
  req_tool_choice :: tool_choice
  req_contract :: response_contract
  req_stream :: bool
  req_metadata :: "string gmap"

section \<open>Events\<close>

datatype event_type =
    EventMessageStart | EventContentStart | EventContentDelta | EventToolCallStart
  | EventToolCallDelta | EventContentStop | EventMessageStop | EventUsage | EventError

record event =
  ev_type :: event_type
  ev_data :: object

section \<open>Well-formed content\<close>

text \<open>
  The encoders dereference \<open>block.Image\<close> of an image block: a block is well formed when
  that cannot be a nil pointer.
\<close>

definition block_ok :: "content_block \<Rightarrow> bool" where
  "block_ok b \<longleftrightarrow> (blk_type b = ContentTypeImage \<longrightarrow> blk_image b \<noteq> None)"

definition conversation_ok :: "turn list \<Rightarrow> bool" where
  "conversation_ok ts \<longleftrightarrow> list_all (\<lambda>t. list_all block_ok (turn_content t)) ts"

definition text_block :: "string \<Rightarrow> content_block" where
  "text_block s = \<lparr>blk_type = ContentTypeText, blk_text = s, blk_image = None\<rparr>"

definition image_block :: "string \<Rightarrow> content_block" where
  "image_block u = \<lparr>blk_type = ContentTypeImage, blk_text = [],
     blk_image = Some \<lparr>img_url = u, img_mime = []\<rparr>\<rparr>"

definition no_contract :: response_contract where
  "no_contract = \<lparr>rc_kind = ResponseContractNone, rc_schema = None\<rparr>"

definition stop_event :: event where
  "stop_event = \<lparr>ev_type = EventMessageStop, ev_data = None\<rparr>"

lemma text_block_ok [simp]: "block_ok (text_block s)"
  by (simp add: block_ok_def text_block_def)

lemma image_block_ok [simp]: "block_ok (image_block u)"
  by (simp add: block_ok_def image_block_def)

lemma role_string_inject [simp]: "role_string r = role_string r' \<longleftrightarrow> r = r'"
  by (cases r; cases r') (simp_all add: role_string_def)

end
