(* ===== verification/Usage.thy ===== *)
theory Usage
  imports Canonical
begin

text \<open>
  Package \<open>usage\<close>: token counts out of the usage events of a stream (\<open>usage.go\<close>).  Go's \<open>int\<close>
  is a 64-bit word, so the derived total wraps; the conversion of a \<open>float64\<close> that does not
  fit an \<open>int\<close> is the argument \<open>oob\<close>.
\<close>

record summary =
  sum_input_tokens :: go_int
  sum_output_tokens :: go_int
  sum_total_tokens :: go_int

text \<open>\<open>partialSummary\<close>: a count together with its \<open>has\<close> flag is an option.\<close>

record partial_summary =
  ps_input :: "go_int option"
  ps_output :: "go_int option"
  ps_total :: "go_int option"

definition int_of_any :: "(float64 \<Rightarrow> go_int) \<Rightarrow> any \<Rightarrow> go_int option" where
  "int_of_any oob v =
     (case v of
        AInt n \<Rightarrow> Some n
      | AInt8 n \<Rightarrow> Some (scast n)
      | AInt16 n \<Rightarrow> Some (scast n)
      | AInt32 n \<Rightarrow> Some (scast n)
      | AInt64 n \<Rightarrow> Some n
      | AFloat32 x \<Rightarrow> Some (int_of_float64 oob x)
      | AFloat64 x \<Rightarrow> Some (int_of_float64 oob x)
      | _ \<Rightarrow> None)"

definition int_from_map :: "(float64 \<Rightarrow> go_int) \<Rightarrow> object \<Rightarrow> string \<Rightarrow> go_int option" where
  "int_from_map oob data key =
     (case mget data key of None \<Rightarrow> None | Some v \<Rightarrow> int_of_any oob v)"

definition partial_from_data :: "(float64 \<Rightarrow> go_int) \<Rightarrow> object \<Rightarrow> partial_summary option" where
  "partial_from_data oob data =
     (if mlen data = 0 then None else
      (let inp = (case int_from_map oob data ''input_tokens'' of
                    None \<Rightarrow> int_from_map oob data ''prompt_tokens'' | Some n \<Rightarrow> Some n);
           out = (case int_from_map oob data ''output_tokens'' of
                    None \<Rightarrow> int_from_map oob data ''completion_tokens'' | Some n \<Rightarrow> Some n);
           tot = int_from_map oob data ''total_tokens''
       in if inp = None \<and> out = None \<and> tot = None then None
          else Some \<lparr>ps_input = inp, ps_output = out, ps_total = tot\<rparr>))"

definition empty_summary :: summary where
  "empty_summary = \<lparr>sum_input_tokens = 0, sum_output_tokens = 0, sum_total_tokens = 0\<rparr>"

definition merge_partial :: "summary \<Rightarrow> partial_summary \<Rightarrow> summary" where
  "merge_partial s p =
     \<lparr>sum_input_tokens = (case ps_input p of None \<Rightarrow> sum_input_tokens s | Some n \<Rightarrow> n),
      sum_output_tokens = (case ps_output p of None \<Rightarrow> sum_output_tokens s | Some n \<Rightarrow> n),
      sum_total_tokens = (case ps_total p of None \<Rightarrow> sum_total_tokens s | Some n \<Rightarrow> n)\<rparr>"

definition derive_total :: "summary \<Rightarrow> summary" where
  "derive_total s =
     (if sum_total_tokens s = 0
      then s\<lparr>sum_total_tokens := sum_input_tokens s + sum_output_tokens s\<rparr> else s)"

definition from_data :: "(float64 \<Rightarrow> go_int) \<Rightarrow> object \<Rightarrow> summary option" where
  "from_data oob data =
     map_option (\<lambda>p. derive_total (merge_partial empty_summary p)) (partial_from_data oob data)"

fun from_events_loop ::
  "(float64 \<Rightarrow> go_int) \<Rightarrow> event list \<Rightarrow> summary \<times> bool \<Rightarrow> summary \<times> bool" where
  "from_events_loop oob [] acc = acc"
| "from_events_loop oob (e # es) (s, found) =
     (if ev_type e \<noteq> EventUsage then from_events_loop oob es (s, found)
      else (case partial_from_data oob (ev_data e) of
              None \<Rightarrow> from_events_loop oob es (s, found)
            | Some p \<Rightarrow> from_events_loop oob es (merge_partial s p, True)))"

definition from_events :: "(float64 \<Rightarrow> go_int) \<Rightarrow> event list \<Rightarrow> summary option" where
  "from_events oob es =
     (case from_events_loop oob es (empty_summary, False) of
        (s, found) \<Rightarrow> if \<not> found then None else Some (derive_total s))"

section \<open>The loop as a fold over the usable reports\<close>

definition usage_reports :: "(float64 \<Rightarrow> go_int) \<Rightarrow> event list \<Rightarrow> partial_summary list" where
  "usage_reports oob es =
     List.map_filter (\<lambda>e. if ev_type e = EventUsage then partial_from_data oob (ev_data e) else None) es"

lemma usage_reports_simps [simp]:
  "usage_reports oob [] = []"
  "usage_reports oob (e # es) =
     (if ev_type e = EventUsage
      then (case partial_from_data oob (ev_data e) of None \<Rightarrow> usage_reports oob es
            | Some p \<Rightarrow> p # usage_reports oob es)
      else usage_reports oob es)"
  by (simp_all add: usage_reports_def List.map_filter_simps split: option.splits)

lemma usage_reports_append: "usage_reports oob (es @ fs) = usage_reports oob es @ usage_reports oob fs"
  by (induction es) (auto split: option.splits)

lemma from_events_loop_fold:
  "from_events_loop oob es (s, found) =
     (foldl merge_partial s (usage_reports oob es), found \<or> usage_reports oob es \<noteq> [])"
  by (induction es arbitrary: s found) (auto split: option.splits)

lemma from_events_fold:
  "from_events oob es =
     (if usage_reports oob es = [] then None
      else Some (derive_total (foldl merge_partial empty_summary (usage_reports oob es))))"
  by (simp add: from_events_def from_events_loop_fold)

text \<open>The last report of a count wins.\<close>

definition last_count :: "(partial_summary \<Rightarrow> go_int option) \<Rightarrow> partial_summary list \<Rightarrow> go_int" where
  "last_count sel ps = (case find (\<lambda>p. sel p \<noteq> None) (rev ps) of None \<Rightarrow> 0 | Some p \<Rightarrow> the (sel p))"

lemma merge_all:
  "foldl merge_partial empty_summary ps =
     \<lparr>sum_input_tokens = last_count ps_input ps, sum_output_tokens = last_count ps_output ps,
      sum_total_tokens = last_count ps_total ps\<rparr>"
  by (induction ps rule: rev_induct)
     (auto simp: empty_summary_def last_count_def merge_partial_def)

text \<open>Events of other kinds, and usage events without a count, change nothing.\<close>

lemma from_events_ignores:
  "usage_reports oob fs = [] \<Longrightarrow> from_events oob (es @ fs @ gs) = from_events oob (es @ gs)"
  by (simp add: from_events_fold usage_reports_append)

lemma from_data_partial: "from_data oob d = None \<longleftrightarrow> partial_from_data oob d = None"
  by (simp add: from_data_def)

lemma from_events_single:
  "from_events oob [\<lparr>ev_type = EventUsage, ev_data = d\<rparr>] = from_data oob d"
  by (simp add: from_events_fold from_data_def split: option.splits)

end
