(* ===== verification/Go_Url.thy ===== *)
theory Go_Url
  imports Go_Json
begin

text \<open>
  \<open>net/url.Parse\<close> of Go 1.24 as far as the router looks at its result: whether it fails, the
  scheme and the host.  \<open>http.NewRequestWithContext\<close> fails exactly when its method is not a
  token or its URL does not parse.
\<close>

record parsed_url =
  url_scheme :: string
  url_host :: string

datatype url_encoding = EncodeHost | EncodeZone | EncodePath

definition is_alpha :: "char \<Rightarrow> bool" where
  "is_alpha c \<longleftrightarrow> (let n = (of_char c :: int) in 65 \<le> n \<and> n \<le> 90 \<or> 97 \<le> n \<and> n \<le> 122)"

definition is_alnum :: "char \<Rightarrow> bool" where
  "is_alnum c \<longleftrightarrow> is_alpha c \<or> is_digit c"

definition ctl_byte :: "char \<Rightarrow> bool" where
  "ctl_byte c \<longleftrightarrow> (let n = (of_char c :: int) in n < 32 \<or> n = 127)"

section \<open>Escapes\<close>

text \<open>\<open>shouldEscape\<close> in the two host modes.\<close>

definition should_escape_host :: "char \<Rightarrow> bool" where
  "should_escape_host c \<longleftrightarrow>
     \<not> (is_alnum c \<or> c \<in> set ''!$&()*+,;=:[]<>-_.~'' \<or> c = CHR 0x27 \<or> c = CHR 0x22)"

definition is_hex :: "char \<Rightarrow> bool" where
  "is_hex c \<longleftrightarrow> hex_val c \<noteq> None"

definition hex_byte :: "char \<Rightarrow> char \<Rightarrow> char" where
  "hex_byte a b = char_of (16 * the (hex_val a) + the (hex_val b))"

definition bad_escape :: "url_encoding \<Rightarrow> char \<Rightarrow> char \<Rightarrow> bool" where
  "bad_escape m a b \<longleftrightarrow>
     (m = EncodeHost \<and> the (hex_val a) < 8 \<and> \<not> (a = CHR ''2'' \<and> b = CHR ''5'')) \<or>
     (m = EncodeZone \<and> \<not> (a = CHR ''2'' \<and> b = CHR ''5'') \<and> hex_byte a b \<noteq> CHR '' '' \<and>
        should_escape_host (hex_byte a b))"

fun unescape :: "url_encoding \<Rightarrow> string \<Rightarrow> string option" where
  "unescape m [] = Some []"
| "unescape m (c # s) =
     (if c = CHR ''%'' then
        (case s of
           a # b # r \<Rightarrow>
             if is_hex a \<and> is_hex b \<and> \<not> bad_escape m a b
             then map_option ((#) (hex_byte a b)) (unescape m r) else None
         | _ \<Rightarrow> None)
      else if m \<noteq> EncodePath \<and> of_char c < (128 :: int) \<and> should_escape_host c then None
      else map_option ((#) c) (unescape m s))"

section \<open>Authority\<close>

definition valid_optional_port :: "string \<Rightarrow> bool" where
  "valid_optional_port p \<longleftrightarrow> p = [] \<or> (hd p = CHR '':'' \<and> list_all is_digit (tl p))"

definition valid_userinfo :: "string \<Rightarrow> bool" where
  "valid_userinfo s \<longleftrightarrow> list_all (\<lambda>c. is_alnum c \<or> c \<in> set ''-._:~!$&()*+,;=%@'' \<or> c = CHR 0x27) s"

fun index_sub :: "string \<Rightarrow> string \<Rightarrow> nat option" where
  "index_sub [] p = (if p = [] then Some 0 else None)"
| "index_sub (c # s) p =
     (if has_prefix (c # s) p then Some 0 else map_option Suc (index_sub s p))"

definition parse_host :: "string \<Rightarrow> string option" where
  "parse_host host =
     (if has_prefix host ''['' then
        (case last_index_byte host CHR '']'' of None \<Rightarrow> None
         | Some i \<Rightarrow>
             if \<not> valid_optional_port (drop (Suc i) host) then None
             else (case index_sub (take i host) ''%25'' of
                 Some zone \<Rightarrow>
                   (case (unescape EncodeHost (take zone host),
                          unescape EncodeZone (drop zone (take i host)),
                          unescape EncodeHost (drop i host)) of
                      (Some a, Some b, Some c) \<Rightarrow> Some (a @ b @ c)
                    | _ \<Rightarrow> None)
               | None \<Rightarrow> unescape EncodeHost host))
      else (case last_index_byte host CHR '':'' of
          Some i \<Rightarrow> if valid_optional_port (drop i host) then unescape EncodeHost host else None
        | None \<Rightarrow> unescape EncodeHost host))"

text \<open>The host of an authority; the user information only has to be valid.\<close>

definition parse_authority :: "string \<Rightarrow> string option" where
  "parse_authority authority =
     (case last_index_byte authority CHR ''@'' of
        None \<Rightarrow> parse_host authority
      | Some i \<Rightarrow>
          (case parse_host (drop (Suc i) authority) of None \<Rightarrow> None
           | Some h \<Rightarrow>
               (let userinfo = take i authority; (u, p, _) = cut_byte userinfo CHR '':'' in
                if valid_userinfo userinfo \<and> unescape EncodePath u \<noteq> None \<and>
                   unescape EncodePath p \<noteq> None
                then Some h else None)))"

section \<open>Parsing\<close>

text \<open>\<open>getScheme\<close>: \<open>None\<close> is the missing protocol scheme, an empty scheme means that there is
  none and the rest is the whole text.\<close>

fun get_scheme_from :: "nat \<Rightarrow> string \<Rightarrow> string \<Rightarrow> (string \<times> string) option" where
  "get_scheme_from i raw [] = Some ([], raw)"
| "get_scheme_from i raw (c # s) =
     (if is_alpha c then get_scheme_from (Suc i) raw s
      else if is_digit c \<or> c \<in> set ''+-.'' then
        (if i = 0 then Some ([], raw) else get_scheme_from (Suc i) raw s)
      else if c = CHR '':'' then
        (if i = 0 then None else Some (take i raw, drop (Suc i) raw))
      else Some ([], raw))"

definition get_scheme :: "string \<Rightarrow> (string \<times> string) option" where
  "get_scheme raw = get_scheme_from 0 raw raw"

definition strip_query :: "string \<Rightarrow> string" where
  "strip_query rest = fst (cut_byte rest CHR ''?'')"

definition parse_no_fragment :: "string \<Rightarrow> parsed_url option" where
  "parse_no_fragment raw =
     (if list_ex ctl_byte raw then None
      else if raw = ''*'' then Some \<lparr>url_scheme = [], url_host = []\<rparr>
      else (case get_scheme raw of None \<Rightarrow> None
       | Some (scheme0, rest0) \<Rightarrow>
         (let scheme = to_lower scheme0; rest = strip_query rest0 in
          if \<not> has_prefix rest ''/'' \<and> scheme \<noteq> [] then
            Some \<lparr>url_scheme = scheme, url_host = []\<rparr>
          else if \<not> has_prefix rest ''/'' \<and> contains (fst (cut_byte rest CHR ''/'')) '':'' then None
          else if (scheme \<noteq> [] \<or> \<not> has_prefix rest ''///'') \<and> has_prefix rest ''//'' then
            (let authority = takeWhile (\<lambda>c. c \<noteq> CHR ''/'') (drop 2 rest);
                 path = dropWhile (\<lambda>c. c \<noteq> CHR ''/'') (drop 2 rest)
             in case parse_authority authority of None \<Rightarrow> None
                | Some h \<Rightarrow> if unescape EncodePath path = None then None
                           else Some \<lparr>url_scheme = scheme, url_host = h\<rparr>)
          else if unescape EncodePath rest = None then None
          else Some \<lparr>url_scheme = scheme, url_host = []\<rparr>)))"

definition url_parse :: "string \<Rightarrow> parsed_url option" where
  "url_parse raw =
     (case cut_byte raw CHR ''#'' of (u, frag, _) \<Rightarrow>
       (case parse_no_fragment u of None \<Rightarrow> None
        | Some p \<Rightarrow> if unescape EncodePath frag = None then None else Some p))"

section \<open>Request construction\<close>

text \<open>The token characters of RFC 7230.\<close>

definition token_char :: "char \<Rightarrow> bool" where
  "token_char c \<longleftrightarrow> is_alnum c \<or> c \<in> set ''!#$%&*+-.^_`|~'' \<or> c = CHR 0x27"

definition valid_method :: "string \<Rightarrow> bool" where
  "valid_method m \<longleftrightarrow> m \<noteq> [] \<and> list_all token_char m"

definition new_request_ok :: "string \<Rightarrow> string \<Rightarrow> bool" where
  "new_request_ok method url \<longleftrightarrow> (method = [] \<or> valid_method method) \<and> url_parse url \<noteq> None"

section \<open>Lemmas\<close>

lemma get_scheme_from_token:
  "get_scheme_from i raw s = Some (sch, rest) \<Longrightarrow> sch \<noteq> [] \<Longrightarrow> drop i raw = s \<Longrightarrow>
     list_all (\<lambda>c. is_alnum c \<or> c \<in> set ''+-.'') (take i raw) \<Longrightarrow>
     raw = sch @ CHR '':'' # rest \<and> list_all (\<lambda>c. is_alnum c \<or> c \<in> set ''+-.'') sch"
proof (induction i raw s rule: get_scheme_from.induct)
  case (2 i raw c s)
  have i: "i < length raw" "raw ! i = c" "drop (Suc i) raw = s"
    using 2(5) by (metis drop_eq_Nil2 leI list.distinct(1), metis nth_via_drop,
      metis drop_Suc list.sel(3) tl_drop)
  have t: "take (Suc i) raw = take i raw @ [c]"
    using i by (simp add: take_Suc_conv_app_nth)
  consider "is_alpha c" | "\<not> is_alpha c" "is_digit c \<or> c \<in> set ''+-.''"
    | "\<not> is_alpha c" "\<not> (is_digit c \<or> c \<in> set ''+-.'')" by blast
  then show ?case
  proof cases
    case 1
    then show ?thesis using 2 i t by (simp add: is_alnum_def)
  next
    case 2: 2
    with "2.prems" show ?thesis using "2.IH"(2) i t by (simp add: is_alnum_def split: if_splits)
  next
    case 3
    with 2 have "c = CHR '':''" "i \<noteq> 0" "sch = take i raw" "rest = drop (Suc i) raw"
      by (auto split: if_splits)
    with 2(6) id_take_nth_drop [OF i(1)] i show ?thesis by simp
  qed
qed simp

text \<open>A scheme is what stands before the first colon.\<close>

lemma get_scheme_split:
  "get_scheme raw = Some (sch, rest) \<Longrightarrow> sch \<noteq> [] \<Longrightarrow> raw = sch @ CHR '':'' # rest"
  unfolding get_scheme_def by (drule get_scheme_from_token) auto

lemma url_parse_no_ctl:
  assumes "url_parse raw = Some p" "CHR ''#'' \<notin> set raw"
  shows "list_all (\<lambda>c. \<not> ctl_byte c) raw"
proof -
  have "cut_byte raw CHR ''#'' = (raw, [], False)"
    using assms(2) by (simp add: cut_byte_def index_byte_None [THEN iffD2])
  with assms(1) show ?thesis
    by (auto simp: url_parse_def parse_no_fragment_def list_ex_iff list_all_iff
        split: option.splits if_splits)
qed

end
