(* ===== verification/Finalize.thy ===== *)
theory Finalize
  imports Usage Go_Url
begin

text \<open>
  Non-streaming answers: \<open>finalize_chat.go\<close> and \<open>finalize_responses.go\<close>.  The bytes of
  \<open>crypto/rand\<close> and the clock reading behind a generated identifier are arguments.
\<close>

section \<open>Identifiers\<close>

definition hex_digit :: "int \<Rightarrow> char" where
  "hex_digit n = (if n < 10 then char_of (48 + n) else char_of (87 + n))"

definition hex_encode :: "8 word list \<Rightarrow> string" where
  "hex_encode bs = concat (map (\<lambda>b. [hex_digit (uint b div 16), hex_digit (uint b mod 16)]) bs)"

function hex_int :: "int \<Rightarrow> string" where
  "hex_int n = (if n < 16 then [hex_digit n] else hex_int (n div 16) @ [hex_digit (n mod 16)])"
  by pat_completeness auto
termination by (relation "measure nat") auto

declare hex_int.simps [simp del]

text \<open>\<open>None\<close> is a failing \<open>rand.Read\<close>; the clock reading is not negative.\<close>

definition new_generated_id :: "8 word list option \<Rightarrow> int \<Rightarrow> string \<Rightarrow> string" where
  "new_generated_id rand nanos prefix =
     (case rand of Some bs \<Rightarrow> prefix @ hex_encode bs | None \<Rightarrow> prefix @ hex_int nanos)"

section \<open>Chat completions (\<open>finalize_chat.go\<close>)\<close>

record final_message =
  fm_role :: string
  fm_content :: string

record final_choice =
  fch_index :: int
  fch_message :: final_message
  fch_finish_reason :: string

record final_chat =
  fc_id :: string
  fc_object :: string
  fc_model :: string
  fc_choices :: "final_choice list"
  fc_usage :: "summary option"

definition normalize_finish_reason :: "any \<Rightarrow> string" where
  "normalize_finish_reason raw =
     (case as_string (Some raw) of None \<Rightarrow> ''stop''
      | Some v \<Rightarrow>
        if v = [] then ''stop''
        else if v = ''end_turn'' \<or> v = ''stop_sequence'' then ''stop''
        else if v = ''max_tokens'' then ''length''
        else if v = ''tool_use'' then ''tool_calls''
        else v)"

fun aggregate_loop :: "event list \<Rightarrow> string \<times> string \<Rightarrow> string \<times> string" where
  "aggregate_loop [] acc = acc"
| "aggregate_loop (e # es) (text, finish) =
     (case ev_type e of
        EventContentDelta \<Rightarrow>
          (case as_string (mget (ev_data e) ''text'') of
             Some t \<Rightarrow> aggregate_loop es (text @ t, finish)
           | None \<Rightarrow> aggregate_loop es (text, finish))
      | EventMessageStop \<Rightarrow>
          (if ev_data e = None then aggregate_loop es (text, finish)
           else (case mget (ev_data e) ''finish_reason'' of
              Some raw \<Rightarrow> aggregate_loop es (text, normalize_finish_reason raw)
            | None \<Rightarrow>
                (case mget (ev_data e) ''stop_reason'' of
                   Some raw \<Rightarrow> aggregate_loop es (text, normalize_finish_reason raw)
                 | None \<Rightarrow> aggregate_loop es (text, finish))))
      | _ \<Rightarrow> aggregate_loop es (text, finish))"

definition aggregate_final_text :: "event list \<Rightarrow> string \<times> string" where
  "aggregate_final_text es = aggregate_loop es ([], ''stop'')"

definition finalize_chat_completion ::
  "(float64 \<Rightarrow> go_int) \<Rightarrow> 8 word list option \<Rightarrow> int \<Rightarrow> event list \<Rightarrow> string \<Rightarrow> final_chat" where
  "finalize_chat_completion oob rand nanos es model =
     (case aggregate_final_text es of (text, finish) \<Rightarrow>
       \<lparr>fc_id = new_generated_id rand nanos ''chatcmpl-'', fc_object = ''chat.completion'',
        fc_model = model,
        fc_choices = [\<lparr>fch_index = 0,
          fch_message = \<lparr>fm_role = ''assistant'', fm_content = text\<rparr>,
          fch_finish_reason = finish\<rparr>],
        fc_usage = from_events oob es\<rparr>)"

section \<open>Responses (\<open>finalize_responses.go\<close>)\<close>

record final_output =
  fo_type :: string
  fo_text :: string

record final_response =
  fr_id :: string
  fr_object :: string
  fr_model :: string
  fr_status :: string
  fr_output :: "final_output list"
  fr_usage :: "summary option"

fun aggregate_response_text :: "event list \<Rightarrow> string" where
  "aggregate_response_text [] = []"
| "aggregate_response_text (e # es) =
     (if ev_type e \<noteq> EventContentDelta then aggregate_response_text es
      else (case as_string (mget (ev_data e) ''text'') of
          Some t \<Rightarrow> t @ aggregate_response_text es
        | None \<Rightarrow>
            (case as_string (mget (ev_data e) ''delta'') of
               Some d \<Rightarrow> d @ aggregate_response_text es
             | None \<Rightarrow> aggregate_response_text es)))"

definition finalize_response ::
  "(float64 \<Rightarrow> go_int) \<Rightarrow> 8 word list option \<Rightarrow> int \<Rightarrow> event list \<Rightarrow> string \<Rightarrow> final_response" where
  "finalize_response oob rand nanos es model =
     \<lparr>fr_id = new_generated_id rand nanos ''resp_'', fr_object = ''response'', fr_model = model,
      fr_status = ''completed'',
      fr_output = [\<lparr>fo_type = ''output_text'', fo_text = aggregate_response_text es\<rparr>],
      fr_usage = from_events oob es\<rparr>"

section \<open>The aggregation as a concatenation\<close>

definition chat_text :: "event \<Rightarrow> string" where
  "chat_text e = (if ev_type e = EventContentDelta then string_or_empty (mget (ev_data e) ''text'') else [])"

definition stop_value :: "event \<Rightarrow> any option" where
  "stop_value e =
     (if ev_type e = EventMessageStop \<and> ev_data e \<noteq> None
      then (case mget (ev_data e) ''finish_reason'' of Some v \<Rightarrow> Some v
            | None \<Rightarrow> mget (ev_data e) ''stop_reason'')
      else None)"

definition last_finish :: "string \<Rightarrow> event list \<Rightarrow> string" where
  "last_finish d es = (case List.map_filter stop_value es of [] \<Rightarrow> d
     | vs \<Rightarrow> normalize_finish_reason (last vs))"

lemma last_finish_Nil [simp]: "last_finish d [] = d"
  by (simp add: last_finish_def List.map_filter_simps)

lemma last_finish_Cons [simp]:
  "last_finish d (e # es) =
     last_finish (case stop_value e of None \<Rightarrow> d | Some v \<Rightarrow> normalize_finish_reason v) es"
  by (cases "List.map_filter stop_value es")
     (auto simp: last_finish_def List.map_filter_simps split: option.splits)

lemma aggregate_loop_eq:
  "aggregate_loop es (t0, finish) = (t0 @ concat (map chat_text es), last_finish finish es)"
proof (induction es arbitrary: t0 finish)
  case (Cons e es)
  then show ?case
    by (cases "ev_type e")
       (auto simp: chat_text_def stop_value_def string_or_empty_def split: option.splits)
qed simp

text \<open>The answer's text is the concatenation of the deltas, whatever lies between them, and
  its finish reason is the last one reported.\<close>

lemma aggregate_final_text_eq:
  "aggregate_final_text es = (concat (map chat_text es), last_finish ''stop'' es)"
  by (simp add: aggregate_final_text_def aggregate_loop_eq)

lemma aggregate_response_append:
  "aggregate_response_text (es @ fs) = aggregate_response_text es @ aggregate_response_text fs"
  by (induction es) (auto split: option.splits)

lemma normalize_finish_nonempty: "normalize_finish_reason v \<noteq> []"
  by (auto simp: normalize_finish_reason_def split: option.splits)

lemma last_finish_nonempty: "d \<noteq> [] \<Longrightarrow> last_finish d es \<noteq> []"
  by (induction es arbitrary: d) (auto simp: normalize_finish_nonempty split: option.splits)

end
