(* ===== verification/Providers.thy ===== *)
theory Providers
  imports Config Canonical Go_Url
begin

text \<open>
  Package \<open>providers\<close>: the result type and the error of an execution (\<open>types.go\<close>; the error is
  the constructor \<open>ExecutionError\<close> of \<open>Errors\<close>) and the provider credentials
  (\<open>auth_headers.go\<close>), over a model of \<open>net/http.Header\<close>.  The process environment is the
  argument \<open>env\<close>.  The HTTP client is outside the repository: it is a function on the
  network's state, and its errors carry the text of \<open>err.Error()\<close>.
\<close>

section \<open>Results (\<open>types.go\<close>)\<close>

record result =
  res_events :: "event list"

definition no_result :: result where
  "no_result = \<lparr>res_events = []\<rparr>"

section \<open>HTTP\<close>

type_synonym header = "(string \<times> string list) list"

text \<open>\<open>textproto.CanonicalMIMEHeaderKey\<close>: a name with a byte that no token has stays as it
  is.\<close>

fun canon_loop :: "bool \<Rightarrow> string \<Rightarrow> string" where
  "canon_loop up [] = []"
| "canon_loop up (c # s) =
     (if up then upper_char c else lower_char c) # canon_loop (c = CHR ''-'') s"

definition canonical_key :: "string \<Rightarrow> string" where
  "canonical_key k = (if list_all token_char k then canon_loop True k else k)"

definition header_set :: "header \<Rightarrow> string \<Rightarrow> string \<Rightarrow> header" where
  "header_set h k v = put (canonical_key k) [v] h"

definition header_add :: "header \<Rightarrow> string \<Rightarrow> string \<Rightarrow> header" where
  "header_add h k v =
     put (canonical_key k)
       ((case map_of h (canonical_key k) of None \<Rightarrow> [] | Some vs \<Rightarrow> vs) @ [v]) h"

definition header_get :: "header \<Rightarrow> string \<Rightarrow> string" where
  "header_get h k = (case map_of h (canonical_key k) of Some (v # vs) \<Rightarrow> v | _ \<Rightarrow> [])"

text \<open>\<open>for key, values := range extra { for _, value := range values { base.Add(key, value) } }\<close>\<close>

definition header_add_all :: "header \<Rightarrow> header \<Rightarrow> header" where
  "header_add_all base extra =
     foldl (\<lambda>h (k, vs). foldl (\<lambda>h v. header_add h k v) h vs) base extra"

text \<open>A request body is the value handed to \<open>json.Marshal\<close>; the values the encoders build hold
  no channel, function or non-finite number, so marshalling them cannot fail.\<close>

record http_request =
  hr_method :: string
  hr_url :: string
  hr_header :: header
  hr_body :: "any option"

text \<open>The bytes of a body up to its end, or up to the error that ends it.\<close>

type_synonym stream = "string \<times> gerror option"

record http_response =
  hs_status :: int
  hs_body :: stream

type_synonym 'w http_client = "http_request \<Rightarrow> 'w \<Rightarrow> (string + http_response) \<times> 'w"

text \<open>An adapter's \<open>Execute\<close>; \<open>None\<close> is a panic, which no caller below the HTTP server recovers.\<close>

type_synonym 'w adapter = "provider_config \<Rightarrow> request \<Rightarrow> 'w \<Rightarrow> ((gerror + result) \<times> 'w) option"

section \<open>Credentials (\<open>auth_headers.go\<close>)\<close>

definition lookup_provider_api_key :: "(string \<Rightarrow> string option) \<Rightarrow> string \<Rightarrow> gerror + string" where
  "lookup_provider_api_key env var =
     (if var = [] then Inl (ErrorString [Lit ''missing provider api_key_env config''])
      else (case env var of
              None \<Rightarrow> Inl (ErrorString [Lit ''missing provider API key env '', Verbatim var])
            | Some v \<Rightarrow>
                if trim_space v = []
                then Inl (ErrorString [Lit ''missing provider API key env '', Verbatim var])
                else Inr v))"

text \<open>The headers are changed in place, also when the error is returned.\<close>

definition merge_provider_auth_headers ::
  "(string \<Rightarrow> string option) \<Rightarrow> header \<Rightarrow> provider_config \<Rightarrow> gerror option \<times> header" where
  "merge_provider_auth_headers env h p =
     (let key = lookup_provider_api_key env (prv_api_key_env p) in
      if prv_provider p = ''openai'' then
        (case key of Inl e \<Rightarrow> (Some e, h)
         | Inr k \<Rightarrow> (None, header_set h ''Authorization'' (''Bearer '' @ k)))
      else if prv_provider p = ''anthropic'' then
        (let h1 = header_set h ''anthropic-version'' ''2023-06-01'' in
         case key of Inl e \<Rightarrow> (Some e, h1) | Inr k \<Rightarrow> (None, header_set h1 ''x-api-key'' k))
      else (None, h))"

definition provider_auth_headers :: "(string \<Rightarrow> string option) \<Rightarrow> provider_config \<Rightarrow> gerror + header" where
  "provider_auth_headers env p =
     (case merge_provider_auth_headers env [] p of
        (Some e, _) \<Rightarrow> Inl e
      | (None, h) \<Rightarrow> Inr h)"

section \<open>Lemmas\<close>

lemma map_of_put [simp]: "map_of (put k v m) = (map_of m)(k \<mapsto> v)"
  by (induction m) auto

lemma header_get_set: "header_get (header_set h k v) k' =
    (if canonical_key k = canonical_key k' then v else header_get h k')"
  by (auto simp: header_get_def header_set_def)

lemma lookup_key_Inr:
  "lookup_provider_api_key env var = Inr k \<longleftrightarrow> var \<noteq> [] \<and> env var = Some k \<and> trim_space k \<noteq> []"
  by (auto simp: lookup_provider_api_key_def split: option.splits)

text \<open>A provider's type asks for no key, or the environment has a key under its variable.\<close>

definition key_available :: "(string \<Rightarrow> string option) \<Rightarrow> provider_config \<Rightarrow> bool" where
  "key_available env p \<longleftrightarrow> prv_provider p \<notin> {''openai'', ''anthropic''} \<or>
     (prv_api_key_env p \<noteq> [] \<and> (\<exists>k. env (prv_api_key_env p) = Some k \<and> trim_space k \<noteq> []))"

lemma provider_auth_headers_available: "(\<exists>h. provider_auth_headers env p = Inr h) \<longleftrightarrow> key_available env p"
  by (auto simp: provider_auth_headers_def merge_provider_auth_headers_def Let_def key_available_def
      lookup_provider_api_key_def split: sum.splits option.splits if_splits)

text \<open>The credential header of each provider type.\<close>

definition credential :: "provider_config \<Rightarrow> header \<Rightarrow> string" where
  "credential p h = (if prv_provider p = ''openai'' then header_get h ''Authorization''
     else if prv_provider p = ''anthropic'' then header_get h ''x-api-key'' else [])"

definition credential_text :: "provider_config \<Rightarrow> string \<Rightarrow> string" where
  "credential_text p k = (if prv_provider p = ''openai'' then ''Bearer '' @ k else k)"

lemma key_names [simp]:
  "canonical_key ''Authorization'' = ''Authorization''"
  "canonical_key ''x-api-key'' = ''X-Api-Key''"
  "canonical_key ''anthropic-version'' = ''Anthropic-Version''"
  "canonical_key ''Content-Type'' = ''Content-Type''"
  by code_simp+

lemma merge_headers_ok:
  assumes "prv_provider p \<in> {''openai'', ''anthropic''}"
    and "merge_provider_auth_headers env h p = (None, h')"
  shows "\<exists>k. env (prv_api_key_env p) = Some k \<and> trim_space k \<noteq> [] \<and>
     credential p h' = credential_text p k"
  using assms
  by (auto simp: merge_provider_auth_headers_def Let_def lookup_key_Inr credential_def
      credential_text_def header_get_set split: sum.splits)

text \<open>Merging the credentials is total: it fails only for a missing or blank key of a known
  provider type.\<close>

lemma merge_headers_error:
  "fst (merge_provider_auth_headers env h p) \<noteq> None \<longleftrightarrow>
     prv_provider p \<in> {''openai'', ''anthropic''} \<and>
     (prv_api_key_env p = [] \<or>
      (case env (prv_api_key_env p) of None \<Rightarrow> True | Some k \<Rightarrow> trim_space k = []))"
  by (auto simp: merge_provider_auth_headers_def Let_def lookup_provider_api_key_def
      split: sum.splits option.splits if_splits)

end
