(* ===== verification/Health_Runtime.thy ===== *)
theory Health_Runtime
  imports Router
begin

text \<open>
  \<open>health/runtime.go\<close> and \<open>health/types.go\<close>: the one in-memory health record per upstream,
  its four write events, the eligibility query and the snapshot.  The injected clock
  \<open>r.now()\<close> is the argument \<open>now\<close>; every exported method holds the mutex, so a concurrent
  execution is a sequence of the operations below.

  The counters are Go's \<open>int\<close>, here integers.  A count is compared with its threshold, itself an
  \<open>int\<close>, after every increment, so below the threshold it cannot wrap; only the failures of an
  upstream that goes from half-open back to open grow further, by one per open interval, which
  reaches the end of the type in no real run.
\<close>

section \<open>Types (\<open>types.go\<close>)\<close>

datatype health_state = StateUnknown | StateHealthy | StateOpen | StateHalfOpen

datatype breaker_state = BreakerStateClosed | BreakerStateOpen | BreakerStateHalfOpen

datatype source = SourceStartup | SourceProbe | SourceRequest

record upstream_status =
  st_name :: string
  st_provider :: string
  st_state :: health_state
  st_eligible :: bool
  st_consecutive_failures :: int
  st_ejected_until :: time
  st_last_probe_at :: time
  st_last_probe_ok :: bool
  st_last_error :: message
  st_breaker_state :: breaker_state
  st_source :: source

record runtime_snapshot =
  snap_started :: bool
  snap_initial_probe_complete :: bool
  snap_has_eligible :: bool
  snap_upstreams :: "upstream_status list"

section \<open>State (\<open>runtime.go\<close>)\<close>

record runtime_upstream =
  up_name :: string
  up_provider :: string

record runtime_options =
  opt_upstreams :: "runtime_upstream list"
  opt_failure_threshold :: int
  opt_recovery_threshold :: int
  opt_open_interval :: duration

record upstream_state =
  us_name :: string
  us_provider :: string
  us_state :: health_state
  us_failures :: int
  us_ejected_until :: time
  us_open_window_until :: time
  us_last_probe_at :: time
  us_last_probe_ok :: bool
  us_last_error :: message
  us_source :: source
  us_half_open_successes :: int
  us_last_request_event_at :: time
  us_last_applied_event_at :: time

record runtime =
  rt_failure_threshold :: int
  rt_recovery_threshold :: int
  rt_open_interval :: duration
  rt_started :: bool
  rt_initial_probe_complete :: bool
  rt_order :: "string list"
  rt_upstreams :: "string \<rightharpoonup> upstream_state"

definition initial_upstream :: "runtime_upstream \<Rightarrow> upstream_state" where
  "initial_upstream up =
     \<lparr>us_name = up_name up, us_provider = up_provider up, us_state = StateUnknown,
      us_failures = 0, us_ejected_until = 0, us_open_window_until = 0, us_last_probe_at = 0,
      us_last_probe_ok = False, us_last_error = [], us_source = SourceStartup,
      us_half_open_successes = 0, us_last_request_event_at = 0, us_last_applied_event_at = 0\<rparr>"

definition add_upstream :: "runtime_upstream \<Rightarrow> runtime \<Rightarrow> runtime" where
  "add_upstream up r =
     (if up_name up = [] then r
      else if rt_upstreams r (up_name up) \<noteq> None then r
      else r\<lparr>rt_order := rt_order r @ [up_name up],
             rt_upstreams := (rt_upstreams r)(up_name up \<mapsto> initial_upstream up)\<rparr>)"

definition new_runtime :: "runtime_options \<Rightarrow> runtime" where
  "new_runtime o' =
     (let r0 = \<lparr>rt_failure_threshold =
                  (if opt_failure_threshold o' \<le> 0 then 1 else opt_failure_threshold o'),
                rt_recovery_threshold =
                  (if opt_recovery_threshold o' \<le> 0 then 1 else opt_recovery_threshold o'),
                rt_open_interval =
                  (if opt_open_interval o' \<le> 0 then 30 * second else opt_open_interval o'),
                rt_started = False, rt_initial_probe_complete = False,
                rt_order = [], rt_upstreams = Map.empty\<rparr>
      in fold add_upstream (opt_upstreams o') r0)"

section \<open>Refreshing and accepting events\<close>

text \<open>\<open>refreshLocked\<close>: a read at \<open>now\<close> turns an expired ejection into half-open.\<close>

definition refresh :: "time \<Rightarrow> upstream_state \<Rightarrow> upstream_state" where
  "refresh now s =
     (if us_state s \<noteq> StateOpen then s
      else if us_ejected_until s = 0 then s
      else if now < us_ejected_until s then s
      else s\<lparr>us_state := StateHalfOpen, us_ejected_until := 0, us_half_open_successes := 0\<rparr>)"

definition open_boundary :: "upstream_state \<Rightarrow> time" where
  "open_boundary s =
     (if us_open_window_until s = 0 then us_ejected_until s else us_open_window_until s)"

text \<open>\<open>refreshForEventLocked\<close>; \<open>None\<close> is the answer \<open>false\<close>.\<close>

definition refresh_for_event :: "time \<Rightarrow> upstream_state \<Rightarrow> upstream_state option" where
  "refresh_for_event at s = (let b = open_boundary s in
     (case us_state s of
        StateOpen \<Rightarrow>
          if b \<noteq> 0 \<and> at < b then None
          else if b \<noteq> 0
          then Some (s\<lparr>us_state := StateHalfOpen, us_ejected_until := 0, us_half_open_successes := 0\<rparr>)
          else Some s
      | StateHalfOpen \<Rightarrow> if b \<noteq> 0 \<and> at < b then None else Some s
      | _ \<Rightarrow> Some s))"

definition accept_event :: "time \<Rightarrow> upstream_state \<Rightarrow> upstream_state option" where
  "accept_event at s =
     (if us_last_applied_event_at s \<noteq> 0 \<and> \<not> at > us_last_applied_event_at s then None
      else map_option (\<lambda>s'. s'\<lparr>us_last_applied_event_at := at\<rparr>) (refresh_for_event at s))"

text \<open>Looking an upstream up, accepting the event and applying it.\<close>

definition on_event ::
  "string \<Rightarrow> time \<Rightarrow> (upstream_state \<Rightarrow> upstream_state) \<Rightarrow> runtime \<Rightarrow> runtime" where
  "on_event upstream at f r =
     (case rt_upstreams r upstream of
        None \<Rightarrow> r
      | Some s \<Rightarrow>
          (case accept_event at s of
             None \<Rightarrow> r
           | Some s' \<Rightarrow> r\<lparr>rt_upstreams := (rt_upstreams r)(upstream \<mapsto> f s')\<rparr>))"

section \<open>The write events\<close>

definition clear_failures :: "upstream_state \<Rightarrow> upstream_state" where
  "clear_failures s = s\<lparr>us_failures := 0, us_half_open_successes := 0,
     us_ejected_until := 0, us_open_window_until := 0\<rparr>"

definition open_upstream :: "source \<Rightarrow> time \<Rightarrow> duration \<Rightarrow> upstream_state \<Rightarrow> upstream_state" where
  "open_upstream src at oi s = s\<lparr>us_state := StateOpen, us_source := src,
     us_half_open_successes := 0, us_ejected_until := at + oi, us_open_window_until := at + oi\<rparr>"

definition apply_probe_success :: "int \<Rightarrow> time \<Rightarrow> upstream_state \<Rightarrow> upstream_state" where
  "apply_probe_success rth at s0 =
     (let s = s0\<lparr>us_last_probe_at := at, us_last_probe_ok := True, us_last_error := []\<rparr> in
      (case us_state s of
         StateHalfOpen \<Rightarrow>
           (let s1 = s\<lparr>us_half_open_successes := us_half_open_successes s + 1\<rparr> in
            if us_half_open_successes s1 \<ge> rth
            then s1\<lparr>us_state := StateHealthy, us_failures := 0, us_half_open_successes := 0,
                    us_ejected_until := 0, us_open_window_until := 0, us_source := SourceProbe\<rparr>
            else s1)
       | StateOpen \<Rightarrow> s
       | _ \<Rightarrow>
           (let s1 = clear_failures s in
            if us_state s1 \<noteq> StateHealthy
            then s1\<lparr>us_state := StateHealthy, us_source := SourceProbe\<rparr> else s1)))"

definition apply_probe_failure ::
  "int \<Rightarrow> duration \<Rightarrow> time \<Rightarrow> message \<Rightarrow> upstream_state \<Rightarrow> upstream_state" where
  "apply_probe_failure fth oi at err s0 =
     (let s = s0\<lparr>us_last_probe_at := at, us_last_probe_ok := False, us_last_error := err\<rparr> in
      (case us_state s of
         StateOpen \<Rightarrow> s
       | StateHalfOpen \<Rightarrow> open_upstream SourceProbe at oi (s\<lparr>us_failures := us_failures s + 1\<rparr>)
       | _ \<Rightarrow>
           (let s1 = s\<lparr>us_failures := us_failures s + 1\<rparr> in
            if us_failures s1 \<ge> fth then open_upstream SourceProbe at oi s1 else s1)))"

definition apply_request_success :: "time \<Rightarrow> upstream_state \<Rightarrow> upstream_state" where
  "apply_request_success at s0 =
     (let s = s0\<lparr>us_last_request_event_at := at\<rparr> in
      (case us_state s of
         StateOpen \<Rightarrow> s
       | StateHalfOpen \<Rightarrow> s
       | _ \<Rightarrow>
           (let s1 = (clear_failures s)\<lparr>us_last_error := []\<rparr> in
            if us_state s1 \<noteq> StateHealthy
            then s1\<lparr>us_state := StateHealthy, us_source := SourceRequest\<rparr> else s1)))"

definition apply_request_failure ::
  "int \<Rightarrow> duration \<Rightarrow> time \<Rightarrow> bool \<Rightarrow> bool \<Rightarrow> message \<Rightarrow> upstream_state \<Rightarrow> upstream_state" where
  "apply_request_failure fth oi at retryable committed err s0 =
     (let s = s0\<lparr>us_last_request_event_at := at, us_last_error := err\<rparr> in
      if \<not> retryable \<or> committed then s
      else (case us_state s of
         StateOpen \<Rightarrow> s
       | StateHalfOpen \<Rightarrow> s
       | _ \<Rightarrow>
           (let s1 = s\<lparr>us_failures := us_failures s + 1\<rparr> in
            if us_failures s1 \<ge> fth then open_upstream SourceRequest at oi s1 else s1)))"

definition record_probe_success :: "string \<Rightarrow> time \<Rightarrow> runtime \<Rightarrow> runtime" where
  "record_probe_success u at r =
     on_event u at (apply_probe_success (rt_recovery_threshold r) at) r"

definition record_probe_failure :: "string \<Rightarrow> time \<Rightarrow> message \<Rightarrow> runtime \<Rightarrow> runtime" where
  "record_probe_failure u at err r =
     on_event u at (apply_probe_failure (rt_failure_threshold r) (rt_open_interval r) at err) r"

definition record_request_success :: "string \<Rightarrow> time \<Rightarrow> runtime \<Rightarrow> runtime" where
  "record_request_success u at r = on_event u at (apply_request_success at) r"

definition record_request_failure :: "string \<Rightarrow> time \<Rightarrow> bool \<Rightarrow> bool \<Rightarrow> message \<Rightarrow> runtime \<Rightarrow> runtime" where
  "record_request_failure u at retryable committed err r =
     on_event u at (apply_request_failure (rt_failure_threshold r) (rt_open_interval r) at
       retryable committed err) r"

definition mark_started :: "runtime \<Rightarrow> runtime" where
  "mark_started r = r\<lparr>rt_started := True\<rparr>"

definition mark_initial_probe_complete :: "runtime \<Rightarrow> runtime" where
  "mark_initial_probe_complete r = r\<lparr>rt_initial_probe_complete := True\<rparr>"

section \<open>The reads\<close>

definition is_eligible :: "time \<Rightarrow> runtime \<Rightarrow> string \<Rightarrow> bool \<times> runtime" where
  "is_eligible now r u =
     (case rt_upstreams r u of
        None \<Rightarrow> (False, r)
      | Some s \<Rightarrow> (let s' = refresh now s in
          (us_state s' = StateHealthy, r\<lparr>rt_upstreams := (rt_upstreams r)(u \<mapsto> s')\<rparr>)))"

definition breaker_state_for :: "health_state \<Rightarrow> breaker_state" where
  "breaker_state_for s = (case s of StateOpen \<Rightarrow> BreakerStateOpen
     | StateHalfOpen \<Rightarrow> BreakerStateHalfOpen | _ \<Rightarrow> BreakerStateClosed)"

definition status_of :: "upstream_state \<Rightarrow> upstream_status" where
  "status_of s =
     \<lparr>st_name = us_name s, st_provider = us_provider s, st_state = us_state s,
      st_eligible = (us_state s = StateHealthy), st_consecutive_failures = us_failures s,
      st_ejected_until = (if us_state s \<noteq> StateOpen then 0 else us_ejected_until s),
      st_last_probe_at = us_last_probe_at s, st_last_probe_ok = us_last_probe_ok s,
      st_last_error = us_last_error s, st_breaker_state = breaker_state_for (us_state s),
      st_source = us_source s\<rparr>"

text \<open>The loop of \<open>Snapshot\<close>; the clock is read anew for every upstream.\<close>

fun snapshot_loop :: "(nat \<Rightarrow> time) \<Rightarrow> nat \<Rightarrow> string list \<Rightarrow> runtime \<Rightarrow> upstream_status list \<times> runtime" where
  "snapshot_loop clock i [] r = ([], r)"
| "snapshot_loop clock i (u # us) r =
     (case rt_upstreams r u of
        None \<Rightarrow> snapshot_loop clock i us r
      | Some s \<Rightarrow>
          (let s' = refresh (clock i) s;
               (rest, r') = snapshot_loop clock (Suc i) us
                 (r\<lparr>rt_upstreams := (rt_upstreams r)(u \<mapsto> s')\<rparr>)
           in (status_of s' # rest, r')))"

definition snapshot :: "(nat \<Rightarrow> time) \<Rightarrow> runtime \<Rightarrow> runtime_snapshot \<times> runtime" where
  "snapshot clock r =
     (let (ups, r') = snapshot_loop clock 0 (rt_order r) r in
      (\<lparr>snap_started = rt_started r, snap_initial_probe_complete = rt_initial_probe_complete r,
        snap_has_eligible = (\<exists>s \<in> set ups. st_eligible s), snap_upstreams = ups\<rparr>, r'))"

end
