(* ===== verification/Http_Reply.thy ===== *)
theory Http_Reply
  imports Finalize Providers Health_Runtime Errors
begin

text \<open>
  \<open>net/http.ResponseWriter\<close> as the handlers use it: headers until the status is written, then
  the pieces of the body in order.  A structure handed to a JSON encoder stays a value, so a
  body is the list of what was written.  The peer may go away after some number of writes:
  \<open>rw_budget\<close> is \<open>None\<close> when it never does.
\<close>

section \<open>Admin summaries (\<open>admin.go\<close>)\<close>

record route_summary =
  rs_pattern :: string
  rs_route_group :: string

record admin_client_key =
  ak_id :: string
  ak_active :: bool
  ak_allowed_model_patterns :: "string list"
  ak_allow_streaming :: bool
  ak_allow_tools :: bool
  ak_allow_vision :: bool
  ak_allow_structured :: bool

record admin_probe =
  ap_method :: string
  ap_path :: string
  ap_has_headers :: bool
  ap_expected_statuses :: "int list"
  ap_interval :: string
  ap_timeout :: string

record admin_provider =
  apr_name :: string
  apr_provider :: string
  apr_base_url :: string
  apr_has_api_key_env :: bool
  apr_probe :: admin_probe

record admin_config_summary =
  acs_listen_addr :: string
  acs_admin_listen_addr :: string
  acs_tls_mode :: string
  acs_client_keys :: "admin_client_key list"
  acs_models :: "route_summary list"
  acs_providers :: "admin_provider list"
  acs_route_groups :: "route_group_config list"
  acs_health :: health_config
  acs_breaker :: breaker_config
  acs_limits :: limits_config

section \<open>Writing\<close>

datatype body_part =
    Raw string
  | JsonValue any
  | ErrorBody string message
  | ChatBody final_chat
  | ResponseBody final_response
  | RoutesBody "route_summary list"
  | ConfigBody admin_config_summary
  | SnapshotBody runtime_snapshot

record response_writer =
  rw_header :: header
  rw_status :: "int option"
  rw_body :: "body_part list"
  rw_budget :: "nat option"

definition new_writer :: "nat option \<Rightarrow> response_writer" where
  "new_writer budget = \<lparr>rw_header = [], rw_status = None, rw_body = [], rw_budget = budget\<rparr>"

definition set_header :: "string \<Rightarrow> string \<Rightarrow> response_writer \<Rightarrow> response_writer" where
  "set_header k v w = w\<lparr>rw_header := header_set (rw_header w) k v\<rparr>"

text \<open>Only the first \<open>WriteHeader\<close> counts; a \<open>Write\<close> without one sends 200.\<close>

definition write_header :: "int \<Rightarrow> response_writer \<Rightarrow> response_writer" where
  "write_header code w = (case rw_status w of None \<Rightarrow> w\<lparr>rw_status := Some code\<rparr> | Some _ \<Rightarrow> w)"

definition write_part :: "body_part \<Rightarrow> response_writer \<Rightarrow> gerror option \<times> response_writer" where
  "write_part p w0 = (let w = write_header 200 w0 in
     case rw_budget w of
       None \<Rightarrow> (None, w\<lparr>rw_body := rw_body w @ [p]\<rparr>)
     | Some 0 \<Rightarrow> (Some (ExternalError ''write''), w)
     | Some (Suc n) \<Rightarrow> (None, w\<lparr>rw_body := rw_body w @ [p], rw_budget := Some n\<rparr>))"

text \<open>\<open>http.Error\<close>.\<close>

definition http_error :: "string \<Rightarrow> int \<Rightarrow> response_writer \<Rightarrow> response_writer" where
  "http_error msg code w =
     snd (write_part (Raw (msg @ [CHR 0x0A]))
       (write_header code (set_header ''X-Content-Type-Options'' ''nosniff''
         (set_header ''Content-Type'' ''text/plain; charset=utf-8'' w))))"

text \<open>\<open>WriteError\<close> of \<open>httpapi/openai/errors.go\<close>.\<close>

definition write_error :: "int \<Rightarrow> string \<Rightarrow> message \<Rightarrow> response_writer \<Rightarrow> response_writer" where
  "write_error code typ msg w =
     snd (write_part (ErrorBody typ msg)
       (write_header code (set_header ''Content-Type'' ''application/json'' w)))"

section \<open>Lemmas\<close>

lemma write_header_status [simp]: "rw_status (write_header c w) = Some (case rw_status w of None \<Rightarrow> c | Some s \<Rightarrow> s)"
  by (simp add: write_header_def split: option.splits)

lemma set_header_fields [simp]:
  "rw_status (set_header k v w) = rw_status w" "rw_body (set_header k v w) = rw_body w"
  "rw_budget (set_header k v w) = rw_budget w"
  by (simp_all add: set_header_def)

lemma write_part_status [simp]:
  "rw_status (snd (write_part p w)) = Some (case rw_status w of None \<Rightarrow> 200 | Some s \<Rightarrow> s)"
  by (auto simp: write_part_def Let_def write_header_def split: option.splits nat.splits)

lemma write_part_ok:
  "rw_budget w = None \<Longrightarrow> write_part p w =
     (None, (write_header 200 w)\<lparr>rw_body := rw_body w @ [p]\<rparr>)"
  by (auto simp: write_part_def Let_def write_header_def split: option.splits)

lemma http_error_status [simp]: "rw_status w = None \<Longrightarrow> rw_status (http_error m c w) = Some c"
  by (simp add: http_error_def)

lemma write_error_status [simp]: "rw_status w = None \<Longrightarrow> rw_status (write_error c t m w) = Some c"
  by (simp add: write_error_def)

lemma write_part_prefix: "\<exists>ps. rw_body (snd (write_part p w)) = rw_body w @ ps \<and> set ps \<subseteq> {p}"
  by (auto simp: write_part_def Let_def write_header_def split: option.splits nat.splits)

lemma write_error_body:
  "rw_budget w = None \<Longrightarrow> rw_body (write_error c t m w) = rw_body w @ [ErrorBody t m]"
  by (simp add: write_error_def write_part_def Let_def write_header_def split: option.splits)

end
