(* ===== verification/Streaming.thy ===== *)
theory Streaming
  imports Http_Reply
begin

text \<open>
  Package \<open>streaming\<close> (\<open>relay.go\<close>): writing canonical events as server-sent events.  Every
  write may fail, and the first failure ends the relay.
\<close>

section \<open>Writing one event\<close>

fun write_parts :: "body_part list \<Rightarrow> response_writer \<Rightarrow> gerror option \<times> response_writer" where
  "write_parts [] w = (None, w)"
| "write_parts (p # ps) w =
     (case write_part p w of
        (Some e, w') \<Rightarrow> (Some e, w')
      | (None, w') \<Rightarrow> write_parts ps w')"

definition frame_end :: string where
  "frame_end = [CHR 0x0A, CHR 0x0A]"

text \<open>\<open>writeDataEvent\<close>: three writes.\<close>

definition data_event :: "any \<Rightarrow> body_part list" where
  "data_event payload = [Raw ''data: '', JsonValue payload, Raw frame_end]"

definition write_data_event :: "response_writer \<Rightarrow> any \<Rightarrow> gerror option \<times> response_writer" where
  "write_data_event w payload = write_parts (data_event payload) w"

text \<open>\<open>data[key]\<close> of a Go map: a missing key yields \<open>nil\<close>.\<close>

definition index :: "object \<Rightarrow> string \<Rightarrow> any" where
  "index m k = (case mget m k of None \<Rightarrow> ANil | Some v \<Rightarrow> v)"

section \<open>Chat completions\<close>

definition normalize_chat_finish_value :: "any \<Rightarrow> string" where
  "normalize_chat_finish_value raw =
     (case as_string (Some raw) of None \<Rightarrow> ''stop''
      | Some v \<Rightarrow>
        if v = [] then ''stop''
        else if v = ''end_turn'' \<or> v = ''stop_sequence'' then ''stop''
        else if v = ''max_tokens'' then ''length''
        else if v = ''tool_use'' then ''tool_calls''
        else v)"

definition normalized_chat_finish :: "object \<Rightarrow> string option" where
  "normalized_chat_finish d =
     (if mlen d = 0 then None
      else (case mget d ''finish_reason'' of
          Some raw \<Rightarrow> Some (normalize_chat_finish_value raw)
        | None \<Rightarrow> (case mget d ''stop_reason'' of
             Some raw \<Rightarrow> Some (normalize_chat_finish_value raw)
           | None \<Rightarrow> None)))"

definition aobj :: "(string \<times> any) list \<Rightarrow> any" where
  "aobj kvs = AMap (Some kvs)"

definition choices_payload :: "any \<Rightarrow> (string \<times> any) list \<Rightarrow> any" where
  "choices_payload object choice =
     aobj [(''object'', object), (''choices'', ASlice [aobj choice])]"

text \<open>What \<open>WriteChatCompletionSSE\<close> writes for one event.\<close>

definition chat_event_parts :: "event \<Rightarrow> body_part list" where
  "chat_event_parts e =
     (let d = ev_data e in
      case ev_type e of
        EventContentDelta \<Rightarrow>
          data_event (choices_payload (index d ''object'')
            [(''delta'', aobj [(''content'', index d ''text'')])])
      | EventToolCallStart \<Rightarrow>
          data_event (choices_payload (AStr ''chat.completion.chunk'')
            [(''delta'', aobj [(''tool_calls'', ASlice [aobj [(''id'', index d ''id''),
               (''type'', AStr ''function''),
               (''function'', aobj [(''name'', index d ''name''),
                                    (''arguments'', index d ''arguments'')])]])])])
      | EventToolCallDelta \<Rightarrow>
          data_event (choices_payload (AStr ''chat.completion.chunk'')
            [(''delta'', aobj [(''tool_calls'', ASlice [aobj [(''id'', index d ''id''),
               (''type'', AStr ''function''),
               (''function'', aobj [(''name'', index d ''name''),
                                    (''arguments'', index d ''arguments'')])]])])])
      | EventMessageStop \<Rightarrow>
          (case normalized_chat_finish d of
             Some r \<Rightarrow> data_event (choices_payload (AStr ''chat.completion.chunk'')
                        [(''delta'', aobj []), (''finish_reason'', AStr r)])
           | None \<Rightarrow> [Raw (''data: [DONE]'' @ frame_end)])
      | _ \<Rightarrow> [])"

fun write_chat_completion_sse :: "response_writer \<Rightarrow> event list \<Rightarrow> gerror option \<times> response_writer" where
  "write_chat_completion_sse w [] = (None, w)"
| "write_chat_completion_sse w (e # es) =
     (case write_parts (chat_event_parts e) w of
        (Some err, w') \<Rightarrow> (Some err, w')
      | (None, w') \<Rightarrow> write_chat_completion_sse w' es)"

section \<open>Responses\<close>

definition responses_event_parts :: "event \<Rightarrow> body_part list" where
  "responses_event_parts e =
     (case ev_type e of
        EventContentDelta \<Rightarrow> data_event (AMap (ev_data e))
      | EventMessageStop \<Rightarrow> data_event (aobj [(''type'', AStr ''response.completed'')])
      | _ \<Rightarrow> [])"

fun write_responses_sse :: "response_writer \<Rightarrow> event list \<Rightarrow> gerror option \<times> response_writer" where
  "write_responses_sse w [] = (None, w)"
| "write_responses_sse w (e # es) =
     (case write_parts (responses_event_parts e) w of
        (Some err, w') \<Rightarrow> (Some err, w')
      | (None, w') \<Rightarrow> write_responses_sse w' es)"

section \<open>The relay against its specification\<close>

text \<open>The two finish-reason normalisers of the repository agree.\<close>

lemma normalize_finish_agree: "normalize_chat_finish_value = normalize_finish_reason"
  by (rule ext) (simp add: normalize_chat_finish_value_def normalize_finish_reason_def)

lemma write_parts_append:
  "write_parts (ps @ qs) w =
     (case write_parts ps w of (Some e, w') \<Rightarrow> (Some e, w') | (None, w') \<Rightarrow> write_parts qs w')"
  by (induction ps arbitrary: w) (auto split: prod.splits option.splits)

lemma write_parts_unlimited:
  "rw_budget w = None \<Longrightarrow>
     fst (write_parts ps w) = None \<and> rw_body (snd (write_parts ps w)) = rw_body w @ ps \<and>
     rw_budget (snd (write_parts ps w)) = None"
proof (induction ps arbitrary: w)
  case (Cons p ps)
  let ?w = "(write_header 200 w)\<lparr>rw_body := rw_body w @ [p]\<rparr>"
  have "rw_budget ?w = None" using Cons.prems by (simp add: write_header_def split: option.splits)
  with Cons.IH [of ?w] Cons.prems show ?case by (simp add: write_part_ok)
qed simp

text \<open>The parts a limited peer receives are the first ones.\<close>

lemma write_parts_limited:
  "rw_budget w = Some n \<Longrightarrow>
     rw_body (snd (write_parts ps w)) = rw_body w @ take n ps \<and>
     (fst (write_parts ps w) = None \<longleftrightarrow> length ps \<le> n) \<and>
     rw_budget (snd (write_parts ps w)) = Some (n - length ps)"
proof (induction ps arbitrary: w n)
  case (Cons p ps)
  show ?case
  proof (cases n)
    case 0
    with Cons.prems show ?thesis
      by (auto simp: write_part_def Let_def write_header_def split: option.splits)
  next
    case (Suc m)
    let ?w = "(write_header 200 w)\<lparr>rw_body := rw_body w @ [p], rw_budget := Some m\<rparr>"
    have p: "write_part p w = (None, ?w)"
      using Cons.prems Suc
      by (simp add: write_part_def Let_def write_header_def split: option.splits)
    have "rw_body ?w = rw_body w @ [p]" "rw_budget ?w = Some m" by simp_all
    with Cons.IH [of ?w m] p Suc show ?thesis by simp
  qed
qed simp

lemma chat_sse_parts:
  "write_chat_completion_sse w es = write_parts (concat (map chat_event_parts es)) w"
  by (induction es arbitrary: w) (auto simp: write_parts_append split: prod.splits option.splits)

lemma responses_sse_parts:
  "write_responses_sse w es = write_parts (concat (map responses_event_parts es)) w"
  by (induction es arbitrary: w) (auto simp: write_parts_append split: prod.splits option.splits)

end
