(* ===== verification/Stream_Lines.thy ===== *)
theory Stream_Lines
  imports Providers Usage
begin

text \<open>
  What the two stream decoders share: \<open>bufio.Scanner\<close> over lines with its default limit, the
  accessors into decoded objects, the blocks of a message payload, and the classification of
  an upstream's status.
\<close>

section \<open>Lines\<close>

text \<open>
  \<open>ScanLines\<close> drops one carriage return before the newline.  The buffer is 64 KiB: a line that
  does not end within it is \<open>ErrTooLong\<close>.  When reading fails, the bytes read so far are still
  delivered as a last line before the error.
\<close>

definition max_token :: int where
  "max_token = 65536"

definition newline :: char where
  "newline = CHR 0x0A"

definition drop_cr :: "string \<Rightarrow> string" where
  "drop_cr s = (if has_suffix s [CHR 0x0D] then butlast s else s)"

function scan_lines :: "string \<Rightarrow> string list \<times> bool" where
  "scan_lines s =
     (if s = [] then ([], False)
      else (let line = takeWhile (\<lambda>c. c \<noteq> newline) s; rest = dropWhile (\<lambda>c. c \<noteq> newline) s in
        if int (length line) \<ge> max_token then ([], True)
        else (case rest of
                [] \<Rightarrow> ([drop_cr line], False)
              | c # r \<Rightarrow> (case scan_lines r of (ls, long) \<Rightarrow> (drop_cr line # ls, long)))))"
  by pat_completeness auto
termination
proof (relation "measure length")
  fix s :: string and line rest c r
  assume "rest = dropWhile (\<lambda>c. c \<noteq> newline) s" "rest = c # r"
  then have "length (c # r) \<le> length s"
    using length_dropWhile_le [of "\<lambda>c. c \<noteq> newline" s] by (simp only:)
  then show "(r, s) \<in> measure length" by simp
qed simp

declare scan_lines.simps [simp del]

text \<open>The lines of a body and what \<open>scanner.Err()\<close> returns after the last one.\<close>

definition scan_body :: "stream \<Rightarrow> string list \<times> gerror option" where
  "scan_body b =
     (case scan_lines (fst b) of
        (ls, long) \<Rightarrow> (ls, if long then Some (ExternalError ''bufio.ErrTooLong'') else snd b))"

section \<open>Objects and payloads\<close>

definition map_value :: "any option \<Rightarrow> object" where
  "map_value v = (case v of Some (AMap m) \<Rightarrow> m | _ \<Rightarrow> None)"

definition obj :: "(string \<times> any) list \<Rightarrow> any" where
  "obj kvs = AMap (Some kvs)"

definition unmarshal_object :: "string \<Rightarrow> object option" where
  "unmarshal_object payload =
     (case json_unmarshal payload of None \<Rightarrow> None | Some j \<Rightarrow> dec_object None j)"

definition unmarshal_error :: gerror where
  "unmarshal_error = ExternalError ''json.Unmarshal''"

definition usage_event :: "(float64 \<Rightarrow> go_int) \<Rightarrow> object \<Rightarrow> event list" where
  "usage_event oob data =
     (if from_data oob data \<noteq> None then [\<lparr>ev_type = EventUsage, ev_data = data\<rparr>] else [])"

text \<open>The loop over the blocks of a turn: \<open>enc\<close> is the payload of a block, with the image's URL
  as an argument when it is an image; \<open>None\<close> is the nil dereference of \<open>block.Image\<close>.\<close>

fun encode_blocks ::
  "(string \<Rightarrow> any) \<Rightarrow> (string \<Rightarrow> any) \<Rightarrow> content_block list \<Rightarrow> any list option" where
  "encode_blocks tx im [] = Some []"
| "encode_blocks tx im (b # bs) =
     (case blk_type b of
        ContentTypeText \<Rightarrow> map_option ((#) (tx (blk_text b))) (encode_blocks tx im bs)
      | ContentTypeImage \<Rightarrow>
          (case blk_image b of None \<Rightarrow> None
           | Some i \<Rightarrow> map_option ((#) (im (img_url i))) (encode_blocks tx im bs))
      | _ \<Rightarrow> encode_blocks tx im bs)"

fun collect_some :: "('a \<Rightarrow> 'b option) \<Rightarrow> 'a list \<Rightarrow> 'b list option" where
  "collect_some f [] = Some []"
| "collect_some f (x # xs) =
     (case f x of None \<Rightarrow> None | Some y \<Rightarrow> map_option ((#) y) (collect_some f xs))"

section \<open>Status classification\<close>

definition retryable_status :: "int \<Rightarrow> bool" where
  "retryable_status st \<longleftrightarrow> st = 429 \<or> st = 502 \<or> st = 503 \<or> st = 504"

section \<open>Lemmas\<close>

lemma scan_lines_Nil [simp]: "scan_lines [] = ([], False)"
  by (simp add: scan_lines.simps)

lemma takeWhile_line:
  "newline \<notin> set l \<Longrightarrow> takeWhile (\<lambda>c. c \<noteq> newline) (l @ newline # s) = l"
  "newline \<notin> set l \<Longrightarrow> dropWhile (\<lambda>c. c \<noteq> newline) (l @ newline # s) = newline # s"
  by (induction l) auto

lemma scan_lines_line:
  assumes "newline \<notin> set l" "int (length l) < max_token"
  shows "scan_lines (l @ newline # s) = (drop_cr l # fst (scan_lines s), snd (scan_lines s))"
  using assms takeWhile_line [OF assms(1), of s]
  by (simp add: scan_lines.simps [of "l @ newline # s"] Let_def case_prod_beta)

lemma scan_lines_long:
  assumes "newline \<notin> set l" "max_token \<le> int (length l)"
  shows "scan_lines (l @ s) = ([], True)"
proof -
  have "length l \<le> length (takeWhile (\<lambda>c. c \<noteq> newline) (l @ s))"
    by (subst takeWhile_append2) (use assms(1) in \<open>auto\<close>)
  moreover have "l \<noteq> []" using assms(2) by (auto simp: max_token_def)
  ultimately show ?thesis
    using assms(2) by (simp add: scan_lines.simps [of "l @ s"] Let_def)
qed

text \<open>A text made of short lines is read back line by line.\<close>

lemma scan_lines_join:
  assumes "\<forall>l \<in> set ls. newline \<notin> set l \<and> int (length l) < max_token"
  shows "scan_lines (concat (map (\<lambda>l. l @ [newline]) ls)) = (map drop_cr ls, False)"
  using assms by (induction ls) (simp_all add: scan_lines_line)

lemma encode_blocks_ok: "list_all block_ok bs \<Longrightarrow> encode_blocks t i bs \<noteq> None"
  by (induction bs) (auto simp: block_ok_def split: content_type.splits option.splits)

lemma encode_blocks_panic:
  "encode_blocks t i bs = None \<longleftrightarrow> \<not> list_all block_ok bs"
  by (induction bs) (auto simp: block_ok_def split: content_type.splits option.splits)

lemma collect_some_None: "collect_some f xs = None \<longleftrightarrow> (\<exists>x \<in> set xs. f x = None)"
  by (induction xs) (auto split: option.splits)

lemma usage_event_types: "e \<in> set (usage_event oob d) \<Longrightarrow> ev_type e = EventUsage"
  by (auto simp: usage_event_def split: if_splits)

end
