(* ===== verification/Openai_Provider.thy ===== *)
theory Openai_Provider
  imports Stream_Lines
begin

text \<open>
  Package \<open>providers/openai\<close>: encoding a canonical request (\<open>request.go\<close>), decoding the event
  stream (\<open>stream.go\<close>) and the adapter around one HTTP call (\<open>adapter.go\<close>).
\<close>

section \<open>Requests (\<open>request.go\<close>)\<close>

definition text_part :: "string \<Rightarrow> any" where
  "text_part t = obj [(''type'', AStr ''text''), (''text'', AStr t)]"

definition image_part :: "string \<Rightarrow> any" where
  "image_part u = obj [(''type'', AStr ''image_url''), (''image_url'', obj [(''url'', AStr u)])]"

definition input_text_part :: "string \<Rightarrow> any" where
  "input_text_part t = obj [(''type'', AStr ''input_text''), (''text'', AStr t)]"

definition input_image_part :: "string \<Rightarrow> any" where
  "input_image_part u = obj [(''type'', AStr ''input_image''), (''image_url'', AStr u)]"

definition encode_chat_content :: "content_block list \<Rightarrow> any option" where
  "encode_chat_content bs =
     (case bs of
        [b] \<Rightarrow> if blk_type b = ContentTypeText then Some (AStr (blk_text b))
              else map_option ASlice (encode_blocks text_part image_part bs)
      | _ \<Rightarrow> map_option ASlice (encode_blocks text_part image_part bs))"

definition encode_chat_turn :: "turn \<Rightarrow> any option" where
  "encode_chat_turn t =
     map_option (\<lambda>c. obj [(''role'', AStr (role_string (turn_role t))), (''content'', c)])
       (encode_chat_content (turn_content t))"

definition encode_chat_messages :: "turn list \<Rightarrow> any list option" where
  "encode_chat_messages ts = collect_some encode_chat_turn ts"

definition encode_responses_turn :: "turn \<Rightarrow> any option" where
  "encode_responses_turn t =
     map_option (\<lambda>c. obj [(''role'', AStr (role_string (turn_role t))), (''content'', ASlice c)])
       (encode_blocks input_text_part input_image_part (turn_content t))"

definition encode_responses_input :: "turn list \<Rightarrow> any list option" where
  "encode_responses_input ts = collect_some encode_responses_turn ts"

definition encode_chat_tools :: "tool list \<Rightarrow> any list" where
  "encode_chat_tools ts = map (\<lambda>t. obj [(''type'', AStr ''function''),
     (''function'', obj [(''name'', AStr (tool_name t)), (''parameters'', AMap (tool_schema t))])]) ts"

definition float_entry :: "string \<Rightarrow> float64 option \<Rightarrow> (string \<times> any) list" where
  "float_entry k x = (case x of None \<Rightarrow> [] | Some v \<Rightarrow> [(k, AFloat64 v)])"

definition int_entry :: "string \<Rightarrow> go_int option \<Rightarrow> (string \<times> any) list" where
  "int_entry k x = (case x of None \<Rightarrow> [] | Some v \<Rightarrow> [(k, AInt v)])"

definition encode_request :: "request \<Rightarrow> any option" where
  "encode_request req =
     (let g = req_generation req in
      case req_endpoint req of
        EndpointKindResponses \<Rightarrow>
          (case encode_responses_input (req_conversation req) of None \<Rightarrow> None
           | Some input \<Rightarrow> Some (obj
              ([(''model'', AStr (req_model req)), (''stream'', ABool True),
                (''input'', ASlice input)] @
               float_entry ''temperature'' (gen_temperature g) @
               float_entry ''top_p'' (gen_top_p g) @
               int_entry ''max_output_tokens'' (gen_max_output_tokens g) @
               (if mlen (req_metadata req) > 0
                then [(''metadata'', AMap (map_option (map (\<lambda>(k, v). (k, AStr v))) (req_metadata req)))]
                else []))))
      | EndpointKindChatCompletions \<Rightarrow>
          (case encode_chat_messages (req_conversation req) of None \<Rightarrow> None
           | Some messages \<Rightarrow> Some (obj
              ([(''model'', AStr (req_model req)), (''stream'', ABool True),
                (''messages'', ASlice messages),
                (''stream_options'', obj [(''include_usage'', ABool True)])] @
               float_entry ''temperature'' (gen_temperature g) @
               float_entry ''top_p'' (gen_top_p g) @
               int_entry ''max_completion_tokens'' (gen_max_output_tokens g) @
               (if gen_stop g \<noteq> [] then [(''stop'', ASlice (map AStr (gen_stop g)))] else []) @
               (if req_tools req \<noteq> []
                then [(''tools'', ASlice (encode_chat_tools (req_tools req)))] else []) @
               (if choice_name (req_tool_choice req) \<noteq> []
                then [(''tool_choice'', obj [(''type'', AStr ''function''),
                        (''function'', obj [(''name'', AStr (choice_name (req_tool_choice req)))])])]
                else [])))))"

section \<open>Streams (\<open>stream.go\<close>)\<close>

fun nested_map :: "object \<Rightarrow> string list \<Rightarrow> object" where
  "nested_map current [] = current"
| "nested_map current (k # ks) =
     (case mget current k of None \<Rightarrow> None
      | Some v \<Rightarrow>
          (let next = map_value (Some v) in
           if mlen next = 0 \<and> ks \<noteq> [] then None else nested_map next ks))"

definition text_delta_event :: "string \<Rightarrow> event" where
  "text_delta_event d = \<lparr>ev_type = EventContentDelta,
     ev_data = Some [(''type'', AStr ''response.output_text.delta''), (''delta'', AStr d)]\<rparr>"

definition chunk_event :: "string \<Rightarrow> string \<Rightarrow> event" where
  "chunk_event object t = \<lparr>ev_type = EventContentDelta,
     ev_data = Some [(''object'', AStr object), (''text'', AStr t)]\<rparr>"

definition finish_event :: "string \<Rightarrow> string \<Rightarrow> event" where
  "finish_event k r = \<lparr>ev_type = EventMessageStop, ev_data = Some [(k, AStr r)]\<rparr>"

definition decode_responses_event :: "(float64 \<Rightarrow> go_int) \<Rightarrow> string \<Rightarrow> gerror + event list" where
  "decode_responses_event oob payload =
     (case unmarshal_object payload of None \<Rightarrow> Inl unmarshal_error
      | Some ev \<Rightarrow>
        (let typ = string_or_empty (mget ev ''type''); use = map_value (mget ev ''usage'') in
         Inr (if typ = ''response.output_text.delta''
              then [text_delta_event (string_or_empty (mget ev ''delta''))]
              else if typ = ''response.completed''
              then usage_event oob (nested_map ev [''response'', ''usage'']) @
                   usage_event oob use @ [stop_event]
              else usage_event oob use)))"

definition first_choice :: "object \<Rightarrow> object" where
  "first_choice chunk =
     (case mget chunk ''choices'' of Some (ASlice (c # cs)) \<Rightarrow> map_value (Some c) | _ \<Rightarrow> None)"

definition decode_chat_event :: "(float64 \<Rightarrow> go_int) \<Rightarrow> string \<Rightarrow> gerror + event list" where
  "decode_chat_event oob payload =
     (case unmarshal_object payload of None \<Rightarrow> Inl unmarshal_error
      | Some chunk \<Rightarrow>
        (let object = string_or_empty (mget chunk ''object'');
             choice = first_choice chunk;
             delta = map_value (mget choice ''delta'');
             text = string_or_empty (mget delta ''content'');
             finish = string_or_empty (mget choice ''finish_reason'')
         in Inr (usage_event oob (map_value (mget chunk ''usage'')) @
                 (if text \<noteq> []
                  then [chunk_event (if object = [] then ''chat.completion.chunk'' else object) text]
                  else []) @
                 (if finish \<noteq> [] then [finish_event ''finish_reason'' finish] else []))))"

text \<open>One scanned line: the events it appends.\<close>

definition decode_line ::
  "(float64 \<Rightarrow> go_int) \<Rightarrow> endpoint_kind \<Rightarrow> string \<Rightarrow> gerror + event list" where
  "decode_line oob kind raw =
     (let line = trim_space raw in
      if \<not> has_prefix line ''data: '' then Inr []
      else (let payload = trim_prefix line ''data: '' in
        if payload = ''[DONE]'' then Inr [stop_event]
        else if kind = EndpointKindResponses then decode_responses_event oob payload
        else decode_chat_event oob payload))"

fun decode_lines ::
  "(float64 \<Rightarrow> go_int) \<Rightarrow> endpoint_kind \<Rightarrow> string list \<Rightarrow> gerror option \<Rightarrow> event list \<Rightarrow>
   gerror + event list" where
  "decode_lines oob kind [] err events =
     (case err of None \<Rightarrow> Inr events
      | Some e \<Rightarrow> Inl (OpenAIStreamError (Some e) (events \<noteq> [])))"
| "decode_lines oob kind (l # ls) err events =
     (case decode_line oob kind l of
        Inl e \<Rightarrow> Inl (OpenAIStreamError (Some e) (events \<noteq> []))
      | Inr es \<Rightarrow> decode_lines oob kind ls err (events @ es))"

definition decode_stream ::
  "(float64 \<Rightarrow> go_int) \<Rightarrow> endpoint_kind \<Rightarrow> stream \<Rightarrow> gerror + event list" where
  "decode_stream oob kind body =
     (case scan_body body of (ls, err) \<Rightarrow> decode_lines oob kind ls err [])"

section \<open>The adapter (\<open>adapter.go\<close>)\<close>

definition endpoint_url :: "string \<Rightarrow> endpoint_kind \<Rightarrow> string" where
  "endpoint_url base kind =
     (case kind of
        EndpointKindResponses \<Rightarrow> trim_right_byte base CHR ''/'' @ ''/v1/responses''
      | EndpointKindChatCompletions \<Rightarrow> trim_right_byte base CHR ''/'' @ ''/v1/chat/completions'')"

definition post_request :: "string \<Rightarrow> header \<Rightarrow> any \<Rightarrow> http_request" where
  "post_request url auth body =
     \<lparr>hr_method = ''POST'', hr_url = url,
      hr_header = header_add_all (header_set [] ''Content-Type'' ''application/json'') auth,
      hr_body = Some body\<rparr>"

definition openai_response ::
  "(float64 \<Rightarrow> go_int) \<Rightarrow> endpoint_kind \<Rightarrow> string + http_response \<Rightarrow> gerror + result" where
  "openai_response oob kind r =
     (case r of
        Inl msg \<Rightarrow> Inl (OpenAIClassified 0 True msg)
      | Inr resp \<Rightarrow>
        if hs_status resp \<ge> 400
        then Inl (OpenAIClassified (hs_status resp) (retryable_status (hs_status resp))
               (fst (hs_body resp)))
        else (case decode_stream oob kind (hs_body resp) of
            Inl e \<Rightarrow>
              (case as_openai_stream e of
                 Some (err, committed) \<Rightarrow> Inl (ExecutionError
                   (Some (Wrapped [Lit ''openai stream decode failed: ''] err [])) True committed)
               | None \<Rightarrow> Inl (ExecutionError (Some e) True False))
          | Inr events \<Rightarrow> Inr \<lparr>res_events = events\<rparr>))"

definition execute ::
  "(float64 \<Rightarrow> go_int) \<Rightarrow> (string \<Rightarrow> string option) \<Rightarrow> 'w http_client \<Rightarrow> 'w adapter" where
  "execute oob env client upstream req w =
     (case encode_request req of None \<Rightarrow> None
      | Some body \<Rightarrow> Some
        (let url = endpoint_url (prv_base_url upstream) (req_endpoint req) in
         if \<not> new_request_ok ''POST'' url then (Inl (ExternalError ''http.NewRequest''), w)
         else (case provider_auth_headers env upstream of
             Inl e \<Rightarrow> (Inl (ExecutionError (Some e) False False), w)
           | Inr auth \<Rightarrow>
               (case client (post_request url auth body) w of
                  (r, w') \<Rightarrow> (openai_response oob (req_endpoint req) r, w')))))"

section \<open>No panic on well-formed content\<close>

lemma encode_chat_content_cases:
  "encode_chat_content bs =
     (if length bs = 1 \<and> blk_type (hd bs) = ContentTypeText then Some (AStr (blk_text (hd bs)))
      else map_option ASlice (encode_blocks text_part image_part bs))"
  by (cases bs; cases "tl bs") (simp_all add: encode_chat_content_def)

lemma encode_chat_content_panic:
  "encode_chat_content bs = None \<longleftrightarrow> \<not> list_all block_ok bs"
proof (cases "length bs = 1 \<and> blk_type (hd bs) = ContentTypeText")
  case True
  then obtain b where "bs = [b]" by (auto simp: length_Suc_conv)
  with True show ?thesis by (simp add: encode_chat_content_cases block_ok_def)
next
  case False
  show ?thesis
    unfolding encode_chat_content_cases if_not_P [OF False] by (simp add: encode_blocks_panic)
qed

lemma encode_turn_panic:
  "encode_chat_turn t = None \<longleftrightarrow> \<not> list_all block_ok (turn_content t)"
  "encode_responses_turn t = None \<longleftrightarrow> \<not> list_all block_ok (turn_content t)"
  by (simp_all add: encode_chat_turn_def encode_responses_turn_def
      encode_chat_content_panic encode_blocks_panic)

lemma encode_conversation_panic:
  "encode_chat_messages ts = None \<longleftrightarrow> \<not> conversation_ok ts"
  "encode_responses_input ts = None \<longleftrightarrow> \<not> conversation_ok ts"
  by (auto simp: encode_chat_messages_def encode_responses_input_def collect_some_None
      conversation_ok_def encode_turn_panic Ball_set [symmetric])

lemma encode_request_panic:
  "encode_request req = None \<longleftrightarrow> \<not> conversation_ok (req_conversation req)"
proof (cases "req_endpoint req")
  case EndpointKindChatCompletions
  then show ?thesis
    unfolding encode_request_def Let_def endpoint_kind.case encode_conversation_panic(1) [symmetric]
    by (simp only: endpoint_kind.case option.case_eq_if) (simp split: if_splits)
next
  case EndpointKindResponses
  then show ?thesis
    unfolding encode_request_def Let_def encode_conversation_panic(2) [symmetric]
    by (simp only: endpoint_kind.case option.case_eq_if) (simp split: if_splits)
qed

lemma execute_panic:
  "execute oob env client upstream req w = None \<longleftrightarrow> \<not> conversation_ok (req_conversation req)"
  by (simp add: execute_def encode_request_panic [symmetric] split: option.splits)

section \<open>The stream as a concatenation of lines\<close>

text \<open>The reference: all lines decode, and nothing ends the stream early.\<close>

lemma decode_lines_Inr:
  "decode_lines oob kind ls err acc = Inr es \<longleftrightarrow>
     err = None \<and> (\<forall>l \<in> set ls. \<exists>xs. decode_line oob kind l = Inr xs) \<and>
     es = acc @ concat (map (\<lambda>l. projr (decode_line oob kind l)) ls)"
proof (induction ls arbitrary: acc)
  case Nil
  then show ?case by (auto split: option.splits)
next
  case (Cons l ls)
  then show ?case by (cases "decode_line oob kind l") auto
qed

text \<open>Output is committed exactly when some line before the failing one gave an event.\<close>

lemma decode_lines_Inl:
  "decode_lines oob kind ls err acc = Inl e \<Longrightarrow>
     \<exists>e0 pre. e = OpenAIStreamError (Some e0)
        (acc \<noteq> [] \<or> concat (map (\<lambda>l. projr (decode_line oob kind l)) pre) \<noteq> []) \<and>
      (\<forall>l \<in> set pre. \<exists>xs. decode_line oob kind l = Inr xs) \<and>
      ((pre = ls \<and> err = Some e0) \<or>
       (\<exists>l post. ls = pre @ l # post \<and> decode_line oob kind l = Inl e0))"
proof (induction ls arbitrary: acc)
  case Nil
  then show ?case by (auto split: option.splits intro!: exI [of _ "[]"])
next
  case (Cons l ls)
  show ?case
  proof (cases "decode_line oob kind l")
    case (Inl e0)
    with Cons.prems show ?thesis
      by (intro exI [of _ e0] exI [of _ "[]"]) auto
  next
    case (Inr xs)
    with Cons.IH [of "acc @ xs"] Cons.prems obtain e0 pre where h:
      "e = OpenAIStreamError (Some e0)
        (acc @ xs \<noteq> [] \<or> concat (map (\<lambda>l. projr (decode_line oob kind l)) pre) \<noteq> [])"
      "\<forall>l \<in> set pre. \<exists>xs. decode_line oob kind l = Inr xs"
      "(pre = ls \<and> err = Some e0) \<or>
       (\<exists>l post. ls = pre @ l # post \<and> decode_line oob kind l = Inl e0)" by auto
    with Inr show ?thesis
      by (intro exI [of _ e0] exI [of _ "l # pre"]) auto
  qed
qed

lemma execute_InlD:
  assumes "decode_stream oob kind body = Inl e"
  shows "\<exists>e0 c. e = OpenAIStreamError (Some e0) c"
  using assms by (auto simp: decode_stream_def split: prod.splits dest!: decode_lines_Inl)

section \<open>What a failed call says\<close>

text \<open>The two flags of an adapter's error, from what the upstream answered.\<close>

lemma openai_response_Inl:
  assumes "openai_response oob kind answer = Inl e"
  shows "case answer of
      Inl msg \<Rightarrow> as_execution_error e = None \<and> as_openai_classified e = Some True
    | Inr resp \<Rightarrow>
        if 400 \<le> hs_status resp
        then as_execution_error e = None \<and> as_openai_classified e = Some (retryable_status (hs_status resp))
        else \<exists>e0 c. decode_stream oob kind (hs_body resp) = Inl (OpenAIStreamError e0 c) \<and>
          (\<exists>i. as_execution_error e = Some (i, True, c))"
proof (cases answer)
  case (Inl msg)
  with assms show ?thesis by (auto simp: openai_response_def)
next
  case (Inr resp)
  show ?thesis
  proof (cases "400 \<le> hs_status resp")
    case True
    with Inr assms show ?thesis by (auto simp: openai_response_def)
  next
    case False
    with Inr assms obtain e1 where d: "decode_stream oob kind (hs_body resp) = Inl e1"
      by (cases "decode_stream oob kind (hs_body resp)") (simp_all add: openai_response_def)
    with execute_InlD obtain e0 c where "e1 = OpenAIStreamError (Some e0) c" by blast
    with d Inr False assms show ?thesis by (auto simp: openai_response_def)
  qed
qed

end
