(* ===== verification/Anthropic_Provider.thy ===== *)
theory Anthropic_Provider
  imports Openai_Provider
begin

text \<open>
  Package \<open>providers/anthropic\<close>: encoding a canonical request (\<open>request.go\<close>), decoding the
  event stream (\<open>stream.go\<close>) and the adapter around one HTTP call (\<open>adapter.go\<close>).  Names that
  \<open>Openai_Provider\<close> also declares carry the prefix \<open>anthropic_\<close>.
\<close>

section \<open>Requests (\<open>request.go\<close>)\<close>

fun first_text :: "content_block list \<Rightarrow> string option" where
  "first_text [] = None"
| "first_text (b # bs) = (if blk_type b = ContentTypeText then Some (blk_text b) else first_text bs)"

definition source_part :: "string \<Rightarrow> any" where
  "source_part u = obj [(''type'', AStr ''image''),
     (''source'', obj [(''type'', AStr ''url''), (''url'', AStr u)])]"

text \<open>The loop over the conversation: the system prompt so far and the messages.\<close>

fun encode_turns :: "turn list \<Rightarrow> string \<Rightarrow> (string \<times> any list) option" where
  "encode_turns [] sys = Some (sys, [])"
| "encode_turns (t # ts) sys =
     (if turn_role t = RoleSystem then
        encode_turns ts (case first_text (turn_content t) of None \<Rightarrow> sys | Some s \<Rightarrow> s)
      else (case encode_blocks text_part source_part (turn_content t) of None \<Rightarrow> None
        | Some c \<Rightarrow>
            map_option (\<lambda>(s, ms). (s, obj [(''role'', AStr (role_string (turn_role t))),
              (''content'', ASlice c)] # ms)) (encode_turns ts sys)))"

definition encode_tools :: "tool list \<Rightarrow> any list" where
  "encode_tools ts = map (\<lambda>t. obj [(''name'', AStr (tool_name t)),
     (''input_schema'', AMap (tool_schema t))]) ts"

definition anthropic_encode_request :: "request \<Rightarrow> any option" where
  "anthropic_encode_request req =
     (case encode_turns (req_conversation req) [] of None \<Rightarrow> None
      | Some (system, messages) \<Rightarrow> Some (obj
          ([(''model'', AStr (req_model req)), (''system'', AStr system), (''stream'', ABool True),
            (''messages'', ASlice messages)] @
           (if req_tools req \<noteq> [] then [(''tools'', ASlice (encode_tools (req_tools req)))] else []) @
           (if choice_name (req_tool_choice req) \<noteq> []
            then [(''tool_choice'', obj [(''type'', AStr ''tool''),
                    (''name'', AStr (choice_name (req_tool_choice req)))])]
            else []))))"

section \<open>Streams (\<open>stream.go\<close>)\<close>

text \<open>The anonymous structs of the four payloads.\<close>

definition start_field :: "object \<Rightarrow> string \<Rightarrow> json \<Rightarrow> object option" where
  "start_field u k j =
     (if equal_fold k ''message'' then
        dec_struct (\<lambda>u k j. if equal_fold k ''usage'' then dec_object u j else Some u) u j
      else Some u)"

record content_start =
  cs_type :: string
  cs_id :: string
  cs_name :: string

definition content_start_field :: "content_start \<Rightarrow> string \<Rightarrow> json \<Rightarrow> content_start option" where
  "content_start_field c k j =
     (if equal_fold k ''type'' then map_option (\<lambda>s. c\<lparr>cs_type := s\<rparr>) (dec_string (cs_type c) j)
      else if equal_fold k ''id'' then map_option (\<lambda>s. c\<lparr>cs_id := s\<rparr>) (dec_string (cs_id c) j)
      else if equal_fold k ''name'' then map_option (\<lambda>s. c\<lparr>cs_name := s\<rparr>) (dec_string (cs_name c) j)
      else Some c)"

definition block_start_field :: "content_start \<Rightarrow> string \<Rightarrow> json \<Rightarrow> content_start option" where
  "block_start_field c k j =
     (if equal_fold k ''content_block'' then dec_struct content_start_field c j else Some c)"

record content_delta =
  cd_text :: string
  cd_partial_json :: string

definition content_delta_field :: "content_delta \<Rightarrow> string \<Rightarrow> json \<Rightarrow> content_delta option" where
  "content_delta_field c k j =
     (if equal_fold k ''text'' then map_option (\<lambda>s. c\<lparr>cd_text := s\<rparr>) (dec_string (cd_text c) j)
      else if equal_fold k ''partial_json''
        then map_option (\<lambda>s. c\<lparr>cd_partial_json := s\<rparr>) (dec_string (cd_partial_json c) j)
      else Some c)"

definition block_delta_field :: "content_delta \<Rightarrow> string \<Rightarrow> json \<Rightarrow> content_delta option" where
  "block_delta_field c k j =
     (if equal_fold k ''delta'' then dec_struct content_delta_field c j else Some c)"

record message_delta =
  md_stop_reason :: string
  md_usage :: object

definition message_delta_field :: "message_delta \<Rightarrow> string \<Rightarrow> json \<Rightarrow> message_delta option" where
  "message_delta_field m k j =
     (if equal_fold k ''delta'' then
        map_option (\<lambda>s. m\<lparr>md_stop_reason := s\<rparr>)
          (dec_struct (\<lambda>s k j. if equal_fold k ''stop_reason'' then dec_string s j else Some s)
             (md_stop_reason m) j)
      else if equal_fold k ''usage'' then map_option (\<lambda>u. m\<lparr>md_usage := u\<rparr>) (dec_object (md_usage m) j)
      else Some m)"

definition unmarshal_struct :: "('a \<Rightarrow> string \<Rightarrow> json \<Rightarrow> 'a option) \<Rightarrow> 'a \<Rightarrow> string \<Rightarrow> 'a option" where
  "unmarshal_struct step zero payload =
     (case json_unmarshal payload of None \<Rightarrow> None | Some j \<Rightarrow> dec_struct step zero j)"

text \<open>The local variables of \<open>DecodeStream\<close>.\<close>

record decoder =
  dc_event :: string
  dc_tool_name :: string
  dc_tool_id :: string
  dc_stop_reason :: string
  dc_events :: "event list"

definition new_decoder :: decoder where
  "new_decoder = \<lparr>dc_event = [], dc_tool_name = [], dc_tool_id = [], dc_stop_reason = [],
     dc_events = []\<rparr>"

definition emit :: "event list \<Rightarrow> decoder \<Rightarrow> decoder" where
  "emit es d = d\<lparr>dc_events := dc_events d @ es\<rparr>"

definition on_message_start :: "(float64 \<Rightarrow> go_int) \<Rightarrow> string \<Rightarrow> decoder \<Rightarrow> gerror + decoder" where
  "on_message_start oob payload d =
     (case unmarshal_struct start_field None payload of None \<Rightarrow> Inl unmarshal_error
      | Some u \<Rightarrow> Inr (emit (usage_event oob u) d))"

definition on_content_block_start :: "string \<Rightarrow> decoder \<Rightarrow> gerror + decoder" where
  "on_content_block_start payload d =
     (case unmarshal_struct block_start_field \<lparr>cs_type = [], cs_id = [], cs_name = []\<rparr> payload of
        None \<Rightarrow> Inl unmarshal_error
      | Some c \<Rightarrow>
        if cs_type c = ''tool_use'' then
          Inr (emit [\<lparr>ev_type = EventToolCallStart,
                     ev_data = Some [(''id'', AStr (cs_id c)), (''name'', AStr (cs_name c))]\<rparr>]
                (d\<lparr>dc_tool_name := cs_name c, dc_tool_id := cs_id c\<rparr>))
        else Inr d)"

definition on_content_block_delta :: "endpoint_kind \<Rightarrow> string \<Rightarrow> decoder \<Rightarrow> gerror + decoder" where
  "on_content_block_delta kind payload d =
     (case unmarshal_struct block_delta_field \<lparr>cd_text = [], cd_partial_json = []\<rparr> payload of
        None \<Rightarrow> Inl unmarshal_error
      | Some c \<Rightarrow>
        if cd_partial_json c \<noteq> [] then
          Inr (emit [\<lparr>ev_type = EventToolCallDelta,
                     ev_data = Some [(''id'', AStr (dc_tool_id d)), (''name'', AStr (dc_tool_name d)),
                                     (''arguments'', AStr (cd_partial_json c))]\<rparr>] d)
        else Inr (emit [if kind = EndpointKindResponses then text_delta_event (cd_text c)
                        else chunk_event ''chat.completion.chunk'' (cd_text c)] d))"

definition on_message_delta :: "(float64 \<Rightarrow> go_int) \<Rightarrow> string \<Rightarrow> decoder \<Rightarrow> gerror + decoder" where
  "on_message_delta oob payload d =
     (case unmarshal_struct message_delta_field \<lparr>md_stop_reason = [], md_usage = None\<rparr> payload of
        None \<Rightarrow> Inl unmarshal_error
      | Some m \<Rightarrow>
        (let d1 = (if md_stop_reason m \<noteq> [] then d\<lparr>dc_stop_reason := md_stop_reason m\<rparr> else d) in
         Inr (emit (usage_event oob (md_usage m)) d1)))"

definition on_message_stop :: "decoder \<Rightarrow> decoder" where
  "on_message_stop d =
     (let d1 = (if dc_stop_reason d \<noteq> []
                then (emit [finish_event ''stop_reason'' (dc_stop_reason d)] d)\<lparr>dc_stop_reason := []\<rparr>
                else d)
      in emit [stop_event] d1)"

definition on_data :: "(float64 \<Rightarrow> go_int) \<Rightarrow> endpoint_kind \<Rightarrow> string \<Rightarrow> decoder \<Rightarrow> gerror + decoder" where
  "on_data oob kind payload d =
     (if dc_event d = ''message_start'' then on_message_start oob payload d
      else if dc_event d = ''content_block_start'' then on_content_block_start payload d
      else if dc_event d = ''content_block_delta'' then on_content_block_delta kind payload d
      else if dc_event d = ''message_delta'' then on_message_delta oob payload d
      else if dc_event d = ''message_stop'' then Inr (on_message_stop d)
      else Inr d)"

definition anthropic_decode_line ::
  "(float64 \<Rightarrow> go_int) \<Rightarrow> endpoint_kind \<Rightarrow> string \<Rightarrow> decoder \<Rightarrow> gerror + decoder" where
  "anthropic_decode_line oob kind raw d =
     (let line = trim_space raw in
      if has_prefix line ''event: '' then Inr (d\<lparr>dc_event := trim_prefix line ''event: ''\<rparr>)
      else if has_prefix line ''data: '' then on_data oob kind (trim_prefix line ''data: '') d
      else Inr d)"

fun anthropic_decode_lines ::
  "(float64 \<Rightarrow> go_int) \<Rightarrow> endpoint_kind \<Rightarrow> string list \<Rightarrow> gerror option \<Rightarrow> decoder \<Rightarrow>
   gerror + event list" where
  "anthropic_decode_lines oob kind [] err d =
     (case err of None \<Rightarrow> Inr (dc_events d)
      | Some e \<Rightarrow> Inl (AnthropicStreamError (Some e) (dc_events d \<noteq> [])))"
| "anthropic_decode_lines oob kind (l # ls) err d =
     (case anthropic_decode_line oob kind l d of
        Inl e \<Rightarrow> Inl (AnthropicStreamError (Some e) (dc_events d \<noteq> []))
      | Inr d' \<Rightarrow> anthropic_decode_lines oob kind ls err d')"

definition anthropic_decode_stream ::
  "(float64 \<Rightarrow> go_int) \<Rightarrow> endpoint_kind \<Rightarrow> stream \<Rightarrow> gerror + event list" where
  "anthropic_decode_stream oob kind body =
     (case scan_body body of (ls, err) \<Rightarrow> anthropic_decode_lines oob kind ls err new_decoder)"

section \<open>The adapter (\<open>adapter.go\<close>)\<close>

definition anthropic_endpoint_url :: "string \<Rightarrow> string" where
  "anthropic_endpoint_url base = trim_right_byte base CHR ''/'' @ ''/v1/messages''"

definition anthropic_response ::
  "(float64 \<Rightarrow> go_int) \<Rightarrow> endpoint_kind \<Rightarrow> string + http_response \<Rightarrow> gerror + result" where
  "anthropic_response oob kind r =
     (case r of
        Inl msg \<Rightarrow> Inl (AnthropicClassified 0 True msg)
      | Inr resp \<Rightarrow>
        if hs_status resp \<ge> 400
        then Inl (AnthropicClassified (hs_status resp) (retryable_status (hs_status resp))
               (fst (hs_body resp)))
        else (case anthropic_decode_stream oob kind (hs_body resp) of
            Inl e \<Rightarrow>
              (case as_anthropic_stream e of
                 Some (err, committed) \<Rightarrow> Inl (ExecutionError
                   (Some (Wrapped [Lit ''anthropic stream decode failed: ''] err [])) True committed)
               | None \<Rightarrow> Inl (ExecutionError (Some e) True False))
          | Inr events \<Rightarrow> Inr \<lparr>res_events = events\<rparr>))"

definition anthropic_execute ::
  "(float64 \<Rightarrow> go_int) \<Rightarrow> (string \<Rightarrow> string option) \<Rightarrow> 'w http_client \<Rightarrow> 'w adapter" where
  "anthropic_execute oob env client upstream req w =
     (case anthropic_encode_request req of None \<Rightarrow> None
      | Some body \<Rightarrow> Some
        (let url = anthropic_endpoint_url (prv_base_url upstream) in
         if \<not> new_request_ok ''POST'' url then (Inl (ExternalError ''http.NewRequest''), w)
         else (case provider_auth_headers env upstream of
             Inl e \<Rightarrow> (Inl (ExecutionError (Some e) False False), w)
           | Inr auth \<Rightarrow>
               (case client (post_request url auth body) w of
                  (r, w') \<Rightarrow> (anthropic_response oob (req_endpoint req) r, w')))))"

section \<open>No panic on well-formed content\<close>

lemma encode_turns_panic:
  "encode_turns ts sys = None \<longleftrightarrow>
     \<not> conversation_ok (filter (\<lambda>t. turn_role t \<noteq> RoleSystem) ts)"
proof (induction ts arbitrary: sys)
  case (Cons t ts)
  show ?case
  proof (cases "turn_role t = RoleSystem")
    case False
    show ?thesis
      using False Cons encode_blocks_panic [of text_part source_part "turn_content t"]
      by (cases "encode_blocks text_part source_part (turn_content t)")
         (simp_all add: conversation_ok_def)
  qed (use Cons in simp)
qed (simp add: conversation_ok_def)

lemma conversation_ok_filter: "conversation_ok ts \<Longrightarrow> conversation_ok (filter P ts)"
  by (auto simp: conversation_ok_def list_all_iff)

lemma anthropic_execute_panic:
  "anthropic_execute oob env client upstream req w = None \<longleftrightarrow>
     \<not> conversation_ok (filter (\<lambda>t. turn_role t \<noteq> RoleSystem) (req_conversation req))"
  using encode_turns_panic [of "req_conversation req" "[]"]
  by (cases "encode_turns (req_conversation req) []")
     (auto simp: anthropic_execute_def anthropic_encode_request_def)

section \<open>The decoder\<close>

text \<open>The lines processed before a failure are a run of the decoder; output is committed
  exactly when that run produced an event.\<close>

fun decoder_run ::
  "(float64 \<Rightarrow> go_int) \<Rightarrow> endpoint_kind \<Rightarrow> string list \<Rightarrow> decoder \<Rightarrow> gerror + decoder" where
  "decoder_run oob kind [] d = Inr d"
| "decoder_run oob kind (l # ls) d =
     (case anthropic_decode_line oob kind l d of Inl e \<Rightarrow> Inl e
      | Inr d' \<Rightarrow> decoder_run oob kind ls d')"

lemma anthropic_lines_Inr:
  "anthropic_decode_lines oob kind ls err d = Inr es \<longleftrightarrow>
     err = None \<and> (\<exists>d'. decoder_run oob kind ls d = Inr d' \<and> es = dc_events d')"
  by (induction ls arbitrary: d) (auto split: option.splits sum.splits)

lemma anthropic_lines_Inl:
  "anthropic_decode_lines oob kind ls err d = Inl e \<Longrightarrow>
     \<exists>e0 pre d'. e = AnthropicStreamError (Some e0) (dc_events d' \<noteq> []) \<and>
       decoder_run oob kind pre d = Inr d' \<and>
       ((pre = ls \<and> err = Some e0) \<or>
        (\<exists>l post. ls = pre @ l # post \<and> anthropic_decode_line oob kind l d' = Inl e0))"
proof (induction ls arbitrary: d)
  case Nil
  then show ?case by (auto split: option.splits intro!: exI [of _ "[]"])
next
  case (Cons l ls)
  show ?case
  proof (cases "anthropic_decode_line oob kind l d")
    case (Inl e0)
    with Cons.prems show ?thesis
      by (intro exI [of _ e0] exI [of _ "[]"] exI [of _ d]) auto
  next
    case (Inr d1)
    with Cons.IH [of d1] Cons.prems obtain e0 pre d' where h:
      "e = AnthropicStreamError (Some e0) (dc_events d' \<noteq> [])"
      "decoder_run oob kind pre d1 = Inr d'"
      "(pre = ls \<and> err = Some e0) \<or>
       (\<exists>l post. ls = pre @ l # post \<and> anthropic_decode_line oob kind l d' = Inl e0)" by auto
    with Inr show ?thesis
      by (intro exI [of _ e0] exI [of _ "l # pre"] exI [of _ d']) auto
  qed
qed

text \<open>The decoder only ever appends events.\<close>

lemma decode_line_appends:
  "anthropic_decode_line oob kind l d = Inr d' \<Longrightarrow> \<exists>es. dc_events d' = dc_events d @ es"
  by (auto simp: anthropic_decode_line_def on_data_def on_message_start_def emit_def Let_def
      on_content_block_start_def on_content_block_delta_def on_message_delta_def
      on_message_stop_def split: if_splits option.splits)

lemma decoder_run_appends:
  "decoder_run oob kind ls d = Inr d' \<Longrightarrow> \<exists>es. dc_events d' = dc_events d @ es"
proof (induction ls arbitrary: d)
  case (Cons l ls)
  then obtain d1 where "anthropic_decode_line oob kind l d = Inr d1" "decoder_run oob kind ls d1 = Inr d'"
    by (auto split: sum.splits)
  with Cons.IH [of d1] decode_line_appends show ?case by fastforce
qed simp

section \<open>What a failed call says\<close>

lemma anthropic_response_Inl:
  assumes "anthropic_response oob kind answer = Inl e"
  shows "case answer of
      Inl msg \<Rightarrow> as_execution_error e = None \<and> as_openai_classified e = None \<and>
        as_anthropic_classified e = Some True
    | Inr resp \<Rightarrow>
        if 400 \<le> hs_status resp
        then as_execution_error e = None \<and> as_openai_classified e = None \<and>
          as_anthropic_classified e = Some (retryable_status (hs_status resp))
        else \<exists>e0 c. anthropic_decode_stream oob kind (hs_body resp) = Inl (AnthropicStreamError e0 c) \<and>
          (\<exists>i. as_execution_error e = Some (i, True, c))"
proof -
  have d: "\<exists>e0 c. e = AnthropicStreamError e0 c"
    if "anthropic_decode_stream oob kind body = Inl e" for body e
    using that by (auto simp: anthropic_decode_stream_def split: prod.splits dest!: anthropic_lines_Inl)
  show ?thesis
  proof (cases answer)
    case (Inl msg)
    with assms show ?thesis by (auto simp: anthropic_response_def)
  next
    case (Inr resp)
    show ?thesis
    proof (cases "400 \<le> hs_status resp")
      case True
      with Inr assms show ?thesis by (auto simp: anthropic_response_def)
    next
      case False
      with Inr assms obtain e1 where s: "anthropic_decode_stream oob kind (hs_body resp) = Inl e1"
        by (cases "anthropic_decode_stream oob kind (hs_body resp)") (simp_all add: anthropic_response_def)
      with d obtain e0 c where "e1 = AnthropicStreamError e0 c" by blast
      with s Inr False assms show ?thesis by (auto simp: anthropic_response_def)
    qed
  qed
qed

end
