(* ===== verification/Outcome_Writer.thy ===== *)
theory Outcome_Writer
  imports Errors
begin

text \<open>
  The interface \<open>requestOutcomeWriter\<close> of \<open>runtime/executor.go\<close>: how the executor reports the
  outcome of a real request.  \<open>healthy s u\<close> reads whether upstream \<open>u\<close> is usable in state
  \<open>s\<close>; the laws are what routing relies on.
\<close>

locale outcome_writer =
  fixes record_success :: "string \<Rightarrow> time \<Rightarrow> 's \<Rightarrow> 's"
    and record_failure :: "string \<Rightarrow> time \<Rightarrow> bool \<Rightarrow> bool \<Rightarrow> message \<Rightarrow> 's \<Rightarrow> 's"
    and healthy :: "'s \<Rightarrow> string \<Rightarrow> bool"
    and inv :: "'s \<Rightarrow> bool"
  assumes success_inv: "inv s \<Longrightarrow> 0 \<le> at \<Longrightarrow> inv (record_success u at s)"
    and failure_inv: "inv s \<Longrightarrow> 0 \<le> at \<Longrightarrow> inv (record_failure u at rb oc e s)"
    and success_other: "v \<noteq> u \<Longrightarrow> healthy (record_success u at s) v = healthy s v"
    and failure_other: "v \<noteq> u \<Longrightarrow> healthy (record_failure u at rb oc e s) v = healthy s v"
    and success_keeps: "inv s \<Longrightarrow> healthy s u \<Longrightarrow> healthy (record_success u at s) u"
    and failure_never_heals: "inv s \<Longrightarrow> healthy (record_failure u at rb oc e s) u \<Longrightarrow> healthy s u"
    and failure_excused: "inv s \<Longrightarrow> \<not> rb \<or> oc \<Longrightarrow>
      healthy (record_failure u at rb oc e s) v = healthy s v"
begin

text \<open>Whatever a failure report does, it adds no healthy upstream.\<close>

lemma failure_subset:
  assumes "inv s"
  shows "{v. healthy (record_failure u at rb oc e s) v} \<subseteq> {v. healthy s v}"
proof
  fix v
  assume "v \<in> {v. healthy (record_failure u at rb oc e s) v}"
  then show "v \<in> {v. healthy s v}"
    by (cases "v = u") (auto dest: failure_never_heals [OF assms] simp: failure_other)
qed

lemma success_superset:
  assumes "inv s"
  shows "{v. healthy s v} \<subseteq> {v. healthy (record_success u at s) v}"
proof
  fix v
  assume "v \<in> {v. healthy s v}"
  then show "v \<in> {v. healthy (record_success u at s) v}"
    by (cases "v = u") (auto simp: success_other intro: success_keeps [OF assms])
qed

end

end
