(* ===== verification/Executor.thy ===== *)
theory Executor
  imports Anthropic_Provider Outcome_Writer
begin

text \<open>
  Package \<open>runtime\<close>: the provider registry (\<open>registry.go\<close>) and the executor (\<open>executor.go\<close>)
  that picks an adapter, classifies its error and reports the outcome to the health store.
  The state \<open>'s\<close> is whatever the adapters, the clock and the outcome writer share.
\<close>

section \<open>Registry (\<open>registry.go\<close>)\<close>

record registry =
  rg_providers :: "string \<rightharpoonup> provider_config"

definition new_registry :: "provider_config list \<Rightarrow> registry" where
  "new_registry ps = \<lparr>rg_providers = index_by prv_name (\<lambda>p. p) ps\<rparr>"

definition registry_resolve :: "registry \<Rightarrow> string \<Rightarrow> gerror + provider_config" where
  "registry_resolve r upstream =
     (case rg_providers r upstream of
        None \<Rightarrow> Inl (ErrorString [Lit ''runtime registry: unknown upstream '', Quoted upstream])
      | Some p \<Rightarrow> Inr p)"

section \<open>Error classification (\<open>executor.go\<close>)\<close>

definition is_retryable_provider_error :: "gerror \<Rightarrow> bool" where
  "is_retryable_provider_error e =
     (case as_execution_error e of
        Some (err, retryable, committed) \<Rightarrow> retryable
      | None \<Rightarrow>
        (case as_openai_classified e of
           Some retryable \<Rightarrow> retryable
         | None \<Rightarrow> (case as_anthropic_classified e of Some retryable \<Rightarrow> retryable | None \<Rightarrow> False)))"

definition execute_context :: "provider_config \<Rightarrow> string \<Rightarrow> message" where
  "execute_context p upstream =
     [Lit ''runtime executor: execute provider '', Quoted (prv_provider p),
      Lit '' for upstream '', Quoted upstream, Lit '': '']"

definition wrap_execution_error :: "provider_config \<Rightarrow> string \<Rightarrow> gerror \<Rightarrow> gerror" where
  "wrap_execution_error p upstream e =
     (case as_execution_error e of
        Some (err, retryable, committed) \<Rightarrow>
          ExecutionError (Some (Wrapped (execute_context p upstream) err [])) retryable committed
      | None \<Rightarrow>
          ExecutionError (Some (Wrapped (execute_context p upstream) (Some e) []))
            (is_retryable_provider_error e) False)"

section \<open>The executor (\<open>executor.go\<close>)\<close>

record 's writer =
  wr_success :: "string \<Rightarrow> time \<Rightarrow> 's \<Rightarrow> 's"
  wr_failure :: "string \<Rightarrow> time \<Rightarrow> bool \<Rightarrow> bool \<Rightarrow> message \<Rightarrow> 's \<Rightarrow> 's"

record 's executor =
  ex_registry :: registry
  ex_openai :: "'s adapter"
  ex_anthropic :: "'s adapter"
  ex_runtime :: "'s writer option"   \<comment> \<open>\<open>None\<close> is the nil interface\<close>
  ex_now :: "'s \<Rightarrow> time \<times> 's"

type_synonym 's exec_fn = "string \<Rightarrow> request \<Rightarrow> 's \<Rightarrow> ((gerror + result) \<times> 's) option"

text \<open>The adapter the \<open>switch\<close> on the provider's type selects.\<close>

definition select_adapter :: "'s executor \<Rightarrow> provider_config \<Rightarrow> 's adapter option" where
  "select_adapter e p =
     (if prv_provider p = ''openai'' then Some (ex_openai e)
      else if prv_provider p = ''anthropic'' then Some (ex_anthropic e)
      else None)"

definition report_failure :: "'s executor \<Rightarrow> string \<Rightarrow> gerror \<Rightarrow> 's \<Rightarrow> 's" where
  "report_failure e upstream err s =
     (case ex_runtime e of None \<Rightarrow> s
      | Some w \<Rightarrow> (case ex_now e s of (at, s') \<Rightarrow>
          wr_failure w upstream at (exec_retryable err) (exec_committed err) (error_text err) s'))"

definition report_success :: "'s executor \<Rightarrow> string \<Rightarrow> 's \<Rightarrow> 's" where
  "report_success e upstream s =
     (case ex_runtime e of None \<Rightarrow> s
      | Some w \<Rightarrow> (case ex_now e s of (at, s') \<Rightarrow> wr_success w upstream at s'))"

definition executor_execute :: "'s executor \<Rightarrow> 's exec_fn" where
  "executor_execute e upstream req s =
     (case registry_resolve (ex_registry e) upstream of
        Inl err \<Rightarrow> Some (Inl (Wrapped [Lit ''runtime executor: resolve upstream '', Quoted upstream,
                               Lit '': ''] (Some err) []), s)
      | Inr p \<Rightarrow>
        (case select_adapter e p of
           None \<Rightarrow> Some (Inl (ErrorString [Lit ''runtime executor: unknown provider '',
              Quoted (prv_provider p), Lit '' for upstream '', Quoted upstream]), s)
         | Some adapter \<Rightarrow>
             (case adapter p req s of
                None \<Rightarrow> None
              | Some (Inl err, s1) \<Rightarrow>
                  (let exec_err = wrap_execution_error p upstream err in
                   Some (Inl exec_err, report_failure e upstream exec_err s1))
              | Some (Inr r, s1) \<Rightarrow> Some (Inr r, report_success e upstream s1))))"

section \<open>Registry lemmas\<close>

lemma registry_resolve_known:
  "(\<exists>p. registry_resolve (new_registry ps) u = Inr p) \<longleftrightarrow> u \<in> set (map prv_name ps)"
  using index_by_eq_None [of prv_name "\<lambda>p. p" ps u]
  by (auto simp: registry_resolve_def new_registry_def split: option.splits)

lemma registry_resolve_Inr:
  "registry_resolve (new_registry ps) u = Inr p \<Longrightarrow> p \<in> set ps \<and> prv_name p = u"
  by (auto simp: registry_resolve_def new_registry_def split: option.splits dest!: index_by_Some)

lemma registry_resolve_distinct:
  "distinct (map prv_name ps) \<Longrightarrow> p \<in> set ps \<Longrightarrow> registry_resolve (new_registry ps) (prv_name p) = Inr p"
  by (simp add: registry_resolve_def new_registry_def index_by_distinct)

section \<open>Classification lemmas\<close>

text \<open>Wrapping keeps what the orchestrator and the health store decide on.\<close>

lemma wrap_is_execution: "is_execution_error (wrap_execution_error p u e)"
  by (auto simp: wrap_execution_error_def is_execution_error_def split: option.splits)

lemma wrap_retryable: "exec_retryable (wrap_execution_error p u e) = is_retryable_provider_error e"
  by (auto simp: wrap_execution_error_def is_retryable_provider_error_def split: option.splits)

lemma wrap_committed:
  "exec_committed (wrap_execution_error p u e) =
     (case as_execution_error e of Some (_, _, c) \<Rightarrow> c | None \<Rightarrow> False)"
  by (auto simp: wrap_execution_error_def split: option.splits)

lemma wrap_idem_flags:
  "exec_retryable (wrap_execution_error p u (wrap_execution_error p' u' e)) =
     exec_retryable (wrap_execution_error p' u' e)"
  "exec_committed (wrap_execution_error p u (wrap_execution_error p' u' e)) =
     exec_committed (wrap_execution_error p' u' e)"
  by (auto simp: wrap_execution_error_def split: option.splits)

section \<open>The executor over an outcome writer\<close>

text \<open>
  With a writer that satisfies the laws of \<open>outcome_writer\<close> and adapters and a clock that
  leave the health part of the state alone, one execution keeps the invariant, changes the
  health of no other upstream, and never makes an upstream healthy on an error.
\<close>

context outcome_writer
begin

definition quiet_adapter :: "'s adapter \<Rightarrow> bool" where
  "quiet_adapter a \<longleftrightarrow> (\<forall>p req s r s'. a p req s = Some (r, s') \<longrightarrow>
     (inv s \<longrightarrow> inv s') \<and> (\<forall>v. healthy s' v = healthy s v))"

definition quiet_clock :: "('s \<Rightarrow> time \<times> 's) \<Rightarrow> bool" where
  "quiet_clock now \<longleftrightarrow> (\<forall>s. 0 \<le> fst (now s) \<and> (inv s \<longrightarrow> inv (snd (now s))) \<and>
     (\<forall>v. healthy (snd (now s)) v = healthy s v))"

definition wired :: "'s executor \<Rightarrow> bool" where
  "wired e \<longleftrightarrow> ex_runtime e = Some \<lparr>wr_success = record_success, wr_failure = record_failure\<rparr> \<and>
     quiet_adapter (ex_openai e) \<and> quiet_adapter (ex_anthropic e) \<and> quiet_clock (ex_now e)"

lemma report_failure_laws:
  assumes "wired e" "inv s"
  shows "inv (report_failure e u err s)"
    and "v \<noteq> u \<Longrightarrow> healthy (report_failure e u err s) v = healthy s v"
    and "healthy (report_failure e u err s) u \<Longrightarrow> healthy s u"
    and "\<not> exec_retryable err \<or> exec_committed err \<Longrightarrow>
           healthy (report_failure e u err s) v = healthy s v"
proof -
  let ?t = "fst (ex_now e s)" and ?s = "snd (ex_now e s)"
  have r: "report_failure e u err s =
      record_failure u ?t (exec_retryable err) (exec_committed err) (error_text err) ?s"
    and s: "inv ?s" "0 \<le> ?t" "\<And>w. healthy ?s w = healthy s w"
    using assms by (auto simp: report_failure_def wired_def quiet_clock_def case_prod_beta)
  show "inv (report_failure e u err s)" unfolding r by (rule failure_inv [OF s(1,2)])
  show "v \<noteq> u \<Longrightarrow> healthy (report_failure e u err s) v = healthy s v"
    unfolding r by (simp add: failure_other s(3))
  show "healthy (report_failure e u err s) u \<Longrightarrow> healthy s u"
    unfolding r by (drule failure_never_heals [OF s(1)]) (simp add: s(3))
  show "\<not> exec_retryable err \<or> exec_committed err \<Longrightarrow>
      healthy (report_failure e u err s) v = healthy s v"
    unfolding r by (drule failure_excused [OF s(1)]) (simp add: s(3))
qed

lemma report_success_laws:
  assumes "wired e" "inv s"
  shows "inv (report_success e u s)"
    and "v \<noteq> u \<Longrightarrow> healthy (report_success e u s) v = healthy s v"
    and "healthy s u \<Longrightarrow> healthy (report_success e u s) u"
proof -
  let ?t = "fst (ex_now e s)" and ?s = "snd (ex_now e s)"
  have r: "report_success e u s = record_success u ?t ?s"
    and s: "inv ?s" "0 \<le> ?t" "\<And>w. healthy ?s w = healthy s w"
    using assms by (auto simp: report_success_def wired_def quiet_clock_def case_prod_beta)
  show "inv (report_success e u s)" unfolding r by (rule success_inv [OF s(1,2)])
  show "v \<noteq> u \<Longrightarrow> healthy (report_success e u s) v = healthy s v"
    unfolding r by (simp add: success_other s(3))
  show "healthy s u \<Longrightarrow> healthy (report_success e u s) u"
    unfolding r by (rule success_keeps [OF s(1)]) (simp add: s(3))
qed

lemma select_quiet: "wired e \<Longrightarrow> select_adapter e p = Some a \<Longrightarrow> quiet_adapter a"
  by (auto simp: select_adapter_def wired_def split: if_splits)

lemma execute_laws:
  assumes e: "wired e" and s: "inv s" and x: "executor_execute e u req s = Some (r, s')"
  shows "inv s' \<and> (\<forall>v. v \<noteq> u \<longrightarrow> healthy s' v = healthy s v) \<and>
     (isl r \<longrightarrow> healthy s' u \<longrightarrow> healthy s u)"
proof (cases "registry_resolve (ex_registry e) u")
  case (Inr p)
  show ?thesis
  proof (cases "select_adapter e p")
    case (Some a)
    note q = select_quiet [OF e Some]
    from x Inr Some obtain y s1 where a: "a p req s = Some (y, s1)"
      by (cases "a p req s") (auto simp: executor_execute_def)
    with q s have s1: "inv s1" "healthy s1 v = healthy s v" for v
      by (auto simp: quiet_adapter_def)
    show ?thesis
    proof (cases y)
      case (Inl err)
      with x Inr Some a have "r = Inl (wrap_execution_error p u err)"
        "s' = report_failure e u (wrap_execution_error p u err) s1"
        by (auto simp: executor_execute_def Let_def)
      with report_failure_laws [OF e s1(1)] s1(2) show ?thesis by auto
    next
      case (Inr res)
      with x \<open>registry_resolve (ex_registry e) u = Inr p\<close> Some a
      have "r = Inr res" "s' = report_success e u s1" by (auto simp: executor_execute_def)
      with report_success_laws [OF e s1(1)] s1(2) show ?thesis by auto
    qed
  qed (use x Inr s in \<open>auto simp: executor_execute_def\<close>)
qed (use x s in \<open>auto simp: executor_execute_def\<close>)

end

end
