(* ===== verification/Orchestrator.thy ===== *)
theory Orchestrator
  imports Executor Router
begin

text \<open>
  Package \<open>orchestrator\<close> (\<open>runner.go\<close>): trying the planned upstreams in order until one
  succeeds or fails for good.  The planner and the executor are interfaces: functions on the
  shared state, the executor one that may panic.
\<close>

type_synonym 's plan_fn = "string \<Rightarrow> 's \<Rightarrow> (gerror + plan) \<times> 's"

record outcome =
  out_attempts :: "string list"
  out_result :: result

definition no_outcome :: outcome where
  "no_outcome = \<lparr>out_attempts = [], out_result = no_result\<rparr>"

definition no_attempts_error :: gerror where
  "no_attempts_error = ErrorString [Lit ''no route attempts available'']"

fun run_loop ::
  "'s exec_fn \<Rightarrow> request \<Rightarrow> attempt list \<Rightarrow> outcome \<Rightarrow> gerror option \<Rightarrow> 's \<Rightarrow>
   ((outcome \<times> gerror option) \<times> 's) option" where
  "run_loop exec req [] oc last_err s =
     Some ((oc, Some (case last_err of None \<Rightarrow> no_attempts_error | Some e \<Rightarrow> e)), s)"
| "run_loop exec req (a # as) oc last_err s =
     (let oc' = oc\<lparr>out_attempts := out_attempts oc @ [att_upstream a]\<rparr> in
      case exec (att_upstream a) req s of
        None \<Rightarrow> None
      | Some (Inr r, s') \<Rightarrow> Some ((oc'\<lparr>out_result := r\<rparr>, None), s')
      | Some (Inl e, s') \<Rightarrow>
          if \<not> is_execution_error e then Some ((oc', Some e), s')
          else if exec_committed e \<or> \<not> exec_retryable e then Some ((oc', Some e), s')
          else run_loop exec req as oc' (Some e) s')"

definition run :: "'s plan_fn \<Rightarrow> 's exec_fn \<Rightarrow> request \<Rightarrow> 's \<Rightarrow> ((outcome \<times> gerror option) \<times> 's) option" where
  "run plan_fn exec req s =
     (case plan_fn (req_model req) s of
        (Inl e, s') \<Rightarrow> Some ((no_outcome, Some e), s')
      | (Inr p, s') \<Rightarrow> run_loop exec req (plan_attempts p) no_outcome None s')"

section \<open>The failover discipline\<close>

text \<open>An answer after which the next upstream is tried.\<close>

definition goes_on :: "gerror + result \<Rightarrow> bool" where
  "goes_on x = (case x of Inr _ \<Rightarrow> False
     | Inl e \<Rightarrow> is_execution_error e \<and> exec_retryable e \<and> \<not> exec_committed e)"

text \<open>Calling a list of upstreams one after the other, whatever they answer.\<close>

fun calls :: "'s exec_fn \<Rightarrow> request \<Rightarrow> string list \<Rightarrow> 's \<Rightarrow> ((gerror + result) list \<times> 's) option" where
  "calls exec req [] s = Some ([], s)"
| "calls exec req (u # us) s =
     (case exec u req s of None \<Rightarrow> None
      | Some (x, s1) \<Rightarrow> map_option (\<lambda>(xs, s'). (x # xs, s')) (calls exec req us s1))"

text \<open>What a finished run looks like over the answers \<open>xs\<close> of the upstreams it tried.\<close>

definition answers :: "outcome \<Rightarrow> gerror option \<Rightarrow> (gerror + result) list \<Rightarrow> bool" where
  "answers oc err xs \<longleftrightarrow>
     (case err of
        None \<Rightarrow> xs \<noteq> [] \<and> last xs = Inr (out_result oc)
      | Some e \<Rightarrow> (if xs = [] then e = no_attempts_error else last xs = Inl e))"

definition failover ::
  "'s exec_fn \<Rightarrow> request \<Rightarrow> string list \<Rightarrow> 's \<Rightarrow> outcome \<Rightarrow> gerror option \<Rightarrow> 's \<Rightarrow> bool" where
  "failover exec req us s oc err s' \<longleftrightarrow>
     (\<exists>xs rest. us = out_attempts oc @ rest \<and> calls exec req (out_attempts oc) s = Some (xs, s') \<and>
        list_all goes_on (butlast xs) \<and> (rest \<noteq> [] \<longrightarrow> xs \<noteq> [] \<and> \<not> goes_on (last xs)) \<and>
        answers oc err xs)"

lemma calls_length: "calls exec req us s = Some (xs, s') \<Longrightarrow> length xs = length us"
  by (induction us arbitrary: s xs) (auto split: option.splits)

lemma goes_on_Inl: "goes_on (Inl e) \<longleftrightarrow> is_execution_error e \<and> exec_retryable e \<and> \<not> exec_committed e"
  by (simp add: goes_on_def)

lemma run_loop_failover:
  assumes "run_loop exec req as oc last_err s = Some ((oc', err), s')"
  shows "\<exists>tried xs rest. map att_upstream as = tried @ rest \<and>
     out_attempts oc' = out_attempts oc @ tried \<and>
     calls exec req tried s = Some (xs, s') \<and> list_all goes_on (butlast xs) \<and>
     (rest \<noteq> [] \<longrightarrow> xs \<noteq> [] \<and> \<not> goes_on (last xs)) \<and>
     (case err of None \<Rightarrow> xs \<noteq> [] \<and> last xs = Inr (out_result oc')
      | Some e \<Rightarrow> (if xs = [] then e = (case last_err of None \<Rightarrow> no_attempts_error | Some e \<Rightarrow> e)
                  else last xs = Inl e))"
  using assms
proof (induction as arbitrary: oc last_err s)
  case Nil
  then show ?case by (auto intro!: exI [of _ "[]"])
next
  case (Cons a as)
  let ?u = "att_upstream a"
  from Cons.prems obtain x s1 where x: "exec ?u req s = Some (x, s1)"
    by (cases "exec ?u req s") auto
  show ?case
  proof (cases "goes_on x")
    case False
    with Cons.prems x have "s' = s1" "out_attempts oc' = out_attempts oc @ [?u]"
      "case err of None \<Rightarrow> x = Inr (out_result oc') | Some e \<Rightarrow> x = Inl e"
      by (auto simp: Let_def goes_on_def split: sum.splits if_splits)
    with x False show ?thesis
      by (auto intro!: exI [of _ "[?u]"] exI [of _ "[x]"] split: option.splits)
  next
    case True
    then obtain e where e: "x = Inl e" "is_execution_error e" "exec_retryable e" "\<not> exec_committed e"
      by (auto simp: goes_on_def split: sum.splits)
    let ?oc = "oc\<lparr>out_attempts := out_attempts oc @ [?u]\<rparr>"
    from Cons.prems x e have "run_loop exec req as ?oc (Some e) s1 = Some ((oc', err), s')"
      by (simp add: Let_def)
    from Cons.IH [OF this] obtain tried xs rest where h: "map att_upstream as = tried @ rest"
      "out_attempts oc' = out_attempts ?oc @ tried"
      "calls exec req tried s1 = Some (xs, s')" "list_all goes_on (butlast xs)"
      "rest \<noteq> [] \<longrightarrow> xs \<noteq> [] \<and> \<not> goes_on (last xs)"
      "case err of None \<Rightarrow> xs \<noteq> [] \<and> last xs = Inr (out_result oc')
        | Some ea \<Rightarrow> (if xs = [] then ea = (case Some e of None \<Rightarrow> no_attempts_error | Some e \<Rightarrow> e)
                    else last xs = Inl ea)"
      by blast
    have "list_all goes_on (butlast (x # xs))" using h(4) True by simp
    moreover have "calls exec req (?u # tried) s = Some (x # xs, s')" using x h(3) by simp
    ultimately show ?thesis
      using h e(1)
      by (intro exI [of _ "?u # tried"] exI [of _ "x # xs"] exI [of _ rest])
         (auto split: option.splits if_splits)
  qed
qed

text \<open>A run tries a prefix of the plan: every upstream but the last one failed with a
  retryable, uncommitted execution error, the run stops early only on an answer that ends
  it, and its result is the last answer.\<close>

lemma run_failover:
  assumes "plan_fn (req_model req) s = (Inr p, s0)" "run plan_fn exec req s = Some ((oc, err), s')"
  shows "failover exec req (plan_upstreams p) s0 oc err s'"
  using assms run_loop_failover [of exec req "plan_attempts p" no_outcome None s0 oc err s']
  by (auto simp: run_def failover_def answers_def plan_upstreams_def no_outcome_def
      split: option.splits)

section \<open>The executor's contract\<close>

locale provider_executor =
  fixes execute :: "string \<Rightarrow> request \<Rightarrow> 's \<Rightarrow> ((gerror + result) \<times> 's) option"
    and good :: "request \<Rightarrow> bool"
    and inv :: "'s \<Rightarrow> bool"
  assumes total: "good req \<Longrightarrow> execute u req s \<noteq> None"
    and keeps_inv: "inv s \<Longrightarrow> execute u req s = Some (r, s') \<Longrightarrow> inv s'"
begin

lemma run_loop_total: "good req \<Longrightarrow> run_loop execute req as oc le s \<noteq> None"
proof (induction as arbitrary: oc le s)
  case (Cons a as)
  obtain x s1 where x: "execute (att_upstream a) req s = Some (x, s1)"
    using total [OF Cons.prems, of "att_upstream a" s] by auto
  then show ?case using Cons.IH [OF Cons.prems] by (cases x) (auto simp: Let_def)
qed simp

lemma run_loop_inv:
  "inv s \<Longrightarrow> run_loop execute req as oc le s = Some (x, s') \<Longrightarrow> inv s'"
proof (induction as arbitrary: oc le s)
  case (Cons a as)
  from Cons.prems(2) obtain y s1 where y: "execute (att_upstream a) req s = Some (y, s1)"
    by (cases "execute (att_upstream a) req s") auto
  have "inv s1" by (rule keeps_inv [OF Cons.prems(1) y])
  then show ?case using y Cons.prems(2) Cons.IH [of s1]
    by (cases y) (auto simp: Let_def split: if_splits)
qed simp

end

section \<open>Planner and executor together\<close>

locale routed = eligibility is_eligible verdict inv + provider_executor execute good inv
  for is_eligible :: "'s \<Rightarrow> string \<Rightarrow> bool \<times> 's" and verdict :: "'s \<Rightarrow> string \<Rightarrow> bool"
    and execute :: "string \<Rightarrow> request \<Rightarrow> 's \<Rightarrow> ((gerror + result) \<times> 's) option"
    and good :: "request \<Rightarrow> bool" and inv :: "'s \<Rightarrow> bool"
begin

lemma run_returns:
  assumes "good req"
  shows "run (plan_route (new_planner cfg (Some is_eligible))) execute req s \<noteq> None"
  by (cases "plan_route (new_planner cfg (Some is_eligible)) (req_model req) s";
      cases "fst (plan_route (new_planner cfg (Some is_eligible)) (req_model req) s)")
     (use run_loop_total [OF assms] in \<open>auto simp: run_def\<close>)

lemma run_inv:
  assumes "inv s" "run (plan_route (new_planner cfg (Some is_eligible))) execute req s = Some (x, s')"
  shows "inv s'"
  using assms plan_state [OF assms(1), of cfg "req_model req"]
  by (auto simp: run_def split: prod.splits sum.splits dest: run_loop_inv [rotated])

text \<open>Every upstream a run tries was known and eligible when it was planned, and the run
  tries them in the order of the route group.\<close>

lemma run_tries_eligible:
  assumes i: "inv s"
    and x: "run (plan_route (new_planner cfg (Some is_eligible))) execute req s = Some ((oc, err), s')"
    and u: "u \<in> set (out_attempts oc)"
  shows "verdict s u \<and> u \<in> known_providers (cfg_providers cfg)"
proof -
  obtain y s0 where p: "plan_route (new_planner cfg (Some is_eligible)) (req_model req) s = (y, s0)"
    by fastforce
  show ?thesis
  proof (cases y)
    case (Inl e)
    with x p have "oc = no_outcome" by (simp add: run_def)
    with u show ?thesis by (simp add: no_outcome_def)
  next
    case (Inr pl)
    from p Inr obtain m g where mg: "match_model (req_model req) (cfg_models cfg) = Some m"
      "find_route_group (mdl_route_group m) (cfg_groups cfg) = Some g"
      by (auto simp: plan_route_def new_planner_def split: option.splits prod.splits)
    from run_failover [OF _ x, of pl s0] p Inr u have "u \<in> set (plan_upstreams pl)"
      by (auto simp: failover_def)
    with plan_Inr [OF i mg] p Inr show ?thesis by auto
  qed
qed

end

end
