(* ===== verification/Auth.thy ===== *)
theory Auth
  imports Config
begin

text \<open>
  Package \<open>auth\<close>: parsing the \<open>Authorization\<close> header (\<open>keys.go\<close>) and the table from
  secrets to client policies (\<open>policy.go\<close>).
\<close>

section \<open>Bearer tokens (\<open>keys.go\<close>)\<close>

definition parse_bearer :: "string \<Rightarrow> string option" where
  "parse_bearer authorization =
     (if authorization = [] then None
      else (case split_n2 authorization CHR '' '' of
              [scheme, token] \<Rightarrow>
                if \<not> equal_fold scheme ''Bearer'' then None
                else if trim_space token = [] then None
                else Some token
            | _ \<Rightarrow> None))"

section \<open>Client policies (\<open>policy.go\<close>)\<close>

record client_policy =
  pol_id :: string
  pol_allowed_model_patterns :: "string list"
  pol_allow_streaming :: bool
  pol_allow_tools :: bool
  pol_allow_vision :: bool
  pol_allow_structured :: bool

record resolver =
  res_policies :: "string \<rightharpoonup> client_policy"

definition policy_of_key :: "client_key_config \<Rightarrow> client_policy" where
  "policy_of_key k =
     \<lparr>pol_id = key_id k,
      pol_allowed_model_patterns = key_allowed_model_patterns k,
      pol_allow_streaming = key_allow_streaming k,
      pol_allow_tools = key_allow_tools k,
      pol_allow_vision = key_allow_vision k,
      pol_allow_structured = key_allow_structured k\<rparr>"

definition store_key :: "client_key_config \<Rightarrow> (string \<rightharpoonup> client_policy) \<Rightarrow> (string \<rightharpoonup> client_policy)" where
  "store_key k m =
     (if \<not> key_active k \<or> key_secret k = [] then m else m(key_secret k \<mapsto> policy_of_key k))"

definition new_resolver :: "client_key_config list \<Rightarrow> resolver" where
  "new_resolver keys = \<lparr>res_policies = fold store_key keys Map.empty\<rparr>"

definition resolve_bearer :: "resolver \<Rightarrow> string \<Rightarrow> client_policy option" where
  "resolve_bearer r token = res_policies r token"

section \<open>Lemmas\<close>

definition usable_key :: "client_key_config \<Rightarrow> bool" where
  "usable_key k \<longleftrightarrow> key_active k \<and> key_secret k \<noteq> []"

text \<open>The table is the index of the usable keys by secret; later keys win.\<close>

lemma fold_store_key:
  "fold store_key ks m = fold (\<lambda>k m. m(key_secret k \<mapsto> policy_of_key k)) (filter usable_key ks) m"
  by (induction ks arbitrary: m) (auto simp: store_key_def usable_key_def)

lemma new_resolver_index:
  "res_policies (new_resolver ks) = index_by key_secret policy_of_key (filter usable_key ks)"
  by (simp add: new_resolver_def index_by_def fold_store_key)

lemma resolve_bearer_usable:
  "resolve_bearer (new_resolver ks) token = Some p \<Longrightarrow>
     \<exists>k \<in> set ks. key_active k \<and> key_secret k = token \<and> token \<noteq> [] \<and> p = policy_of_key k"
  by (auto simp: resolve_bearer_def new_resolver_index usable_key_def dest!: index_by_Some)

lemma resolve_bearer_None:
  "resolve_bearer (new_resolver ks) token = None \<longleftrightarrow>
     (\<forall>k \<in> set ks. key_active k \<and> key_secret k = token \<longrightarrow> token = [])"
  by (auto simp: resolve_bearer_def new_resolver_index index_by_eq_None usable_key_def image_iff)

lemma resolve_bearer_distinct:
  assumes "distinct (map key_secret (filter usable_key ks))" "k \<in> set ks" "usable_key k"
  shows "resolve_bearer (new_resolver ks) (key_secret k) = Some (policy_of_key k)"
  using index_by_distinct [OF assms(1), of k policy_of_key] assms(2,3)
  by (simp add: resolve_bearer_def new_resolver_index)

lemma parse_bearer_SomeD:
  assumes "parse_bearer h = Some t"
  shows "\<exists>s. h = s @ CHR '' '' # t \<and> equal_fold s ''Bearer'' \<and> trim_space t \<noteq> []"
proof -
  from assms obtain s where "split_n2 h CHR '' '' = [s, t]" "equal_fold s ''Bearer''"
    "trim_space t \<noteq> []"
    by (auto simp: parse_bearer_def split: if_splits list.splits)
  with split_n2_join show ?thesis by blast
qed

lemma parse_bearer_intro:
  assumes "CHR '' '' \<notin> set s" "equal_fold s ''Bearer''" "trim_space t \<noteq> []"
  shows "parse_bearer (s @ CHR '' '' # t) = Some t"
  using assms by (simp add: parse_bearer_def split_n2_append)

end
