(* ===== verification/Capabilities.thy ===== *)
theory Capabilities
  imports Canonical Auth
begin

text \<open>
  Package \<open>capabilities\<close>: the registry of managed model families (\<open>registry.go\<close>), the
  public-surface and per-request validation (\<open>validate.go\<close>) and the JSON-schema subset
  check (\<open>schema_subset.go\<close>).
\<close>

section \<open>Registry (\<open>registry.go\<close>)\<close>

record profile =
  prf_name :: string
  prf_model_pattern :: string
  prf_supports_vision :: bool
  prf_supports_structured :: bool
  prf_supports_tools :: bool
  prf_supported_endpoints :: "endpoint_kind list"

record registry =
  reg_profiles :: "profile list"

definition default_registry :: registry where
  "default_registry = \<lparr>reg_profiles =
     [\<lparr>prf_name = ''openai-family'', prf_model_pattern = ''openai/gpt-*'',
       prf_supports_vision = True, prf_supports_structured = True, prf_supports_tools = True,
       prf_supported_endpoints = [EndpointKindChatCompletions, EndpointKindResponses]\<rparr>,
      \<lparr>prf_name = ''anthropic-family'', prf_model_pattern = ''anthropic/claude-*'',
       prf_supports_vision = True, prf_supports_structured = True, prf_supports_tools = True,
       prf_supported_endpoints = [EndpointKindChatCompletions, EndpointKindResponses]\<rparr>]\<rparr>"

section \<open>Patterns (\<open>validate.go\<close>)\<close>

definition matches_pattern :: "string \<Rightarrow> string \<Rightarrow> bool" where
  "matches_pattern value pattern =
     (if has_suffix pattern ''*'' then has_prefix value (trim_suffix pattern ''*'')
      else value = pattern)"

fun matches_any_pattern :: "string \<Rightarrow> string list \<Rightarrow> bool" where
  "matches_any_pattern value [] = False"
| "matches_any_pattern value (p # ps) =
     (if matches_pattern value p then True else matches_any_pattern value ps)"

fun match_profile :: "profile list \<Rightarrow> string \<Rightarrow> profile option" where
  "match_profile [] m = None"
| "match_profile (p # ps) m =
     (if matches_pattern m (prf_model_pattern p) then Some p else match_profile ps m)"

definition registry_match :: "registry \<Rightarrow> string \<Rightarrow> profile option" where
  "registry_match r m = match_profile (reg_profiles r) m"

fun any_image_block :: "content_block list \<Rightarrow> bool" where
  "any_image_block [] = False"
| "any_image_block (b # bs) = (if blk_type b = ContentTypeImage then True else any_image_block bs)"

fun any_image_turn :: "turn list \<Rightarrow> bool" where
  "any_image_turn [] = False"
| "any_image_turn (t # ts) = (if any_image_block (turn_content t) then True else any_image_turn ts)"

definition requires_vision :: "request \<Rightarrow> bool" where
  "requires_vision req = any_image_turn (req_conversation req)"

section \<open>Schema subset (\<open>schema_subset.go\<close>)\<close>

definition unsupported_schema_keywords :: "string list" where
  "unsupported_schema_keywords = [''oneOf'', ''anyOf'', ''allOf'', ''not'', ''patternProperties'']"

definition schema_keyword_error :: "string \<Rightarrow> gerror" where
  "schema_keyword_error k = ErrorString [Lit ''unsupported schema keyword '', Quoted k]"

text \<open>The list order stands for the order in which Go happens to range over the map.\<close>

fun walk_entries :: "(string \<times> any) list \<Rightarrow> gerror option"
  and walk_value :: "any \<Rightarrow> gerror option"
  and walk_items :: "any list \<Rightarrow> gerror option"
where
  "walk_entries [] = None"
| "walk_entries ((k, v) # rest) =
     (if k \<in> set unsupported_schema_keywords then Some (schema_keyword_error k)
      else if k = ''additionalProperties'' \<and> v \<noteq> ABool False then Some (schema_keyword_error k)
      else (case walk_value v of Some e \<Rightarrow> Some e | None \<Rightarrow> walk_entries rest))"
| "walk_value (AMap m) = (case m of None \<Rightarrow> None | Some kvs \<Rightarrow> walk_entries kvs)"
| "walk_value (ASlice xs) = walk_items xs"
| "walk_value _ = None"
| "walk_items [] = None"
| "walk_items (x # xs) =
     (case x of
        AMap m \<Rightarrow> (case (case m of None \<Rightarrow> None | Some kvs \<Rightarrow> walk_entries kvs) of
                    Some e \<Rightarrow> Some e | None \<Rightarrow> walk_items xs)
      | _ \<Rightarrow> walk_items xs)"

definition validate_schema_subset :: "object \<Rightarrow> gerror option" where
  "validate_schema_subset schema = walk_entries (entries schema)"

section \<open>Request validation (\<open>validate.go\<close>)\<close>

definition plain_error :: "string \<Rightarrow> gerror" where
  "plain_error s = ErrorString [Lit s]"

definition validate_public_surface :: "request \<Rightarrow> gerror option" where
  "validate_public_surface req =
     (if req_tools req \<noteq> [] \<and> req_endpoint req \<noteq> EndpointKindChatCompletions
      then Some (Wrapped [] (Some ErrUnsupportedCapability)
             [Lit '': tools are not supported on this public endpoint''])
      else if rc_kind (req_contract req) = ResponseContractJSONSchema
            \<or> rc_kind (req_contract req) = ResponseContractJSONObject
      then Some (Wrapped [] (Some ErrUnsupportedCapability)
             [Lit '': structured output contracts are not supported on public endpoints''])
      else None)"

fun validate_tool_schemas :: "tool list \<Rightarrow> gerror option" where
  "validate_tool_schemas [] = None"
| "validate_tool_schemas (t # ts) =
     (case validate_schema_subset (tool_schema t) of
        Some e \<Rightarrow> Some (Wrapped [Lit ''tool '', Quoted (tool_name t), Lit '' schema invalid: ''] (Some e) [])
      | None \<Rightarrow> validate_tool_schemas ts)"

definition validate_vision :: "client_policy \<Rightarrow> profile \<Rightarrow> request \<Rightarrow> gerror option" where
  "validate_vision pol prf req =
     (if requires_vision req then
        (if \<not> pol_allow_vision pol
         then Some (plain_error ''vision requests are not allowed for this client policy'')
         else if \<not> prf_supports_vision prf
         then Some (plain_error ''vision is not supported for this model family'')
         else None)
      else None)"

definition validate_tools :: "client_policy \<Rightarrow> profile \<Rightarrow> request \<Rightarrow> gerror option" where
  "validate_tools pol prf req =
     (if req_tools req \<noteq> [] then
        (if \<not> pol_allow_tools pol
         then Some (plain_error ''tool use is not allowed for this client policy'')
         else if \<not> prf_supports_tools prf
         then Some (plain_error ''tool use is not supported for this model family'')
         else validate_tool_schemas (req_tools req))
      else None)"

definition validate_structured :: "client_policy \<Rightarrow> profile \<Rightarrow> request \<Rightarrow> gerror option" where
  "validate_structured pol prf req =
     (if rc_kind (req_contract req) = ResponseContractJSONSchema then
        (if \<not> pol_allow_structured pol
         then Some (plain_error ''structured outputs are not allowed for this client policy'')
         else if \<not> prf_supports_structured prf
         then Some (plain_error ''structured outputs are not supported for this model family'')
         else validate_schema_subset (rc_schema (req_contract req)))
      else None)"

definition validate_request :: "registry \<Rightarrow> client_policy \<Rightarrow> request \<Rightarrow> gerror option" where
  "validate_request reg pol req =
     (case registry_match reg (req_model req) of
        None \<Rightarrow> Some (ErrorString [Lit ''unsupported managed model family '', Quoted (req_model req)])
      | Some prf \<Rightarrow>
        if pol_allowed_model_patterns pol \<noteq> [] \<and>
           \<not> matches_any_pattern (req_model req) (pol_allowed_model_patterns pol)
        then Some (plain_error ''requested model is not allowed for this client policy'')
        else if req_stream req \<and> \<not> pol_allow_streaming pol
        then Some (plain_error ''streaming is not allowed for this client policy'')
        else or_else (validate_vision pol prf req)
            (or_else (validate_tools pol prf req)
                     (validate_structured pol prf req)))"

section \<open>The schema check against its specification\<close>

text \<open>The schemas the walk visits: a schema, its map-valued members, and the maps that are
  direct elements of its array-valued members.\<close>

inductive subschema :: "(string \<times> any) list \<Rightarrow> (string \<times> any) list \<Rightarrow> bool" where
  here: "subschema m m"
| member: "subschema m m' \<Longrightarrow> (k, AMap (Some n)) \<in> set m' \<Longrightarrow> subschema m n"
| item: "subschema m m' \<Longrightarrow> (k, ASlice xs) \<in> set m' \<Longrightarrow> AMap (Some n) \<in> set xs \<Longrightarrow> subschema m n"

definition entry_allowed :: "string \<times> any \<Rightarrow> bool" where
  "entry_allowed kv \<longleftrightarrow> fst kv \<notin> {''oneOf'', ''anyOf'', ''allOf'', ''not'', ''patternProperties''} \<and>
     (fst kv = ''additionalProperties'' \<longrightarrow> snd kv = ABool False)"

lemma entry_allowed_iff:
  "entry_allowed (k, v) \<longleftrightarrow> k \<notin> set unsupported_schema_keywords \<and>
     (k = ''additionalProperties'' \<longrightarrow> v = ABool False)"
  by (auto simp: entry_allowed_def unsupported_schema_keywords_def)

definition schema_in_subset :: "(string \<times> any) list \<Rightarrow> bool" where
  "schema_in_subset m \<longleftrightarrow> (\<forall>n. subschema m n \<longrightarrow> list_all entry_allowed n)"

text \<open>The schemas directly below one entry.\<close>

definition direct_sub :: "any \<Rightarrow> (string \<times> any) list set" where
  "direct_sub v = (case v of AMap (Some n) \<Rightarrow> {n} | ASlice xs \<Rightarrow> {n. AMap (Some n) \<in> set xs} | _ \<Rightarrow> {})"

lemma walk_items_None:
  "walk_items xs = None \<longleftrightarrow> (\<forall>n. AMap (Some n) \<in> set xs \<longrightarrow> walk_entries n = None)"
proof (induction xs)
  case (Cons x xs)
  then show ?case by (cases x) (auto split: option.splits)
qed simp

lemma walk_value_None: "walk_value v = None \<longleftrightarrow> (\<forall>n \<in> direct_sub v. walk_entries n = None)"
  by (cases v) (auto simp: direct_sub_def walk_items_None split: option.splits)

lemma walk_entries_None:
  "walk_entries m = None \<longleftrightarrow>
     list_all entry_allowed m \<and> (\<forall>(k, v) \<in> set m. \<forall>n \<in> direct_sub v. walk_entries n = None)"
proof (induction m)
  case (Cons kv m)
  then show ?case
    using walk_value_None [of "snd kv"]
    by (cases kv; cases "walk_value (snd kv)") (auto simp: entry_allowed_iff)
qed simp

lemma direct_sub_subschema: "subschema m m' \<Longrightarrow> (k, v) \<in> set m' \<Longrightarrow> n \<in> direct_sub v \<Longrightarrow> subschema m n"
  by (auto simp: direct_sub_def intro: subschema.intros split: any.splits option.splits)

lemma walk_subschema: "subschema m n \<Longrightarrow> walk_entries m = None \<Longrightarrow> walk_entries n = None"
proof (induction rule: subschema.induct)
  case (member m m' k n)
  then have "walk_entries m' = None" by simp
  with member.hyps(2) show ?case
    using walk_entries_None [of m'] by (force simp: direct_sub_def)
next
  case (item m m' k xs n)
  then have "walk_entries m' = None" by simp
  with item.hyps(2,3) show ?case
    using walk_entries_None [of m'] by (force simp: direct_sub_def)
qed simp

lemma subschema_trans: "subschema n n' \<Longrightarrow> subschema m n \<Longrightarrow> subschema m n'"
  by (induction rule: subschema.induct) (auto intro: subschema.intros)

lemma in_subset_direct:
  "schema_in_subset m \<Longrightarrow> (k, v) \<in> set m \<Longrightarrow> n \<in> direct_sub v \<Longrightarrow> schema_in_subset n"
  unfolding schema_in_subset_def
  by (meson direct_sub_subschema subschema.here subschema_trans)

lemma in_subset_tail: "schema_in_subset (kv # m) \<Longrightarrow> schema_in_subset m"
  unfolding schema_in_subset_def
proof (intro allI impI)
  fix n
  assume a: "\<forall>n. subschema (kv # m) n \<longrightarrow> list_all entry_allowed n" and "subschema m n"
  from \<open>subschema m n\<close> have "n = m \<or> subschema (kv # m) n"
  proof (induction rule: subschema.induct)
    case (member m m' k n)
    then show ?case by (metis list.set_intros(2) subschema.here subschema.member)
  next
    case (item m m' k xs n)
    then show ?case by (metis list.set_intros(2) subschema.here subschema.item)
  qed simp
  with a show "list_all entry_allowed n"
    by (metis list.pred_inject(2) subschema.here)
qed

lemma in_subset_walk:
  "schema_in_subset m \<Longrightarrow> walk_entries m = None"
  "\<forall>n \<in> direct_sub v. schema_in_subset n \<Longrightarrow> walk_value v = None"
  "\<forall>n. AMap (Some n) \<in> set xs \<longrightarrow> schema_in_subset n \<Longrightarrow> walk_items xs = None"
proof (induction m and v and xs rule: walk_entries_walk_value_walk_items.induct)
  case (2 k v rest)
  then have "entry_allowed (k, v)"
    by (metis list.pred_inject(2) schema_in_subset_def subschema.here)
  moreover have "walk_value v = None"
    using 2 calculation in_subset_direct [of "(k, v) # rest" k v] by (auto simp: entry_allowed_iff)
  moreover have "walk_entries rest = None"
    using 2 calculation in_subset_tail by (auto simp: entry_allowed_iff)
  ultimately show ?case by (simp add: entry_allowed_iff)
qed (auto simp: direct_sub_def split: option.splits any.splits)

text \<open>The walk accepts a schema iff every schema it can reach is inside the subset; in
  particular the verdict does not depend on the order of iteration.\<close>

lemma walk_entries_iff: "walk_entries m = None \<longleftrightarrow> schema_in_subset m"
proof
  assume w: "walk_entries m = None"
  show "schema_in_subset m"
    unfolding schema_in_subset_def
  proof (intro allI impI)
    fix n
    assume "subschema m n"
    from walk_subschema [OF this w] show "list_all entry_allowed n"
      by (rule walk_entries_None [THEN iffD1, THEN conjunct1])
  qed
qed (rule in_subset_walk(1))

text \<open>A refusal names a keyword that some reachable schema has.\<close>

lemma walk_error:
  "walk_entries m = Some e \<Longrightarrow> \<exists>n k v. subschema m n \<and> (k, v) \<in> set n \<and>
     \<not> entry_allowed (k, v) \<and> e = schema_keyword_error k"
  "walk_value w = Some e \<Longrightarrow> \<exists>m \<in> direct_sub w. \<exists>n k v. subschema m n \<and> (k, v) \<in> set n \<and>
     \<not> entry_allowed (k, v) \<and> e = schema_keyword_error k"
  "walk_items xs = Some e \<Longrightarrow> \<exists>m. AMap (Some m) \<in> set xs \<and> (\<exists>n k v. subschema m n \<and>
     (k, v) \<in> set n \<and> \<not> entry_allowed (k, v) \<and> e = schema_keyword_error k)"
proof (induction m and w and xs rule: walk_entries_walk_value_walk_items.induct)
  case (2 k v rest)
  have sub: "subschema ((k, v) # rest) n" if "m \<in> direct_sub v" "subschema m n" for m n
    using that direct_sub_subschema [OF subschema.here, of k v] subschema_trans by fastforce
  have rest: "n = rest \<or> subschema ((k, v) # rest) n" if "subschema rest n" for n
    using that
  proof (induction rule: subschema.induct)
    case (member m m' k n)
    then show ?case by (metis list.set_intros(2) subschema.here subschema.member)
  next
    case (item m m' k xs n)
    then show ?case by (metis list.set_intros(2) subschema.here subschema.item)
  qed simp
  show ?case
  proof (cases "entry_allowed (k, v)")
    case False
    then have "e = schema_keyword_error k"
      using 2(3) by (auto simp: entry_allowed_iff split: if_splits)
    with False show ?thesis by (intro exI [of _ "(k, v) # rest"] exI [of _ k] exI [of _ v]) (simp add: subschema.here)
  next
    case True
    then have a: "k \<notin> set unsupported_schema_keywords" "\<not> (k = ''additionalProperties'' \<and> v \<noteq> ABool False)"
      by (auto simp: entry_allowed_iff)
    show ?thesis
    proof (cases "walk_value v")
      case None
      with 2(3) a have "walk_entries rest = Some e" by simp
      with 2(2) [OF a None] rest show ?thesis by (metis list.set_intros(2) subschema.here)
    next
      case (Some e')
      with 2(3) a have "walk_value v = Some e" by simp
      with 2(1) [OF a] sub show ?thesis by blast
    qed
  qed
qed (auto simp: direct_sub_def split: option.splits any.splits)

lemma walk_entries_order:
  assumes "set m = set m'"
  shows "walk_entries m = None \<longleftrightarrow> walk_entries m' = None"
  by (rule trans [OF walk_entries_None [of m] trans [OF _ walk_entries_None [of m', symmetric]]])
     (simp only: list_all_iff assms)

section \<open>Requests that pass\<close>

lemma matches_any_pattern_iff: "matches_any_pattern v ps \<longleftrightarrow> (\<exists>p \<in> set ps. matches_pattern v p)"
  by (induction ps) auto

lemma any_image_block_iff: "any_image_block bs \<longleftrightarrow> (\<exists>b \<in> set bs. blk_type b = ContentTypeImage)"
  by (induction bs) auto

lemma requires_vision_iff:
  "requires_vision req \<longleftrightarrow>
     (\<exists>t \<in> set (req_conversation req). \<exists>b \<in> set (turn_content t). blk_type b = ContentTypeImage)"
proof -
  have "any_image_turn ts \<longleftrightarrow> (\<exists>t \<in> set ts. any_image_block (turn_content t))" for ts
    by (induction ts) auto
  then show ?thesis by (auto simp: requires_vision_def any_image_block_iff)
qed

lemma validate_tool_schemas_None:
  "validate_tool_schemas ts = None \<longleftrightarrow>
     (\<forall>t \<in> set ts. schema_in_subset (entries (tool_schema t)))"
  by (induction ts) (auto simp: validate_schema_subset_def walk_entries_iff [symmetric]
      split: option.splits)

lemma match_profile_Some:
  "match_profile ps m = Some p \<Longrightarrow> p \<in> set ps \<and> matches_pattern m (prf_model_pattern p)"
  by (induction ps) (auto split: if_splits)

lemma match_profile_None:
  "match_profile ps m = None \<longleftrightarrow> (\<forall>p \<in> set ps. \<not> matches_pattern m (prf_model_pattern p))"
  by (induction ps) auto

lemma matches_pattern_star: "matches_pattern v (p @ ''*'') \<longleftrightarrow> has_prefix v p"
  by (simp add: matches_pattern_def has_suffix_iff)

lemma default_registry_match:
  "registry_match default_registry m \<noteq> None \<longleftrightarrow>
     has_prefix m ''openai/gpt-'' \<or> has_prefix m ''anthropic/claude-''"
  using matches_pattern_star [of m "''openai/gpt-''"]
    matches_pattern_star [of m "''anthropic/claude-''"]
  by (simp add: registry_match_def default_registry_def)

section \<open>What a validated request may do\<close>

text \<open>A pattern with a final star covers the texts that begin with what is before the star,
  another one covers itself.\<close>

definition covers :: "string \<Rightarrow> string \<Rightarrow> bool" where
  "covers pattern model \<longleftrightarrow>
     (if pattern \<noteq> [] \<and> last pattern = CHR ''*'' then \<exists>rest. model = butlast pattern @ rest
      else model = pattern)"

definition has_image :: "request \<Rightarrow> bool" where
  "has_image req \<longleftrightarrow>
     (\<exists>t \<in> set (req_conversation req). \<exists>b \<in> set (turn_content t). blk_type b = ContentTypeImage)"

text \<open>The family of a model: the first profile whose pattern covers it.\<close>

definition family_of :: "registry \<Rightarrow> string \<Rightarrow> profile \<Rightarrow> bool" where
  "family_of reg model pr \<longleftrightarrow> (\<exists>before after. reg_profiles reg = before @ pr # after \<and>
     covers (prf_model_pattern pr) model \<and> (\<forall>p \<in> set before. \<not> covers (prf_model_pattern p) model))"

text \<open>The declarative reading of \<open>ValidateRequest\<close>; none of the functions of \<open>validate.go\<close> and
  \<open>registry.go\<close> occurs in it.\<close>

definition allowed :: "registry \<Rightarrow> client_policy \<Rightarrow> request \<Rightarrow> bool" where
  "allowed reg pol req \<longleftrightarrow> (\<exists>pr. family_of reg (req_model req) pr \<and>
     (pol_allowed_model_patterns pol = [] \<or>
      (\<exists>p \<in> set (pol_allowed_model_patterns pol). covers p (req_model req))) \<and>
     (req_stream req \<longrightarrow> pol_allow_streaming pol) \<and>
     (has_image req \<longrightarrow> pol_allow_vision pol \<and> prf_supports_vision pr) \<and>
     (req_tools req \<noteq> [] \<longrightarrow> pol_allow_tools pol \<and> prf_supports_tools pr \<and>
        (\<forall>t \<in> set (req_tools req). schema_in_subset (entries (tool_schema t)))) \<and>
     (rc_kind (req_contract req) = ResponseContractJSONSchema \<longrightarrow>
        pol_allow_structured pol \<and> prf_supports_structured pr \<and>
        schema_in_subset (entries (rc_schema (req_contract req)))))"

lemma matches_pattern_covers: "matches_pattern m p \<longleftrightarrow> covers p m"
proof (cases "p \<noteq> [] \<and> last p = CHR ''*''")
  case True
  then have "p = butlast p @ ''*''" by (metis append_butlast_last_id)
  then obtain q where q: "p = q @ ''*''" by blast
  show ?thesis unfolding q by (simp add: matches_pattern_star covers_def has_prefix_iff)
next
  case False
  then have "\<not> has_suffix p ''*''" by (auto simp: has_suffix_iff)
  with False show ?thesis by (auto simp: matches_pattern_def covers_def)
qed

lemma requires_vision_has_image: "requires_vision req \<longleftrightarrow> has_image req"
  by (simp add: requires_vision_iff has_image_def)

lemma match_profile_family:
  "match_profile ps m = Some pr \<longleftrightarrow> (\<exists>before after. ps = before @ pr # after \<and>
     covers (prf_model_pattern pr) m \<and> (\<forall>p \<in> set before. \<not> covers (prf_model_pattern p) m))"
proof (induction ps)
  case (Cons p ps)
  show ?case
  proof (cases "covers (prf_model_pattern p) m")
    case True
    then show ?thesis by (auto simp: matches_pattern_covers Cons_eq_append_conv)
  next
    case False
    have "(\<exists>before after. p # ps = before @ pr # after \<and> covers (prf_model_pattern pr) m \<and>
        (\<forall>p \<in> set before. \<not> covers (prf_model_pattern p) m)) \<longleftrightarrow>
      (\<exists>before after. ps = before @ pr # after \<and> covers (prf_model_pattern pr) m \<and>
        (\<forall>p \<in> set before. \<not> covers (prf_model_pattern p) m))" (is "?l \<longleftrightarrow> ?r")
    proof
      show "?l \<Longrightarrow> ?r" using False by (auto simp: Cons_eq_append_conv)
    next
      assume ?r
      then obtain before after where "ps = before @ pr # after" "covers (prf_model_pattern pr) m"
        "\<forall>p \<in> set before. \<not> covers (prf_model_pattern p) m" by blast
      with False show ?l by (intro exI [of _ "p # before"] exI [of _ after]) simp
    qed
    with Cons.IH False show ?thesis by (simp add: matches_pattern_covers)
  qed
qed simp

lemma registry_match_family: "registry_match reg m = Some pr \<longleftrightarrow> family_of reg m pr"
  by (simp add: registry_match_def family_of_def match_profile_family)

lemma validate_parts_None:
  "validate_vision pol prf req = None \<longleftrightarrow>
     (has_image req \<longrightarrow> pol_allow_vision pol \<and> prf_supports_vision prf)"
  "validate_tools pol prf req = None \<longleftrightarrow>
     (req_tools req \<noteq> [] \<longrightarrow> pol_allow_tools pol \<and> prf_supports_tools prf \<and>
        (\<forall>t \<in> set (req_tools req). schema_in_subset (entries (tool_schema t))))"
  "validate_structured pol prf req = None \<longleftrightarrow>
     (rc_kind (req_contract req) = ResponseContractJSONSchema \<longrightarrow>
        pol_allow_structured pol \<and> prf_supports_structured prf \<and>
        schema_in_subset (entries (rc_schema (req_contract req))))"
  by (auto simp: validate_vision_def validate_tools_def validate_structured_def
      validate_tool_schemas_None validate_schema_subset_def walk_entries_iff requires_vision_has_image)

lemma validate_request_None: "validate_request reg pol req = None \<longleftrightarrow> allowed reg pol req"
proof (cases "registry_match reg (req_model req)")
  case None
  then have "\<nexists>pr. family_of reg (req_model req) pr" by (simp add: registry_match_family [symmetric])
  with None show ?thesis by (simp add: validate_request_def allowed_def)
next
  case (Some pf)
  then have "family_of reg (req_model req) pr \<longleftrightarrow> pr = pf" for pr
    by (auto simp: registry_match_family [symmetric])
  with Some show ?thesis
    by (simp add: validate_request_def allowed_def matches_any_pattern_iff matches_pattern_covers
        validate_parts_None)
qed

text \<open>For the registry the service is built with: two families, both with every capability.\<close>

lemma allowed_default:
  "allowed default_registry pol req \<longleftrightarrow>
     (\<exists>rest. req_model req = ''openai/gpt-'' @ rest \<or> req_model req = ''anthropic/claude-'' @ rest) \<and>
     (pol_allowed_model_patterns pol = [] \<or>
      (\<exists>p \<in> set (pol_allowed_model_patterns pol). covers p (req_model req))) \<and>
     (req_stream req \<longrightarrow> pol_allow_streaming pol) \<and> (has_image req \<longrightarrow> pol_allow_vision pol) \<and>
     (req_tools req \<noteq> [] \<longrightarrow> pol_allow_tools pol \<and>
        (\<forall>t \<in> set (req_tools req). schema_in_subset (entries (tool_schema t)))) \<and>
     (rc_kind (req_contract req) = ResponseContractJSONSchema \<longrightarrow>
        pol_allow_structured pol \<and> schema_in_subset (entries (rc_schema (req_contract req))))"
proof -
  have f: "(\<exists>pr. family_of default_registry m pr) \<longleftrightarrow>
      (\<exists>rest. m = ''openai/gpt-'' @ rest \<or> m = ''anthropic/claude-'' @ rest)" for m
    using default_registry_match [of m] registry_match_family [of default_registry m]
    by (auto simp: has_prefix_iff)
  have c: "prf_supports_vision pr \<and> prf_supports_tools pr \<and> prf_supports_structured pr"
    if "family_of default_registry m pr" for m pr
  proof -
    from that have "pr \<in> set (reg_profiles default_registry)" by (auto simp: family_of_def)
    then show ?thesis by (auto simp: default_registry_def)
  qed
  show ?thesis (is "_ \<longleftrightarrow> ?ok")
  proof
    assume "allowed default_registry pol req"
    then show ?ok unfolding f [symmetric] allowed_def by blast
  next
    assume ok: ?ok
    then obtain pr where pr: "family_of default_registry (req_model req) pr" unfolding f [symmetric] by blast
    from ok c [OF pr] pr show "allowed default_registry pol req"
      unfolding allowed_def by (intro exI [of _ pr]) simp
  qed
qed

lemma validate_public_surface_None:
  "validate_public_surface req = None \<longleftrightarrow>
     (req_tools req = [] \<or> req_endpoint req = EndpointKindChatCompletions) \<and>
     rc_kind (req_contract req) = ResponseContractNone"
  by (cases "rc_kind (req_contract req)") (auto simp: validate_public_surface_def)

text \<open>Every error of the surface check is the unsupported-capability sentinel.\<close>

lemma validate_public_surface_error:
  "validate_public_surface req = Some e \<Longrightarrow> is_unsupported e"
  by (auto simp: validate_public_surface_def split: if_splits)

end
