(* ===== verification/Service.thy ===== *)
theory Service
  imports Orchestrator Capabilities
begin

text \<open>
  Package \<open>service\<close> (\<open>execute.go\<close>): the two validations, the orchestrated run, and the error
  class the handlers see.
\<close>

type_synonym 's service_fn =
  "client_policy \<Rightarrow> request \<Rightarrow> 's \<Rightarrow> ((result \<times> string list \<times> gerror option) \<times> 's) option"

definition service_execute ::
  "Capabilities.registry \<Rightarrow> 's plan_fn \<Rightarrow> 's exec_fn \<Rightarrow> 's service_fn" where
  "service_execute reg plan_fn exec policy req s =
     (case validate_public_surface req of
        Some e \<Rightarrow> Some ((no_result, [], Some e), s)
      | None \<Rightarrow>
        (case validate_request reg policy req of
           Some e \<Rightarrow> Some ((no_result, [], Some e), s)
         | None \<Rightarrow>
           (case run plan_fn exec req s of
              None \<Rightarrow> None
            | Some ((oc, None), s') \<Rightarrow> Some ((out_result oc, out_attempts oc, None), s')
            | Some ((oc, Some e), s') \<Rightarrow>
                (case as_execution_error e of
                   Some _ \<Rightarrow> Some ((no_result, out_attempts oc, Some e), s')
                 | None \<Rightarrow> Some ((no_result, out_attempts oc,
                              Some (ExecutionError (Some e) False False)), s')))))"

text \<open>A request that fails validation reaches no upstream and changes nothing.\<close>

lemma service_rejects:
  assumes "validate_public_surface req \<noteq> None \<or> validate_request reg policy req \<noteq> None"
  shows "\<exists>e. service_execute reg plan_fn exec policy req s = Some ((no_result, [], Some e), s)"
  using assms by (auto simp: service_execute_def split: option.splits)

text \<open>After validation every error is an execution error.\<close>

lemma service_error_class:
  assumes "validate_public_surface req = None" "validate_request reg policy req = None"
    and "service_execute reg plan_fn exec policy req s = Some ((r, as, Some e), s')"
  shows "as_execution_error e \<noteq> None"
  using assms by (auto simp: service_execute_def split: option.splits prod.splits)

lemma service_runs:
  assumes "validate_public_surface req = None" "validate_request reg policy req = None"
    and "service_execute reg plan_fn exec policy req s = Some ((r, as, err), s')"
  shows "\<exists>oc err'. run plan_fn exec req s = Some ((oc, err'), s') \<and> as = out_attempts oc \<and>
     (err = None \<longleftrightarrow> err' = None) \<and> (err = None \<longrightarrow> r = out_result oc)"
  using assms
  by (auto simp: service_execute_def split: option.splits prod.splits)

lemma service_valid:
  assumes "service_execute reg plan_fn exec policy req s = Some ((r, as, err), s')"
    and "err = None \<or> as \<noteq> []"
  shows "validate_public_surface req = None \<and> validate_request reg policy req = None"
  using assms by (auto simp: service_execute_def split: option.splits)

text \<open>A request that reached an upstream had passed both validations.\<close>

lemma service_calls_allowed:
  assumes "service_execute reg plan_fn exec policy req s = Some ((r, as, err), s')"
    and "err = None \<or> as \<noteq> []"
  shows "allowed reg policy req \<and> rc_kind (req_contract req) = ResponseContractNone \<and>
     (req_tools req \<noteq> [] \<longrightarrow> req_endpoint req = EndpointKindChatCompletions)"
  using service_valid [OF assms]
  by (auto simp: validate_request_None validate_public_surface_None)

end
