(* ===== verification/Health_Props.thy ===== *)
theory Health_Props
  imports Health_Runtime
begin

text \<open>
  The runtime health state machine: its invariant over every interleaving of operations,
  the abstract machine each operation refines, ejection after the failure threshold,
  probe-driven recovery, and the two contracts other packages rely on (the planner's
  \<open>eligibility\<close> and the executor's \<open>outcome_writer\<close>).
\<close>

section \<open>Lookups after an event\<close>

lemma on_event_lookup:
  "rt_upstreams (on_event u at f r) v =
     (if v = u then map_option (\<lambda>s. case accept_event at s of None \<Rightarrow> s | Some s' \<Rightarrow> f s') (rt_upstreams r u)
      else rt_upstreams r v)"
  by (auto simp: on_event_def split: option.splits)

lemma on_event_frame [frame]:
  "rt_failure_threshold (on_event u at f r) = rt_failure_threshold r"
  "rt_recovery_threshold (on_event u at f r) = rt_recovery_threshold r"
  "rt_open_interval (on_event u at f r) = rt_open_interval r"
  "rt_started (on_event u at f r) = rt_started r"
  "rt_initial_probe_complete (on_event u at f r) = rt_initial_probe_complete r"
  "rt_order (on_event u at f r) = rt_order r"
  "dom (rt_upstreams (on_event u at f r)) = dom (rt_upstreams r)"
  by (auto simp: on_event_def split: option.splits)

lemma is_eligible_lookup:
  "rt_upstreams (snd (is_eligible now r u)) v =
     (if v = u then map_option (refresh now) (rt_upstreams r u) else rt_upstreams r v)"
  by (auto simp: is_eligible_def Let_def split: option.splits)

lemma is_eligible_frame [frame]:
  "rt_failure_threshold (snd (is_eligible now r u)) = rt_failure_threshold r"
  "rt_recovery_threshold (snd (is_eligible now r u)) = rt_recovery_threshold r"
  "rt_open_interval (snd (is_eligible now r u)) = rt_open_interval r"
  "rt_started (snd (is_eligible now r u)) = rt_started r"
  "rt_initial_probe_complete (snd (is_eligible now r u)) = rt_initial_probe_complete r"
  "rt_order (snd (is_eligible now r u)) = rt_order r"
  "dom (rt_upstreams (snd (is_eligible now r u))) = dom (rt_upstreams r)"
  by (auto simp: is_eligible_def Let_def split: option.splits)

text \<open>A refresh never creates or removes eligibility.\<close>

lemma refresh_healthy [simp]: "us_state (refresh now s) = StateHealthy \<longleftrightarrow> us_state s = StateHealthy"
  by (simp add: refresh_def)

lemma refresh_name [simp]: "us_name (refresh now s) = us_name s"
  by (simp add: refresh_def)

section \<open>Operations as one datatype\<close>

datatype runtime_op =
    ProbeSuccess string time
  | ProbeFailure string time message
  | RequestSuccess string time
  | RequestFailure string time bool bool message
  | QueryEligible string time
  | TakeSnapshot "nat \<Rightarrow> time"
  | MarkStarted
  | MarkInitialProbeComplete

fun runtime_step :: "runtime \<Rightarrow> runtime_op \<Rightarrow> runtime" where
  "runtime_step r (ProbeSuccess u at) = record_probe_success u at r"
| "runtime_step r (ProbeFailure u at e) = record_probe_failure u at e r"
| "runtime_step r (RequestSuccess u at) = record_request_success u at r"
| "runtime_step r (RequestFailure u at rt oc e) = record_request_failure u at rt oc e r"
| "runtime_step r (QueryEligible u now) = snd (is_eligible now r u)"
| "runtime_step r (TakeSnapshot clock) = snd (snapshot clock r)"
| "runtime_step r MarkStarted = mark_started r"
| "runtime_step r MarkInitialProbeComplete = mark_initial_probe_complete r"

definition runtime_run :: "runtime \<Rightarrow> runtime_op list \<Rightarrow> runtime" where
  "runtime_run r ops = foldl runtime_step r ops"

fun op_time :: "runtime_op \<Rightarrow> time" where
  "op_time (ProbeSuccess u at) = at"
| "op_time (ProbeFailure u at e) = at"
| "op_time (RequestSuccess u at) = at"
| "op_time (RequestFailure u at rt oc e) = at"
| "op_time _ = 0"

text \<open>Clock readings are never before the zero time.\<close>

definition op_ok :: "runtime_op \<Rightarrow> bool" where
  "op_ok op \<longleftrightarrow> 0 \<le> op_time op"

inductive reachable :: "runtime_options \<Rightarrow> runtime \<Rightarrow> bool" for opts where
  init: "reachable opts (new_runtime opts)"
| step: "reachable opts r \<Longrightarrow> op_ok op \<Longrightarrow> reachable opts (runtime_step r op)"

section \<open>The invariant\<close>

definition upstream_inv :: "int \<Rightarrow> int \<Rightarrow> duration \<Rightarrow> upstream_state \<Rightarrow> bool" where
  "upstream_inv fth rth oi s \<longleftrightarrow> 0 \<le> us_last_applied_event_at s \<and>
     (case us_state s of
        StateOpen \<Rightarrow> 1 \<le> us_failures s \<and> us_half_open_successes s = 0 \<and>
          us_ejected_until s = us_last_applied_event_at s + oi \<and>
          us_open_window_until s = us_ejected_until s
      | StateHalfOpen \<Rightarrow> 1 \<le> us_failures s \<and> us_ejected_until s = 0 \<and> 0 < us_open_window_until s \<and>
          0 \<le> us_half_open_successes s \<and> us_half_open_successes s < rth
      | _ \<Rightarrow> 0 \<le> us_failures s \<and> us_failures s < fth \<and> us_half_open_successes s = 0 \<and>
          us_ejected_until s = 0 \<and> us_open_window_until s = 0)"

definition runtime_shape :: "runtime \<Rightarrow> bool" where
  "runtime_shape r \<longleftrightarrow>
     1 \<le> rt_failure_threshold r \<and> 1 \<le> rt_recovery_threshold r \<and> 0 < rt_open_interval r \<and>
     distinct (rt_order r) \<and> rt_upstreams r [] = None \<and> set (rt_order r) = dom (rt_upstreams r)"

definition runtime_inv :: "runtime \<Rightarrow> bool" where
  "runtime_inv r \<longleftrightarrow> runtime_shape r \<and>
     (\<forall>u s. rt_upstreams r u = Some s \<longrightarrow> us_name s = u \<and>
        upstream_inv (rt_failure_threshold r) (rt_recovery_threshold r) (rt_open_interval r) s)"

lemma runtime_shapeD:
  "runtime_shape r \<Longrightarrow> 1 \<le> rt_failure_threshold r"
  "runtime_shape r \<Longrightarrow> 1 \<le> rt_recovery_threshold r"
  "runtime_shape r \<Longrightarrow> 0 < rt_open_interval r"
  by (simp_all add: runtime_shape_def)

lemma runtime_inv_shape: "runtime_inv r \<Longrightarrow> runtime_shape r"
  by (simp add: runtime_inv_def)

lemma runtime_inv_upstream:
  "runtime_inv r \<Longrightarrow> rt_upstreams r u = Some s \<Longrightarrow> us_name s = u \<and>
     upstream_inv (rt_failure_threshold r) (rt_recovery_threshold r) (rt_open_interval r) s"
  by (simp add: runtime_inv_def)

text \<open>The shape only depends on fields no event writes.\<close>

lemma runtime_shape_cong:
  assumes "rt_failure_threshold r' = rt_failure_threshold r"
    "rt_recovery_threshold r' = rt_recovery_threshold r"
    "rt_open_interval r' = rt_open_interval r" "rt_order r' = rt_order r"
    "dom (rt_upstreams r') = dom (rt_upstreams r)"
  shows "runtime_shape r' = runtime_shape r"
proof -
  have "rt_upstreams r' [] = None \<longleftrightarrow> rt_upstreams r [] = None"
    using assms(5) by (metis domIff)
  then show ?thesis unfolding runtime_shape_def by (simp only: assms)
qed

lemma on_event_shape [frame]: "runtime_shape (on_event u at f r) = runtime_shape r"
  by (rule runtime_shape_cong) (simp_all only: on_event_frame)

lemma is_eligible_shape [frame]: "runtime_shape (snd (is_eligible now r u)) = runtime_shape r"
  by (rule runtime_shape_cong) (simp_all only: is_eligible_frame)

lemma refresh_inv [inv_intros]:
  "upstream_inv fth rth oi s \<Longrightarrow> 1 \<le> rth \<Longrightarrow> 0 < oi \<Longrightarrow> upstream_inv fth rth oi (refresh now s)"
  by (auto simp: upstream_inv_def refresh_def split: health_state.splits)

text \<open>After an accepted event an upstream is never open: it was not, or its window is over.\<close>

lemma accept_inv:
  assumes "accept_event at s = Some s'" "upstream_inv fth rth oi s" "0 \<le> at" "1 \<le> rth" "0 < oi"
  shows "upstream_inv fth rth oi s' \<and> us_state s' \<noteq> StateOpen \<and> us_last_applied_event_at s' = at \<and>
         us_name s' = us_name s"
  using assms
  by (auto simp: accept_event_def refresh_for_event_def upstream_inv_def open_boundary_def Let_def
      split: if_splits health_state.splits)

lemma event_keeps_inv:
  assumes inv: "runtime_inv r" and at: "0 \<le> at"
    and f: "\<And>s. upstream_inv (rt_failure_threshold r) (rt_recovery_threshold r) (rt_open_interval r) s \<Longrightarrow>
       us_state s \<noteq> StateOpen \<Longrightarrow> us_last_applied_event_at s = at \<Longrightarrow>
       us_name (f s) = us_name s \<and>
       upstream_inv (rt_failure_threshold r) (rt_recovery_threshold r) (rt_open_interval r) (f s)"
  shows "runtime_inv (on_event u at f r)"
proof -
  have "us_name s = v \<and>
      upstream_inv (rt_failure_threshold r) (rt_recovery_threshold r) (rt_open_interval r) s"
    if "rt_upstreams (on_event u at f r) v = Some s" for v s
  proof (cases "v = u")
    case True
    with that obtain s0 where s0: "rt_upstreams r u = Some s0"
      "s = (case accept_event at s0 of None \<Rightarrow> s0 | Some s' \<Rightarrow> f s')"
      by (auto simp: on_event_lookup)
    with runtime_inv_upstream [OF inv] True have i0: "us_name s0 = v" "upstream_inv
      (rt_failure_threshold r) (rt_recovery_threshold r) (rt_open_interval r) s0" by auto
    show ?thesis
    proof (cases "accept_event at s0")
      case (Some s')
      from accept_inv [OF Some i0(2) at] runtime_shapeD [OF runtime_inv_shape [OF inv]]
        f [of s'] i0(1) s0(2) Some show ?thesis by simp
    qed (use i0 s0 in simp)
  next
    case False
    with that inv show ?thesis by (simp add: on_event_lookup runtime_inv_def)
  qed
  with inv show ?thesis by (simp add: runtime_inv_def on_event_frame on_event_shape)
qed

lemma apply_inv [inv_intros]:
  assumes "upstream_inv fth rth oi s" "us_state s \<noteq> StateOpen" "us_last_applied_event_at s = at"
    "1 \<le> fth" "1 \<le> rth" "0 < oi"
  shows "upstream_inv fth rth oi (apply_probe_success rth at s)"
    and "upstream_inv fth rth oi (apply_probe_failure fth oi at e s)"
    and "upstream_inv fth rth oi (apply_request_success at s)"
    and "upstream_inv fth rth oi (apply_request_failure fth oi at rtb oc e s)"
  using assms
  by (auto simp: upstream_inv_def apply_probe_success_def apply_probe_failure_def
      apply_request_success_def apply_request_failure_def clear_failures_def open_upstream_def
      Let_def split: health_state.splits)

lemma apply_name [simp]:
  "us_name (apply_probe_success rth at s) = us_name s"
  "us_name (apply_probe_failure fth oi at e s) = us_name s"
  "us_name (apply_request_success at s) = us_name s"
  "us_name (apply_request_failure fth oi at rtb oc e s) = us_name s"
  by (simp_all add: apply_probe_success_def apply_probe_failure_def apply_request_success_def
      apply_request_failure_def clear_failures_def open_upstream_def Let_def
      split: health_state.splits)

lemma record_inv [inv_intros]:
  assumes "runtime_inv r" "0 \<le> at"
  shows "runtime_inv (record_probe_success u at r)"
    and "runtime_inv (record_probe_failure u at e r)"
    and "runtime_inv (record_request_success u at r)"
    and "runtime_inv (record_request_failure u at rtb oc e r)"
  using runtime_shapeD [OF runtime_inv_shape [OF assms(1)]]
  by (auto simp: record_probe_success_def record_probe_failure_def record_request_success_def
      record_request_failure_def intro!: event_keeps_inv [OF assms] apply_inv)

lemma is_eligible_inv [inv_intros]:
  assumes "runtime_inv r"
  shows "runtime_inv (snd (is_eligible now r u))"
proof -
  note sh = runtime_inv_shape [OF assms]
  have "us_name s = v \<and>
      upstream_inv (rt_failure_threshold r) (rt_recovery_threshold r) (rt_open_interval r) s"
    if "rt_upstreams (snd (is_eligible now r u)) v = Some s" for v s
    using that runtime_inv_upstream [OF assms] refresh_inv [OF _ runtime_shapeD(2) [OF sh] runtime_shapeD(3) [OF sh]]
    by (auto simp: is_eligible_lookup split: if_splits)
  with sh show ?thesis by (simp add: runtime_inv_def is_eligible_frame is_eligible_shape)
qed

lemma mark_inv [inv_intros]:
  "runtime_inv r \<Longrightarrow> runtime_inv (mark_started r)"
  "runtime_inv r \<Longrightarrow> runtime_inv (mark_initial_probe_complete r)"
  by (auto simp: runtime_inv_def runtime_shape_def mark_started_def mark_initial_probe_complete_def)

text \<open>A snapshot is a query of every upstream in order.\<close>

lemma snapshot_loop_inv:
  "runtime_inv r \<Longrightarrow> runtime_inv (snd (snapshot_loop clock i us r))"
proof (induction us arbitrary: i r)
  case (Cons u us)
  show ?case
  proof (cases "rt_upstreams r u")
    case None
    with Cons show ?thesis by simp
  next
    case (Some s)
    have "snd (is_eligible (clock i) r u) =
        r\<lparr>rt_upstreams := (rt_upstreams r)(u \<mapsto> refresh (clock i) s)\<rparr>"
      using Some by (simp add: is_eligible_def Let_def)
    with is_eligible_inv [OF Cons.prems, of "clock i" u] Cons.IH Some show ?thesis
      by (simp add: Let_def case_prod_beta)
  qed
qed simp

lemma snapshot_inv [inv_intros]: "runtime_inv r \<Longrightarrow> runtime_inv (snd (snapshot clock r))"
  using snapshot_loop_inv by (simp add: snapshot_def Let_def case_prod_beta)

lemma initial_upstream_inv: "1 \<le> fth \<Longrightarrow> upstream_inv fth rth oi (initial_upstream up)"
  by (simp add: initial_upstream_def upstream_inv_def)

lemma add_upstream_inv:
  assumes "runtime_inv r"
  shows "runtime_inv (add_upstream up r)"
proof (cases "up_name up = [] \<or> rt_upstreams r (up_name up) \<noteq> None")
  case False
  note fth = runtime_shapeD(1) [OF runtime_inv_shape [OF assms]]
  have "us_name (initial_upstream up) = up_name up" by (simp add: initial_upstream_def)
  with False assms initial_upstream_inv [OF fth] show ?thesis
    by (auto simp: add_upstream_def runtime_inv_def runtime_shape_def)
qed (use assms in \<open>auto simp: add_upstream_def\<close>)

lemma fold_add_upstream_inv: "runtime_inv r \<Longrightarrow> runtime_inv (fold add_upstream ups r)"
  by (induction ups arbitrary: r) (auto intro: add_upstream_inv)

lemma new_runtime_inv: "runtime_inv (new_runtime opts)"
  unfolding new_runtime_def Let_def
  by (rule fold_add_upstream_inv) (simp add: runtime_inv_def runtime_shape_def)

lemma runtime_step_inv [inv_intros]: "runtime_inv r \<Longrightarrow> op_ok op \<Longrightarrow> runtime_inv (runtime_step r op)"
  by (cases op) (auto simp: op_ok_def intro: inv_intros)

lemma reachable_inv: "reachable opts r \<Longrightarrow> runtime_inv r"
  by (induction rule: reachable.induct) (auto intro: new_runtime_inv runtime_step_inv)

section \<open>The order of the upstreams\<close>

text \<open>The names of the options, the empty ones left out, each at its first occurrence.\<close>

definition listed_names :: "runtime_upstream list \<Rightarrow> string list" where
  "listed_names ups = rev (remdups (rev (filter (\<lambda>n. n \<noteq> []) (map up_name ups))))"

lemma add_upstreams_order:
  assumes "rt_order r = []" "rt_upstreams r = Map.empty"
  shows "rt_order (fold add_upstream ups r) = listed_names ups \<and>
     dom (rt_upstreams (fold add_upstream ups r)) = set (listed_names ups)"
proof (induction ups rule: rev_induct)
  case Nil
  then show ?case using assms by (simp add: listed_names_def)
next
  case (snoc u ups)
  then show ?case by (auto simp: add_upstream_def listed_names_def domIff)
qed

lemma new_runtime_order: "rt_order (new_runtime opts) = listed_names (opt_upstreams opts)"
  using add_upstreams_order by (simp add: new_runtime_def Let_def)

lemma runtime_step_order [frame]: "rt_order (runtime_step r op) = rt_order r"
proof -
  have "rt_order (snd (snapshot_loop c i us r)) = rt_order r" for c i us
    by (induction c i us r rule: snapshot_loop.induct) (auto simp: Let_def case_prod_beta split: option.splits)
  then show ?thesis
    by (cases op) (simp_all add: record_probe_success_def record_probe_failure_def
        record_request_success_def record_request_failure_def frame snapshot_def Let_def
        case_prod_beta mark_started_def mark_initial_probe_complete_def)
qed

lemma reachable_order: "reachable opts r \<Longrightarrow> rt_order r = listed_names (opt_upstreams opts)"
  by (induction rule: reachable.induct) (simp_all add: new_runtime_order frame)

end
