(* ===== verification/Health_Moves.thy ===== *)
theory Health_Moves
  imports Health_Props Outcome_Writer
begin

text \<open>
  What the health operations do to an upstream's state: the abstract machine with labelled
  moves, failure counting up to ejection, probe-driven recovery, and the interpretations of
  the planner's and the executor's interfaces.
\<close>

section \<open>The abstract machine\<close>

datatype event_kind = KProbeSuccess | KProbeFailure | KRequestSuccess | KRequestFailure | KRead

text \<open>The moves of section 9.3 of the health design, labelled with what may cause them.  An
  event after the cooldown first takes the move to half-open and then its own.\<close>

inductive health_move :: "event_kind \<Rightarrow> health_state \<Rightarrow> health_state \<Rightarrow> bool" where
  stay: "health_move k s s"
| probe_up: "health_move KProbeSuccess StateUnknown StateHealthy"
| probe_heal: "health_move KProbeSuccess StateHalfOpen StateHealthy"
| probe_cool_heal: "health_move KProbeSuccess StateOpen StateHealthy"
| request_up: "health_move KRequestSuccess StateUnknown StateHealthy"
| probe_trip: "s \<noteq> StateOpen \<Longrightarrow> health_move KProbeFailure s StateOpen"
| request_trip: "s = StateUnknown \<or> s = StateHealthy \<Longrightarrow> health_move KRequestFailure s StateOpen"
| cool: "k \<noteq> KProbeFailure \<Longrightarrow> health_move k StateOpen StateHalfOpen"

inductive_simps health_move_to_healthy: "health_move k s StateHealthy"
inductive_simps health_move_from_open: "health_move k StateOpen s"
inductive_simps health_move_to_unknown: "health_move k s StateUnknown"

fun op_kind :: "runtime_op \<Rightarrow> event_kind" where
  "op_kind (ProbeSuccess _ _) = KProbeSuccess"
| "op_kind (ProbeFailure _ _ _) = KProbeFailure"
| "op_kind (RequestSuccess _ _) = KRequestSuccess"
| "op_kind (RequestFailure _ _ _ _ _) = KRequestFailure"
| "op_kind _ = KRead"

definition state_of :: "runtime \<Rightarrow> string \<Rightarrow> health_state option" where
  "state_of r u = map_option us_state (rt_upstreams r u)"

lemma accept_state:
  "accept_event at s = Some s' \<Longrightarrow>
     us_state s' = us_state s \<or> us_state s = StateOpen \<and> us_state s' = StateHalfOpen"
  by (auto simp: accept_event_def refresh_for_event_def Let_def split: if_splits health_state.splits)

lemma accept_not_open:
  "accept_event at s = Some s' \<Longrightarrow> upstream_inv fth rth oi s \<Longrightarrow> 0 \<le> at \<Longrightarrow> 0 < oi \<Longrightarrow>
     us_state s' \<noteq> StateOpen"
  by (auto simp: accept_event_def refresh_for_event_def upstream_inv_def open_boundary_def Let_def
      split: if_splits health_state.splits)

lemma apply_moves:
  assumes "us_state s \<noteq> StateOpen"
  shows "health_move KProbeSuccess (us_state s) (us_state (apply_probe_success rth at s))"
    and "health_move KProbeFailure (us_state s) (us_state (apply_probe_failure fth oi at e s))"
    and "health_move KRequestSuccess (us_state s) (us_state (apply_request_success at s))"
    and "health_move KRequestFailure (us_state s) (us_state (apply_request_failure fth oi at rb oc e s))"
  using assms
  by (cases "us_state s"; auto simp: apply_probe_success_def apply_probe_failure_def
      apply_request_success_def apply_request_failure_def clear_failures_def open_upstream_def
      Let_def intro: health_move.intros)+

text \<open>A probe failure after the cooldown re-opens at once.\<close>

lemma probe_failure_half_open:
  "us_state s = StateHalfOpen \<Longrightarrow> us_state (apply_probe_failure fth oi at e s) = StateOpen"
  by (simp add: apply_probe_failure_def open_upstream_def)

lemma refresh_move: "health_move KRead (us_state s) (us_state (refresh now s))"
  by (auto simp: refresh_def intro: health_move.intros)

text \<open>Composing the cooldown with the event's own move.\<close>

lemma event_move:
  assumes acc: "accept_event at s = Some s'" and inv: "upstream_inv fth rth oi s" "0 \<le> at" "0 < oi"
    and mv: "health_move k (us_state s') t"
    and half: "k = KProbeFailure \<Longrightarrow> us_state s' = StateHalfOpen \<Longrightarrow> t = StateOpen"
  shows "health_move k (us_state s) t"
proof (cases "us_state s' = us_state s")
  case False
  with accept_state [OF acc] have o: "us_state s = StateOpen" "us_state s' = StateHalfOpen" by auto
  from mv half show ?thesis
    unfolding o by (cases rule: health_move.cases) (auto intro: health_move.intros)
qed (use mv in simp)

lemma on_event_move:
  assumes inv: "runtime_inv r" "0 \<le> at" and s: "rt_upstreams r u = Some s"
    and mv: "\<And>s. us_state s \<noteq> StateOpen \<Longrightarrow> health_move k (us_state s) (us_state (f s))"
    and half: "\<And>s. k = KProbeFailure \<Longrightarrow> us_state s = StateHalfOpen \<Longrightarrow> us_state (f s) = StateOpen"
  shows "\<exists>s'. rt_upstreams (on_event u at f r) u = Some s' \<and> health_move k (us_state s) (us_state s')"
proof (cases "accept_event at s")
  case None
  with s show ?thesis by (simp add: on_event_lookup health_move.stay)
next
  case (Some s')
  note i = conjunct2 [OF runtime_inv_upstream [OF inv(1) s]]
    runtime_shapeD(3) [OF runtime_inv_shape [OF inv(1)]]
  from accept_not_open [OF Some i(1) inv(2) i(2)] have "us_state s' \<noteq> StateOpen" .
  from event_move [OF Some i(1) inv(2) i(2) mv [OF this] half] s Some show ?thesis
    by (simp add: on_event_lookup)
qed

section \<open>Reads\<close>

text \<open>All a read does to an upstream: nothing, or the cooldown.\<close>

definition read_step :: "upstream_state \<Rightarrow> upstream_state \<Rightarrow> bool" where
  "read_step s s' \<longleftrightarrow> s' = s \<or> us_state s = StateOpen \<and>
     s' = s\<lparr>us_state := StateHalfOpen, us_ejected_until := 0, us_half_open_successes := 0\<rparr>"

lemma refresh_read_step: "read_step s (refresh now s)"
  by (simp add: refresh_def read_step_def)

lemma read_step_trans: "read_step a b \<Longrightarrow> read_step b c \<Longrightarrow> read_step a c"
  by (auto simp: read_step_def)

lemma read_step_move: "read_step s s' \<Longrightarrow> health_move KRead (us_state s) (us_state s')"
  by (auto simp: read_step_def intro: health_move.intros)

lemma read_step_healthy: "read_step s s' \<Longrightarrow> us_state s' = StateHealthy \<longleftrightarrow> us_state s = StateHealthy"
  by (auto simp: read_step_def)

lemma read_step_refl: "read_step s s"
  by (simp add: read_step_def)

lemma rel_read_step_trans:
  "rel_option read_step x y \<Longrightarrow> rel_option read_step y z \<Longrightarrow> rel_option read_step x z"
  by (cases x; cases y; cases z) (auto intro: read_step_trans)

lemma snapshot_loop_lookup:
  "rel_option read_step (rt_upstreams r u) (rt_upstreams (snd (snapshot_loop clock i us r)) u)"
proof (induction us arbitrary: i r)
  case Nil
  show ?case by (cases "rt_upstreams r u") (auto simp: read_step_def)
next
  case (Cons v us)
  show ?case
  proof (cases "rt_upstreams r v")
    case None
    with Cons show ?thesis by simp
  next
    case (Some sv)
    let ?r = "r\<lparr>rt_upstreams := (rt_upstreams r)(v \<mapsto> refresh (clock i) sv)\<rparr>"
    let ?r2 = "snd (snapshot_loop clock (Suc i) us ?r)"
    have "rel_option read_step (rt_upstreams r u) (rt_upstreams ?r u)"
      using Some refresh_read_step [of sv "clock i"] read_step_refl
      by (cases "rt_upstreams r u") auto
    moreover have "rel_option read_step (rt_upstreams ?r u) (rt_upstreams ?r2 u)" by (rule Cons.IH)
    ultimately have "rel_option read_step (rt_upstreams r u) (rt_upstreams ?r2 u)"
      by (rule rel_read_step_trans)
    then show ?thesis using Some by (simp add: Let_def case_prod_beta)
  qed
qed

lemma snapshot_lookup:
  "rel_option read_step (rt_upstreams r u) (rt_upstreams (snd (snapshot clock r)) u)"
  using snapshot_loop_lookup [of r u clock 0 "rt_order r"]
  by (simp add: snapshot_def Let_def case_prod_beta)

section \<open>Every operation refines the abstract machine\<close>

lemma step_refines:
  assumes "runtime_inv r" "op_ok op" "rt_upstreams r u = Some s"
  shows "\<exists>s'. rt_upstreams (runtime_step r op) u = Some s' \<and>
           health_move (op_kind op) (us_state s) (us_state s')"
proof (cases op)
  case (ProbeSuccess v at)
  with assms on_event_move [OF assms(1), of at u s KProbeSuccess
      "apply_probe_success (rt_recovery_threshold r) at"] show ?thesis
    by (cases "v = u") (auto simp: op_ok_def record_probe_success_def on_event_lookup
        apply_moves health_move.stay)
next
  case (ProbeFailure v at e)
  with assms on_event_move [OF assms(1), of at u s KProbeFailure
      "apply_probe_failure (rt_failure_threshold r) (rt_open_interval r) at e"] show ?thesis
    by (cases "v = u") (auto simp: op_ok_def record_probe_failure_def on_event_lookup
        apply_moves probe_failure_half_open health_move.stay)
next
  case (RequestSuccess v at)
  with assms on_event_move [OF assms(1), of at u s KRequestSuccess "apply_request_success at"]
  show ?thesis
    by (cases "v = u") (auto simp: op_ok_def record_request_success_def on_event_lookup
        apply_moves health_move.stay)
next
  case (RequestFailure v at rb oc e)
  with assms on_event_move [OF assms(1), of at u s KRequestFailure
      "apply_request_failure (rt_failure_threshold r) (rt_open_interval r) at rb oc e"] show ?thesis
    by (cases "v = u") (auto simp: op_ok_def record_request_failure_def on_event_lookup
        apply_moves health_move.stay)
next
  case (QueryEligible v now)
  with assms refresh_move [of s now] show ?thesis
    by (auto simp: is_eligible_lookup health_move.stay)
next
  case (TakeSnapshot clock)
  with assms snapshot_lookup [of r u clock] show ?thesis
    by (auto simp: option_rel_Some1 dest: read_step_move)
qed (use assms in \<open>auto simp: mark_started_def mark_initial_probe_complete_def health_move.stay\<close>)

section \<open>Severity\<close>

text \<open>The states ordered from usable to ejected.\<close>

fun severity :: "health_state \<Rightarrow> nat" where
  "severity StateHealthy = 0"
| "severity StateUnknown = 1"
| "severity StateHalfOpen = 2"
| "severity StateOpen = 3"

lemma severity_inject: "severity s = severity t \<longleftrightarrow> s = t"
  by (cases s; cases t) simp_all

instantiation health_state :: linorder
begin

definition less_eq_health_state :: "health_state \<Rightarrow> health_state \<Rightarrow> bool" where
  "less_eq_health_state s t = (severity s \<le> severity t)"

definition less_health_state :: "health_state \<Rightarrow> health_state \<Rightarrow> bool" where
  "less_health_state s t = (severity s < severity t)"

instance
  by standard (auto simp: less_eq_health_state_def less_health_state_def severity_inject)

end

lemma least_severe: "(s :: health_state) \<le> StateHealthy \<longleftrightarrow> s = StateHealthy"
  by (cases s) (simp_all add: less_eq_health_state_def)

text \<open>Without a success the only improvement is the cooldown; a request success improves
  nothing but an upstream that was never seen.\<close>

lemma improves_only:
  assumes "health_move k s s'" "s' < s"
  shows "(s = StateOpen \<and> s' = StateHalfOpen) \<or> k = KProbeSuccess \<or>
     (k = KRequestSuccess \<and> s = StateUnknown \<and> s' = StateHealthy)"
  using assms by (cases rule: health_move.cases; cases s) (auto simp: less_health_state_def)

section \<open>Ejection after the failure threshold\<close>

text \<open>A failure of \<open>u\<close> that counts: a failed probe, or a retryable request failure before
  any output.\<close>

fun counts_against :: "string \<Rightarrow> runtime_op \<Rightarrow> bool" where
  "counts_against u (ProbeFailure v at e) = (v = u)"
| "counts_against u (RequestFailure v at rb oc e) = (v = u \<and> rb \<and> \<not> oc)"
| "counts_against u _ = False"

definition counted_failure :: "int \<Rightarrow> duration \<Rightarrow> time \<Rightarrow> upstream_state \<Rightarrow> upstream_state \<Rightarrow> bool" where
  "counted_failure fth oi at s s' \<longleftrightarrow>
     us_failures s' = us_failures s + 1 \<and> us_last_applied_event_at s' = at \<and>
     (if us_failures s + 1 \<ge> fth
      then us_state s' = StateOpen \<and> us_open_window_until s' = at + oi
      else us_state s' = us_state s)"

lemma accept_closed:
  assumes "us_state s \<in> {StateUnknown, StateHealthy}" "us_last_applied_event_at s < at"
  shows "accept_event at s = Some (s\<lparr>us_last_applied_event_at := at\<rparr>)"
  using assms by (auto simp: accept_event_def refresh_for_event_def Let_def)

lemma failure_step:
  assumes s: "rt_upstreams r u = Some s" "us_state s \<in> {StateUnknown, StateHealthy}"
    and op: "counts_against u op" "us_last_applied_event_at s < op_time op"
  shows "\<exists>s'. rt_upstreams (runtime_step r op) u = Some s' \<and>
    counted_failure (rt_failure_threshold r) (rt_open_interval r) (op_time op) s s'"
  using op
proof (cases op)
  case (ProbeFailure v at e)
  with s op accept_closed [OF s(2), of at] show ?thesis
    by (auto simp: record_probe_failure_def on_event_lookup apply_probe_failure_def
        counted_failure_def open_upstream_def Let_def)
next
  case (RequestFailure v at rb oc e)
  with s op accept_closed [OF s(2), of at] show ?thesis
    by (auto simp: record_request_failure_def on_event_lookup apply_request_failure_def
        counted_failure_def open_upstream_def Let_def)
qed simp_all

lemma step_params [frame]:
  "rt_failure_threshold (runtime_step r op) = rt_failure_threshold r"
  "rt_recovery_threshold (runtime_step r op) = rt_recovery_threshold r"
  "rt_open_interval (runtime_step r op) = rt_open_interval r"
proof -
  have "rt_failure_threshold (snd (snapshot_loop c i us r)) = rt_failure_threshold r \<and>
      rt_recovery_threshold (snd (snapshot_loop c i us r)) = rt_recovery_threshold r \<and>
      rt_open_interval (snd (snapshot_loop c i us r)) = rt_open_interval r" for c i us r
    by (induction c i us r rule: snapshot_loop.induct)
       (auto simp: Let_def case_prod_beta split: option.splits)
  then show "rt_failure_threshold (runtime_step r op) = rt_failure_threshold r"
    "rt_recovery_threshold (runtime_step r op) = rt_recovery_threshold r"
    "rt_open_interval (runtime_step r op) = rt_open_interval r"
    by (cases op; simp add: record_probe_success_def record_probe_failure_def
        record_request_success_def record_request_failure_def mark_started_def
        mark_initial_probe_complete_def frame snapshot_def Let_def case_prod_beta)+
qed

lemma runtime_run_Cons: "runtime_run r (op # ops) = runtime_run (runtime_step r op) ops"
  by (simp add: runtime_run_def)

text \<open>Fewer failures than the threshold leave the state; the failure that reaches it opens
  the upstream until its own time plus the open interval.\<close>

lemma failures_run:
  assumes "rt_upstreams r u = Some s" "us_state s \<in> {StateUnknown, StateHealthy}"
    and "\<forall>op \<in> set ops. counts_against u op"
    and "sorted_wrt (<) (us_last_applied_event_at s # map op_time ops)"
    and "us_failures s + int (length ops) \<le> rt_failure_threshold r" "ops \<noteq> []"
  shows "\<exists>s'. rt_upstreams (runtime_run r ops) u = Some s' \<and>
      us_failures s' = us_failures s + int (length ops) \<and>
      (if us_failures s' < rt_failure_threshold r then us_state s' = us_state s
       else us_state s' = StateOpen \<and>
         us_open_window_until s' = op_time (last ops) + rt_open_interval r)"
  using assms
proof (induction ops arbitrary: r s)
  case (Cons op ops)
  from failure_step [OF Cons.prems(1,2), of op] Cons.prems(3,4)
  obtain s1 where s1: "rt_upstreams (runtime_step r op) u = Some s1"
    "counted_failure (rt_failure_threshold r) (rt_open_interval r) (op_time op) s s1" by auto
  show ?case
  proof (cases "ops = []")
    case True
    with s1 Cons.prems(5) show ?thesis
      by (auto simp: runtime_run_def counted_failure_def split: if_splits)
  next
    case False
    then have "us_failures s + 1 < rt_failure_threshold r"
      using Cons.prems(5) by (cases ops) auto
    with s1(2) have "us_state s1 = us_state s" "us_failures s1 = us_failures s + 1"
      "us_last_applied_event_at s1 = op_time op" by (auto simp: counted_failure_def)
    with Cons.IH [OF s1(1)] Cons.prems False obtain s' where
      "rt_upstreams (runtime_run r (op # ops)) u = Some s'"
      "us_failures s' = us_failures s + int (length (op # ops))"
      "if us_failures s' < rt_failure_threshold r then us_state s' = us_state s
       else us_state s' = StateOpen \<and>
         us_open_window_until s' = op_time (last ops) + rt_open_interval r"
      by (auto simp: runtime_run_Cons step_params)
    with False show ?thesis by auto
  qed
qed simp

section \<open>Recovery by probes\<close>

lemma probe_success_healthy:
  assumes "rt_upstreams r u = Some s" "us_state s \<in> {StateUnknown, StateHealthy}"
    "us_last_applied_event_at s < at"
  shows "\<exists>s'. rt_upstreams (record_probe_success u at r) u = Some s' \<and> us_state s' = StateHealthy \<and>
     us_last_applied_event_at s' = at"
  using assms accept_closed [OF assms(2,3)]
  by (auto simp: record_probe_success_def on_event_lookup apply_probe_success_def
      clear_failures_def Let_def)

text \<open>A probe success past the window moves recovery on by one; the success that reaches the
  threshold restores the upstream.\<close>

lemma probe_success_recovering:
  assumes "rt_upstreams r u = Some s" "upstream_inv fth (rt_recovery_threshold r) oi s" "0 < oi"
    "us_state s \<in> {StateOpen, StateHalfOpen}"
    "us_last_applied_event_at s < at" "us_open_window_until s \<le> at"
  shows "\<exists>s'. rt_upstreams (record_probe_success u at r) u = Some s' \<and>
     us_last_applied_event_at s' = at \<and>
     (us_half_open_successes s + 1 \<ge> rt_recovery_threshold r \<and> us_state s' = StateHealthy \<or>
      us_half_open_successes s + 1 < rt_recovery_threshold r \<and> us_state s' = StateHalfOpen \<and>
      us_half_open_successes s' = us_half_open_successes s + 1 \<and>
      us_open_window_until s' = us_open_window_until s)"
proof -
  let ?s = "s\<lparr>us_state := StateHalfOpen, us_ejected_until := 0,
     us_half_open_successes := us_half_open_successes s, us_last_applied_event_at := at\<rparr>"
  have "accept_event at s = Some ?s"
    using assms(2-6) by (auto simp: accept_event_def refresh_for_event_def upstream_inv_def
        open_boundary_def Let_def)
  with assms(1) show ?thesis
    by (auto simp: record_probe_success_def on_event_lookup apply_probe_success_def Let_def)
qed

definition probe_successes :: "string \<Rightarrow> time list \<Rightarrow> runtime_op list" where
  "probe_successes u ts = map (ProbeSuccess u) ts"

lemma healthy_run:
  assumes "rt_upstreams r u = Some s" "us_state s = StateHealthy"
    "sorted_wrt (<) (us_last_applied_event_at s # ts)"
  shows "state_of (runtime_run r (probe_successes u ts)) u = Some StateHealthy"
  using assms
proof (induction ts arbitrary: r s)
  case Nil
  then show ?case by (simp add: runtime_run_def probe_successes_def state_of_def)
next
  case (Cons t ts)
  from probe_success_healthy [OF Cons.prems(1), of t] Cons.prems(2,3)
  obtain s' where s': "rt_upstreams (runtime_step r (ProbeSuccess u t)) u = Some s'"
    "us_state s' = StateHealthy" "us_last_applied_event_at s' = t" by auto
  with Cons.IH [OF s'(1,2)] Cons.prems(3) show ?case
    by (simp add: probe_successes_def runtime_run_Cons)
qed

text \<open>From any state the machine can be in, \<open>recoverySuccessThreshold\<close> probe successes after the
  ejection window make the upstream healthy.\<close>

lemma recovery_run:
  assumes "rt_upstreams r u = Some s" "runtime_inv r"
    and "sorted_wrt (<) (us_last_applied_event_at s # ts)" "\<forall>t \<in> set ts. us_open_window_until s \<le> t"
    and "us_state s \<noteq> StateHalfOpen \<Longrightarrow> rt_recovery_threshold r \<le> int (length ts)"
    and "us_state s = StateHalfOpen \<Longrightarrow>
           rt_recovery_threshold r \<le> us_half_open_successes s + int (length ts)"
  shows "state_of (runtime_run r (probe_successes u ts)) u = Some StateHealthy"
  using assms
proof (induction ts arbitrary: r s)
  case Nil
  then show ?case
    using runtime_inv_upstream [OF Nil.prems(2,1)] runtime_shapeD(2) [OF runtime_inv_shape [OF Nil.prems(2)]]
    by (cases "us_state s") (auto simp: upstream_inv_def)
next
  case (Cons t ts)
  note ui = conjunct2 [OF runtime_inv_upstream [OF Cons.prems(2,1)]]
  note oi = runtime_shapeD(3) [OF runtime_inv_shape [OF Cons.prems(2)]]
  have t: "us_last_applied_event_at s < t" "us_open_window_until s \<le> t" using Cons.prems(3,4) by auto
  have t0: "0 \<le> t" using ui t(1) by (auto simp: upstream_inv_def)
  have run: "runtime_run r (probe_successes u (t # ts)) =
      runtime_run (record_probe_success u t r) (probe_successes u ts)"
    by (simp add: probe_successes_def runtime_run_Cons)
  show ?case
  proof (cases "us_state s \<in> {StateOpen, StateHalfOpen}")
    case False
    then have "us_state s \<in> {StateUnknown, StateHealthy}" by (cases "us_state s") auto
    from probe_success_healthy [OF Cons.prems(1) this t(1)] obtain s' where
      "rt_upstreams (record_probe_success u t r) u = Some s'" "us_state s' = StateHealthy"
      "us_last_applied_event_at s' = t" by auto
    with healthy_run [of "record_probe_success u t r" u s' ts] Cons.prems(3) run show ?thesis by simp
  next
    case True
    from probe_success_recovering [OF Cons.prems(1) ui oi True t]
    obtain s' where s': "rt_upstreams (record_probe_success u t r) u = Some s'"
      "us_last_applied_event_at s' = t"
      and alt: "us_half_open_successes s + 1 \<ge> rt_recovery_threshold r \<and> us_state s' = StateHealthy \<or>
        us_half_open_successes s + 1 < rt_recovery_threshold r \<and> us_state s' = StateHalfOpen \<and>
        us_half_open_successes s' = us_half_open_successes s + 1 \<and>
        us_open_window_until s' = us_open_window_until s" by blast
    from alt show ?thesis
    proof
      assume "us_half_open_successes s + 1 \<ge> rt_recovery_threshold r \<and> us_state s' = StateHealthy"
      with healthy_run [OF s'(1)] s'(2) Cons.prems(3) run show ?thesis by simp
    next
      assume h: "us_half_open_successes s + 1 < rt_recovery_threshold r \<and> us_state s' = StateHalfOpen \<and>
        us_half_open_successes s' = us_half_open_successes s + 1 \<and>
        us_open_window_until s' = us_open_window_until s"
      have z: "us_state s = StateOpen \<Longrightarrow> us_half_open_successes s = 0"
        using ui by (simp add: upstream_inv_def)
      have "rt_recovery_threshold (record_probe_success u t r) = rt_recovery_threshold r"
        by (simp add: record_probe_success_def frame)
      with Cons.IH [OF s'(1) record_inv(1) [OF Cons.prems(2) t0]] h s'(2) Cons.prems(3-6) True z run
      show ?thesis by auto
    qed
  qed
qed

end
