(* ===== verification/Health_Contracts.thy ===== *)
theory Health_Contracts
  imports Health_Moves
begin

text \<open>
  The runtime health store as the provider of the interfaces other packages use: the
  planner's \<open>eligibility\<close>, the executor's \<open>outcome_writer\<close> and the handlers' snapshot.
\<close>

section \<open>Eligibility\<close>

definition healthy_in :: "runtime \<Rightarrow> string \<Rightarrow> bool" where
  "healthy_in r u \<longleftrightarrow> state_of r u = Some StateHealthy"

text \<open>The clock is read once per query: the planner's state is the store and the number of
  readings so far.\<close>

type_synonym clocked = "runtime \<times> nat"

definition clocked_is_eligible :: "(nat \<Rightarrow> time) \<Rightarrow> clocked \<Rightarrow> string \<Rightarrow> bool \<times> clocked" where
  "clocked_is_eligible clock s u =
     (case is_eligible (clock (snd s)) (fst s) u of (b, r) \<Rightarrow> (b, (r, Suc (snd s))))"

lemma is_eligible_answer: "fst (is_eligible now r u) = healthy_in r u"
  by (auto simp: is_eligible_def healthy_in_def state_of_def Let_def split: option.splits)

lemma is_eligible_stable: "healthy_in (snd (is_eligible now r u)) v = healthy_in r v"
  by (auto simp: healthy_in_def state_of_def is_eligible_lookup)

text \<open>Only the healthy state is eligible and no query changes which upstreams are healthy, so
  the verdict is the same at every instant of one planning.\<close>

interpretation rt: eligibility "clocked_is_eligible clock" "\<lambda>s. healthy_in (fst s)"
    "\<lambda>s. runtime_inv (fst s)"
  for clock
  by unfold_locales
     (simp_all add: clocked_is_eligible_def case_prod_beta is_eligible_answer is_eligible_stable
       is_eligible_inv)

section \<open>Snapshots\<close>

lemma snapshot_stable: "healthy_in (snd (snapshot clock r)) u = healthy_in r u"
  using snapshot_lookup [of r u clock]
  by (cases "rt_upstreams r u"; cases "rt_upstreams (snd (snapshot clock r)) u")
     (auto simp: healthy_in_def state_of_def read_step_healthy)

text \<open>The snapshot lists every upstream once, in configuration order, with the planner's
  verdict as its eligible bit.\<close>

lemma snapshot_loop_statuses:
  assumes "runtime_inv r" "set us \<subseteq> dom (rt_upstreams r)"
  shows "map st_name (fst (snapshot_loop clock i us r)) = us \<and>
    list_all (\<lambda>s. st_eligible s = healthy_in r (st_name s)) (fst (snapshot_loop clock i us r))"
  using assms
proof (induction us arbitrary: i r)
  case (Cons u us)
  then obtain s where s: "rt_upstreams r u = Some s" by auto
  let ?r = "r\<lparr>rt_upstreams := (rt_upstreams r)(u \<mapsto> refresh (clock i) s)\<rparr>"
  have r: "?r = snd (is_eligible (clock i) r u)"
    using s by (simp add: is_eligible_def Let_def)
  have "healthy_in ?r v = healthy_in r v" for v
    unfolding r by (rule is_eligible_stable)
  moreover have i: "runtime_inv ?r" unfolding r by (rule is_eligible_inv [OF Cons.prems(1)])
  moreover have "us_name s = u" using runtime_inv_upstream [OF Cons.prems(1) s] by simp
  moreover have d: "set us \<subseteq> dom (rt_upstreams ?r)" using Cons.prems(2) by auto
  ultimately have "map st_name (fst (snapshot_loop clock (Suc i) us ?r)) = us \<and>
      list_all (\<lambda>s. st_eligible s = healthy_in r (st_name s)) (fst (snapshot_loop clock (Suc i) us ?r))"
    using Cons.IH [OF i d, of "Suc i"] by simp
  then show ?case
    using s \<open>us_name s = u\<close>
    by (simp add: Let_def case_prod_beta status_of_def healthy_in_def state_of_def)
qed simp

lemma snapshot_names: "runtime_inv r \<Longrightarrow> map st_name (snap_upstreams (fst (snapshot clock r))) = rt_order r"
  using snapshot_loop_statuses [of r "rt_order r" clock 0]
  by (simp add: snapshot_def Let_def case_prod_beta runtime_inv_def runtime_shape_def)

lemma snapshot_eligible:
  "runtime_inv r \<Longrightarrow> st \<in> set (snap_upstreams (fst (snapshot clock r))) \<Longrightarrow>
     st_eligible st = healthy_in r (st_name st)"
  using snapshot_loop_statuses [of r "rt_order r" clock 0]
  by (auto simp: snapshot_def Let_def case_prod_beta runtime_inv_def runtime_shape_def list_all_iff)

lemma healthy_in_order: "runtime_inv r \<Longrightarrow> healthy_in r u \<Longrightarrow> u \<in> set (rt_order r)"
  by (auto simp: runtime_inv_def runtime_shape_def healthy_in_def state_of_def)

lemma snapshot_has_eligible:
  assumes "runtime_inv r"
  shows "snap_has_eligible (fst (snapshot clock r)) \<longleftrightarrow> (\<exists>u. healthy_in r u)"
proof -
  have "snap_has_eligible (fst (snapshot clock r)) \<longleftrightarrow>
      (\<exists>st \<in> set (snap_upstreams (fst (snapshot clock r))). st_eligible st)"
    by (simp add: snapshot_def Let_def case_prod_beta)
  also have "\<dots> \<longleftrightarrow> (\<exists>u \<in> set (rt_order r). healthy_in r u)"
    using snapshot_eligible [OF assms] snapshot_names [OF assms, of clock]
    by (metis (no_types, lifting) imageE imageI list.set_map)
  finally show ?thesis using healthy_in_order [OF assms] by blast
qed

section \<open>Request outcomes\<close>

lemma healthy_other:
  "v \<noteq> u \<Longrightarrow> healthy_in (on_event u at f r) v = healthy_in r v"
  by (simp add: healthy_in_def state_of_def on_event_lookup)

lemma accept_healthy: "accept_event at s = Some s' \<Longrightarrow> us_state s' = StateHealthy \<longleftrightarrow> us_state s = StateHealthy"
  using accept_state [of at s s'] by auto

lemma healthy_event:
  "healthy_in (on_event u at f r) u \<longleftrightarrow>
     (\<exists>s. rt_upstreams r u = Some s \<and>
       (case accept_event at s of None \<Rightarrow> us_state s = StateHealthy
        | Some s' \<Rightarrow> us_state (f s') = StateHealthy))"
  by (cases "rt_upstreams r u"; cases "accept_event at (the (rt_upstreams r u))")
     (auto simp: healthy_in_def state_of_def on_event_lookup)

lemma healthy_inE:
  assumes "healthy_in r u"
  obtains s where "rt_upstreams r u = Some s" "us_state s = StateHealthy"
  using assms by (auto simp: healthy_in_def state_of_def)

lemma request_success_healthy:
  "us_state s = StateHealthy \<Longrightarrow> us_state (apply_request_success at s) = StateHealthy"
  by (simp add: apply_request_success_def clear_failures_def Let_def)

lemma request_failure_not_heal:
  "us_state (apply_request_failure fth oi at rb oc e s) = StateHealthy \<Longrightarrow> us_state s = StateHealthy"
  by (auto simp: apply_request_failure_def open_upstream_def Let_def
      split: if_splits health_state.splits)

lemma request_failure_excused:
  "\<not> rb \<or> oc \<Longrightarrow> us_state (apply_request_failure fth oi at rb oc e s) = us_state s"
  by (auto simp: apply_request_failure_def Let_def)

lemma request_success_keeps:
  assumes "healthy_in r u"
  shows "healthy_in (record_request_success u at r) u"
proof -
  from assms obtain s where "rt_upstreams r u = Some s" "us_state s = StateHealthy"
    by (rule healthy_inE)
  then show ?thesis
    by (cases "accept_event at s")
       (auto simp: record_request_success_def healthy_event accept_healthy intro: request_success_healthy)
qed

lemma request_failure_never_heals:
  assumes "healthy_in (record_request_failure u at rb oc e r) u"
  shows "healthy_in r u"
proof -
  from assms obtain s where "rt_upstreams r u = Some s" and
    "case accept_event at s of None \<Rightarrow> us_state s = StateHealthy
     | Some s' \<Rightarrow> us_state (apply_request_failure (rt_failure_threshold r) (rt_open_interval r)
         at rb oc e s') = StateHealthy"
    by (auto simp: record_request_failure_def healthy_event)
  then show ?thesis
    by (cases "accept_event at s")
       (auto simp: healthy_in_def state_of_def accept_healthy dest: request_failure_not_heal)
qed

lemma excused_event:
  assumes "\<And>s. us_state (f s) = us_state s"
  shows "healthy_in (on_event u at f r) v = healthy_in r v"
proof (cases "v = u \<and> rt_upstreams r u \<noteq> None")
  case True
  then obtain s where "v = u" "rt_upstreams r u = Some s" by auto
  with assms show ?thesis
    by (cases "accept_event at s")
       (auto simp: healthy_in_def state_of_def on_event_lookup accept_healthy)
qed (auto simp: healthy_in_def state_of_def on_event_lookup)

interpretation rtw: outcome_writer record_request_success record_request_failure healthy_in runtime_inv
proof
  show "healthy_in s u \<Longrightarrow> healthy_in (record_request_success u at s) u" for s u at
    by (rule request_success_keeps)
  show "healthy_in (record_request_failure u at rb oc e s) u \<Longrightarrow> healthy_in s u" for s u at rb oc e
    by (rule request_failure_never_heals)
  show "\<not> rb \<or> oc \<Longrightarrow> healthy_in (record_request_failure u at rb oc e s) v = healthy_in s v"
    for s u v at rb oc e
    using request_failure_excused by (auto simp: record_request_failure_def intro!: excused_event)
qed (auto simp: record_request_success_def record_request_failure_def healthy_other
      intro: record_inv [unfolded record_request_success_def record_request_failure_def])

section \<open>Events that are dropped\<close>

lemma stale_event_ignored:
  assumes "rt_upstreams r u = Some s" "us_last_applied_event_at s \<noteq> 0" "at \<le> us_last_applied_event_at s"
  shows "on_event u at f r = r"
  using assms by (simp add: on_event_def accept_event_def)

lemma window_event_ignored:
  assumes "runtime_inv r" "rt_upstreams r u = Some s" "us_state s \<in> {StateOpen, StateHalfOpen}"
    "at < us_open_window_until s"
  shows "on_event u at f r = r"
  using assms runtime_inv_upstream [OF assms(1,2)] runtime_shapeD(3) [OF runtime_inv_shape [OF assms(1)]]
  by (auto simp: on_event_def accept_event_def refresh_for_event_def open_boundary_def
      upstream_inv_def Let_def)

lemma unknown_upstream_ignored: "rt_upstreams r u = None \<Longrightarrow> on_event u at f r = r"
  by (simp add: on_event_def)

end
