(* ===== verification/System.thy ===== *)
theory System
  imports Service Health_Contracts
begin

text \<open>
  The running router as one state: the health store, the number of clock readings so far and
  the network.  \<open>app.New\<close> hands the same store to the planner, to the executor and to the
  handlers; here the store's operations and the two adapters act on their parts of the state,
  and the contracts of the store (\<open>Health_Contracts\<close>) are interpreted again on the whole.  The
  clock gives the nanoseconds after the zero time at every reading.
\<close>

section \<open>The shared state\<close>

record 'w system =
  sys_health :: runtime
  sys_ticks :: nat
  sys_net :: 'w

type_synonym wall_clock = "nat \<Rightarrow> nat"

definition sys_now :: "wall_clock \<Rightarrow> 'w system \<Rightarrow> time \<times> 'w system" where
  "sys_now clock s = (int (clock (sys_ticks s)), s\<lparr>sys_ticks := Suc (sys_ticks s)\<rparr>)"

definition sys_is_eligible :: "wall_clock \<Rightarrow> 'w system \<Rightarrow> string \<Rightarrow> bool \<times> 'w system" where
  "sys_is_eligible clock s u =
     (case sys_now clock s of (now, s1) \<Rightarrow>
      (case is_eligible now (sys_health s1) u of (b, r) \<Rightarrow> (b, s1\<lparr>sys_health := r\<rparr>)))"

definition sys_success :: "string \<Rightarrow> time \<Rightarrow> 'w system \<Rightarrow> 'w system" where
  "sys_success u at s = s\<lparr>sys_health := record_request_success u at (sys_health s)\<rparr>"

definition sys_failure :: "string \<Rightarrow> time \<Rightarrow> bool \<Rightarrow> bool \<Rightarrow> message \<Rightarrow> 'w system \<Rightarrow> 'w system" where
  "sys_failure u at rb oc e s = s\<lparr>sys_health := record_request_failure u at rb oc e (sys_health s)\<rparr>"

definition on_net :: "'w adapter \<Rightarrow> 'w system adapter" where
  "on_net a p req s = map_option (\<lambda>(r, w). (r, s\<lparr>sys_net := w\<rparr>)) (a p req (sys_net s))"

abbreviation sys_healthy :: "'w system \<Rightarrow> string \<Rightarrow> bool" where
  "sys_healthy s \<equiv> healthy_in (sys_health s)"

abbreviation sys_inv :: "'w system \<Rightarrow> bool" where
  "sys_inv s \<equiv> runtime_inv (sys_health s)"

section \<open>Wiring (\<open>runtime.NewExecutor\<close>, \<open>app.New\<close>)\<close>

definition new_executor ::
  "(float64 \<Rightarrow> go_int) \<Rightarrow> (string \<Rightarrow> string option) \<Rightarrow> wall_clock \<Rightarrow> 'w http_client \<Rightarrow>
   Executor.registry \<Rightarrow> 'w system executor" where
  "new_executor oob env clock client rg =
     \<lparr>ex_registry = rg,
      ex_openai = on_net (Openai_Provider.execute oob env client),
      ex_anthropic = on_net (anthropic_execute oob env client),
      ex_runtime = Some \<lparr>wr_success = sys_success, wr_failure = sys_failure\<rparr>,
      ex_now = sys_now clock\<rparr>"

definition app_planner :: "config \<Rightarrow> wall_clock \<Rightarrow> 'w system plan_fn" where
  "app_planner cfg clock = plan_route (new_planner cfg (Some (sys_is_eligible clock)))"

definition app_executor ::
  "config \<Rightarrow> (float64 \<Rightarrow> go_int) \<Rightarrow> (string \<Rightarrow> string option) \<Rightarrow> wall_clock \<Rightarrow> 'w http_client \<Rightarrow>
   'w system exec_fn" where
  "app_executor cfg oob env clock client =
     executor_execute (new_executor oob env clock client (new_registry (cfg_providers cfg)))"

definition app_service ::
  "config \<Rightarrow> (float64 \<Rightarrow> go_int) \<Rightarrow> (string \<Rightarrow> string option) \<Rightarrow> wall_clock \<Rightarrow> 'w http_client \<Rightarrow>
   'w system service_fn" where
  "app_service cfg oob env clock client =
     service_execute default_registry (app_planner cfg clock) (app_executor cfg oob env clock client)"

section \<open>The contracts on the whole state\<close>

interpretation sysw: outcome_writer sys_success sys_failure sys_healthy sys_inv
proof
  fix s :: "'w system" and u v at rb oc e
  show "sys_inv s \<Longrightarrow> 0 \<le> at \<Longrightarrow> sys_inv (sys_success u at s)"
    by (simp add: sys_success_def rtw.success_inv)
  show "sys_inv s \<Longrightarrow> 0 \<le> at \<Longrightarrow> sys_inv (sys_failure u at rb oc e s)"
    by (simp add: sys_failure_def rtw.failure_inv)
  show "v \<noteq> u \<Longrightarrow> sys_healthy (sys_success u at s) v = sys_healthy s v"
    by (simp add: sys_success_def rtw.success_other)
  show "v \<noteq> u \<Longrightarrow> sys_healthy (sys_failure u at rb oc e s) v = sys_healthy s v"
    by (simp add: sys_failure_def rtw.failure_other)
  show "sys_inv s \<Longrightarrow> sys_healthy s u \<Longrightarrow> sys_healthy (sys_success u at s) u"
    by (simp add: sys_success_def rtw.success_keeps)
  show "sys_inv s \<Longrightarrow> sys_healthy (sys_failure u at rb oc e s) u \<Longrightarrow> sys_healthy s u"
    using rtw.failure_never_heals [of "sys_health s" u at rb oc e] by (simp add: sys_failure_def)
  show "sys_inv s \<Longrightarrow> \<not> rb \<or> oc \<Longrightarrow> sys_healthy (sys_failure u at rb oc e s) v = sys_healthy s v"
    using rtw.failure_excused [of "sys_health s" rb oc u at e v] by (simp add: sys_failure_def)
qed

lemma on_net_quiet: "sysw.quiet_adapter (on_net a)"
  by (auto simp: sysw.quiet_adapter_def on_net_def)

lemma sys_now_quiet: "sysw.quiet_clock (sys_now clock)"
  by (simp add: sysw.quiet_clock_def sys_now_def)

lemma new_executor_wired: "sysw.wired (new_executor oob env clock client rg)"
  by (simp add: sysw.wired_def new_executor_def on_net_quiet sys_now_quiet)

lemma executor_total:
  assumes "conversation_ok (req_conversation req)"
  shows "executor_execute (new_executor oob env clock client rg) u req s \<noteq> None"
proof -
  let ?e = "new_executor oob env clock client rg"
  have o: "Openai_Provider.execute oob env client p req w \<noteq> None" for p w
    using execute_panic [of oob env client p req w] assms by blast
  have n: "anthropic_execute oob env client p req w \<noteq> None" for p w
    using anthropic_execute_panic [of oob env client p req w] conversation_ok_filter [OF assms] by blast
  have "a p req s \<noteq> None" if "select_adapter ?e p = Some a" for a p
    using that o [of p "sys_net s"] n [of p "sys_net s"]
    by (auto simp: select_adapter_def new_executor_def on_net_def split: if_splits)
  then show ?thesis
    by (fastforce simp: executor_execute_def Let_def split: sum.splits option.splits)
qed

interpretation sysr: routed "sys_is_eligible clock" sys_healthy
    "executor_execute (new_executor oob env clock client rg)"
    "\<lambda>req. conversation_ok (req_conversation req)" sys_inv
  for clock oob env client rg
proof unfold_locales
  fix s :: "'a system" and u v
  show "fst (sys_is_eligible clock s u) = sys_healthy s u"
    by (simp add: sys_is_eligible_def sys_now_def case_prod_beta is_eligible_answer)
  show "sys_healthy (snd (sys_is_eligible clock s u)) v = sys_healthy s v"
    by (simp add: sys_is_eligible_def sys_now_def case_prod_beta is_eligible_stable)
  show "sys_inv s \<Longrightarrow> sys_inv (snd (sys_is_eligible clock s u))"
    by (simp add: sys_is_eligible_def sys_now_def case_prod_beta is_eligible_inv)
next
  fix req :: request and s :: "'a system" and u
  assume "conversation_ok (req_conversation req)"
  then show "executor_execute (new_executor oob env clock client rg) u req s \<noteq> None"
    by (rule executor_total)
next
  fix req :: request and s s' :: "'a system" and u r
  assume "sys_inv s" "executor_execute (new_executor oob env clock client rg) u req s = Some (r, s')"
  then show "sys_inv s'" using sysw.execute_laws [OF new_executor_wired] by blast
qed

section \<open>One request through the wired service\<close>

lemma app_service_returns:
  assumes "conversation_ok (req_conversation req)"
  shows "app_service cfg oob env clock client policy req s \<noteq> None"
proof -
  have "run (app_planner cfg clock) (app_executor cfg oob env clock client) req s \<noteq> None"
    unfolding app_planner_def app_executor_def by (rule sysr.run_returns [OF assms])
  then show ?thesis
    by (auto simp: app_service_def service_execute_def split: option.splits prod.splits)
qed

lemma app_service_inv:
  assumes "sys_inv s" "app_service cfg oob env clock client policy req s = Some (x, s')"
  shows "sys_inv s'"
proof -
  have "sys_inv t" if "run (app_planner cfg clock) (app_executor cfg oob env clock client) req s = Some (y, t)" for y t
    using sysr.run_inv [OF assms(1)] that unfolding app_planner_def app_executor_def by blast
  with assms show ?thesis
    by (auto simp: app_service_def service_execute_def split: option.splits prod.splits)
qed

text \<open>The service only ever calls upstreams that were healthy when the request was planned.\<close>

lemma app_service_tries_healthy:
  assumes "sys_inv s"
    and x: "app_service cfg oob env clock client policy req s = Some ((r, as, err), s')"
    and "u \<in> set as"
  shows "sys_healthy s u \<and> u \<in> known_providers (cfg_providers cfg)"
proof -
  have "as \<noteq> []" using assms(3) by auto
  from service_valid [OF x [unfolded app_service_def]] this
  have "validate_public_surface req = None" "validate_request default_registry policy req = None"
    by auto
  from service_runs [OF this x [unfolded app_service_def]] obtain oc err' where
    "run (app_planner cfg clock) (app_executor cfg oob env clock client) req s = Some ((oc, err'), s')"
    "as = out_attempts oc" by auto
  with sysr.run_tries_eligible [OF assms(1)] assms(3) show ?thesis
    unfolding app_planner_def app_executor_def by blast
qed

section \<open>What a failed execution says\<close>

text \<open>The URL an adapter posts to, and whether a request to the provider can be sent at all.\<close>

definition wire_url :: "provider_config \<Rightarrow> request \<Rightarrow> string" where
  "wire_url p req = (if prv_provider p = ''openai'' then endpoint_url (prv_base_url p) (req_endpoint req)
     else anthropic_endpoint_url (prv_base_url p))"

definition sendable :: "(string \<Rightarrow> string option) \<Rightarrow> provider_config \<Rightarrow> request \<Rightarrow> bool" where
  "sendable env p req \<longleftrightarrow> prv_provider p \<in> {''openai'', ''anthropic''} \<and>
     new_request_ok ''POST'' (wire_url p req) \<and> key_available env p"

text \<open>The stream of an answer breaks, after \<open>c\<close>: whether it had produced an event.\<close>

definition stream_breaks ::
  "(float64 \<Rightarrow> go_int) \<Rightarrow> provider_config \<Rightarrow> request \<Rightarrow> stream \<Rightarrow> bool \<Rightarrow> bool" where
  "stream_breaks oob p req body c \<longleftrightarrow>
     (if prv_provider p = ''openai''
      then \<exists>e0. decode_stream oob (req_endpoint req) body = Inl (OpenAIStreamError e0 c)
      else \<exists>e0. anthropic_decode_stream oob (req_endpoint req) body = Inl (AnthropicStreamError e0 c))"

text \<open>The classification of a failed call: whether another upstream may be tried, and whether
  output was committed.\<close>

definition classified ::
  "(float64 \<Rightarrow> go_int) \<Rightarrow> provider_config \<Rightarrow> request \<Rightarrow> string + http_response \<Rightarrow> bool \<Rightarrow> bool \<Rightarrow> bool" where
  "classified oob p req answer retryable committed \<longleftrightarrow>
     (case answer of
        Inl msg \<Rightarrow> retryable \<and> \<not> committed
      | Inr resp \<Rightarrow>
          if 400 \<le> hs_status resp
          then \<not> committed \<and> (retryable \<longleftrightarrow> hs_status resp \<in> {429, 502, 503, 504})
          else retryable \<and> stream_breaks oob p req (hs_body resp) committed)"

lemma report_net: "sys_net (report_failure (new_executor oob env clock client rg) u err s) = sys_net s"
  by (simp add: report_failure_def new_executor_def sys_now_def sys_failure_def)

lemma wrapped_flags:
  "as_execution_error e = None \<Longrightarrow> as_openai_classified e = Some b \<Longrightarrow>
     exec_retryable (wrap_execution_error p u e) = b \<and> \<not> exec_committed (wrap_execution_error p u e)"
  "as_execution_error e = None \<Longrightarrow> as_openai_classified e = None \<Longrightarrow> as_anthropic_classified e = Some b \<Longrightarrow>
     exec_retryable (wrap_execution_error p u e) = b \<and> \<not> exec_committed (wrap_execution_error p u e)"
  "as_execution_error e = Some (i, r, c) \<Longrightarrow>
     exec_retryable (wrap_execution_error p u e) = r \<and> exec_committed (wrap_execution_error p u e) = c"
  "exec_retryable (wrap_execution_error p u (ExternalError m)) = False"
  by (simp_all add: wrap_retryable wrap_committed is_retryable_provider_error_def)

lemma openai_failure:
  assumes "prv_provider p = ''openai''" "Openai_Provider.execute oob env client p req w = Some (Inl e, w')"
  shows "if sendable env p req
    then \<exists>q answer. client q w = (answer, w') \<and>
      classified oob p req answer (exec_retryable (wrap_execution_error p u e))
        (exec_committed (wrap_execution_error p u e))
    else w' = w \<and> \<not> exec_retryable (wrap_execution_error p u e)"
proof (cases "sendable env p req")
  case True
  with assms(1) obtain h where "provider_auth_headers env p = Inr h"
    "new_request_ok ''POST'' (endpoint_url (prv_base_url p) (req_endpoint req))"
    by (auto simp: sendable_def wire_url_def provider_auth_headers_available [symmetric])
  with assms(2) obtain q answer where q: "client q w = (answer, w')"
    and r: "openai_response oob (req_endpoint req) answer = Inl e"
    by (auto simp: execute_def Let_def split: option.splits prod.splits)
  from openai_response_Inl [OF r]
  have "classified oob p req answer (exec_retryable (wrap_execution_error p u e))
      (exec_committed (wrap_execution_error p u e))"
    using assms(1) by (cases answer)
      (auto simp: classified_def stream_breaks_def wrapped_flags retryable_status_def split: if_splits)
  with True q show ?thesis by auto
next
  case False
  with assms provider_auth_headers_available [of env p] show ?thesis
    by (auto simp: execute_def Let_def sendable_def wire_url_def wrapped_flags
        split: option.splits prod.splits if_splits sum.splits)
qed

lemma anthropic_failure:
  assumes "prv_provider p = ''anthropic''" "anthropic_execute oob env client p req w = Some (Inl e, w')"
  shows "if sendable env p req
    then \<exists>q answer. client q w = (answer, w') \<and>
      classified oob p req answer (exec_retryable (wrap_execution_error p u e))
        (exec_committed (wrap_execution_error p u e))
    else w' = w \<and> \<not> exec_retryable (wrap_execution_error p u e)"
proof (cases "sendable env p req")
  case True
  with assms(1) obtain h where "provider_auth_headers env p = Inr h"
    "new_request_ok ''POST'' (anthropic_endpoint_url (prv_base_url p))"
    by (auto simp: sendable_def wire_url_def provider_auth_headers_available [symmetric])
  with assms(2) obtain q answer where q: "client q w = (answer, w')"
    and r: "anthropic_response oob (req_endpoint req) answer = Inl e"
    by (auto simp: anthropic_execute_def Let_def split: option.splits prod.splits)
  from anthropic_response_Inl [OF r]
  have "classified oob p req answer (exec_retryable (wrap_execution_error p u e))
      (exec_committed (wrap_execution_error p u e))"
    using assms(1) by (cases answer)
      (auto simp: classified_def stream_breaks_def wrapped_flags retryable_status_def split: if_splits)
  with True q show ?thesis by auto
next
  case False
  with assms provider_auth_headers_available [of env p] show ?thesis
    by (auto simp: anthropic_execute_def Let_def sendable_def wire_url_def wrapped_flags
        split: option.splits prod.splits if_splits sum.splits)
qed

lemma execution_failure:
  assumes r: "registry_resolve (new_registry (cfg_providers cfg)) u = Inr p"
    and x: "app_executor cfg oob env clock client u req s = Some (Inl e, s')"
  shows "if sendable env p req
    then is_execution_error e \<and> (\<exists>q answer. client q (sys_net s) = (answer, sys_net s') \<and>
      classified oob p req answer (exec_retryable e) (exec_committed e))
    else sys_net s' = sys_net s \<and> \<not> goes_on (Inl e)"
proof -
  let ?e = "new_executor oob env clock client (new_registry (cfg_providers cfg))"
  consider (o) "prv_provider p = ''openai''" | (a) "prv_provider p = ''anthropic''"
    | (n) "prv_provider p \<notin> {''openai'', ''anthropic''}" by blast
  then show ?thesis
  proof cases
    case o
    with r x obtain err w where y: "Openai_Provider.execute oob env client p req (sys_net s) = Some (Inl err, w)"
      and e: "e = wrap_execution_error p u err"
      and s': "s' = report_failure ?e u e (s\<lparr>sys_net := w\<rparr>)"
      by (auto simp: app_executor_def executor_execute_def select_adapter_def new_executor_def on_net_def
          Let_def split: option.splits sum.splits)
    have w: "sys_net s' = w" by (simp add: s' report_net)
    from openai_failure [OF o y, of u] show ?thesis
      unfolding w e by (auto simp: wrap_is_execution goes_on_Inl)
  next
    case a
    with r x obtain err w where y: "anthropic_execute oob env client p req (sys_net s) = Some (Inl err, w)"
      and e: "e = wrap_execution_error p u err"
      and s': "s' = report_failure ?e u e (s\<lparr>sys_net := w\<rparr>)"
      by (auto simp: app_executor_def executor_execute_def select_adapter_def new_executor_def on_net_def
          Let_def split: option.splits sum.splits)
    have w: "sys_net s' = w" by (simp add: s' report_net)
    from anthropic_failure [OF a y, of u] show ?thesis
      unfolding w e by (auto simp: wrap_is_execution goes_on_Inl)
  next
    case n
    with r x show ?thesis
      by (auto simp: app_executor_def executor_execute_def select_adapter_def new_executor_def sendable_def
          goes_on_Inl is_execution_error_def)
  qed
qed

end
