(* ===== verification/Public_Images.thy ===== *)
theory Public_Images
  imports Canonical Go_Url
begin

text \<open>
  \<open>httpapi/openai/image_validation.go\<close>: what both public endpoints accept as an image, and
  the two public error classes (\<open>invalid_request_error\<close> and \<open>unsupported_capability_error\<close> of
  \<open>Errors\<close>).
\<close>

definition validate_public_image_url :: "string \<Rightarrow> gerror option" where
  "validate_public_image_url raw =
     (let image_url = trim_space raw in
      if image_url = [] then Some (invalid_request_error [Lit ''image_url must not be empty''])
      else (case url_parse image_url of
          None \<Rightarrow> Some (invalid_request_error [Lit ''image_url must be a valid URL''])
        | Some parsed \<Rightarrow>
           (let scheme = to_lower (url_scheme parsed) in
            if scheme = ''http'' \<or> scheme = ''https'' then
              (if url_host parsed = []
               then Some (invalid_request_error [Lit ''image_url must include a host''])
               else None)
            else if scheme = ''data'' then
              Some (unsupported_capability_error [Lit ''data URL image inputs are not supported''])
            else Some (invalid_request_error [Lit ''image_url must use http or https'']))))"

definition validate_public_image_role :: "string \<Rightarrow> role \<Rightarrow> gerror option" where
  "validate_public_image_role raw_role r =
     (if raw_role \<noteq> role_string RoleUser \<or> r \<noteq> RoleUser
      then Some (invalid_request_error [Lit ''image content is only allowed on user messages''])
      else None)"

definition is_image_like :: "object \<Rightarrow> bool" where
  "is_image_like item =
     (if item = None then False
      else if mget item ''image_url'' \<noteq> None then True
      else if mget item ''file_id'' \<noteq> None then True
      else (case as_string (mget item ''type'') of
              Some t \<Rightarrow> contains (to_lower t) ''image''
            | None \<Rightarrow> False))"

definition normalize_text_field :: "object \<Rightarrow> string \<Rightarrow> gerror + string" where
  "normalize_text_field item field =
     (case mget item field of
        None \<Rightarrow> Inl (invalid_request_error [Verbatim field, Lit '' must be a string''])
      | Some v \<Rightarrow>
          (case as_string (Some v) of
             None \<Rightarrow> Inl (invalid_request_error [Verbatim field, Lit '' must be a string''])
           | Some s \<Rightarrow> Inr s))"

text \<open>Go ranges over the map in an arbitrary order, so any disallowed key may be the one the
  error names; here it is the first entry.\<close>

fun disallowed_key :: "(string \<times> any) list \<Rightarrow> string list \<Rightarrow> gerror option" where
  "disallowed_key [] allowed = None"
| "disallowed_key ((k, v) # rest) allowed =
     (if k \<in> set allowed then disallowed_key rest allowed
      else Some (unsupported_capability_error
        [Lit ''field '', Quoted k, Lit '' is not supported on this public image form'']))"

definition validate_allowed_keys :: "object \<Rightarrow> string list \<Rightarrow> gerror option" where
  "validate_allowed_keys raw allowed = disallowed_key (entries raw) allowed"

text \<open>\<open>normalizeRole\<close> of \<open>chat_encode.go\<close>, shared by both decoders.\<close>

definition normalize_role :: "string \<Rightarrow> role" where
  "normalize_role r =
     (if r = ''system'' then RoleSystem else if r = ''assistant'' then RoleAssistant
      else if r = ''tool'' then RoleTool else RoleUser)"

section \<open>What an accepted image is\<close>

definition image_url_ok :: "string \<Rightarrow> bool" where
  "image_url_ok raw \<longleftrightarrow>
     (\<exists>p. url_parse (trim_space raw) = Some p \<and>
        to_lower (url_scheme p) \<in> {''http'', ''https''} \<and> url_host p \<noteq> [])"

lemma url_parse_Nil: "url_parse [] = Some \<lparr>url_scheme = [], url_host = []\<rparr>"
  by code_simp

lemma validate_public_image_url_None: "validate_public_image_url raw = None \<longleftrightarrow> image_url_ok raw"
  by (auto simp: validate_public_image_url_def image_url_ok_def Let_def url_parse_Nil
      split: option.splits)

lemma validate_public_image_role_None:
  "validate_public_image_role raw r = None \<longleftrightarrow> raw = ''user'' \<and> r = RoleUser"
  by (auto simp: validate_public_image_role_def role_string_def)

lemma disallowed_key_None: "disallowed_key kvs allowed = None \<longleftrightarrow> fst ` set kvs \<subseteq> set allowed"
  by (induction kvs allowed rule: disallowed_key.induct) auto

lemma normalize_role_string: "normalize_role (role_string r) = r"
  by (cases r) (simp_all add: normalize_role_def role_string_def)

text \<open>Errors of the decoders carry one of the two public prefixes.\<close>

definition public_error :: "gerror \<Rightarrow> bool" where
  "public_error e \<longleftrightarrow> (\<exists>m. e = invalid_request_error m \<or> e = unsupported_capability_error m)"

lemma public_errorI [intro]:
  "public_error (invalid_request_error m)" "public_error (unsupported_capability_error m)"
  by (auto simp: public_error_def)

lemma image_errors_public:
  "validate_public_image_url raw = Some e \<Longrightarrow> public_error e"
  "validate_public_image_role raw r = Some e \<Longrightarrow> public_error e"
  "validate_allowed_keys m ks = Some e \<Longrightarrow> public_error e"
  "normalize_text_field m f = Inl e \<Longrightarrow> public_error e"
proof -
  show "validate_public_image_url raw = Some e \<Longrightarrow> public_error e"
    by (auto simp: validate_public_image_url_def Let_def split: if_splits option.splits)
  show "validate_public_image_role raw r = Some e \<Longrightarrow> public_error e"
    by (auto simp: validate_public_image_role_def split: if_splits)
  have "disallowed_key kvs ks = Some e \<Longrightarrow> public_error e" for kvs
    by (induction kvs ks rule: disallowed_key.induct) (auto split: if_splits)
  then show "validate_allowed_keys m ks = Some e \<Longrightarrow> public_error e"
    by (simp add: validate_allowed_keys_def)
  show "normalize_text_field m f = Inl e \<Longrightarrow> public_error e"
    by (auto simp: normalize_text_field_def split: option.splits)
qed

end
