(* ===== verification/Chat_Decode.thy ===== *)
theory Chat_Decode
  imports Public_Images
begin

text \<open>
  The chat-completions request: its JSON types (\<open>chat_types.go\<close>) and its translation into a
  canonical request (\<open>chat_encode.go\<close>).  A \<open>json.RawMessage\<close> is an optional syntax tree:
  \<open>None\<close> is the empty slice of an absent member, and an explicit \<open>null\<close> is \<open>Some JNull\<close>.
\<close>

section \<open>Types (\<open>chat_types.go\<close>)\<close>

record chat_message =
  cm_role :: string
  cm_content :: "json option"

record chat_tool_function =
  ctf_name :: string
  ctf_parameters :: object

record chat_tool =
  ct_type :: string
  ct_function :: "chat_tool_function option"

record chat_json_schema_format =
  cjs_name :: string
  cjs_schema :: object

record chat_response_format =
  crf_type :: string
  crf_json_schema :: "chat_json_schema_format option"

record chat_request =
  cr_model :: string
  cr_messages :: "chat_message slice"
  cr_stream :: bool
  cr_temperature :: "float64 option"
  cr_top_p :: "float64 option"
  cr_max_tokens :: "go_int option"
  cr_max_completion_tokens :: "go_int option"
  cr_stop :: "json option"
  cr_tools :: "chat_tool slice"
  cr_tool_choice :: "json option"
  cr_response_format :: "chat_response_format option"

definition zero_message :: chat_message where
  "zero_message = \<lparr>cm_role = [], cm_content = None\<rparr>"

definition zero_function :: chat_tool_function where
  "zero_function = \<lparr>ctf_name = [], ctf_parameters = None\<rparr>"

definition zero_tool :: chat_tool where
  "zero_tool = \<lparr>ct_type = [], ct_function = None\<rparr>"

definition zero_schema_format :: chat_json_schema_format where
  "zero_schema_format = \<lparr>cjs_name = [], cjs_schema = None\<rparr>"

definition zero_response_format :: chat_response_format where
  "zero_response_format = \<lparr>crf_type = [], crf_json_schema = None\<rparr>"

definition zero_chat_request :: chat_request where
  "zero_chat_request = \<lparr>cr_model = [], cr_messages = ([], []), cr_stream = False,
     cr_temperature = None, cr_top_p = None, cr_max_tokens = None,
     cr_max_completion_tokens = None, cr_stop = None, cr_tools = ([], []),
     cr_tool_choice = None, cr_response_format = None\<rparr>"

text \<open>Storing one member into each struct; unknown members are skipped.\<close>

definition message_field :: "chat_message \<Rightarrow> string \<Rightarrow> json \<Rightarrow> chat_message option" where
  "message_field m k j =
     (if equal_fold k ''role'' then map_option (\<lambda>s. m\<lparr>cm_role := s\<rparr>) (dec_string (cm_role m) j)
      else if equal_fold k ''content'' then Some (m\<lparr>cm_content := Some j\<rparr>)
      else Some m)"

definition function_field :: "chat_tool_function \<Rightarrow> string \<Rightarrow> json \<Rightarrow> chat_tool_function option" where
  "function_field f k j =
     (if equal_fold k ''name'' then map_option (\<lambda>s. f\<lparr>ctf_name := s\<rparr>) (dec_string (ctf_name f) j)
      else if equal_fold k ''parameters''
        then map_option (\<lambda>m. f\<lparr>ctf_parameters := m\<rparr>) (dec_object (ctf_parameters f) j)
      else Some f)"

definition tool_field :: "chat_tool \<Rightarrow> string \<Rightarrow> json \<Rightarrow> chat_tool option" where
  "tool_field t k j =
     (if equal_fold k ''type'' then map_option (\<lambda>s. t\<lparr>ct_type := s\<rparr>) (dec_string (ct_type t) j)
      else if equal_fold k ''function'' then
        map_option (\<lambda>f. t\<lparr>ct_function := f\<rparr>)
          (dec_ptr (dec_struct function_field) zero_function (ct_function t) j)
      else Some t)"

definition schema_format_field ::
  "chat_json_schema_format \<Rightarrow> string \<Rightarrow> json \<Rightarrow> chat_json_schema_format option" where
  "schema_format_field f k j =
     (if equal_fold k ''name'' then map_option (\<lambda>s. f\<lparr>cjs_name := s\<rparr>) (dec_string (cjs_name f) j)
      else if equal_fold k ''schema''
        then map_option (\<lambda>m. f\<lparr>cjs_schema := m\<rparr>) (dec_object (cjs_schema f) j)
      else Some f)"

definition response_format_field ::
  "chat_response_format \<Rightarrow> string \<Rightarrow> json \<Rightarrow> chat_response_format option" where
  "response_format_field f k j =
     (if equal_fold k ''type'' then map_option (\<lambda>s. f\<lparr>crf_type := s\<rparr>) (dec_string (crf_type f) j)
      else if equal_fold k ''json_schema'' then
        map_option (\<lambda>s. f\<lparr>crf_json_schema := s\<rparr>)
          (dec_ptr (dec_struct schema_format_field) zero_schema_format (crf_json_schema f) j)
      else Some f)"

definition chat_request_field :: "chat_request \<Rightarrow> string \<Rightarrow> json \<Rightarrow> chat_request option" where
  "chat_request_field r k j =
     (if equal_fold k ''model'' then map_option (\<lambda>s. r\<lparr>cr_model := s\<rparr>) (dec_string (cr_model r) j)
      else if equal_fold k ''messages'' then
        map_option (\<lambda>ms. r\<lparr>cr_messages := ms\<rparr>)
          (dec_slice_field (dec_struct message_field) zero_message (cr_messages r) j)
      else if equal_fold k ''stream'' then
        map_option (\<lambda>b. r\<lparr>cr_stream := b\<rparr>) (dec_bool (cr_stream r) j)
      else if equal_fold k ''temperature'' then
        map_option (\<lambda>x. r\<lparr>cr_temperature := x\<rparr>) (dec_float_ptr j)
      else if equal_fold k ''top_p'' then map_option (\<lambda>x. r\<lparr>cr_top_p := x\<rparr>) (dec_float_ptr j)
      else if equal_fold k ''max_tokens'' then
        map_option (\<lambda>n. r\<lparr>cr_max_tokens := n\<rparr>) (dec_int_ptr j)
      else if equal_fold k ''max_completion_tokens'' then
        map_option (\<lambda>n. r\<lparr>cr_max_completion_tokens := n\<rparr>) (dec_int_ptr j)
      else if equal_fold k ''stop'' then Some (r\<lparr>cr_stop := Some j\<rparr>)
      else if equal_fold k ''tools'' then
        map_option (\<lambda>ts. r\<lparr>cr_tools := ts\<rparr>)
          (dec_slice_field (dec_struct tool_field) zero_tool (cr_tools r) j)
      else if equal_fold k ''tool_choice'' then Some (r\<lparr>cr_tool_choice := Some j\<rparr>)
      else if equal_fold k ''response_format'' then
        map_option (\<lambda>f. r\<lparr>cr_response_format := f\<rparr>)
          (dec_ptr (dec_struct response_format_field) zero_response_format (cr_response_format r) j)
      else Some r)"

section \<open>Content (\<open>chat_encode.go\<close>)\<close>

definition normalize_chat_image_url :: "object \<Rightarrow> gerror + string" where
  "normalize_chat_image_url item =
     (if mget item ''file_id'' \<noteq> None
      then Inl (unsupported_capability_error [Lit ''image file_id form is not supported''])
      else (case validate_allowed_keys item [''type'', ''image_url''] of Some e \<Rightarrow> Inl e | None \<Rightarrow>
       (case mget item ''image_url'' of
          None \<Rightarrow> Inl (invalid_request_error [Lit ''image_url.url is required''])
        | Some (AMap m) \<Rightarrow>
            if mget m ''file_id'' \<noteq> None
            then Inl (unsupported_capability_error [Lit ''image file_id form is not supported''])
            else (case validate_allowed_keys m [''url''] of Some e \<Rightarrow> Inl e | None \<Rightarrow>
              (case mget m ''url'' of
                 None \<Rightarrow> Inl (invalid_request_error [Lit ''image_url.url is required''])
               | Some v \<Rightarrow>
                   (case as_string (Some v) of
                      None \<Rightarrow> Inl (invalid_request_error [Lit ''image_url.url must be a string''])
                    | Some u \<Rightarrow> Inr u)))
        | Some _ \<Rightarrow> Inl (invalid_request_error
                      [Lit ''image_url must be an object with a url field'']))))"

definition chat_content_item :: "string \<Rightarrow> role \<Rightarrow> object \<Rightarrow> gerror + content_block" where
  "chat_content_item raw_role r item =
     (let item_type = string_or_empty (mget item ''type'') in
      if item_type = ''text'' then
        (if is_image_like item then Inl (invalid_request_error
             [Lit ''messages.content text items must not include image fields''])
         else map_sum id text_block (normalize_text_field item ''text''))
      else if item_type = ''image_url'' then
        (case validate_public_image_role raw_role r of Some e \<Rightarrow> Inl e | None \<Rightarrow>
         (case normalize_chat_image_url item of Inl e \<Rightarrow> Inl e | Inr u \<Rightarrow>
          (case validate_public_image_url u of Some e \<Rightarrow> Inl e | None \<Rightarrow> Inr (image_block u))))
      else Inl (invalid_request_error
             [Lit ''messages.content item type '', Quoted item_type, Lit '' is not supported'']))"

fun collect :: "('a \<Rightarrow> gerror + 'b) \<Rightarrow> 'a list \<Rightarrow> gerror + 'b list" where
  "collect f [] = Inr []"
| "collect f (x # xs) =
     (case f x of Inl e \<Rightarrow> Inl e | Inr y \<Rightarrow> map_sum id ((#) y) (collect f xs))"

definition normalize_chat_content :: "json option \<Rightarrow> string \<Rightarrow> role \<Rightarrow> gerror + content_block list" where
  "normalize_chat_content raw raw_role r =
     (case raw of None \<Rightarrow> Inr []
      | Some j \<Rightarrow>
        (case dec_string [] j of Some t \<Rightarrow> Inr [text_block t]
         | None \<Rightarrow>
           (case dec_slice (dec_object None) j of
              None \<Rightarrow> Inl (invalid_request_error
                [Lit ''messages.content must be a string or array of content objects''])
            | Some items \<Rightarrow> collect (chat_content_item raw_role r) items)))"

definition chat_turn :: "chat_message \<Rightarrow> gerror + turn" where
  "chat_turn m = (let r = normalize_role (cm_role m) in
     map_sum id (\<lambda>bs. \<lparr>turn_role = r, turn_content = bs\<rparr>)
       (normalize_chat_content (cm_content m) (cm_role m) r))"

section \<open>Tools, stop sequences and contracts (\<open>chat_encode.go\<close>)\<close>

fun chat_tools :: "chat_tool list \<Rightarrow> tool list" where
  "chat_tools [] = []"
| "chat_tools (t # ts) =
     (case ct_function t of
        None \<Rightarrow> chat_tools ts
      | Some f \<Rightarrow> if ct_type t \<noteq> ''function'' then chat_tools ts
                 else \<lparr>tool_name = ctf_name f, tool_schema = ctf_parameters f\<rparr> # chat_tools ts)"

definition decode_stop :: "json option \<Rightarrow> gerror + string list" where
  "decode_stop raw =
     (case raw of None \<Rightarrow> Inr []
      | Some j \<Rightarrow>
        (case dec_string [] j of Some s \<Rightarrow> Inr (if s = [] then [] else [s])
         | None \<Rightarrow>
           (case dec_slice (dec_string []) j of None \<Rightarrow> Inl (ExternalError ''json.Unmarshal'')
            | Some ss \<Rightarrow> Inr ss)))"

record named_choice =
  nc_type :: string
  nc_function :: "string option"   \<comment> \<open>the name in the \<open>function\<close> struct\<close>

definition choice_function_field :: "string \<Rightarrow> string \<Rightarrow> json \<Rightarrow> string option" where
  "choice_function_field n k j = (if equal_fold k ''name'' then dec_string n j else Some n)"

definition choice_field :: "named_choice \<Rightarrow> string \<Rightarrow> json \<Rightarrow> named_choice option" where
  "choice_field c k j =
     (if equal_fold k ''type'' then map_option (\<lambda>s. c\<lparr>nc_type := s\<rparr>) (dec_string (nc_type c) j)
      else if equal_fold k ''function'' then
        map_option (\<lambda>f. c\<lparr>nc_function := f\<rparr>)
          (dec_ptr (dec_struct choice_function_field) [] (nc_function c) j)
      else Some c)"

definition no_choice :: tool_choice where
  "no_choice = \<lparr>choice_name = []\<rparr>"

definition decode_chat_tool_choice :: "json option \<Rightarrow> gerror + tool_choice" where
  "decode_chat_tool_choice raw =
     (case raw of None \<Rightarrow> Inr no_choice
      | Some JNull \<Rightarrow> Inr no_choice
      | Some j \<Rightarrow>
        (case dec_string [] j of
           Some mode \<Rightarrow>
             if mode = [] \<or> mode = ''auto'' then Inr no_choice
             else Inl (ErrorString [Lit ''invalid tool_choice: unsupported value '', Quoted mode])
         | None \<Rightarrow>
           (case dec_struct choice_field \<lparr>nc_type = [], nc_function = None\<rparr> j of
              None \<Rightarrow> Inl (Wrapped [Lit ''invalid tool_choice: ''] (Some (ExternalError ''json.Unmarshal'')) [])
            | Some c \<Rightarrow>
                (case nc_function c of
                   Some n \<Rightarrow>
                     if nc_type c \<noteq> ''function'' \<or> n = []
                     then Inl (ErrorString [Lit ''invalid tool_choice: expected named function tool choice''])
                     else Inr \<lparr>choice_name = n\<rparr>
                 | None \<Rightarrow> Inl (ErrorString
                       [Lit ''invalid tool_choice: expected named function tool choice''])))))"

definition decode_chat_response_contract :: "chat_response_format option \<Rightarrow> response_contract" where
  "decode_chat_response_contract fmt =
     (case fmt of None \<Rightarrow> no_contract
      | Some f \<Rightarrow>
        if crf_type f = ''json_object'' then \<lparr>rc_kind = ResponseContractJSONObject, rc_schema = None\<rparr>
        else if crf_type f = ''json_schema'' then
          \<lparr>rc_kind = ResponseContractJSONSchema,
           rc_schema = (case crf_json_schema f of None \<Rightarrow> None | Some s \<Rightarrow> cjs_schema s)\<rparr>
        else no_contract)"

section \<open>The request\<close>

definition chat_of_request :: "chat_request \<Rightarrow> gerror + request" where
  "chat_of_request r =
     (case collect chat_turn (fst (cr_messages r)) of Inl e \<Rightarrow> Inl e | Inr conversation \<Rightarrow>
      (case decode_chat_tool_choice (cr_tool_choice r) of Inl e \<Rightarrow> Inl e | Inr choice \<Rightarrow>
       (case decode_stop (cr_stop r) of Inl e \<Rightarrow> Inl e | Inr stop \<Rightarrow>
        Inr \<lparr>req_endpoint = EndpointKindChatCompletions, req_model = cr_model r,
             req_conversation = conversation,
             req_generation = \<lparr>gen_temperature = cr_temperature r, gen_top_p = cr_top_p r,
               gen_max_output_tokens = (case cr_max_completion_tokens r of
                   None \<Rightarrow> cr_max_tokens r | Some n \<Rightarrow> Some n),
               gen_stop = stop\<rparr>,
             req_tools = chat_tools (fst (cr_tools r)), req_tool_choice = choice,
             req_contract = decode_chat_response_contract (cr_response_format r),
             req_stream = cr_stream r, req_metadata = None\<rparr>)))"

definition malformed_body :: gerror where
  "malformed_body = invalid_request_error [Lit ''malformed request body: '', Foreign]"

definition decode_chat_completion_request :: "string \<times> gerror option \<Rightarrow> gerror + request" where
  "decode_chat_completion_request body =
     (case decode_body body of None \<Rightarrow> Inl malformed_body
      | Some j \<Rightarrow>
        (case dec_struct chat_request_field zero_chat_request j of
           None \<Rightarrow> Inl malformed_body
         | Some r \<Rightarrow> chat_of_request r))"

end
