(* ===== verification/Responses_Decode.thy ===== *)
theory Responses_Decode
  imports Chat_Decode
begin

text \<open>
  The responses request: its JSON types (\<open>responses_types.go\<close> and the unexported input types)
  and its translation into a canonical request (\<open>responses_encode.go\<close>).
\<close>

section \<open>Types (\<open>responses_types.go\<close>, \<open>responses_encode.go\<close>)\<close>

record responses_content_input =
  rci_type :: string
  rci_text :: string
  rci_raw :: object

record responses_input =
  ri_role :: string
  ri_content :: "responses_content_input slice"

record responses_tool =
  rst_type :: string
  rst_name :: string
  rst_parameters :: object

record responses_request =
  rr_model :: string
  rr_input :: "responses_input slice"
  rr_stream :: bool
  rr_text :: "object option"      \<comment> \<open>the \<open>Format\<close> of the text block\<close>
  rr_tools :: "responses_tool slice"
  rr_temperature :: "float64 option"
  rr_top_p :: "float64 option"
  rr_max_output_tokens :: "go_int option"
  rr_metadata :: "string gmap"

definition zero_content :: responses_content_input where
  "zero_content = \<lparr>rci_type = [], rci_text = [], rci_raw = None\<rparr>"

definition zero_input :: responses_input where
  "zero_input = \<lparr>ri_role = [], ri_content = ([], [])\<rparr>"

definition zero_responses_tool :: responses_tool where
  "zero_responses_tool = \<lparr>rst_type = [], rst_name = [], rst_parameters = None\<rparr>"

definition zero_responses_request :: responses_request where
  "zero_responses_request = \<lparr>rr_model = [], rr_input = ([], []), rr_stream = False,
     rr_text = None, rr_tools = ([], []), rr_temperature = None, rr_top_p = None,
     rr_max_output_tokens = None, rr_metadata = None\<rparr>"

text \<open>\<open>responsesContentInput.UnmarshalJSON\<close>; what the element held before does not matter.\<close>

definition unmarshal_content :: "responses_content_input \<Rightarrow> json \<Rightarrow> responses_content_input option" where
  "unmarshal_content old j =
     (case dec_object None j of None \<Rightarrow> None
      | Some raw \<Rightarrow> Some \<lparr>rci_type = string_or_empty (mget raw ''type''),
                         rci_text = string_or_empty (mget raw ''text''), rci_raw = raw\<rparr>)"

definition input_field :: "responses_input \<Rightarrow> string \<Rightarrow> json \<Rightarrow> responses_input option" where
  "input_field i k j =
     (if equal_fold k ''role'' then map_option (\<lambda>s. i\<lparr>ri_role := s\<rparr>) (dec_string (ri_role i) j)
      else if equal_fold k ''content'' then
        map_option (\<lambda>cs. i\<lparr>ri_content := cs\<rparr>)
          (dec_slice_field unmarshal_content zero_content (ri_content i) j)
      else Some i)"

definition text_block_field :: "object \<Rightarrow> string \<Rightarrow> json \<Rightarrow> object option" where
  "text_block_field f k j = (if equal_fold k ''format'' then dec_object f j else Some f)"

definition responses_tool_field :: "responses_tool \<Rightarrow> string \<Rightarrow> json \<Rightarrow> responses_tool option" where
  "responses_tool_field t k j =
     (if equal_fold k ''type'' then map_option (\<lambda>s. t\<lparr>rst_type := s\<rparr>) (dec_string (rst_type t) j)
      else if equal_fold k ''name'' then map_option (\<lambda>s. t\<lparr>rst_name := s\<rparr>) (dec_string (rst_name t) j)
      else if equal_fold k ''parameters''
        then map_option (\<lambda>m. t\<lparr>rst_parameters := m\<rparr>) (dec_object (rst_parameters t) j)
      else Some t)"

definition responses_request_field :: "responses_request \<Rightarrow> string \<Rightarrow> json \<Rightarrow> responses_request option" where
  "responses_request_field r k j =
     (if equal_fold k ''model'' then map_option (\<lambda>s. r\<lparr>rr_model := s\<rparr>) (dec_string (rr_model r) j)
      else if equal_fold k ''input'' then
        map_option (\<lambda>is. r\<lparr>rr_input := is\<rparr>)
          (dec_slice_field (dec_struct input_field) zero_input (rr_input r) j)
      else if equal_fold k ''stream'' then
        map_option (\<lambda>b. r\<lparr>rr_stream := b\<rparr>) (dec_bool (rr_stream r) j)
      else if equal_fold k ''text'' then
        map_option (\<lambda>t. r\<lparr>rr_text := t\<rparr>)
          (dec_ptr (dec_struct text_block_field) None (rr_text r) j)
      else if equal_fold k ''tools'' then
        map_option (\<lambda>ts. r\<lparr>rr_tools := ts\<rparr>)
          (dec_slice_field (dec_struct responses_tool_field) zero_responses_tool (rr_tools r) j)
      else if equal_fold k ''temperature'' then
        map_option (\<lambda>x. r\<lparr>rr_temperature := x\<rparr>) (dec_float_ptr j)
      else if equal_fold k ''top_p'' then map_option (\<lambda>x. r\<lparr>rr_top_p := x\<rparr>) (dec_float_ptr j)
      else if equal_fold k ''max_output_tokens'' then
        map_option (\<lambda>n. r\<lparr>rr_max_output_tokens := n\<rparr>) (dec_int_ptr j)
      else if equal_fold k ''metadata'' then
        map_option (\<lambda>m. r\<lparr>rr_metadata := m\<rparr>) (dec_string_map (rr_metadata r) j)
      else Some r)"

section \<open>Content (\<open>responses_encode.go\<close>)\<close>

definition normalize_responses_image_url :: "object \<Rightarrow> gerror + string" where
  "normalize_responses_image_url item =
     (if mget item ''file_id'' \<noteq> None
      then Inl (unsupported_capability_error [Lit ''input_image file_id form is not supported''])
      else (case validate_allowed_keys item [''type'', ''image_url''] of Some e \<Rightarrow> Inl e | None \<Rightarrow>
       (case mget item ''image_url'' of
          None \<Rightarrow> Inl (invalid_request_error [Lit ''input_image.image_url is required''])
        | Some (AStr u) \<Rightarrow> Inr u
        | Some (AMap m) \<Rightarrow>
            if mget m ''file_id'' \<noteq> None
            then Inl (unsupported_capability_error [Lit ''input_image file_id form is not supported''])
            else Inl (invalid_request_error [Lit ''input_image.image_url must be a string''])
        | Some _ \<Rightarrow> Inl (invalid_request_error [Lit ''input_image.image_url must be a string'']))))"

definition responses_content :: "string \<Rightarrow> role \<Rightarrow> responses_content_input \<Rightarrow> gerror + content_block" where
  "responses_content raw_role r c =
     (if rci_type c = ''input_text'' then
        (if is_image_like (rci_raw c)
         then Inl (invalid_request_error [Lit ''input_text items must not include image fields''])
         else map_sum id text_block (normalize_text_field (rci_raw c) ''text''))
      else if rci_type c = ''input_image'' then
        (case validate_public_image_role raw_role r of Some e \<Rightarrow> Inl e | None \<Rightarrow>
         (case normalize_responses_image_url (rci_raw c) of Inl e \<Rightarrow> Inl e | Inr u \<Rightarrow>
          (case validate_public_image_url u of Some e \<Rightarrow> Inl e | None \<Rightarrow> Inr (image_block u))))
      else Inl (invalid_request_error
             [Lit ''input content item type '', Quoted (rci_type c), Lit '' is not supported'']))"

definition responses_turn :: "responses_input \<Rightarrow> gerror + turn" where
  "responses_turn i = (let r = normalize_role (ri_role i) in
     map_sum id (\<lambda>bs. \<lparr>turn_role = r, turn_content = bs\<rparr>)
       (collect (responses_content (ri_role i) r) (fst (ri_content i))))"

fun responses_tools :: "responses_tool list \<Rightarrow> tool list" where
  "responses_tools [] = []"
| "responses_tools (t # ts) =
     (if rst_name t = [] then responses_tools ts
      else \<lparr>tool_name = rst_name t, tool_schema = rst_parameters t\<rparr> # responses_tools ts)"

text \<open>\<open>fmt.Sprint\<close> of a value that is not a string never prints one of the two names.\<close>

definition decode_responses_contract :: "object option \<Rightarrow> response_contract" where
  "decode_responses_contract text =
     (case text of None \<Rightarrow> no_contract
      | Some fmt \<Rightarrow>
        if mlen fmt = 0 then no_contract
        else (let typ = as_string (mget fmt ''type'') in
          if typ = Some ''json_object'' then \<lparr>rc_kind = ResponseContractJSONObject, rc_schema = None\<rparr>
          else if typ = Some ''json_schema'' then
            \<lparr>rc_kind = ResponseContractJSONSchema,
             rc_schema = (case mget fmt ''schema'' of Some (AMap m) \<Rightarrow> m | _ \<Rightarrow> None)\<rparr>
          else no_contract))"

section \<open>The request\<close>

definition responses_of_request :: "responses_request \<Rightarrow> gerror + request" where
  "responses_of_request r =
     (case collect responses_turn (fst (rr_input r)) of Inl e \<Rightarrow> Inl e | Inr conversation \<Rightarrow>
      Inr \<lparr>req_endpoint = EndpointKindResponses, req_model = rr_model r,
           req_conversation = conversation,
           req_generation = \<lparr>gen_temperature = rr_temperature r, gen_top_p = rr_top_p r,
             gen_max_output_tokens = rr_max_output_tokens r, gen_stop = []\<rparr>,
           req_tools = responses_tools (fst (rr_tools r)), req_tool_choice = no_choice,
           req_contract = decode_responses_contract (rr_text r),
           req_stream = rr_stream r, req_metadata = rr_metadata r\<rparr>)"

definition decode_responses_request :: "string \<times> gerror option \<Rightarrow> gerror + request" where
  "decode_responses_request body =
     (case decode_body body of None \<Rightarrow> Inl malformed_body
      | Some j \<Rightarrow>
        (case dec_struct responses_request_field zero_responses_request j of
           None \<Rightarrow> Inl malformed_body
         | Some r \<Rightarrow> responses_of_request r))"

end
