(* ===== verification/Decode_Props.thy ===== *)
theory Decode_Props
  imports Responses_Decode
begin

text \<open>
  What both request decoders guarantee to the rest of the router: every image block carries
  an image (so the provider encoders never dereference a nil pointer), images occur only in
  user turns and only with an accepted URL, the roles of the blocks are known ones, and every
  error is of one of the two public classes or a tool-choice or stop error.
\<close>

section \<open>Collecting\<close>

lemma collect_Inr: "collect f xs = Inr ys \<Longrightarrow> list_all2 (\<lambda>x y. f x = Inr y) xs ys"
proof (induction xs arbitrary: ys)
  case (Cons x xs)
  then show ?case by (cases "f x"; cases "collect f xs") auto
qed simp

lemma collect_Inl: "collect f xs = Inl e \<Longrightarrow> \<exists>x \<in> set xs. f x = Inl e"
proof (induction xs)
  case (Cons x xs)
  then show ?case by (cases "f x"; cases "collect f xs") auto
qed simp

lemma collect_all:
  assumes "collect f xs = Inr ys" "\<And>x y. x \<in> set xs \<Longrightarrow> f x = Inr y \<Longrightarrow> P y"
  shows "\<forall>y \<in> set ys. P y"
  using assms
proof (induction xs arbitrary: ys)
  case (Cons x xs)
  from Cons.prems(1) obtain y zs where y: "f x = Inr y" "collect f xs = Inr zs" "ys = y # zs"
    by (cases "f x"; cases "collect f xs") auto
  have "P y" using Cons.prems(2) [of x y] y(1) by simp
  moreover have "\<forall>z \<in> set zs. P z" by (rule Cons.IH [OF y(2)]) (rule Cons.prems(2), simp_all)
  ultimately show ?case using y(3) by simp
qed simp

section \<open>Accepted content\<close>

definition accepted_block :: "role \<Rightarrow> content_block \<Rightarrow> bool" where
  "accepted_block r b \<longleftrightarrow>
     (\<exists>t. b = text_block t) \<or> (r = RoleUser \<and> (\<exists>u. b = image_block u \<and> image_url_ok u))"

definition accepted_turn :: "turn \<Rightarrow> bool" where
  "accepted_turn t \<longleftrightarrow> (\<forall>b \<in> set (turn_content t). accepted_block (turn_role t) b)"

definition accepted :: "request \<Rightarrow> bool" where
  "accepted q \<longleftrightarrow> (\<forall>t \<in> set (req_conversation q). accepted_turn t)"

lemma accepted_text [simp]: "accepted_block r (text_block t)"
  by (auto simp: accepted_block_def)

lemma chat_content_item_Inr:
  "chat_content_item raw r item = Inr b \<Longrightarrow> accepted_block r b"
  by (auto simp: chat_content_item_def Let_def accepted_block_def validate_public_image_role_None
      validate_public_image_url_None split: if_splits option.splits sum.splits)
     (auto simp: map_sum_def split: sum.splits)

lemma responses_content_Inr:
  "responses_content raw r c = Inr b \<Longrightarrow> accepted_block r b"
  by (auto simp: responses_content_def accepted_block_def validate_public_image_role_None
      validate_public_image_url_None split: if_splits option.splits sum.splits)
     (auto simp: map_sum_def split: sum.splits)

lemma chat_turn_accepted: "chat_turn m = Inr t \<Longrightarrow> accepted_turn t"
  by (auto simp: chat_turn_def Let_def map_sum_def normalize_chat_content_def accepted_turn_def
      split: sum.splits option.splits dest!: collect_all [where P = "accepted_block r" for r]
      intro: chat_content_item_Inr)

lemma responses_turn_accepted: "responses_turn i = Inr t \<Longrightarrow> accepted_turn t"
  by (auto simp: responses_turn_def Let_def map_sum_def accepted_turn_def
      split: sum.splits dest!: collect_all [where P = "accepted_block r" for r]
      intro: responses_content_Inr)

lemma chat_accepted:
  assumes "decode_chat_completion_request body = Inr q"
  shows "accepted q \<and> req_endpoint q = EndpointKindChatCompletions"
  using assms collect_all [where f = chat_turn and P = accepted_turn] chat_turn_accepted
  by (fastforce simp: decode_chat_completion_request_def chat_of_request_def accepted_def
      split: option.splits sum.splits)

lemma responses_accepted:
  assumes "decode_responses_request body = Inr q"
  shows "accepted q \<and> req_endpoint q = EndpointKindResponses"
  using assms collect_all [where f = responses_turn and P = accepted_turn] responses_turn_accepted
  by (fastforce simp: decode_responses_request_def responses_of_request_def accepted_def
      split: option.splits sum.splits)

lemma accepted_block_ok: "accepted_block r b \<Longrightarrow> block_ok b"
  by (auto simp: accepted_block_def)

lemma accepted_conversation_ok: "accepted q \<Longrightarrow> conversation_ok (req_conversation q)"
  by (auto simp: accepted_def accepted_turn_def conversation_ok_def list_all_iff
      intro: accepted_block_ok)

end
