(* ===== verification/Handlers.thy ===== *)
theory Handlers
  imports Streaming System Decode_Props
begin

text \<open>
  Package \<open>httpapi/handlers\<close>: the two public endpoints (\<open>chat_completions.go\<close>,
  \<open>responses.go\<close>), liveness and readiness (\<open>health.go\<close>), the admin views (\<open>admin.go\<close>) and
  what they share (\<open>common.go\<close>).  A handler maps the writer and the state to the writer and
  the state; \<open>None\<close> is a panic.
\<close>

section \<open>Shared helpers (\<open>common.go\<close>)\<close>

definition set_streaming_headers :: "response_writer \<Rightarrow> response_writer" where
  "set_streaming_headers w =
     set_header ''Connection'' ''keep-alive''
       (set_header ''Cache-Control'' ''no-cache''
         (set_header ''Content-Type'' ''text/event-stream'' w))"

definition write_json :: "body_part \<Rightarrow> response_writer \<Rightarrow> response_writer" where
  "write_json p w = snd (write_part p (set_header ''Content-Type'' ''application/json'' w))"

definition write_decode_error :: "response_writer \<Rightarrow> gerror \<Rightarrow> response_writer" where
  "write_decode_error w e =
     (if message_has_prefix (error_text e) ''unsupported_capability:''
      then write_error 400 ''unsupported_capability'' (error_text e) w
      else write_error 400 ''invalid_request'' (error_text e) w)"

definition write_execution_error :: "response_writer \<Rightarrow> gerror \<Rightarrow> response_writer" where
  "write_execution_error w e =
     (if is_unsupported e then write_error 400 ''unsupported_capability'' (error_text e) w
      else if message_has_prefix (error_text e) ''unsupported_capability:''
      then write_error 400 ''unsupported_capability'' (error_text e) w
      else if as_execution_error e \<noteq> None
      then write_error 502 ''upstream_error'' [Lit ''upstream request failed''] w
      else write_error 400 ''invalid_request'' (error_text e) w)"

text \<open>\<open>http.Flusher.Flush\<close> sends the status when nothing did.\<close>

definition flush :: "response_writer \<Rightarrow> response_writer" where
  "flush w = write_header 200 w"

definition relay ::
  "(response_writer \<Rightarrow> event list \<Rightarrow> gerror option \<times> response_writer) \<Rightarrow> event list \<Rightarrow>
   response_writer \<Rightarrow> response_writer" where
  "relay sse es w =
     (case sse (set_streaming_headers w) es of (Some e, w') \<Rightarrow> w' | (None, w') \<Rightarrow> flush w')"

section \<open>The public endpoints\<close>

text \<open>What is fixed for one request: the conversions and random bytes Go leaves open.\<close>

record 's env =
  en_oob :: "float64 \<Rightarrow> go_int"
  en_rand :: "8 word list option"
  en_nanos :: int
  en_service :: "'s service_fn"

definition missing_policy :: "response_writer \<Rightarrow> response_writer" where
  "missing_policy w = write_error 401 ''auth_error'' [Lit ''missing client policy''] w"

definition chat_completions ::
  "'s env \<Rightarrow> client_policy option \<Rightarrow> stream \<Rightarrow> response_writer \<Rightarrow> 's \<Rightarrow> (response_writer \<times> 's) option" where
  "chat_completions en policy body w s =
     (case policy of None \<Rightarrow> Some (missing_policy w, s)
      | Some pol \<Rightarrow>
        (case decode_chat_completion_request body of
           Inl e \<Rightarrow> Some (write_decode_error w e, s)
         | Inr req \<Rightarrow>
           (case en_service en pol req s of
              None \<Rightarrow> None
            | Some ((res, _, Some e), s') \<Rightarrow> Some (write_execution_error w e, s')
            | Some ((res, _, None), s') \<Rightarrow> Some
                (if req_stream req
                 then relay write_chat_completion_sse (res_events res) w
                 else write_json (ChatBody (finalize_chat_completion (en_oob en) (en_rand en)
                        (en_nanos en) (res_events res) (req_model req))) w,
                 s'))))"

definition responses ::
  "'s env \<Rightarrow> client_policy option \<Rightarrow> stream \<Rightarrow> response_writer \<Rightarrow> 's \<Rightarrow> (response_writer \<times> 's) option" where
  "responses en policy body w s =
     (case policy of None \<Rightarrow> Some (missing_policy w, s)
      | Some pol \<Rightarrow>
        (case decode_responses_request body of
           Inl e \<Rightarrow> Some (write_decode_error w e, s)
         | Inr req \<Rightarrow>
           (case en_service en pol req s of
              None \<Rightarrow> None
            | Some ((res, _, Some e), s') \<Rightarrow> Some (write_execution_error w e, s')
            | Some ((res, _, None), s') \<Rightarrow> Some
                (if req_stream req
                 then relay write_responses_sse (res_events res) w
                 else write_json (ResponseBody (finalize_response (en_oob en) (en_rand en)
                        (en_nanos en) (res_events res) (req_model req))) w,
                 s'))))"

section \<open>Liveness and readiness (\<open>health.go\<close>)\<close>

definition livez :: "response_writer \<Rightarrow> response_writer" where
  "livez w = snd (write_part (Raw ''ok'') (write_header 200 w))"

fun route_group_has_eligible ::
  "string list \<Rightarrow> string set \<Rightarrow> (string \<rightharpoonup> upstream_status) \<Rightarrow> bool" where
  "route_group_has_eligible [] providers upstreams = False"
| "route_group_has_eligible (u # us) providers upstreams =
     (if u = [] then route_group_has_eligible us providers upstreams
      else if u \<notin> providers then route_group_has_eligible us providers upstreams
      else (case upstreams u of
          None \<Rightarrow> route_group_has_eligible us providers upstreams
        | Some st \<Rightarrow> if st_eligible st then True else route_group_has_eligible us providers upstreams))"

definition all_required_route_groups_ready :: "config \<Rightarrow> runtime_snapshot \<Rightarrow> bool" where
  "all_required_route_groups_ready cfg snap =
     (let required = filter (\<lambda>n. n \<noteq> []) (map mdl_route_group (cfg_models cfg));
          groups = index_by grp_name (\<lambda>g. g) (filter (\<lambda>g. grp_name g \<noteq> []) (cfg_groups cfg));
          providers = set (filter (\<lambda>n. n \<noteq> []) (map prv_name (cfg_providers cfg)));
          upstreams = index_by st_name (\<lambda>st. st) (snap_upstreams snap)
      in list_all (\<lambda>n. case groups n of None \<Rightarrow> False
           | Some g \<Rightarrow> route_group_has_eligible (candidates g) providers upstreams) required)"

type_synonym 's snapshot_reader = "'s \<Rightarrow> runtime_snapshot \<times> 's"

definition readyz ::
  "config \<Rightarrow> 's snapshot_reader option \<Rightarrow> response_writer \<Rightarrow> 's \<Rightarrow> response_writer \<times> 's" where
  "readyz cfg reader w s =
     (case reader of None \<Rightarrow> (http_error ''runtime health unavailable'' 503 w, s)
      | Some rd \<Rightarrow>
        (case rd s of (snap, s') \<Rightarrow>
          (if \<not> snap_started snap then http_error ''runtime not started'' 503 w
           else if hl_require_initial_probe (cfg_health cfg) \<and> \<not> snap_initial_probe_complete snap
           then http_error ''initial probe pending'' 503 w
           else if \<not> all_required_route_groups_ready cfg snap
           then http_error ''required route group has no eligible upstream'' 503 w
           else snd (write_part (Raw ''ready'') (write_header 200 w)),
           s')))"

section \<open>Admin views (\<open>admin.go\<close>)\<close>

text \<open>The summary types of the route groups, the health, breaker and limits sections have the
  fields of the configuration's own and are these.\<close>

definition admin_routes :: "config \<Rightarrow> response_writer \<Rightarrow> response_writer" where
  "admin_routes cfg w =
     write_json (RoutesBody (map (\<lambda>m. \<lparr>rs_pattern = mdl_pattern m, rs_route_group = mdl_route_group m\<rparr>)
       (cfg_models cfg))) w"

definition admin_client_key_of :: "client_key_config \<Rightarrow> admin_client_key" where
  "admin_client_key_of k =
     \<lparr>ak_id = key_id k, ak_active = key_active k,
      ak_allowed_model_patterns = key_allowed_model_patterns k,
      ak_allow_streaming = key_allow_streaming k, ak_allow_tools = key_allow_tools k,
      ak_allow_vision = key_allow_vision k, ak_allow_structured = key_allow_structured k\<rparr>"

definition admin_provider_of :: "provider_config \<Rightarrow> admin_provider" where
  "admin_provider_of p = (let q = prv_probe p in
     \<lparr>apr_name = prv_name p, apr_provider = prv_provider p, apr_base_url = prv_base_url p,
      apr_has_api_key_env = (trim_space (prv_api_key_env p) \<noteq> []),
      apr_probe = \<lparr>ap_method = prb_method q, ap_path = prb_path q,
        ap_has_headers = (mlen (prb_headers q) > 0),
        ap_expected_statuses = prb_expected_statuses q,
        ap_interval = prb_interval q, ap_timeout = prb_timeout q\<rparr>\<rparr>)"

definition new_admin_config_summary :: "config \<Rightarrow> admin_config_summary" where
  "new_admin_config_summary cfg =
     \<lparr>acs_listen_addr = srv_listen_addr (cfg_server cfg),
      acs_admin_listen_addr = srv_admin_listen_addr (cfg_server cfg),
      acs_tls_mode = tls_mode (srv_tls (cfg_server cfg)),
      acs_client_keys = map admin_client_key_of (auth_client_keys (cfg_auth cfg)),
      acs_models = map (\<lambda>m. \<lparr>rs_pattern = mdl_pattern m, rs_route_group = mdl_route_group m\<rparr>)
        (cfg_models cfg),
      acs_providers = map admin_provider_of (cfg_providers cfg),
      acs_route_groups = cfg_groups cfg,
      acs_health = cfg_health cfg, acs_breaker = cfg_breaker cfg, acs_limits = cfg_limits cfg\<rparr>"

definition admin_config :: "config \<Rightarrow> response_writer \<Rightarrow> response_writer" where
  "admin_config cfg w = write_json (ConfigBody (new_admin_config_summary cfg)) w"

definition admin_upstreams ::
  "'s snapshot_reader option \<Rightarrow> response_writer \<Rightarrow> 's \<Rightarrow> response_writer \<times> 's" where
  "admin_upstreams reader w s =
     (case reader of None \<Rightarrow> (http_error ''runtime health unavailable'' 503 w, s)
      | Some rd \<Rightarrow> (case rd s of (snap, s') \<Rightarrow> (write_json (SnapshotBody snap) w, s')))"

section \<open>Readiness and routing\<close>

lemma route_group_has_eligible_iff:
  "route_group_has_eligible us ps ups \<longleftrightarrow>
     (\<exists>u \<in> set us. u \<noteq> [] \<and> u \<in> ps \<and> (\<exists>st. ups u = Some st \<and> st_eligible st))"
  by (induction us ps ups rule: route_group_has_eligible.induct) (auto split: option.splits)

lemma index_by_names:
  "index_by st_name (\<lambda>st. st) sts u = Some st \<Longrightarrow> st \<in> set sts \<and> st_name st = u"
  by (auto dest!: index_by_Some)

lemma groups_find:
  assumes "distinct (map grp_name gs)"
  shows "index_by grp_name (\<lambda>g. g) (filter (\<lambda>g. grp_name g \<noteq> []) gs) n =
     (if n = [] then None else find_route_group n gs)"
proof (cases "find_route_group n gs")
  case None
  then have "n \<notin> grp_name ` set (filter (\<lambda>g. grp_name g \<noteq> []) gs)"
    by (auto simp: find_route_group_None)
  with None show ?thesis by (simp add: index_by_eq_None [THEN iffD2])
next
  case (Some g)
  note g = find_route_group_Some [OF Some]
  show ?thesis
  proof (cases "n = []")
    case True
    have "n \<notin> grp_name ` set (filter (\<lambda>g. grp_name g \<noteq> []) gs)" using True by auto
    with True show ?thesis by (simp add: index_by_eq_None [THEN iffD2])
  next
    case False
    have "distinct (map grp_name (filter (\<lambda>g. grp_name g \<noteq> []) gs))"
      using assms distinct_map_filter by blast
    from index_by_distinct [OF this, of g "\<lambda>g. g"] g False Some show ?thesis by simp
  qed
qed

text \<open>When the readiness check passes, every configured model's group has a candidate that is
  a known provider and healthy in the store the snapshot was taken of.\<close>

lemma ready_groups:
  assumes inv: "runtime_inv r" and d: "distinct (map grp_name (cfg_groups cfg))"
    and ok: "config_ok cfg"
    and ready: "all_required_route_groups_ready cfg (fst (snapshot clock r))"
    and m: "m \<in> set (cfg_models cfg)"
  shows "\<exists>g u. find_route_group (mdl_route_group m) (cfg_groups cfg) = Some g \<and>
     u \<in> set (candidates g) \<and> u \<in> known_providers (cfg_providers cfg) \<and> healthy_in r u"
proof -
  have "mdl_route_group m \<in> set (map grp_name (cfg_groups cfg))"
    using ok m by (auto simp: config_ok_def)
  moreover have "[] \<notin> set (map grp_name (cfg_groups cfg))"
    using ok by (simp add: config_ok_def del: set_map)
  ultimately have ne: "mdl_route_group m \<noteq> []" by metis
  from ready m ne have "case index_by grp_name (\<lambda>g. g) (filter (\<lambda>g. grp_name g \<noteq> []) (cfg_groups cfg))
       (mdl_route_group m) of None \<Rightarrow> False
     | Some g \<Rightarrow> route_group_has_eligible (candidates g)
         (set (filter (\<lambda>n. n \<noteq> []) (map prv_name (cfg_providers cfg))))
         (index_by st_name (\<lambda>st. st) (snap_upstreams (fst (snapshot clock r))))"
    unfolding all_required_route_groups_ready_def Let_def list_all_iff by fastforce
  with groups_find [OF d, of "mdl_route_group m"] ne obtain g where
    g: "find_route_group (mdl_route_group m) (cfg_groups cfg) = Some g"
    and e: "route_group_has_eligible (candidates g)
       (set (filter (\<lambda>n. n \<noteq> []) (map prv_name (cfg_providers cfg))))
       (index_by st_name (\<lambda>st. st) (snap_upstreams (fst (snapshot clock r))))"
    by (cases "find_route_group (mdl_route_group m) (cfg_groups cfg)") simp_all
  from e obtain u st where "u \<in> set (candidates g)" "u \<in> set (map prv_name (cfg_providers cfg))"
    "st \<in> set (snap_upstreams (fst (snapshot clock r)))" "st_name st = u" "st_eligible st"
    by (auto simp: route_group_has_eligible_iff dest!: index_by_names)
  with g snapshot_eligible [OF inv] show ?thesis by (auto simp: known_providers_def)
qed

section \<open>Error replies\<close>

lemma write_decode_error_status: "rw_status w = None \<Longrightarrow> rw_status (write_decode_error w e) = Some 400"
  by (simp add: write_decode_error_def)

lemma write_execution_error_status:
  "rw_status w = None \<Longrightarrow> rw_status (write_execution_error w e) =
     Some (if as_execution_error e \<noteq> None \<and> \<not> is_unsupported e \<and>
             \<not> message_has_prefix (error_text e) ''unsupported_capability:'' then 502 else 400)"
  by (simp add: write_execution_error_def)

end
