(* ===== verification/Httpapi.thy ===== *)
theory Httpapi
  imports Handlers
begin

text \<open>
  Package \<open>httpapi\<close>: bearer authentication (\<open>middleware.go\<close>) and the route tables
  (\<open>router.go\<close>), over the exact-path matching of \<open>http.ServeMux\<close>.
\<close>

section \<open>Authentication (\<open>middleware.go\<close>)\<close>

text \<open>The context value under the package's private key: at most one policy.\<close>

definition with_client_policy :: "client_policy \<Rightarrow> client_policy option \<Rightarrow> client_policy option" where
  "with_client_policy policy ctx = Some policy"

definition client_policy_from_context :: "client_policy option \<Rightarrow> client_policy option" where
  "client_policy_from_context ctx = ctx"

record server_request =
  sq_path :: string        \<comment> \<open>the escaped path of the URL\<close>
  sq_header :: header
  sq_body :: stream

definition require_bearer ::
  "resolver \<Rightarrow>
   (client_policy option \<Rightarrow> server_request \<Rightarrow> response_writer \<Rightarrow> 's \<Rightarrow> (response_writer \<times> 's) option) \<Rightarrow>
   server_request \<Rightarrow> response_writer \<Rightarrow> 's \<Rightarrow> (response_writer \<times> 's) option" where
  "require_bearer res nxt q w s =
     (case parse_bearer (header_get (sq_header q) ''Authorization'') of
        None \<Rightarrow> Some (http_error ''missing bearer token'' 401 w, s)
      | Some token \<Rightarrow>
        (case resolve_bearer res token of
           None \<Rightarrow> Some (http_error ''invalid bearer token'' 401 w, s)
         | Some policy \<Rightarrow> nxt (with_client_policy policy None) q w s))"

section \<open>Route tables (\<open>router.go\<close>)\<close>

datatype endpoint = Livez | Readyz | ChatCompletions | Responses | AdminConfig | AdminRoutes | AdminUpstreams

type_synonym mux = "(string \<times> endpoint) list"

definition mount_public_routes :: "mux \<Rightarrow> mux" where
  "mount_public_routes m = m @ [(''/livez'', Livez), (''/readyz'', Readyz),
     (''/v1/chat/completions'', ChatCompletions), (''/v1/responses'', Responses)]"

definition mount_admin_routes :: "mux \<Rightarrow> mux" where
  "mount_admin_routes m = m @ [(''/admin/config'', AdminConfig), (''/admin/routes'', AdminRoutes),
     (''/admin/upstreams'', AdminUpstreams)]"

definition new_router :: mux where
  "new_router = mount_admin_routes (mount_public_routes [])"

definition new_public_router :: mux where
  "new_public_router = mount_public_routes []"

definition new_admin_router :: mux where
  "new_admin_router = mount_admin_routes []"

section \<open>\<open>http.ServeMux\<close>\<close>

fun split_slash :: "string \<Rightarrow> string list" where
  "split_slash [] = [[]]"
| "split_slash (c # s) =
     (if c = CHR ''/'' then [] # split_slash s
      else (case split_slash s of [] \<Rightarrow> [[c]] | t # ts \<Rightarrow> (c # t) # ts))"

fun clean_segments :: "string list \<Rightarrow> string list \<Rightarrow> string list" where
  "clean_segments [] acc = rev acc"
| "clean_segments (t # ts) acc =
     (if t = [] \<or> t = ''.'' then clean_segments ts acc
      else if t = ''..'' then clean_segments ts (drop 1 acc)
      else clean_segments ts (t # acc))"

text \<open>\<open>cleanPath\<close>: the canonical path, with a trailing slash kept.\<close>

definition clean_path :: "string \<Rightarrow> string" where
  "clean_path p =
     (let body = concat (map (\<lambda>t. CHR ''/'' # t) (clean_segments (split_slash p) []));
          np = (if body = [] then ''/'' else body)
      in if has_suffix p ''/'' \<and> np \<noteq> ''/'' then np @ ''/'' else np)"

text \<open>The serving of one endpoint by the handlers of a running router.\<close>

record 's deps =
  dp_cfg :: config
  dp_resolver :: resolver
  dp_env :: "'s env"
  dp_runtime :: "'s snapshot_reader option"

definition serve_endpoint ::
  "'s deps \<Rightarrow> endpoint \<Rightarrow> server_request \<Rightarrow> response_writer \<Rightarrow> 's \<Rightarrow> (response_writer \<times> 's) option" where
  "serve_endpoint d e q w s =
     (case e of
        Livez \<Rightarrow> Some (livez w, s)
      | Readyz \<Rightarrow> Some (readyz (dp_cfg d) (dp_runtime d) w s)
      | ChatCompletions \<Rightarrow>
          require_bearer (dp_resolver d)
            (\<lambda>ctx q. chat_completions (dp_env d) (client_policy_from_context ctx) (sq_body q)) q w s
      | Responses \<Rightarrow>
          require_bearer (dp_resolver d)
            (\<lambda>ctx q. responses (dp_env d) (client_policy_from_context ctx) (sq_body q)) q w s
      | AdminConfig \<Rightarrow> Some (admin_config (dp_cfg d) w, s)
      | AdminRoutes \<Rightarrow> Some (admin_routes (dp_cfg d) w, s)
      | AdminUpstreams \<Rightarrow> Some (admin_upstreams (dp_runtime d) w s))"

text \<open>A path that is not clean is redirected to the clean one; the redirect's body is left
  out.\<close>

definition serve :: "'s deps \<Rightarrow> mux \<Rightarrow> server_request \<Rightarrow> response_writer \<Rightarrow> 's \<Rightarrow> (response_writer \<times> 's) option" where
  "serve d m q w s =
     (if clean_path (sq_path q) \<noteq> sq_path q
      then Some (write_header 301 (set_header ''Location'' (clean_path (sq_path q)) w), s)
      else (case map_of m (sq_path q) of
          None \<Rightarrow> Some (http_error ''404 page not found'' 404 w, s)
        | Some e \<Rightarrow> serve_endpoint d e q w s))"

section \<open>Lemmas\<close>

lemma public_router_endpoints:
  "map_of new_public_router p = Some e \<Longrightarrow> e \<in> {Livez, Readyz, ChatCompletions, Responses}"
  by (auto simp: new_public_router_def mount_public_routes_def split: if_splits)

lemma admin_router_endpoints:
  "map_of new_admin_router p = Some e \<Longrightarrow> e \<in> {AdminConfig, AdminRoutes, AdminUpstreams}"
  by (auto simp: new_admin_router_def mount_admin_routes_def split: if_splits)

lemma router_split:
  "map_of new_router p = (case map_of new_public_router p of
     Some e \<Rightarrow> Some e | None \<Rightarrow> map_of new_admin_router p)"
  by (simp add: new_router_def new_public_router_def new_admin_router_def
      mount_public_routes_def mount_admin_routes_def)

lemma public_router_ran: "ran (map_of new_public_router) = {Livez, Readyz, ChatCompletions, Responses}"
  by (auto simp: new_public_router_def mount_public_routes_def)

lemma admin_router_ran: "ran (map_of new_admin_router) = {AdminConfig, AdminRoutes, AdminUpstreams}"
  by (auto simp: new_admin_router_def mount_admin_routes_def)

lemma router_ran:
  "ran (map_of new_router) = {Livez, Readyz, ChatCompletions, Responses, AdminConfig, AdminRoutes, AdminUpstreams}"
  by (auto simp: new_router_def mount_public_routes_def mount_admin_routes_def)

lemma routers_disjoint: "dom (map_of new_public_router) \<inter> dom (map_of new_admin_router) = {}"
  by (auto simp: new_public_router_def new_admin_router_def mount_public_routes_def
      mount_admin_routes_def dom_map_of_conv_image_fst)

lemma router_union: "map_of new_router = map_of new_admin_router ++ map_of new_public_router"
  by (rule ext) (simp add: router_split map_add_def split: option.splits)

text \<open>An unauthenticated request gets 401 and changes nothing.\<close>

lemma require_bearer_rejects:
  assumes "case parse_bearer (header_get (sq_header q) ''Authorization'') of None \<Rightarrow> True
     | Some t \<Rightarrow> resolve_bearer res t = None" "rw_status w = None"
  shows "\<exists>w'. require_bearer res nxt q w s = Some (w', s) \<and> rw_status w' = Some 401"
  using assms by (auto simp: require_bearer_def split: option.splits)

lemma require_bearer_passes:
  assumes "parse_bearer (header_get (sq_header q) ''Authorization'') = Some t"
    "resolve_bearer res t = Some pol"
  shows "require_bearer res nxt q w s = nxt (Some pol) q w s"
  using assms by (simp add: require_bearer_def with_client_policy_def)

end
