(* ===== verification/Prober.thy ===== *)
theory Prober
  imports Providers Health_Contracts
begin

text \<open>
  \<open>health/prober.go\<close>: the probe targets computed once from the configuration, one probe, and
  the loops of \<open>Start\<close> as a transition system.  The environment \<open>env\<close> and the HTTP client are
  arguments; a probe that is cancelled together with the service records nothing.
\<close>

section \<open>Targets\<close>

record probe_target =
  tg_name :: string
  tg_method :: string
  tg_url :: string
  tg_headers :: header
  tg_expected_codes :: "int set"
  tg_interval :: duration
  tg_timeout :: duration
  tg_fail_fast_error :: "message option"   \<comment> \<open>\<open>None\<close> is the empty string\<close>

definition default_probe_path :: "string \<Rightarrow> string" where
  "default_probe_path provider =
     (if provider = ''openai'' \<or> provider = ''anthropic'' then ''/v1/models'' else ''/'')"

definition parsed_or :: "string \<Rightarrow> duration \<Rightarrow> duration" where
  "parsed_or raw d =
     (if raw \<noteq> [] then (case parse_duration raw of Some p \<Rightarrow> if p > 0 then p else d | None \<Rightarrow> d)
      else d)"

definition build_probe_target ::
  "(string \<Rightarrow> string option) \<Rightarrow> provider_config \<Rightarrow> duration \<Rightarrow> duration \<Rightarrow> probe_target" where
  "build_probe_target env p default_interval default_timeout =
     (let q = prv_probe p;
          method0 = to_upper (trim_space (prb_method q));
          method = (if method0 = [] then ''GET'' else method0);
          path = (if prb_path q = [] then default_probe_path (prv_provider p) else prb_path q);
          interval = parsed_or (prb_interval q)
            (if default_interval \<le> 0 then 15 * second else default_interval);
          timeout = parsed_or (prb_timeout q)
            (if default_timeout \<le> 0 then 2 * second else default_timeout);
          expected = (if prb_expected_statuses q = [] then {200} else set (prb_expected_statuses q));
          headers = foldl (\<lambda>h (k, v). header_set h k v) [] (entries (prb_headers q));
          (err, headers') = merge_provider_auth_headers env headers p
      in \<lparr>tg_name = prv_name p, tg_method = method,
          tg_url = trim_right_byte (prv_base_url p) CHR ''/'' @ path,
          tg_headers = headers', tg_expected_codes = expected, tg_interval = interval,
          tg_timeout = timeout,
          tg_fail_fast_error = map_option error_text err\<rparr>)"

definition new_prober_targets ::
  "(string \<Rightarrow> string option) \<Rightarrow> provider_config list \<Rightarrow> duration \<Rightarrow> duration \<Rightarrow> probe_target list" where
  "new_prober_targets env ps interval timeout =
     map (\<lambda>p. build_probe_target env p interval timeout) (filter (\<lambda>p. prv_name p \<noteq> []) ps)"

section \<open>One probe\<close>

text \<open>What the client answers: a response, or an error with its text and whether it is
  \<open>context.Canceled\<close>.\<close>

datatype probe_answer = ProbeStatus int | ProbeError string bool

definition status_error :: "int \<Rightarrow> message" where
  "status_error st = [Lit ''unexpected probe status '', Number st]"

text \<open>
  \<open>probeOnce\<close> at time \<open>at\<close>: \<open>done_before\<close> and \<open>done_after\<close> are \<open>ctx.Err() != nil\<close> before the
  probe and when the client returns.  The result is the operation on the health store.
\<close>

definition probe_once ::
  "probe_target \<Rightarrow> bool \<Rightarrow> time \<Rightarrow> (http_request \<Rightarrow> probe_answer) \<Rightarrow> bool \<Rightarrow> runtime_op option" where
  "probe_once tg done_before at client done_after =
     (if done_before then None
      else (case tg_fail_fast_error tg of
          Some e \<Rightarrow> Some (ProbeFailure (tg_name tg) at e)
        | None \<Rightarrow>
          if \<not> new_request_ok (tg_method tg) (tg_url tg)
          then Some (ProbeFailure (tg_name tg) at [Foreign])
          else (case client \<lparr>hr_method = tg_method tg, hr_url = tg_url tg,
                     hr_header = tg_headers tg, hr_body = None\<rparr> of
              ProbeError txt canceled \<Rightarrow>
                if canceled \<and> done_after then None
                else Some (ProbeFailure (tg_name tg) at [Verbatim txt])
            | ProbeStatus st \<Rightarrow>
                if st \<notin> tg_expected_codes tg
                then Some (ProbeFailure (tg_name tg) at (status_error st))
                else Some (ProbeSuccess (tg_name tg) at))))"

section \<open>\<open>Start\<close> as a transition system\<close>

text \<open>
  One loop per target.  A loop first probes, then marks its first result, then probes at every
  tick until the context is done; the loops interleave with each other and with every other
  operation on the store.  A probe is two steps: it looks at the context and reads the clock,
  and, once the client has answered, records its result; anything may happen in between.
\<close>

datatype loop_phase = LoopStart | LoopProbing time | LoopProbed | LoopTicking | LoopReprobing time | LoopDone

record prober_state =
  pr_targets :: "probe_target list"
  pr_phase :: "nat \<Rightarrow> loop_phase"
  pr_first_results :: nat
  pr_cancelled :: bool
  pr_runtime :: runtime

definition apply_op :: "runtime_op option \<Rightarrow> runtime \<Rightarrow> runtime" where
  "apply_op op r = (case op of None \<Rightarrow> r | Some x \<Rightarrow> runtime_step r x)"

text \<open>The part of \<open>Start\<close> before the goroutines.\<close>

definition prober_start :: "probe_target list \<Rightarrow> runtime \<Rightarrow> prober_state" where
  "prober_start tgs r =
     \<lparr>pr_targets = tgs, pr_phase = (\<lambda>_. LoopStart), pr_first_results = 0, pr_cancelled = False,
      pr_runtime = (let r1 = mark_started r in
        if tgs = [] then mark_initial_probe_complete r1 else r1)\<rparr>"

text \<open>\<open>markFirstResult\<close> of one loop; it runs at most once per loop.\<close>

definition mark_first_result :: "prober_state \<Rightarrow> prober_state" where
  "mark_first_result st =
     (let n = Suc (pr_first_results st) in
      st\<lparr>pr_first_results := n,
         pr_runtime := (if n = length (pr_targets st)
                        then mark_initial_probe_complete (pr_runtime st) else pr_runtime st)\<rparr>)"

definition set_phase :: "nat \<Rightarrow> loop_phase \<Rightarrow> prober_state \<Rightarrow> prober_state" where
  "set_phase i p st = st\<lparr>pr_phase := (pr_phase st)(i := p)\<rparr>"

text \<open>\<open>dn\<close> is what \<open>ctx.Err() != nil\<close> was when the client returned: it can only be true of a
  context that is cancelled by the time the result is recorded.\<close>

definition record_probe :: "nat \<Rightarrow> time \<Rightarrow> (http_request \<Rightarrow> probe_answer) \<Rightarrow> bool \<Rightarrow> prober_state \<Rightarrow> prober_state" where
  "record_probe i at client dn st = st\<lparr>pr_runtime :=
     apply_op (probe_once (pr_targets st ! i) False at client dn) (pr_runtime st)\<rparr>"

inductive prober_step :: "prober_state \<Rightarrow> prober_state \<Rightarrow> bool" where
  first_begin: "i < length (pr_targets st) \<Longrightarrow> pr_phase st i = LoopStart \<Longrightarrow> 0 \<le> at \<Longrightarrow>
     prober_step st (set_phase i (if pr_cancelled st then LoopProbed else LoopProbing at) st)"
| first_end: "i < length (pr_targets st) \<Longrightarrow> pr_phase st i = LoopProbing at \<Longrightarrow>
     (dn \<Longrightarrow> pr_cancelled st) \<Longrightarrow> prober_step st (set_phase i LoopProbed (record_probe i at client dn st))"
| first_result: "i < length (pr_targets st) \<Longrightarrow> pr_phase st i = LoopProbed \<Longrightarrow>
     prober_step st (set_phase i LoopTicking (mark_first_result st))"
| tick_begin: "i < length (pr_targets st) \<Longrightarrow> pr_phase st i = LoopTicking \<Longrightarrow> 0 \<le> at \<Longrightarrow>
     prober_step st (set_phase i (if pr_cancelled st then LoopTicking else LoopReprobing at) st)"
| tick_end: "i < length (pr_targets st) \<Longrightarrow> pr_phase st i = LoopReprobing at \<Longrightarrow>
     (dn \<Longrightarrow> pr_cancelled st) \<Longrightarrow> prober_step st (set_phase i LoopTicking (record_probe i at client dn st))"
| stop: "i < length (pr_targets st) \<Longrightarrow> pr_phase st i = LoopTicking \<Longrightarrow> pr_cancelled st \<Longrightarrow>
     prober_step st (set_phase i LoopDone st)"
| cancel: "prober_step st (st\<lparr>pr_cancelled := True\<rparr>)"
| request: "op_ok op \<Longrightarrow> op \<notin> {MarkStarted, MarkInitialProbeComplete} \<Longrightarrow>
     prober_step st (st\<lparr>pr_runtime := runtime_step (pr_runtime st) op\<rparr>)"

inductive prober_reachable :: "probe_target list \<Rightarrow> runtime \<Rightarrow> prober_state \<Rightarrow> bool" for tgs r where
  init: "prober_reachable tgs r (prober_start tgs r)"
| step: "prober_reachable tgs r st \<Longrightarrow> prober_step st st' \<Longrightarrow> prober_reachable tgs r st'"

inductive_cases prober_stepE: "prober_step st st'"

section \<open>Target lemmas\<close>

lemma parsed_or_pos: "0 < d \<Longrightarrow> 0 < parsed_or raw d"
  by (auto simp: parsed_or_def split: option.splits)

lemma target_durations:
  "0 < tg_interval (build_probe_target env p di dt)"
  "0 < tg_timeout (build_probe_target env p di dt)"
  by (simp_all add: build_probe_target_def Let_def case_prod_beta parsed_or_pos)

lemma target_method: "tg_method (build_probe_target env p di dt) \<noteq> []"
  by (simp add: build_probe_target_def Let_def case_prod_beta)

lemma target_name [simp]: "tg_name (build_probe_target env p di dt) = prv_name p"
  by (simp add: build_probe_target_def Let_def case_prod_beta)

lemma target_expected: "tg_expected_codes (build_probe_target env p di dt) \<noteq> {}"
  by (simp add: build_probe_target_def Let_def case_prod_beta)

lemma target_fail_fast:
  "tg_fail_fast_error (build_probe_target env p di dt) = None \<longleftrightarrow>
     prv_provider p \<notin> {''openai'', ''anthropic''} \<or>
     (prv_api_key_env p \<noteq> [] \<and> (\<exists>k. env (prv_api_key_env p) = Some k \<and> trim_space k \<noteq> []))"
proof -
  let ?h = "foldl (\<lambda>h (k, v). header_set h k v) [] (entries (prb_headers (prv_probe p)))"
  have "tg_fail_fast_error (build_probe_target env p di dt) = None \<longleftrightarrow>
      fst (merge_provider_auth_headers env ?h p) = None"
    by (simp add: build_probe_target_def Let_def case_prod_beta)
  also have "\<dots> \<longleftrightarrow> \<not> (prv_provider p \<in> {''openai'', ''anthropic''} \<and>
     (prv_api_key_env p = [] \<or>
      (case env (prv_api_key_env p) of None \<Rightarrow> True | Some k \<Rightarrow> trim_space k = [])))"
    using merge_headers_error [of env ?h p] by blast
  finally show ?thesis by (auto split: option.splits)
qed

lemma probe_once_ok: "0 \<le> at \<Longrightarrow> probe_once tg db at client da = Some op \<Longrightarrow>
    op_ok op \<and> op_time op = at \<and> op \<notin> {MarkStarted, MarkInitialProbeComplete}"
  by (auto simp: probe_once_def op_ok_def split: if_splits option.splits probe_answer.splits)

text \<open>A probe succeeds only for a target with a credential, a well-formed request and an
  expected status.\<close>

lemma probe_once_success:
  "probe_once tg db at client da = Some (ProbeSuccess u t) \<Longrightarrow>
     u = tg_name tg \<and> t = at \<and> \<not> db \<and> tg_fail_fast_error tg = None \<and>
     (\<exists>st \<in> tg_expected_codes tg. client \<lparr>hr_method = tg_method tg, hr_url = tg_url tg,
        hr_header = tg_headers tg, hr_body = None\<rparr> = ProbeStatus st)"
  by (auto simp: probe_once_def split: if_splits option.splits probe_answer.splits)

lemma target_key: "tg_fail_fast_error (build_probe_target env p di dt) = None \<longleftrightarrow> key_available env p"
  by (simp add: target_fail_fast key_available_def)

text \<open>A probe that cannot be sent fails whatever the network would answer; another one is decided
  by the network's answer.\<close>

lemma probe_without_call:
  "tg_fail_fast_error tg \<noteq> None \<or> \<not> new_request_ok (tg_method tg) (tg_url tg) \<Longrightarrow>
     \<exists>m. \<forall>client dn. probe_once tg False at client dn = Some (ProbeFailure (tg_name tg) at m)"
  by (cases "tg_fail_fast_error tg") (auto simp: probe_once_def)

lemma probe_with_call:
  "tg_fail_fast_error tg = None \<Longrightarrow> new_request_ok (tg_method tg) (tg_url tg) \<Longrightarrow>
     probe_once tg False at client dn =
     (case client \<lparr>hr_method = tg_method tg, hr_url = tg_url tg, hr_header = tg_headers tg, hr_body = None\<rparr> of
        ProbeError txt canceled \<Rightarrow>
          if canceled \<and> dn then None else Some (ProbeFailure (tg_name tg) at [Verbatim txt])
      | ProbeStatus st \<Rightarrow> Some (if st \<in> tg_expected_codes tg then ProbeSuccess (tg_name tg) at
          else ProbeFailure (tg_name tg) at (status_error st)))"
  by (simp add: probe_once_def split: probe_answer.splits)

text \<open>The outcome depends on the network exactly when a request is sent.\<close>

lemma probe_needs_network:
  assumes "finite (tg_expected_codes tg)" "tg_expected_codes tg \<noteq> {}"
  shows "(\<forall>c c'. probe_once tg False at c dn = probe_once tg False at c' dn) \<longleftrightarrow>
     tg_fail_fast_error tg \<noteq> None \<or> \<not> new_request_ok (tg_method tg) (tg_url tg)" (is "?l \<longleftrightarrow> ?r")
proof
  assume "?r"
  with probe_without_call [of tg at] show ?l by metis
next
  assume l: ?l
  obtain x where x: "x \<in> tg_expected_codes tg" using assms(2) by blast
  obtain y :: int where y: "y \<notin> tg_expected_codes tg"
    using ex_new_if_finite [OF infinite_UNIV_int assms(1)] by blast
  show ?r
  proof (rule ccontr)
    assume "\<not> ?r"
    then have "tg_fail_fast_error tg = None" "new_request_ok (tg_method tg) (tg_url tg)" by auto
    note p = probe_with_call [OF this, of at _ dn]
    from l have "probe_once tg False at (\<lambda>_. ProbeStatus x) dn = probe_once tg False at (\<lambda>_. ProbeStatus y) dn"
      by blast
    with x y show False by (simp add: p)
  qed
qed

lemma probe_once_success_iff:
  "probe_once tg db at client dn = Some (ProbeSuccess u t) \<longleftrightarrow>
     u = tg_name tg \<and> t = at \<and> \<not> db \<and> tg_fail_fast_error tg = None \<and>
     new_request_ok (tg_method tg) (tg_url tg) \<and>
     (\<exists>st \<in> tg_expected_codes tg. client \<lparr>hr_method = tg_method tg, hr_url = tg_url tg,
        hr_header = tg_headers tg, hr_body = None\<rparr> = ProbeStatus st)"
  by (auto simp: probe_once_def split: if_splits option.splits probe_answer.splits)

section \<open>The invariant of the prober\<close>

definition past_first :: "loop_phase \<Rightarrow> bool" where
  "past_first p = (case p of LoopStart \<Rightarrow> False | LoopProbing at \<Rightarrow> False | LoopProbed \<Rightarrow> False
     | _ \<Rightarrow> True)"

definition first_count :: "prober_state \<Rightarrow> nat" where
  "first_count st = card {i. i < length (pr_targets st) \<and> past_first (pr_phase st i)}"

definition prober_inv :: "probe_target list \<Rightarrow> prober_state \<Rightarrow> bool" where
  "prober_inv tgs st \<longleftrightarrow> pr_targets st = tgs \<and> runtime_inv (pr_runtime st) \<and>
     rt_started (pr_runtime st) \<and> pr_first_results st = first_count st \<and>
     (\<forall>i at. pr_phase st i = LoopProbing at \<or> pr_phase st i = LoopReprobing at \<longrightarrow> 0 \<le> at) \<and>
     (rt_initial_probe_complete (pr_runtime st) \<longleftrightarrow> first_count st = length tgs)"

lemma step_started [frame]:
  "op \<notin> {MarkStarted, MarkInitialProbeComplete} \<Longrightarrow>
     rt_started (runtime_step r op) = rt_started r \<and>
     rt_initial_probe_complete (runtime_step r op) = rt_initial_probe_complete r"
proof -
  have "rt_started (snd (snapshot_loop c i us r)) = rt_started r \<and>
      rt_initial_probe_complete (snd (snapshot_loop c i us r)) = rt_initial_probe_complete r" for c i us
    by (induction c i us r rule: snapshot_loop.induct)
       (auto simp: Let_def case_prod_beta split: option.splits)
  then show "op \<notin> {MarkStarted, MarkInitialProbeComplete} \<Longrightarrow>
     rt_started (runtime_step r op) = rt_started r \<and>
     rt_initial_probe_complete (runtime_step r op) = rt_initial_probe_complete r"
    by (cases op) (simp_all add: record_probe_success_def record_probe_failure_def
        record_request_success_def record_request_failure_def frame snapshot_def Let_def case_prod_beta)
qed

lemma apply_probe:
  assumes "runtime_inv r" "0 \<le> at"
  shows "runtime_inv (apply_op (probe_once tg db at client da) r) \<and>
    rt_started (apply_op (probe_once tg db at client da) r) = rt_started r \<and>
    rt_initial_probe_complete (apply_op (probe_once tg db at client da) r) = rt_initial_probe_complete r"
proof (cases "probe_once tg db at client da")
  case (Some op)
  from probe_once_ok [OF assms(2) Some] runtime_step_inv [OF assms(1), of op] step_started [of op r]
  show ?thesis using Some by (simp add: apply_op_def)
qed (use assms in \<open>simp add: apply_op_def\<close>)

lemma first_count_set:
  assumes "i < length (pr_targets st)" "\<not> past_first (pr_phase st i)" "past_first p"
    "pr_targets st' = pr_targets st" "pr_phase st' = (pr_phase st)(i := p)"
  shows "first_count st' = Suc (first_count st)"
proof -
  have "{j. j < length (pr_targets st') \<and> past_first (pr_phase st' j)} =
      insert i {j. j < length (pr_targets st) \<and> past_first (pr_phase st j)}"
    using assms by auto
  then show ?thesis using assms(2) by (simp add: first_count_def)
qed

lemma first_count_same:
  assumes "pr_targets st' = pr_targets st"
    "\<And>j. past_first (pr_phase st' j) = past_first (pr_phase st j)"
  shows "first_count st' = first_count st"
  using assms by (simp add: first_count_def)

lemma mark_complete_inv: "runtime_inv r \<Longrightarrow> runtime_inv (mark_initial_probe_complete r)"
  and mark_started_inv: "runtime_inv r \<Longrightarrow> runtime_inv (mark_started r)"
  using runtime_step_inv [of r MarkInitialProbeComplete] runtime_step_inv [of r MarkStarted]
  by (simp_all add: op_ok_def)

lemma prober_start_inv:
  assumes "runtime_inv r" "\<not> rt_initial_probe_complete r"
  shows "prober_inv tgs (prober_start tgs r)"
proof -
  have "first_count (prober_start tgs r) = 0"
    by (simp add: first_count_def prober_start_def past_first_def)
  then show ?thesis
    using assms mark_complete_inv mark_started_inv
    by (auto simp: prober_inv_def prober_start_def Let_def mark_started_def
        mark_initial_probe_complete_def)
qed

lemma mark_first_result_fields [simp]:
  "pr_targets (mark_first_result st) = pr_targets st"
  "pr_phase (mark_first_result st) = pr_phase st"
  "pr_first_results (mark_first_result st) = Suc (pr_first_results st)"
  "rt_started (pr_runtime (mark_first_result st)) = rt_started (pr_runtime st)"
  by (simp_all add: mark_first_result_def Let_def mark_initial_probe_complete_def)

lemma set_phase_fields [simp]:
  "pr_targets (set_phase i p st) = pr_targets st"
  "pr_phase (set_phase i p st) = (pr_phase st)(i := p)"
  "pr_first_results (set_phase i p st) = pr_first_results st"
  "pr_runtime (set_phase i p st) = pr_runtime st"
  by (simp_all add: set_phase_def)

lemma first_count_le: "first_count st \<le> length (pr_targets st)"
proof -
  have "first_count st \<le> card {i. i < length (pr_targets st)}"
    unfolding first_count_def by (rule card_mono) auto
  then show ?thesis by simp
qed

text \<open>A loop that has not reported keeps the count below the number of targets.\<close>

lemma first_count_less:
  assumes "i < length (pr_targets st)" "\<not> past_first (pr_phase st i)"
  shows "first_count st < length (pr_targets st)"
proof -
  have "{j. j < length (pr_targets st) \<and> past_first (pr_phase st j)} \<subset> {j. j < length (pr_targets st)}"
    using assms by auto
  then have "first_count st < card {j. j < length (pr_targets st)}"
    unfolding first_count_def by (intro psubset_card_mono) auto
  then show ?thesis by simp
qed

lemma first_count_full:
  "first_count st = length (pr_targets st) \<longleftrightarrow>
     (\<forall>i < length (pr_targets st). past_first (pr_phase st i))"
proof
  assume "first_count st = length (pr_targets st)"
  then show "\<forall>i < length (pr_targets st). past_first (pr_phase st i)"
    using first_count_less [of _ st] by fastforce
next
  assume a: "\<forall>i < length (pr_targets st). past_first (pr_phase st i)"
  then have "{i. i < length (pr_targets st) \<and> past_first (pr_phase st i)} = {i. i < length (pr_targets st)}"
    by auto
  then show "first_count st = length (pr_targets st)" by (simp add: first_count_def)
qed

lemma record_probe_fields [simp]:
  "pr_targets (record_probe i at client dn st) = pr_targets st"
  "pr_phase (record_probe i at client dn st) = pr_phase st"
  "pr_first_results (record_probe i at client dn st) = pr_first_results st"
  by (simp_all add: record_probe_def)

text \<open>A step that marks no first result keeps the invariant when it leaves the flags alone.\<close>

lemma prober_inv_frame:
  assumes "prober_inv tgs st" "pr_targets st' = pr_targets st"
    and "pr_first_results st' = pr_first_results st" "runtime_inv (pr_runtime st')"
    and "rt_started (pr_runtime st') = rt_started (pr_runtime st)"
    and "rt_initial_probe_complete (pr_runtime st') = rt_initial_probe_complete (pr_runtime st)"
    and "\<And>j. past_first (pr_phase st' j) = past_first (pr_phase st j)"
    and "\<And>j at. pr_phase st' j = LoopProbing at \<or> pr_phase st' j = LoopReprobing at \<Longrightarrow> 0 \<le> at"
  shows "prober_inv tgs st'"
  using assms(1,3-6,8) first_count_same [OF assms(2,7)]
  unfolding prober_inv_def assms(2) by simp

lemma prober_step_inv:
  assumes "prober_step st st'" "prober_inv tgs st"
  shows "prober_inv tgs st'"
proof -
  have inv: "runtime_inv (pr_runtime st)"
    and at: "\<And>i at. pr_phase st i = LoopProbing at \<or> pr_phase st i = LoopReprobing at \<Longrightarrow> 0 \<le> at"
    using assms(2) unfolding prober_inv_def by blast+
  have rec: "prober_inv tgs (set_phase i p (record_probe i at client dn st))"
    if "pr_phase st i = LoopProbing at \<or> pr_phase st i = LoopReprobing at"
      "past_first p = past_first (pr_phase st i)" "\<And>t. p \<noteq> LoopProbing t \<and> p \<noteq> LoopReprobing t"
    for i at client dn p
    by (rule prober_inv_frame [OF assms(2)])
       (use that at apply_probe [OF inv at [OF that(1)]] in \<open>auto simp: record_probe_def split: if_splits\<close>)
  have move: "prober_inv tgs (set_phase i p st)"
    if "past_first p = past_first (pr_phase st i)" "\<And>t. p = LoopProbing t \<or> p = LoopReprobing t \<Longrightarrow> 0 \<le> t"
    for i p
    by (rule prober_inv_frame [OF assms(2)])
       (use that at inv in \<open>auto split: if_splits\<close>)
  from assms(1) show ?thesis
  proof (cases rule: prober_step.cases)
    case (first_begin i at)
    then show ?thesis by (auto intro!: move simp: past_first_def split: if_splits)
  next
    case (first_end i at dn client)
    then show ?thesis by (auto intro!: rec simp: past_first_def)
  next
    case (first_result i)
    have c: "first_count st' = Suc (first_count st)"
      by (rule first_count_set [of i _ LoopTicking]) (use first_result in \<open>auto simp: past_first_def\<close>)
    have "first_count st < length (pr_targets st)"
      by (rule first_count_less) (use first_result in \<open>auto simp: past_first_def\<close>)
    with first_result c assms(2) mark_complete_inv show ?thesis
      by (auto simp: prober_inv_def mark_first_result_def Let_def mark_initial_probe_complete_def)
  next
    case (tick_begin i at)
    then show ?thesis by (auto intro!: move simp: past_first_def split: if_splits)
  next
    case (tick_end i at dn client)
    then show ?thesis by (auto intro!: rec simp: past_first_def)
  next
    case (stop i)
    then show ?thesis by (auto intro!: move simp: past_first_def)
  next
    case cancel
    then show ?thesis using prober_inv_frame [OF assms(2), of st'] at inv by auto
  next
    case (request op)
    with step_started [of op "pr_runtime st"] runtime_step_inv [OF inv, of op] at show ?thesis
      using prober_inv_frame [OF assms(2), of st'] by auto
  qed
qed

lemma prober_reachable_inv:
  assumes "prober_reachable tgs r st" "runtime_inv r" "\<not> rt_initial_probe_complete r"
  shows "prober_inv tgs st"
  using assms
proof (induction rule: prober_reachable.induct)
  case init
  then show ?case by (rule prober_start_inv)
next
  case (step st st')
  then show ?case by (auto intro: prober_step_inv)
qed

end
