(* ===== verification/Config_Load.thy ===== *)
theory Config_Load
  imports Config
begin

text \<open>
  \<open>load.go\<close>: reading a configuration, rejecting explicit nulls and explicit empty durations,
  filling in the health and breaker defaults, and validating the result.  \<open>yaml.v3\<close> is not in
  the repository; the three decodes of the same bytes are arguments of \<open>load\<close>.
\<close>

datatype yaml_kind = DocumentNode | SequenceNode | MappingNode | ScalarNode | AliasNode

datatype yaml_node = YNode (yn_kind: yaml_kind) (yn_tag: string) (yn_value: string)
  (yn_content: "yaml_node list")

text \<open>\<open>runtimeHealthDefaultsPresence\<close>: which optional settings the document gives.\<close>

record presence =
  pr_probe_interval :: "string option"
  pr_probe_timeout :: "string option"
  pr_require_initial_probe :: "bool option"
  pr_failure_threshold :: "int option"
  pr_open_interval :: "string option"
  pr_recovery_success_threshold :: "int option"
  pr_providers :: "(string option \<times> string option) list"

fun mapping_pairs :: "yaml_node list \<Rightarrow> string \<Rightarrow> yaml_node option" where
  "mapping_pairs (k # v # rest) key = (if yn_value k = key then Some v else mapping_pairs rest key)"
| "mapping_pairs _ key = None"

definition mapping_value :: "yaml_node option \<Rightarrow> string \<Rightarrow> yaml_node option" where
  "mapping_value node key =
     (case node of None \<Rightarrow> None
      | Some n \<Rightarrow> if yn_kind n \<noteq> MappingNode then None else mapping_pairs (yn_content n) key)"

definition is_null_scalar :: "yaml_node option \<Rightarrow> bool" where
  "is_null_scalar node =
     (case node of None \<Rightarrow> False | Some n \<Rightarrow> yn_kind n = ScalarNode \<and> yn_tag n = ''!!null'')"

definition null_field :: "yaml_node option \<Rightarrow> string \<Rightarrow> string \<Rightarrow> gerror option" where
  "null_field section_node section_name field =
     guard_err (is_null_scalar (mapping_value section_node field))
       [Lit section_name, Lit ''.'', Lit field, Lit '' must not be null when explicitly set'']"

fun null_provider_fields :: "int \<Rightarrow> yaml_node list \<Rightarrow> gerror option" where
  "null_provider_fields i [] = None"
| "null_provider_fields i (p # ps) =
     (let probe = mapping_value (Some p) ''probe'' in
      or_else (guard_err (is_null_scalar (mapping_value probe ''interval''))
         [Lit ''providers['', Number i, Lit ''].probe.interval must not be null when explicitly set''])
     (or_else (guard_err (is_null_scalar (mapping_value probe ''timeout''))
         [Lit ''providers['', Number i, Lit ''].probe.timeout must not be null when explicitly set''])
        (null_provider_fields (i + 1) ps)))"

definition validate_null_overrides :: "yaml_node \<Rightarrow> gerror option" where
  "validate_null_overrides root =
     (case yn_content root of [] \<Rightarrow> None
      | doc # _ \<Rightarrow>
        (let health = mapping_value (Some doc) ''health'';
             breaker = mapping_value (Some doc) ''breaker'';
             providers = mapping_value (Some doc) ''providers''
         in or_else (guard_err (is_null_scalar health)
                [Lit ''health section must not be null when explicitly set''])
           (or_else (null_field health ''health'' ''probe_interval'')
           (or_else (null_field health ''health'' ''probe_timeout'')
           (or_else (null_field health ''health'' ''require_initial_probe'')
           (or_else (guard_err (is_null_scalar breaker)
                [Lit ''breaker section must not be null when explicitly set''])
           (or_else (null_field breaker ''breaker'' ''failure_threshold'')
           (or_else (null_field breaker ''breaker'' ''open_interval'')
           (or_else (null_field breaker ''breaker'' ''recovery_success_threshold'')
             (case providers of
                Some n \<Rightarrow> if yn_kind n = SequenceNode then null_provider_fields 0 (yn_content n) else None
              | None \<Rightarrow> None))))))))))"

definition empty_override :: "string option \<Rightarrow> message \<Rightarrow> gerror option" where
  "empty_override v what = guard_err (v = Some []) (what @ [Lit '' must not be empty when explicitly set''])"

fun empty_provider_fields :: "int \<Rightarrow> (string option \<times> string option) list \<Rightarrow> gerror option" where
  "empty_provider_fields i [] = None"
| "empty_provider_fields i ((iv, tm) # ps) =
     or_else (empty_override iv [Lit ''providers['', Number i, Lit ''].probe.interval''])
    (or_else (empty_override tm [Lit ''providers['', Number i, Lit ''].probe.timeout''])
       (empty_provider_fields (i + 1) ps))"

definition validate_duration_overrides :: "presence \<Rightarrow> gerror option" where
  "validate_duration_overrides p =
     or_else (empty_override (pr_probe_interval p) [Lit ''health.probe_interval''])
    (or_else (empty_override (pr_probe_timeout p) [Lit ''health.probe_timeout''])
    (or_else (empty_override (pr_open_interval p) [Lit ''breaker.open_interval''])
       (empty_provider_fields 0 (pr_providers p))))"

definition apply_health_defaults :: "health_config \<Rightarrow> presence \<Rightarrow> health_config" where
  "apply_health_defaults h p = h
     \<lparr>hl_probe_interval := (if pr_probe_interval p = None then ''15s'' else hl_probe_interval h),
      hl_probe_timeout := (if pr_probe_timeout p = None then ''2s'' else hl_probe_timeout h),
      hl_require_initial_probe :=
        (if pr_require_initial_probe p = None then True else hl_require_initial_probe h)\<rparr>"

definition apply_breaker_defaults :: "breaker_config \<Rightarrow> presence \<Rightarrow> breaker_config" where
  "apply_breaker_defaults b p = b
     \<lparr>brk_failure_threshold := (if pr_failure_threshold p = None then 3 else brk_failure_threshold b),
      brk_open_interval := (if pr_open_interval p = None then ''30s'' else brk_open_interval b),
      brk_recovery_success_threshold :=
        (if pr_recovery_success_threshold p = None then 1 else brk_recovery_success_threshold b)\<rparr>"

definition apply_defaults :: "config \<Rightarrow> presence \<Rightarrow> config" where
  "apply_defaults c p = c\<lparr>cfg_health := apply_health_defaults (cfg_health c) p,
                          cfg_breaker := apply_breaker_defaults (cfg_breaker c) p\<rparr>"

definition load ::
  "(string \<Rightarrow> gerror + yaml_node) \<Rightarrow> (string \<Rightarrow> gerror + presence) \<Rightarrow> (string \<Rightarrow> gerror + config) \<Rightarrow>
   gerror + string \<Rightarrow> gerror + config"
where
  "load yaml_tree yaml_presence yaml_strict input =
     (case input of Inl e \<Rightarrow> Inl e | Inr data \<Rightarrow>
      case yaml_tree data of Inl e \<Rightarrow> Inl e | Inr root \<Rightarrow>
      case validate_null_overrides root of Some e \<Rightarrow> Inl e | None \<Rightarrow>
      case yaml_presence data of Inl e \<Rightarrow> Inl e | Inr p \<Rightarrow>
      case yaml_strict data of Inl e \<Rightarrow> Inl e | Inr c \<Rightarrow>
      case validate_duration_overrides p of Some e \<Rightarrow> Inl e | None \<Rightarrow>
      (let c' = apply_defaults c p in
       case validate c' of Some e \<Rightarrow> Inl e | None \<Rightarrow> Inr c'))"

section \<open>Properties of a loaded configuration\<close>

text \<open>
  What the two decodes of one document have in common: a setting the presence decode found
  has the value the strict decode stored.
\<close>

definition presence_agrees :: "presence \<Rightarrow> config \<Rightarrow> bool" where
  "presence_agrees p c \<longleftrightarrow>
     pr_probe_interval p \<in> {None, Some (hl_probe_interval (cfg_health c))} \<and>
     pr_probe_timeout p \<in> {None, Some (hl_probe_timeout (cfg_health c))} \<and>
     pr_open_interval p \<in> {None, Some (brk_open_interval (cfg_breaker c))} \<and>
     pr_require_initial_probe p \<in> {None, Some (hl_require_initial_probe (cfg_health c))} \<and>
     pr_failure_threshold p \<in> {None, Some (brk_failure_threshold (cfg_breaker c))} \<and>
     pr_recovery_success_threshold p \<in> {None, Some (brk_recovery_success_threshold (cfg_breaker c))}"

lemma load_InrE:
  assumes "load yt yp ys input = Inr c"
  obtains data root p c0 where "input = Inr data" "yt data = Inr root" "yp data = Inr p"
    "ys data = Inr c0" "validate_null_overrides root = None"
    "validate_duration_overrides p = None" "c = apply_defaults c0 p" "validate c = None"
  using assms by (auto simp: load_def Let_def split: sum.splits option.splits)

lemma empty_override_None [simp]: "empty_override v m = None \<longleftrightarrow> v \<noteq> Some []"
  by (simp add: empty_override_def)

definition health_durations_set :: "config \<Rightarrow> bool" where
  "health_durations_set c \<longleftrightarrow> positive_duration (hl_probe_interval (cfg_health c)) \<and>
     positive_duration (hl_probe_timeout (cfg_health c)) \<and>
     positive_duration (brk_open_interval (cfg_breaker c))"

lemma load_config_ok: "load yt yp ys input = Inr c \<Longrightarrow> config_ok c"
  by (erule load_InrE) (simp add: validate_None_iff)

lemma load_durations:
  assumes "load yt yp ys (Inr data) = Inr c" "yp data = Inr p" "ys data = Inr c0" "presence_agrees p c0"
  shows "health_durations_set c"
proof -
  from assms(1-3) have l: "validate_duration_overrides p = None" "c = apply_defaults c0 p" "validate c = None"
    by (auto elim!: load_InrE)
  from assms(4) l(1) have
    "hl_probe_interval (cfg_health c) \<noteq> []" "hl_probe_timeout (cfg_health c) \<noteq> []"
    "brk_open_interval (cfg_breaker c) \<noteq> []"
    by (auto simp: l(2) presence_agrees_def validate_duration_overrides_def apply_defaults_def
        apply_health_defaults_def apply_breaker_defaults_def)
  with l(3) show ?thesis
    by (simp add: validate_None_iff config_ok_def health_durations_set_def duration_field_ok_def)
qed

text \<open>What a document sets, or else the documented default.\<close>

definition document_value :: "'a option \<Rightarrow> 'a \<Rightarrow> 'a" where
  "document_value given fallback = (case given of None \<Rightarrow> fallback | Some v \<Rightarrow> v)"

lemma defaults_document:
  assumes "presence_agrees p c0" "c = apply_defaults c0 p"
  shows "hl_probe_interval (cfg_health c) = document_value (pr_probe_interval p) ''15s''"
    and "hl_probe_timeout (cfg_health c) = document_value (pr_probe_timeout p) ''2s''"
    and "hl_require_initial_probe (cfg_health c) = document_value (pr_require_initial_probe p) True"
    and "brk_open_interval (cfg_breaker c) = document_value (pr_open_interval p) ''30s''"
    and "brk_failure_threshold (cfg_breaker c) = document_value (pr_failure_threshold p) 3"
    and "brk_recovery_success_threshold (cfg_breaker c) = document_value (pr_recovery_success_threshold p) 1"
    and "cfg_providers c = cfg_providers c0"
  using assms
  by (simp_all add: presence_agrees_def apply_defaults_def apply_health_defaults_def
      apply_breaker_defaults_def document_value_def split: option.splits) auto

lemma null_section_rejected:
  assumes "yn_content root = doc # rest"
    and "is_null_scalar (mapping_value (Some doc) ''health'') \<or>
         is_null_scalar (mapping_value (Some doc) ''breaker'')"
  shows "validate_null_overrides root \<noteq> None"
  using assms by (auto simp: validate_null_overrides_def Let_def)

end
