(* ===== verification/App.thy ===== *)
theory App
  imports Httpapi Prober Config_Load
begin

text \<open>
  Package \<open>app\<close>: building the running service from a configuration (\<open>app.go\<close>), its listeners
  and its shutdown (\<open>server.go\<close>), and the program around it (\<open>cmd/nexus-router/main.go\<close>).
  What the operating system and \<open>net/http\<close> answer to \<open>Listen\<close>, \<open>Serve\<close> and \<open>Shutdown\<close> are
  arguments.
\<close>

section \<open>Building the service (\<open>app.go\<close>)\<close>

definition duration_or_default :: "string \<Rightarrow> duration \<Rightarrow> duration" where
  "duration_or_default raw fallback =
     (if raw = [] then fallback
      else (case parse_duration raw of None \<Rightarrow> fallback | Some d \<Rightarrow> if d \<le> 0 then fallback else d))"

definition int_or_default :: "int \<Rightarrow> int \<Rightarrow> int" where
  "int_or_default v fallback = (if v \<le> 0 then fallback else v)"

definition runtime_upstreams :: "provider_config list \<Rightarrow> runtime_upstream list" where
  "runtime_upstreams ps =
     map (\<lambda>p. \<lparr>up_name = prv_name p, up_provider = prv_provider p\<rparr>) (filter (\<lambda>p. prv_name p \<noteq> []) ps)"

definition app_runtime_options :: "config \<Rightarrow> runtime_options" where
  "app_runtime_options cfg =
     \<lparr>opt_upstreams = runtime_upstreams (cfg_providers cfg),
      opt_failure_threshold = int_or_default (brk_failure_threshold (cfg_breaker cfg)) 3,
      opt_recovery_threshold = int_or_default (brk_recovery_success_threshold (cfg_breaker cfg)) 1,
      opt_open_interval = duration_or_default (brk_open_interval (cfg_breaker cfg)) (30 * second)\<rparr>"

text \<open>Without the initial probe every provider starts as if a request had succeeded.\<close>

definition app_runtime :: "config \<Rightarrow> time \<Rightarrow> runtime" where
  "app_runtime cfg now =
     (let r = new_runtime (app_runtime_options cfg) in
      if hl_require_initial_probe (cfg_health cfg) then r
      else fold (\<lambda>p r. if prv_name p = [] then r else record_request_success (prv_name p) now r)
             (cfg_providers cfg) r)"

definition app_targets :: "(string \<Rightarrow> string option) \<Rightarrow> config \<Rightarrow> probe_target list" where
  "app_targets env cfg =
     new_prober_targets env (cfg_providers cfg)
       (duration_or_default (hl_probe_interval (cfg_health cfg)) (15 * second))
       (duration_or_default (hl_probe_timeout (cfg_health cfg)) (2 * second))"

definition sys_snapshot :: "wall_clock \<Rightarrow> 'w system snapshot_reader" where
  "sys_snapshot clock s =
     (case snapshot (\<lambda>i. int (clock (sys_ticks s + i))) (sys_health s) of
        (snap, r) \<Rightarrow>
          (snap, s\<lparr>sys_health := r, sys_ticks := sys_ticks s + length (rt_order (sys_health s))\<rparr>))"

definition app_deps ::
  "config \<Rightarrow> (float64 \<Rightarrow> go_int) \<Rightarrow> (string \<Rightarrow> string option) \<Rightarrow> wall_clock \<Rightarrow> 'w http_client \<Rightarrow>
   8 word list option \<Rightarrow> int \<Rightarrow> 'w system deps" where
  "app_deps cfg oob env clock client rand nanos =
     \<lparr>dp_cfg = cfg, dp_resolver = new_resolver (auth_client_keys (cfg_auth cfg)),
      dp_env = \<lparr>en_oob = oob, en_rand = rand, en_nanos = nanos,
                en_service = app_service cfg oob env clock client\<rparr>,
      dp_runtime = Some (sys_snapshot clock)\<rparr>"

record server =
  hs_addr :: string
  hs_mux :: mux

record service =
  sv_server :: "server option"
  sv_admin_server :: "server option"
  sv_handler :: mux
  sv_tls :: tls_config
  sv_running :: bool      \<comment> \<open>the prober goroutine is running and can be cancelled\<close>

definition app_service_record :: "config \<Rightarrow> service" where
  "app_service_record cfg =
     (let admin = trim_space (srv_admin_listen_addr (cfg_server cfg)) \<noteq> [];
          addr = srv_listen_addr (cfg_server cfg)
      in \<lparr>sv_server = Some \<lparr>hs_addr = (if addr = [] then ''127.0.0.1:8080'' else addr),
            hs_mux = (if admin then new_public_router else new_router)\<rparr>,
          sv_admin_server = (if admin
            then Some \<lparr>hs_addr = srv_admin_listen_addr (cfg_server cfg), hs_mux = new_admin_router\<rparr>
            else None),
          sv_handler = new_router, sv_tls = srv_tls (cfg_server cfg), sv_running = True\<rparr>)"

text \<open>\<open>stopRuntimeWork\<close>: cancels the prober and waits for it; a second call does nothing.\<close>

definition stop_runtime_work :: "service \<Rightarrow> service" where
  "stop_runtime_work s = s\<lparr>sv_running := False\<rparr>"

section \<open>Serving (\<open>server.go\<close>)\<close>

definition err_server_closed :: gerror where
  "err_server_closed = ExternalError ''http: Server closed''"

text \<open>\<open>errors.Is(err, http.ErrServerClosed)\<close>\<close>

fun is_server_closed :: "gerror \<Rightarrow> bool" where
  "is_server_closed (ExternalError s) = (s = ''http: Server closed'')"
| "is_server_closed (Wrapped _ (Some e) _) = is_server_closed e"
| "is_server_closed (OpenAIStreamError (Some e) _) = is_server_closed e"
| "is_server_closed (AnthropicStreamError (Some e) _) = is_server_closed e"
| "is_server_closed _ = False"

text \<open>The answer of \<open>ServeTLS\<close> (argument \<open>True\<close>) or \<open>Serve\<close>.\<close>

definition serve_http :: "server option \<Rightarrow> tls_config \<Rightarrow> (bool \<Rightarrow> gerror option) \<Rightarrow> gerror option" where
  "serve_http srv tls answer =
     (case srv of None \<Rightarrow> None | Some _ \<Rightarrow> answer (tls_mode tls = ''file''))"

fun first_serve_error :: "gerror option list \<Rightarrow> gerror option" where
  "first_serve_error [] = None"
| "first_serve_error (e # es) =
     (case e of None \<Rightarrow> first_serve_error es
      | Some x \<Rightarrow> if is_server_closed x then first_serve_error es else e)"

fun first_error :: "gerror option list \<Rightarrow> gerror option" where
  "first_error [] = None"
| "first_error (e # es) = (if e \<noteq> None then e else first_error es)"

definition select_serve_error :: "gerror option list \<Rightarrow> gerror option" where
  "select_serve_error es =
     (case first_serve_error es of Some e \<Rightarrow> Some e | None \<Rightarrow> first_error es)"

definition serve_one :: "(bool \<Rightarrow> gerror option) \<Rightarrow> service \<Rightarrow> gerror option \<times> service" where
  "serve_one answer s =
     (case sv_server s of None \<Rightarrow> (None, s)
      | Some _ \<Rightarrow>
        (let err = serve_http (sv_server s) (sv_tls s) answer in
         (err, if err \<noteq> None then stop_runtime_work s else s)))"

text \<open>Whichever server returns first; when it failed, both are closed before waiting for the
  other (\<open>later\<close> is given whether they were).\<close>

definition must_close :: "gerror option \<Rightarrow> bool" where
  "must_close e \<longleftrightarrow> (case e of None \<Rightarrow> False | Some x \<Rightarrow> \<not> is_server_closed x)"

definition serve_all ::
  "(bool \<Rightarrow> gerror option) \<Rightarrow> (bool \<Rightarrow> bool \<Rightarrow> gerror option) \<Rightarrow> bool \<Rightarrow> service \<Rightarrow> gerror option \<times> service" where
  "serve_all first later admin_first s =
     (let srv1 = (if admin_first then sv_admin_server s else sv_server s);
          srv2 = (if admin_first then sv_server s else sv_admin_server s);
          e1 = serve_http srv1 (sv_tls s) first;
          e2 = serve_http srv2 (sv_tls s) (later (must_close e1));
          err = select_serve_error [e1, e2]
      in (err, if err \<noteq> None then stop_runtime_work s else s))"

definition start ::
  "(string \<Rightarrow> gerror option) \<Rightarrow> (bool \<Rightarrow> gerror option) \<Rightarrow> (bool \<Rightarrow> bool \<Rightarrow> gerror option) \<Rightarrow> bool \<Rightarrow>
   service \<Rightarrow> gerror option \<times> service" where
  "start listen first later admin_first s =
     (case sv_server s of None \<Rightarrow> (None, s)
      | Some srv \<Rightarrow>
        (case listen (hs_addr srv) of Some e \<Rightarrow> (Some e, stop_runtime_work s)
         | None \<Rightarrow>
           (case sv_admin_server s of
              Some adm \<Rightarrow>
                (case listen (hs_addr adm) of Some e \<Rightarrow> (Some e, stop_runtime_work s)
                 | None \<Rightarrow> serve_all first later admin_first s)
            | None \<Rightarrow> serve_one first s)))"

definition shutdown :: "gerror option \<Rightarrow> gerror option \<Rightarrow> service \<Rightarrow> gerror option \<times> service" where
  "shutdown admin_err server_err s0 =
     (let s = stop_runtime_work s0;
          e1 = (if sv_admin_server s \<noteq> None then admin_err else None);
          e2 = (if sv_server s \<noteq> None then server_err else None)
      in (case e1 of Some e \<Rightarrow> Some e | None \<Rightarrow> e2, s))"

section \<open>The program (\<open>main.go\<close>)\<close>

datatype exit_status = ExitOk | Fatal gerror

text \<open>\<open>started\<close> is \<open>Some\<close> when \<open>Start\<close> returns before the interrupt; \<open>late\<close> is its answer after
  the shutdown.\<close>

definition main_program ::
  "string \<Rightarrow> (string \<Rightarrow> gerror + string) \<Rightarrow> (gerror + string \<Rightarrow> gerror + config) \<Rightarrow>
   gerror option option \<Rightarrow> gerror option \<Rightarrow> gerror option \<Rightarrow> exit_status" where
  "main_program path open_file load_config started shutdown_err late =
     (if path = [] then Fatal (ErrorString [Lit ''-config is required''])
      else (case open_file path of Inl e \<Rightarrow> Fatal e
       | Inr data \<Rightarrow>
         (case load_config (Inr data) of Inl e \<Rightarrow> Fatal e
          | Inr cfg \<Rightarrow>
            (case started of
               Some (Some e) \<Rightarrow> Fatal e
             | Some None \<Rightarrow> ExitOk
             | None \<Rightarrow>
               (case shutdown_err of Some e \<Rightarrow> Fatal e
                | None \<Rightarrow>
                  (case late of None \<Rightarrow> ExitOk
                   | Some e \<Rightarrow> if is_server_closed e then ExitOk else Fatal e))))))"

section \<open>The initial state\<close>

lemma duration_or_default_pos: "0 < d \<Longrightarrow> 0 < duration_or_default raw d"
  by (auto simp: duration_or_default_def split: option.splits)

lemma duration_or_default_parsed:
  "positive_duration raw \<Longrightarrow> raw \<noteq> [] \<Longrightarrow> parse_duration raw = Some (duration_or_default raw d)"
  by (auto simp: duration_or_default_def positive_duration_def split: option.splits)

lemma app_runtime_inv: "0 \<le> now \<Longrightarrow> runtime_inv (app_runtime cfg now)"
proof -
  assume now: "0 \<le> now"
  have "runtime_inv (fold (\<lambda>p r. if prv_name p = [] then r else record_request_success (prv_name p) now r) ps r)"
    if "runtime_inv r" for ps :: "provider_config list" and r
    using that by (induction ps arbitrary: r) (auto intro: record_inv(3) [OF _ now])
  then show ?thesis using new_runtime_inv by (simp add: app_runtime_def Let_def)
qed

lemma select_serve_error_None: "select_serve_error es = None \<longleftrightarrow> (\<forall>e \<in> set es. e = None)"
proof -
  have "first_serve_error es \<noteq> None \<Longrightarrow> \<exists>e \<in> set es. e \<noteq> None"
    by (induction es) (auto split: if_splits option.splits)
  moreover have "first_error es = None \<longleftrightarrow> (\<forall>e \<in> set es. e = None)"
    by (induction es) auto
  ultimately show ?thesis by (auto simp: select_serve_error_def split: option.splits)
qed

text \<open>A real serving error is never hidden behind a clean close.\<close>

lemma select_serve_error_real:
  assumes "Some e \<in> set es" "\<not> is_server_closed e"
  shows "\<exists>e'. select_serve_error es = Some e' \<and> \<not> is_server_closed e'"
proof -
  have "\<exists>e'. first_serve_error es = Some e' \<and> \<not> is_server_closed e'"
    using assms by (induction es) (auto split: option.splits)
  then show ?thesis by (auto simp: select_serve_error_def)
qed

lemma is_server_closed_chain: "is_server_closed e \<longleftrightarrow> unwraps_to e err_server_closed"
proof
  show "is_server_closed e \<Longrightarrow> unwraps_to e err_server_closed"
    by (induction e rule: is_server_closed.induct) (auto simp: err_server_closed_def intro: unwraps_to.intros)
next
  assume "unwraps_to e err_server_closed"
  then show "is_server_closed e"
    by (induction e err_server_closed rule: unwraps_to.induct)
       (auto simp: err_server_closed_def elim!: unwrap_SomeE)
qed

section \<open>Serving any request\<close>

lemma sys_snapshot_inv: "sys_inv s \<Longrightarrow> sys_inv (snd (sys_snapshot clock s))"
  by (simp add: sys_snapshot_def case_prod_beta snapshot_inv)

lemma chat_total:
  assumes "en_service en = app_service cfg oob env clock client"
  shows "chat_completions en pol body w s \<noteq> None"
proof -
  have "app_service cfg oob env clock client p req s \<noteq> None"
    if "decode_chat_completion_request body = Inr req" for p req
    using app_service_returns accepted_conversation_ok chat_accepted [OF that] by blast
  then show ?thesis
    by (cases pol; cases "decode_chat_completion_request body")
       (auto simp: chat_completions_def assms not_None_eq split: option.splits)
qed

lemma responses_total:
  assumes "en_service en = app_service cfg oob env clock client"
  shows "responses en pol body w s \<noteq> None"
proof -
  have "app_service cfg oob env clock client p req s \<noteq> None"
    if "decode_responses_request body = Inr req" for p req
    using app_service_returns accepted_conversation_ok responses_accepted [OF that] by blast
  then show ?thesis
    by (cases pol; cases "decode_responses_request body")
       (auto simp: responses_def assms not_None_eq split: option.splits)
qed

lemma require_bearer_total: "(\<And>ctx. nxt ctx q w s \<noteq> None) \<Longrightarrow> require_bearer res nxt q w s \<noteq> None"
  by (auto simp: require_bearer_def split: option.splits)

lemma serve_total: "serve (app_deps cfg oob env clock client rand nanos) m q w s \<noteq> None"
proof -
  let ?d = "app_deps cfg oob env clock client rand nanos"
  have e: "en_service (dp_env ?d) = app_service cfg oob env clock client" by (simp add: app_deps_def)
  have "serve_endpoint ?d ep q w s \<noteq> None" for ep
    by (cases ep)
       (simp_all only: serve_endpoint_def endpoint.case option.distinct not_False_eq_True
          require_bearer_total chat_total [OF e] responses_total [OF e])
  then show ?thesis by (auto simp: serve_def split: option.splits)
qed

lemma chat_inv:
  assumes "en_service en = app_service cfg oob env clock client" "sys_inv s"
    "chat_completions en pol body w s = Some (w', s')"
  shows "sys_inv s'"
  using assms app_service_inv [OF assms(2)]
  by (fastforce simp: chat_completions_def split: option.splits sum.splits prod.splits)

lemma responses_inv:
  assumes "en_service en = app_service cfg oob env clock client" "sys_inv s"
    "responses en pol body w s = Some (w', s')"
  shows "sys_inv s'"
  using assms app_service_inv [OF assms(2)]
  by (fastforce simp: responses_def split: option.splits sum.splits prod.splits)

lemma serve_inv:
  assumes i: "sys_inv s"
    and x: "serve (app_deps cfg oob env clock client rand nanos) m q w s = Some (w', s')"
  shows "sys_inv s'"
proof -
  let ?d = "app_deps cfg oob env clock client rand nanos"
  have e: "en_service (dp_env ?d) = app_service cfg oob env clock client"
    and r: "dp_runtime ?d = Some (sys_snapshot clock)" by (simp_all add: app_deps_def)
  have "sys_inv t" if "serve_endpoint ?d ep q w s = Some (v, t)" for ep v t
    using that i chat_inv [OF e i] responses_inv [OF e i] sys_snapshot_inv [OF i, of clock]
    by (cases ep) (auto simp: serve_endpoint_def require_bearer_def readyz_def admin_upstreams_def r
        case_prod_beta split: option.splits)
  with x i show ?thesis by (auto simp: serve_def split: if_splits option.splits)
qed

end
