(* ===== verification/App_Props.thy ===== *)
theory App_Props
  imports App
begin

text \<open>
  Lemmas about the assembled service: which upstreams are eligible at start-up, what a reply to
  a failed run looks like, that the admin views do not depend on secrets, and how a readiness
  answer and the plan of a request agree.
\<close>

section \<open>Start-up\<close>

definition fresh_or_healthy :: "runtime \<Rightarrow> bool" where
  "fresh_or_healthy r \<longleftrightarrow> (\<forall>u s. rt_upstreams r u = Some s \<longrightarrow>
     (us_state s = StateUnknown \<and> us_last_applied_event_at s = 0) \<or> us_state s = StateHealthy)"

lemma new_runtime_upstreams:
  "rt_upstreams (new_runtime opts) u = Some s \<Longrightarrow> us_state s = StateUnknown \<and> us_last_applied_event_at s = 0"
proof -
  have "rt_upstreams (fold add_upstream ups r) u = Some s \<Longrightarrow>
      (\<forall>v t. rt_upstreams r v = Some t \<longrightarrow> us_state t = StateUnknown \<and> us_last_applied_event_at t = 0) \<Longrightarrow>
      us_state s = StateUnknown \<and> us_last_applied_event_at s = 0" for ups r
    by (induction ups arbitrary: r)
       (auto simp: add_upstream_def initial_upstream_def split: if_splits)
  then show "rt_upstreams (new_runtime opts) u = Some s \<Longrightarrow>
      us_state s = StateUnknown \<and> us_last_applied_event_at s = 0"
    by (auto simp: new_runtime_def Let_def)
qed

lemma new_runtime_dom: "dom (rt_upstreams (new_runtime opts)) = up_name ` set (opt_upstreams opts) - {[]}"
proof -
  have "dom (rt_upstreams (fold add_upstream ups r)) =
      dom (rt_upstreams r) \<union> (up_name ` set ups - {[]})" for ups r
    by (induction ups arbitrary: r) (auto simp: add_upstream_def)
  then show ?thesis by (simp add: new_runtime_def Let_def)
qed

lemma success_fresh:
  assumes "fresh_or_healthy r"
  shows "fresh_or_healthy (record_request_success u at r)"
    and "rt_upstreams r u \<noteq> None \<Longrightarrow> healthy_in (record_request_success u at r) u"
proof -
  have h: "us_state (case accept_event at s of None \<Rightarrow> s | Some s' \<Rightarrow> apply_request_success at s') = StateHealthy"
    if "rt_upstreams r u = Some s" for s
  proof (cases "us_state s = StateHealthy")
    case True
    then show ?thesis
      by (auto simp: accept_event_def refresh_for_event_def apply_request_success_def
          clear_failures_def Let_def split: option.splits)
  next
    case False
    with assms that have "us_state s = StateUnknown" "us_last_applied_event_at s = 0"
      by (auto simp: fresh_or_healthy_def)
    then show ?thesis
      by (auto simp: accept_event_def refresh_for_event_def apply_request_success_def
          clear_failures_def Let_def)
  qed
  show "rt_upstreams r u \<noteq> None \<Longrightarrow> healthy_in (record_request_success u at r) u"
    using h by (auto simp: healthy_in_def state_of_def record_request_success_def on_event_lookup)
  show "fresh_or_healthy (record_request_success u at r)"
    unfolding fresh_or_healthy_def
  proof (intro allI impI)
    fix v s
    assume "rt_upstreams (record_request_success u at r) v = Some s"
    with h assms show "(us_state s = StateUnknown \<and> us_last_applied_event_at s = 0) \<or> us_state s = StateHealthy"
      by (cases "v = u") (auto simp: record_request_success_def on_event_lookup fresh_or_healthy_def)
  qed
qed

definition warm :: "time \<Rightarrow> provider_config \<Rightarrow> runtime \<Rightarrow> runtime" where
  "warm now p r = (if prv_name p = [] then r else record_request_success (prv_name p) now r)"

lemma warm_healthy:
  assumes "fresh_or_healthy r" "runtime_inv r" "0 \<le> now" "u \<noteq> []"
  shows "healthy_in (fold (warm now) ps r) u \<longleftrightarrow>
     healthy_in r u \<or> (u \<in> prv_name ` set ps \<and> rt_upstreams r u \<noteq> None)"
  using assms(1,2)
proof (induction ps arbitrary: r)
  case (Cons p ps)
  let ?r = "warm now p r"
  have i: "fresh_or_healthy ?r" "runtime_inv ?r"
    using Cons.prems success_fresh(1) record_inv(3) [OF _ assms(3)] by (auto simp: warm_def)
  have d: "rt_upstreams ?r u = None \<longleftrightarrow> rt_upstreams r u = None"
    by (simp add: warm_def record_request_success_def on_event_lookup)
  have "healthy_in ?r u \<longleftrightarrow> healthy_in r u \<or> (u = prv_name p \<and> rt_upstreams r u \<noteq> None)"
  proof (cases "u = prv_name p")
    case True
    then show ?thesis
      using success_fresh(2) [OF Cons.prems(1)] rtw.success_keeps [OF Cons.prems(2)] assms(4)
      by (auto simp: warm_def healthy_in_def state_of_def record_request_success_def on_event_lookup)
  next
    case False
    then show ?thesis using rtw.success_other [of u "prv_name p" now r] by (auto simp: warm_def)
  qed
  with Cons.IH [OF i] d show ?case by auto
qed simp

lemma app_runtime_eligible:
  assumes "0 \<le> now"
  shows "healthy_in (app_runtime cfg now) u \<longleftrightarrow>
     \<not> hl_require_initial_probe (cfg_health cfg) \<and> u \<noteq> [] \<and> u \<in> known_providers (cfg_providers cfg)"
proof -
  let ?o = "app_runtime_options cfg" and ?r = "new_runtime (app_runtime_options cfg)"
  have f: "fresh_or_healthy ?r" using new_runtime_upstreams by (auto simp: fresh_or_healthy_def)
  have n: "\<not> healthy_in ?r u"
    using new_runtime_upstreams [of ?o u] by (auto simp: healthy_in_def state_of_def)
  have d: "rt_upstreams ?r u \<noteq> None \<longleftrightarrow> u \<noteq> [] \<and> u \<in> known_providers (cfg_providers cfg)"
    using new_runtime_dom [of ?o]
    by (auto simp: app_runtime_options_def runtime_upstreams_def known_providers_def domIff image_iff
        set_eq_iff)
  show ?thesis
  proof (cases "hl_require_initial_probe (cfg_health cfg)")
    case True
    with n show ?thesis by (simp add: app_runtime_def Let_def)
  next
    case False
    then have w: "app_runtime cfg now = fold (warm now) (cfg_providers cfg) ?r"
      by (simp add: app_runtime_def Let_def warm_def [abs_def])
    show ?thesis
    proof (cases "u = []")
      case True
      have "runtime_inv (app_runtime cfg now)" by (rule app_runtime_inv [OF assms])
      with True show ?thesis
        by (auto simp: healthy_in_def state_of_def runtime_inv_def runtime_shape_def)
    next
      case u: False
      from warm_healthy [OF f new_runtime_inv assms u] n d w False u show ?thesis
        by (auto simp: known_providers_def)
    qed
  qed
qed

section \<open>Replies to failed runs\<close>

text \<open>Neither of the two tests that expose an error's text to the client holds.\<close>

definition internal :: "gerror \<Rightarrow> bool" where
  "internal e \<longleftrightarrow> \<not> is_unsupported e \<and> \<not> message_has_prefix (error_text e) ''unsupported_capability:''"

lemma internal_intros [intro]:
  "\<not> has_prefix s ''unsupported_capability:'' \<Longrightarrow> internal (ErrorString (Lit s # m))"
  "\<not> has_prefix s ''unsupported_capability:'' \<Longrightarrow> internal (ExecutionError (Some (Wrapped (Lit s # m) e' p)) r c)"
  "internal e \<Longrightarrow> internal (ExecutionError (Some e) r c)"
  by (auto simp: internal_def message_has_prefix_def [of "Lit s # m"])

lemma executor_error_internal:
  assumes "executor_execute ex u req s = Some (Inl e, s')"
  shows "internal e"
proof (cases "registry_resolve (ex_registry ex) u")
  case (Inl err)
  with assms have "e = Wrapped [Lit ''runtime executor: resolve upstream '', Quoted u, Lit '': ''] (Some err) []"
    by (simp add: executor_execute_def)
  with Inl show ?thesis
    by (auto simp: internal_def message_has_prefix_def registry_resolve_def split: option.splits)
next
  case (Inr p)
  show ?thesis
  proof (cases "select_adapter ex p")
    case None
    with assms Inr show ?thesis by (auto simp: executor_execute_def)
  next
    case (Some a)
    from assms Inr Some obtain err where "e = wrap_execution_error p u err"
      by (auto simp: executor_execute_def Let_def split: option.splits sum.splits prod.splits)
    then show ?thesis
      by (auto simp: wrap_execution_error_def execute_context_def split: option.splits)
  qed
qed

lemma run_loop_internal:
  assumes "run_loop (executor_execute ex) req as oc le s = Some ((oc', Some e), s')"
    and "case le of None \<Rightarrow> True | Some e \<Rightarrow> internal e"
  shows "internal e"
  using assms
proof (induction as arbitrary: oc le s)
  case Nil
  then show ?case by (auto simp: no_attempts_error_def split: option.splits)
next
  case (Cons a as)
  from Cons.prems(1) obtain x s1 where x: "executor_execute ex (att_upstream a) req s = Some (x, s1)"
    by (cases "executor_execute ex (att_upstream a) req s") auto
  show ?case
  proof (cases x)
    case (Inl e1)
    from executor_error_internal [OF x [unfolded Inl]] have "internal e1" .
    with Inl x Cons show ?thesis by (auto simp: Let_def split: if_splits)
  qed (use x Cons.prems(1) in \<open>simp add: Let_def\<close>)
qed

lemma run_internal:
  assumes "run (plan_route p) (executor_execute ex) req s = Some ((oc, Some e), s')"
  shows "internal e"
  using assms
  by (auto simp: run_def plan_route_def split: option.splits prod.splits sum.splits
      dest: run_loop_internal)

text \<open>After validation, a failed run is an internal execution error.\<close>

lemma app_service_error:
  assumes "validate_public_surface req = None" "validate_request default_registry pol req = None"
    and "app_service cfg oob env clock client pol req s = Some ((r, as, Some e), s')"
  shows "internal e \<and> as_execution_error e \<noteq> None"
proof -
  from assms obtain oc e0 where
    "run (app_planner cfg clock) (app_executor cfg oob env clock client) req s = Some ((oc, Some e0), s')"
    "e = (case as_execution_error e0 of Some _ \<Rightarrow> e0 | None \<Rightarrow> ExecutionError (Some e0) False False)"
    by (auto simp: app_service_def service_execute_def split: option.splits prod.splits)
  moreover from this have "internal e0"
    unfolding app_planner_def app_executor_def by (auto dest: run_internal)
  ultimately show ?thesis by (auto split: option.splits)
qed

definition upstream_failed :: "response_writer \<Rightarrow> response_writer" where
  "upstream_failed w = write_error 502 ''upstream_error'' [Lit ''upstream request failed''] w"

lemma write_execution_error_internal:
  "internal e \<Longrightarrow> as_execution_error e \<noteq> None \<Longrightarrow> write_execution_error w e = upstream_failed w"
  by (simp add: write_execution_error_def internal_def upstream_failed_def)

section \<open>Secrets\<close>

text \<open>The configuration with every secret blanked: bearer secrets, the names of key variables,
  probe header values, and the certificate paths.\<close>

definition redact_key :: "client_key_config \<Rightarrow> client_key_config" where
  "redact_key k = k\<lparr>key_secret := []\<rparr>"

definition redact_provider :: "provider_config \<Rightarrow> provider_config" where
  "redact_provider p = p
     \<lparr>prv_api_key_env := (if trim_space (prv_api_key_env p) = [] then [] else ''x''),
      prv_probe := (prv_probe p)\<lparr>prb_headers := map_option (map (\<lambda>(k, v). ([], []))) (prb_headers (prv_probe p))\<rparr>\<rparr>"

definition redact :: "config \<Rightarrow> config" where
  "redact c = c
     \<lparr>cfg_auth := \<lparr>auth_client_keys = map redact_key (auth_client_keys (cfg_auth c))\<rparr>,
      cfg_providers := map redact_provider (cfg_providers c),
      cfg_server := (cfg_server c)
        \<lparr>srv_tls := \<lparr>tls_mode = tls_mode (srv_tls (cfg_server c)), tls_cert_file = [], tls_key_file = []\<rparr>\<rparr>\<rparr>"

lemma trim_x: "trim_space ''x'' = ''x''" "trim_space [] = []"
  by code_simp+

lemma redact_summary: "new_admin_config_summary (redact c) = new_admin_config_summary c"
proof -
  have "admin_client_key_of (redact_key k) = admin_client_key_of k" for k
    by (simp add: admin_client_key_of_def redact_key_def)
  moreover have "admin_provider_of (redact_provider p) = admin_provider_of p" for p
    by (auto simp: admin_provider_of_def redact_provider_def Let_def trim_x mlen_def entries_def
        split: option.splits)
  ultimately show ?thesis
    by (simp add: new_admin_config_summary_def redact_def)
qed

lemma redact_models: "cfg_models (redact c) = cfg_models c"
  by (simp add: redact_def)

text \<open>The two configuration views are the same for configurations that differ in secrets only.\<close>

lemma admin_views_redacted:
  assumes "redact c = redact c'"
  shows "admin_config c w = admin_config c' w" "admin_routes c w = admin_routes c' w"
proof -
  have "new_admin_config_summary c = new_admin_config_summary c'"
    using assms redact_summary [of c] redact_summary [of c'] by simp
  then show "admin_config c w = admin_config c' w" by (simp add: admin_config_def)
  have "cfg_models c = cfg_models c'" using assms redact_models [of c] redact_models [of c'] by simp
  then show "admin_routes c w = admin_routes c' w" by (simp add: admin_routes_def)
qed

lemma admin_router_lookup:
  "map_of new_admin_router ''/admin/config'' = Some AdminConfig"
  "map_of new_admin_router ''/admin/routes'' = Some AdminRoutes"
  "map_of new_admin_router ''/admin/upstreams'' = Some AdminUpstreams"
  by (simp_all add: new_admin_router_def mount_admin_routes_def)

lemma admin_paths_clean:
  "clean_path ''/admin/config'' = ''/admin/config''" "clean_path ''/admin/routes'' = ''/admin/routes''"
  "clean_path ''/admin/upstreams'' = ''/admin/upstreams''"
  by code_simp+

section \<open>Key variables in the upstream view\<close>

lemma snapshot_loop_error:
  assumes "u \<in> set us" "rt_upstreams r u = Some s"
  shows "\<exists>st \<in> set (fst (snapshot_loop clock i us r)). st_name st = us_name s \<and> st_last_error st = us_last_error s"
  using assms
proof (induction us arbitrary: i r s)
  case (Cons v us)
  show ?case
  proof (cases "v = u")
    case True
    with Cons.prems show ?thesis
      by (auto simp: Let_def case_prod_beta status_of_def refresh_def)
  next
    case False
    with Cons.prems Cons.IH show ?thesis
      by (cases "rt_upstreams r v") (auto simp: Let_def case_prod_beta)
  qed
qed simp

text \<open>An accepted failed probe leaves its error on the upstream, and a snapshot shows it.\<close>

lemma probe_failure_recorded:
  assumes "rt_upstreams r u = Some s" "accept_event at s = Some s1"
  shows "\<exists>s2. rt_upstreams (record_probe_failure u at m r) u = Some s2 \<and> us_last_error s2 = m \<and> us_name s2 = us_name s"
proof -
  have "us_name s1 = us_name s"
    using assms(2) by (auto simp: accept_event_def refresh_for_event_def Let_def
        split: if_splits health_state.splits)
  moreover have "us_last_error (apply_probe_failure fth oi at m s1) = m \<and>
      us_name (apply_probe_failure fth oi at m s1) = us_name s1" for fth oi
    by (simp add: apply_probe_failure_def open_upstream_def Let_def split: health_state.splits)
  ultimately show ?thesis
    using assms by (simp add: record_probe_failure_def on_event_lookup)
qed

lemma missing_key_target:
  assumes "prv_provider p \<in> {''openai'', ''anthropic''}" "prv_api_key_env p \<noteq> []" "env (prv_api_key_env p) = None"
  shows "tg_fail_fast_error (build_probe_target env p di dt) =
    Some [Lit ''missing provider API key env '', Verbatim (prv_api_key_env p)]"
  using assms
  by (auto simp: build_probe_target_def Let_def merge_provider_auth_headers_def lookup_provider_api_key_def)

lemma admin_upstreams_shows:
  assumes "runtime_inv (sys_health s)" "rt_upstreams (sys_health s) u = Some us"
  shows "\<exists>snap st s'. admin_upstreams (Some (sys_snapshot clock)) w s = (write_json (SnapshotBody snap) w, s') \<and>
     st \<in> set (snap_upstreams snap) \<and> st_name st = us_name us \<and> st_last_error st = us_last_error us"
proof -
  have "u \<in> set (rt_order (sys_health s))"
    using assms by (auto simp: runtime_inv_def runtime_shape_def)
  moreover have "snap_upstreams (fst (sys_snapshot clock s)) =
      fst (snapshot_loop (\<lambda>i. int (clock (sys_ticks s + i))) 0 (rt_order (sys_health s)) (sys_health s))"
    by (simp add: sys_snapshot_def snapshot_def Let_def case_prod_beta)
  ultimately obtain st where "st \<in> set (snap_upstreams (fst (sys_snapshot clock s)))"
    "st_name st = us_name us" "st_last_error st = us_last_error us"
    using snapshot_loop_error [OF _ assms(2)] by metis
  then show ?thesis by (auto simp: admin_upstreams_def case_prod_beta)
qed

lemma missing_key_shown:
  assumes "sys_inv s" "0 \<le> at" "rt_upstreams (sys_health s) (prv_name p) = Some us" "accept_event at us \<noteq> None"
    and "prv_provider p \<in> {''openai'', ''anthropic''}" "prv_api_key_env p \<noteq> []" "env (prv_api_key_env p) = None"
    and "tg = build_probe_target env p di dt"
    and "s1 = s\<lparr>sys_health := apply_op (probe_once tg False at net dn) (sys_health s)\<rparr>"
  shows "\<exists>snap st s'. admin_upstreams (Some (sys_snapshot clock)) w s1 = (write_json (SnapshotBody snap) w, s') \<and>
     st \<in> set (snap_upstreams snap) \<and> st_name st = prv_name p \<and>
     st_last_error st = [Lit ''missing provider API key env '', Verbatim (prv_api_key_env p)]"
proof -
  let ?m = "[Lit ''missing provider API key env '', Verbatim (prv_api_key_env p)]"
  have h: "sys_health s1 = record_probe_failure (prv_name p) at ?m (sys_health s)"
    unfolding assms(8,9) using missing_key_target [of p env, OF assms(5-7)]
    by (simp add: probe_once_def apply_op_def)
  from assms(4) obtain us1 where "accept_event at us = Some us1" by blast
  from probe_failure_recorded [OF assms(3) this, of ?m] obtain us2 where
    "rt_upstreams (sys_health s1) (prv_name p) = Some us2" "us_last_error us2 = ?m" "us_name us2 = us_name us"
    unfolding h by blast
  moreover have "us_name us = prv_name p" using runtime_inv_upstream [OF assms(1,3)] by simp
  moreover have "sys_inv s1" unfolding h by (rule record_inv(2) [OF assms(1,2)])
  ultimately show ?thesis using admin_upstreams_shows [of s1 "prv_name p" us2 clock w] by auto
qed

section \<open>Where the configured values go\<close>

definition given_or :: "string \<Rightarrow> string \<Rightarrow> string" where
  "given_or raw fallback = (if raw = [] then fallback else raw)"

lemma parsed_or_given:
  "duration_field_ok raw \<Longrightarrow> 0 < d \<Longrightarrow> parse_duration fallback = Some d \<Longrightarrow>
     Some (parsed_or raw d) = parse_duration (given_or raw fallback)"
  by (auto simp: parsed_or_def given_or_def duration_field_ok_def positive_duration_def split: option.splits)

lemma target_uses_config:
  assumes "provider_ok p" "parse_duration iv = Some di" "0 < di" "parse_duration tm = Some dt" "0 < dt"
  shows "Some (tg_interval (build_probe_target env p di dt)) =
      parse_duration (given_or (prb_interval (prv_probe p)) iv) \<and>
    Some (tg_timeout (build_probe_target env p di dt)) =
      parse_duration (given_or (prb_timeout (prv_probe p)) tm)"
  using assms parsed_or_given [of "prb_interval (prv_probe p)" di iv]
    parsed_or_given [of "prb_timeout (prv_probe p)" dt tm]
  by (simp add: build_probe_target_def Let_def case_prod_beta provider_ok_def probe_ok_def
      duration_field_ok_def)

lemma app_uses_config:
  assumes "config_ok c" "health_durations_set c"
  shows "opt_failure_threshold (app_runtime_options c) = brk_failure_threshold (cfg_breaker c) \<and>
     opt_recovery_threshold (app_runtime_options c) = brk_recovery_success_threshold (cfg_breaker c) \<and>
     Some (opt_open_interval (app_runtime_options c)) = parse_duration (brk_open_interval (cfg_breaker c)) \<and>
     map (Some \<circ> tg_interval) (app_targets env c) =
       map (\<lambda>p. parse_duration (given_or (prb_interval (prv_probe p)) (hl_probe_interval (cfg_health c))))
         (cfg_providers c) \<and>
     map (Some \<circ> tg_timeout) (app_targets env c) =
       map (\<lambda>p. parse_duration (given_or (prb_timeout (prv_probe p)) (hl_probe_timeout (cfg_health c))))
         (cfg_providers c)"
proof -
  have d: "parse_duration raw = Some (duration_or_default raw f)" "0 < duration_or_default raw f"
    if "positive_duration raw" for raw f
  proof -
    have "parse_duration [] = None" by code_simp
    with that show "parse_duration raw = Some (duration_or_default raw f)" "0 < duration_or_default raw f"
      by (auto simp: duration_or_default_def positive_duration_def split: option.splits)
  qed
  note h = assms(2) [unfolded health_durations_set_def]
  have p: "\<forall>p \<in> set (cfg_providers c). provider_ok p" "filter (\<lambda>p. prv_name p \<noteq> []) (cfg_providers c) = cfg_providers c"
    using assms(1) by (auto simp: config_ok_def list_all_iff provider_ok_def filter_id_conv)
  have t: "Some (tg_interval (build_probe_target env p (duration_or_default (hl_probe_interval (cfg_health c)) (15 * second))
        (duration_or_default (hl_probe_timeout (cfg_health c)) (2 * second)))) =
      parse_duration (given_or (prb_interval (prv_probe p)) (hl_probe_interval (cfg_health c))) \<and>
    Some (tg_timeout (build_probe_target env p (duration_or_default (hl_probe_interval (cfg_health c)) (15 * second))
        (duration_or_default (hl_probe_timeout (cfg_health c)) (2 * second)))) =
      parse_duration (given_or (prb_timeout (prv_probe p)) (hl_probe_timeout (cfg_health c)))"
    if "provider_ok p" for p
    using target_uses_config [OF that] d h by blast
  show ?thesis
    using assms(1) d h p t
    by (simp add: app_runtime_options_def app_targets_def new_prober_targets_def config_ok_def int_or_default_def)
qed

section \<open>Readiness and planning\<close>

lemma sys_snapshot_ready:
  assumes "sys_inv s" "distinct (map grp_name (cfg_groups cfg))" "config_ok cfg"
    and "all_required_route_groups_ready cfg (fst (sys_snapshot clock s))"
    and "match_model x (cfg_models cfg) = Some m"
  shows "\<exists>g u. find_route_group (mdl_route_group m) (cfg_groups cfg) = Some g \<and> u \<in> set (candidates g) \<and>
     u \<in> known_providers (cfg_providers cfg) \<and> sys_healthy (snd (sys_snapshot clock s)) u"
proof -
  let ?c = "\<lambda>i. int (clock (sys_ticks s + i))"
  have f: "fst (sys_snapshot clock s) = fst (snapshot ?c (sys_health s))"
    and h: "sys_health (snd (sys_snapshot clock s)) = snd (snapshot ?c (sys_health s))"
    by (simp_all add: sys_snapshot_def case_prod_beta)
  from ready_groups [OF assms(1-3) assms(4) [unfolded f], of m] match_model_Some [OF assms(5)]
  show ?thesis by (auto simp: h snapshot_stable)
qed

lemma readyz_200:
  assumes "readyz cfg (Some rd) w s = (w', s')" "rw_status w = None" "rw_status w' = Some 200"
  shows "s' = snd (rd s) \<and> snap_started (fst (rd s)) \<and>
     (hl_require_initial_probe (cfg_health cfg) \<longrightarrow> snap_initial_probe_complete (fst (rd s))) \<and>
     all_required_route_groups_ready cfg (fst (rd s))"
  using assms by (auto simp: readyz_def case_prod_beta split: if_splits)

lemma ready_plan:
  assumes "sys_inv s" "config_ok cfg" "distinct (map grp_name (cfg_groups cfg))"
    and "readyz cfg (Some (sys_snapshot clock)) w s = (w', s')" "rw_status w = None"
    and "rw_status w' = Some 200"
    and "match_model x (cfg_models cfg) = Some m"
  shows "\<exists>p s''. app_planner cfg clock x s' = (Inr p, s'') \<and> plan_upstreams p \<noteq> [] \<and>
     (\<forall>u \<in> set (plan_upstreams p). sys_healthy s' u)"
proof -
  from readyz_200 [OF assms(4-6)] have r: "s' = snd (sys_snapshot clock s)"
    "all_required_route_groups_ready cfg (fst (sys_snapshot clock s))" by auto
  from sys_snapshot_ready [OF assms(1,3,2) r(2) assms(7)] r(1) obtain g u where
    g: "find_route_group (mdl_route_group m) (cfg_groups cfg) = Some g"
    and u: "u \<in> set (candidates g)" "u \<in> known_providers (cfg_providers cfg)" "sys_healthy s' u"
    by auto
  have "sys_inv s'" using sys_snapshot_inv [OF assms(1)] r(1) by simp
  from sysr.plan_Inr [OF this assms(7) g, of clock] obtain p s'' where
    "plan_route (new_planner cfg (Some (sys_is_eligible clock))) x s' = (Inr p, s'')"
    "plan_upstreams p = filter (\<lambda>c. c \<in> known_providers (cfg_providers cfg) \<and> sys_healthy s' c) (candidates g)"
    by auto
  with u show ?thesis by (auto simp: app_planner_def filter_empty_conv)
qed

end
