(* ===== verification/Roundtrip.thy ===== *)
theory Roundtrip
  imports Openai_Provider Decode_Props
begin

text \<open>
  What an OpenAI upstream receives, read back.  \<open>json_of\<close> is \<open>json.Marshal\<close> up to the bytes: the
  syntax tree of the text Go prints for a value, with the printing of numbers as arguments
  (\<open>fl\<close> for a \<open>float64\<close>, \<open>il\<close> for an \<open>int\<close>).  A map's members stay in the order of the model,
  where Go sorts them; their names are distinct, so no reader can tell.
\<close>

section \<open>Marshalling\<close>

fun json_of :: "(float64 \<Rightarrow> string) \<Rightarrow> (go_int \<Rightarrow> string) \<Rightarrow> any \<Rightarrow> json"
  and json_list :: "(float64 \<Rightarrow> string) \<Rightarrow> (go_int \<Rightarrow> string) \<Rightarrow> any list \<Rightarrow> json list"
  and json_members :: "(float64 \<Rightarrow> string) \<Rightarrow> (go_int \<Rightarrow> string) \<Rightarrow> (string \<times> any) list \<Rightarrow> (string \<times> json) list"
where
  "json_of fl il ANil = JNull"
| "json_of fl il (ABool b) = JBool b"
| "json_of fl il (AInt n) = JNum (il n)"
| "json_of fl il (AInt8 n) = JNum (il (scast n))"
| "json_of fl il (AInt16 n) = JNum (il (scast n))"
| "json_of fl il (AInt32 n) = JNum (il (scast n))"
| "json_of fl il (AInt64 n) = JNum (il n)"
| "json_of fl il (AFloat32 x) = JNum (fl x)"
| "json_of fl il (AFloat64 x) = JNum (fl x)"
| "json_of fl il (AStr s) = JStr s"
| "json_of fl il (ASlice vs) = JArr (json_list fl il vs)"
| "json_of fl il (AMap m) = (case m of None \<Rightarrow> JNull | Some kvs \<Rightarrow> JObj (json_members fl il kvs))"
| "json_list fl il [] = []"
| "json_list fl il (v # vs) = json_of fl il v # json_list fl il vs"
| "json_members fl il [] = []"
| "json_members fl il ((k, v) # kvs) = (k, json_of fl il v) # json_members fl il kvs"

text \<open>The values \<open>json.Unmarshal\<close> stores in an \<open>any\<close>: no integers, and no name twice.  \<open>P\<close> is
  what is known of their numbers.\<close>

fun decoded_any :: "(float64 \<Rightarrow> bool) \<Rightarrow> any \<Rightarrow> bool"
  and decoded_list :: "(float64 \<Rightarrow> bool) \<Rightarrow> any list \<Rightarrow> bool"
  and decoded_members :: "(float64 \<Rightarrow> bool) \<Rightarrow> (string \<times> any) list \<Rightarrow> bool"
where
  "decoded_any P ANil = True"
| "decoded_any P (ABool b) = True"
| "decoded_any P (AFloat64 x) = P x"
| "decoded_any P (AStr s) = True"
| "decoded_any P (ASlice vs) = decoded_list P vs"
| "decoded_any P (AMap m) = (case m of None \<Rightarrow> False
     | Some kvs \<Rightarrow> distinct (map fst kvs) \<and> decoded_members P kvs)"
| "decoded_any P _ = False"
| "decoded_list P [] = True"
| "decoded_list P (v # vs) = (decoded_any P v \<and> decoded_list P vs)"
| "decoded_members P [] = True"
| "decoded_members P ((k, v) # kvs) = (decoded_any P v \<and> decoded_members P kvs)"

lemma put_fresh: "k \<notin> fst ` set m \<Longrightarrow> put k v m = m @ [(k, v)]"
  by (induction k v m rule: put.induct) auto

text \<open>Unmarshalling what was marshalled gives the value back.\<close>

lemma to_any_json_of:
  "decoded_any (\<lambda>x. parse_float (fl x) = Some x) v \<Longrightarrow> to_any (json_of fl il v) = Some v"
  "decoded_list (\<lambda>x. parse_float (fl x) = Some x) vs \<Longrightarrow> to_any_list (json_list fl il vs) = Some vs"
  "decoded_members (\<lambda>x. parse_float (fl x) = Some x) kvs \<Longrightarrow> distinct (map fst (acc @ kvs)) \<Longrightarrow>
     to_any_members (json_members fl il kvs) acc = Some (acc @ kvs)"
proof (induction fl il v and fl il vs and fl il kvs arbitrary: and and acc
    rule: json_of_json_list_json_members.induct)
  case (16 fl il k v kvs)
  then show ?case by (simp add: put_fresh)
qed (auto split: option.splits)

section \<open>Content\<close>

lemma fold_keys:
  "fold_case ''model'' = ''MODEL''" "fold_case ''messages'' = ''MESSAGES''"
  "fold_case ''stream'' = ''STREAM''" "fold_case ''stream_options'' = ''STREAM_OPTIONS''"
  "fold_case ''temperature'' = ''TEMPERATURE''" "fold_case ''top_p'' = ''TOP_P''"
  "fold_case ''max_tokens'' = ''MAX_TOKENS''"
  "fold_case ''max_completion_tokens'' = ''MAX_COMPLETION_TOKENS''" "fold_case ''stop'' = ''STOP''"
  "fold_case ''tools'' = ''TOOLS''" "fold_case ''tool_choice'' = ''TOOL_CHOICE''"
  "fold_case ''response_format'' = ''RESPONSE_FORMAT''" "fold_case ''role'' = ''ROLE''"
  "fold_case ''content'' = ''CONTENT''" "fold_case ''type'' = ''TYPE''"
  "fold_case ''function'' = ''FUNCTION''" "fold_case ''name'' = ''NAME''"
  "fold_case ''parameters'' = ''PARAMETERS''"
  by code_simp+

lemmas key_simps = equal_fold_def fold_keys

text \<open>The parts of a message, as the decoder sees them.\<close>

definition part_of :: "content_block \<Rightarrow> any" where
  "part_of b = (case blk_image b of None \<Rightarrow> text_part (blk_text b) | Some i \<Rightarrow> image_part (img_url i))"

lemma encode_accepted:
  "\<forall>b \<in> set bs. accepted_block r b \<Longrightarrow> encode_blocks text_part image_part bs = Some (map part_of bs)"
  by (induction bs) (auto simp: accepted_block_def text_block_def image_block_def part_of_def)

lemma part_reads_back:
  assumes "accepted_block r b"
  shows "\<exists>kvs. dec_object None (json_of fl il (part_of b)) = Some (Some kvs) \<and>
     chat_content_item (role_string r) r (Some kvs) = Inr b"
proof (cases "blk_image b")
  case None
  with assms obtain t where b: "b = text_block t"
    by (auto simp: accepted_block_def image_block_def)
  have "\<not> contains (to_lower ''text'') ''image''" by code_simp
  then show ?thesis
    unfolding b
    by (simp add: part_of_def text_part_def obj_def dec_object_def entries_def text_block_def
        chat_content_item_def Let_def string_or_empty_def as_string_def mget_def is_image_like_def
        normalize_text_field_def)
next
  case (Some i)
  with assms have b: "b = image_block (img_url i)" "r = RoleUser" "image_url_ok (img_url i)"
    by (auto simp: accepted_block_def text_block_def image_block_def)
  then have "validate_public_image_url (img_url i) = None" by (simp add: validate_public_image_url_None)
  with b Some show ?thesis
    by (simp add: part_of_def image_part_def obj_def dec_object_def entries_def chat_content_item_def
        Let_def string_or_empty_def as_string_def mget_def validate_public_image_role_def
        normalize_chat_image_url_def validate_allowed_keys_def role_string_def)
qed

lemma parts_read_back:
  assumes "\<forall>b \<in> set bs. accepted_block r b"
  shows "\<exists>items. dec_list (dec_object None) (json_list fl il (map part_of bs)) = Some items \<and>
     collect (chat_content_item (role_string r) r) items = Inr bs"
  using assms
proof (induction bs)
  case (Cons b bs)
  then obtain items where i: "dec_list (dec_object None) (json_list fl il (map part_of bs)) = Some items"
    "collect (chat_content_item (role_string r) r) items = Inr bs" by auto
  from part_reads_back [of r b fl il] Cons.prems obtain kvs where
    "dec_object None (json_of fl il (part_of b)) = Some (Some kvs)"
    "chat_content_item (role_string r) r (Some kvs) = Inr b" by auto
  with i show ?case by simp
qed simp

lemma turn_reads_back:
  assumes "accepted_turn t"
  shows "\<exists>v m. encode_chat_turn t = Some v \<and>
     dec_struct message_field zero_message (json_of fl il v) = Some m \<and> chat_turn m = Inr t"
proof -
  let ?r = "turn_role t" and ?bs = "turn_content t"
  have a: "\<forall>b \<in> set ?bs. accepted_block ?r b" using assms by (simp add: accepted_turn_def)
  obtain c where c: "encode_chat_content ?bs = Some c"
    and n: "normalize_chat_content (Some (json_of fl il c)) (role_string ?r) ?r = Inr ?bs"
  proof (cases "\<exists>x. ?bs = [text_block x]")
    case True
    then show ?thesis
      by (auto intro!: that simp: encode_chat_content_def text_block_def normalize_chat_content_def
          dec_string_def)
  next
    case False
    have "encode_chat_content ?bs = Some (ASlice (map part_of ?bs))"
      using False encode_accepted [OF a] a
      by (auto simp: encode_chat_content_def accepted_block_def image_block_def text_block_def split: list.splits)
    moreover from parts_read_back [OF a, of fl il] have
      "normalize_chat_content (Some (json_of fl il (ASlice (map part_of ?bs)))) (role_string ?r) ?r = Inr ?bs"
      by (auto simp: normalize_chat_content_def dec_string_def dec_slice_def)
    ultimately show ?thesis by (rule that)
  qed
  have "chat_turn \<lparr>cm_role = role_string ?r, cm_content = Some (json_of fl il c)\<rparr> = Inr t"
    using n by (simp add: chat_turn_def Let_def normalize_role_string)
  with c show ?thesis
    by (simp add: encode_chat_turn_def obj_def dec_struct_def message_field_def key_simps dec_string_def
        zero_message_def)
qed

lemma turns_read_back:
  assumes "\<forall>t \<in> set ts. accepted_turn t"
  shows "\<exists>vs ms. encode_chat_messages ts = Some vs \<and>
     dec_elems (dec_struct message_field) zero_message [] (json_list fl il vs) = Some ms \<and>
     collect chat_turn ms = Inr ts"
  using assms
proof (induction ts)
  case Nil
  then show ?case by (simp add: encode_chat_messages_def)
next
  case (Cons t ts)
  then obtain vs ms where "encode_chat_messages ts = Some vs"
    "dec_elems (dec_struct message_field) zero_message [] (json_list fl il vs) = Some ms"
    "collect chat_turn ms = Inr ts" by auto
  moreover obtain v m where "encode_chat_turn t = Some v"
    "dec_struct message_field zero_message (json_of fl il v) = Some m" "chat_turn m = Inr t"
    using turn_reads_back [of t fl il] Cons.prems by auto
  ultimately show ?case by (simp add: encode_chat_messages_def)
qed


section \<open>Tools, stop sequences and the request\<close>

definition schema_ok :: "(float64 \<Rightarrow> string) \<Rightarrow> tool \<Rightarrow> bool" where
  "schema_ok fl t \<longleftrightarrow> (case tool_schema t of None \<Rightarrow> True
     | Some kvs \<Rightarrow> decoded_any (\<lambda>x. parse_float (fl x) = Some x) (AMap (Some kvs)))"

lemma tool_reads_back:
  assumes "schema_ok fl t"
  shows "dec_struct tool_field zero_tool (json_of fl il (obj [(''type'', AStr ''function''),
      (''function'', obj [(''name'', AStr (tool_name t)), (''parameters'', AMap (tool_schema t))])])) =
    Some \<lparr>ct_type = ''function'',
      ct_function = Some \<lparr>ctf_name = tool_name t, ctf_parameters = tool_schema t\<rparr>\<rparr>"
proof -
  have "dec_object None (json_of fl il (AMap (tool_schema t))) = Some (tool_schema t)"
    using assms to_any_json_of(3) [of fl _ "[]" il]
    by (auto simp: schema_ok_def dec_object_def entries_def split: option.splits)
  then show ?thesis
    by (simp add: obj_def dec_struct_def tool_field_def function_field_def key_simps dec_string_def
        dec_ptr_def zero_tool_def zero_function_def del: fold_case.simps)
qed

lemma tools_read_back:
  assumes "\<forall>t \<in> set ts. schema_ok fl t"
  shows "\<exists>cts. dec_elems (dec_struct tool_field) zero_tool [] (json_list fl il (encode_chat_tools ts)) = Some cts \<and>
     chat_tools cts = ts"
  using assms
proof (induction ts)
  case (Cons t ts)
  then obtain cts where c:
    "dec_elems (dec_struct tool_field) zero_tool [] (json_list fl il (encode_chat_tools ts)) = Some cts"
    "chat_tools cts = ts" by auto
  with tool_reads_back [of fl t il] Cons.prems show ?case by (simp add: encode_chat_tools_def)
qed (simp add: encode_chat_tools_def)

lemma stop_reads_back: "decode_stop (Some (json_of fl il (ASlice (map AStr ss)))) = Inr ss"
proof -
  have "dec_list (dec_string []) (json_list fl il (map AStr ss)) = Some ss"
    by (induction ss) (simp_all add: dec_string_def)
  moreover have "dec_string [] (JArr js) = None" for js by (simp add: dec_string_def)
  ultimately show ?thesis by (simp add: decode_stop_def dec_slice_def)
qed

lemma choice_reads_back:
  "n \<noteq> [] \<Longrightarrow> decode_chat_tool_choice (Some (json_of fl il (obj [(''type'', AStr ''function''),
      (''function'', obj [(''name'', AStr n)])]))) = Inr \<lparr>choice_name = n\<rparr>"
  by (simp add: decode_chat_tool_choice_def obj_def dec_struct_def choice_field_def
      choice_function_field_def key_simps dec_string_def dec_ptr_def)

lemma json_members_append [simp]:
  "json_members fl il (xs @ ys) = json_members fl il xs @ json_members fl il ys"
  by (induction xs) auto

lemma dec_fields_append:
  "dec_fields step (xs @ ys) r = (case dec_fields step xs r of None \<Rightarrow> None | Some r' \<Rightarrow> dec_fields step ys r')"
  by (induction xs arbitrary: r) (auto split: option.splits)

text \<open>The optional members of the payload, one lemma each.\<close>

lemma member_fields:
  "\<forall>x \<in> set_option u. parse_float (fl x) = Some x \<Longrightarrow> cr_temperature r = None \<Longrightarrow>
     dec_fields chat_request_field (json_members fl il (float_entry ''temperature'' u)) r = Some (r\<lparr>cr_temperature := u\<rparr>)"
  "\<forall>x \<in> set_option u. parse_float (fl x) = Some x \<Longrightarrow> cr_top_p r = None \<Longrightarrow>
     dec_fields chat_request_field (json_members fl il (float_entry ''top_p'' u)) r = Some (r\<lparr>cr_top_p := u\<rparr>)"
  "\<forall>n \<in> set_option i. parse_int64 (il n) = Some n \<Longrightarrow> cr_max_completion_tokens r = None \<Longrightarrow>
     dec_fields chat_request_field (json_members fl il (int_entry ''max_completion_tokens'' i)) r =
       Some (r\<lparr>cr_max_completion_tokens := i\<rparr>)"
  "chat_request_field r ''stop'' j = Some (r\<lparr>cr_stop := Some j\<rparr>)"
  "chat_request_field r ''tool_choice'' j = Some (r\<lparr>cr_tool_choice := Some j\<rparr>)"
  "chat_request_field r ''stream_options'' j = Some r"
  "chat_request_field r ''stream'' (JBool b) = Some (r\<lparr>cr_stream := b\<rparr>)"
  "chat_request_field r ''model'' (JStr s) = Some (r\<lparr>cr_model := s\<rparr>)"
  "chat_request_field r ''messages'' j =
     map_option (\<lambda>ms. r\<lparr>cr_messages := ms\<rparr>)
       (dec_slice_field (dec_struct message_field) zero_message (cr_messages r) j)"
  "chat_request_field r ''tools'' j =
     map_option (\<lambda>ts. r\<lparr>cr_tools := ts\<rparr>)
       (dec_slice_field (dec_struct tool_field) zero_tool (cr_tools r) j)"
  by (cases r; cases u; cases i;
      simp add: float_entry_def int_entry_def chat_request_field_def key_simps dec_float_ptr_def
        dec_int_ptr_def dec_bool_def dec_string_def del: fold_case.simps)+

text \<open>The numbers of the request print so that they read back.\<close>

definition prints :: "(float64 \<Rightarrow> string) \<Rightarrow> (go_int \<Rightarrow> string) \<Rightarrow> request \<Rightarrow> bool" where
  "prints fl il q \<longleftrightarrow>
     (\<forall>x \<in> set_option (gen_temperature (req_generation q)). parse_float (fl x) = Some x) \<and>
     (\<forall>x \<in> set_option (gen_top_p (req_generation q)). parse_float (fl x) = Some x) \<and>
     (\<forall>n \<in> set_option (gen_max_output_tokens (req_generation q)). parse_int64 (il n) = Some n) \<and>
     (\<forall>t \<in> set (req_tools q). schema_ok fl t)"

lemma slice_field_fresh:
  "dec_elems f z [] js = Some ys \<Longrightarrow> \<exists>zs. dec_slice_field f z ([], []) (JArr js) = Some (ys, zs)"
  by (cases js) (auto simp: dec_slice_field_def Let_def)

lemma request_reads_back:
  assumes "accepted q" "req_endpoint q = EndpointKindChatCompletions" "req_metadata q = None"
    and "prints fl il q"
  shows "\<exists>v r. encode_request q = Some v \<and>
     dec_struct chat_request_field zero_chat_request (json_of fl il v) = Some r \<and>
     chat_of_request r = Inr (q\<lparr>req_stream := True, req_contract := no_contract\<rparr>)"
proof -
  let ?g = "req_generation q"
  obtain vs ms where m: "encode_chat_messages (req_conversation q) = Some vs"
    "dec_elems (dec_struct message_field) zero_message [] (json_list fl il vs) = Some ms"
    "collect chat_turn ms = Inr (req_conversation q)"
    using turns_read_back [of "req_conversation q" fl il] assms(1) by (auto simp: accepted_def)
  from slice_field_fresh [OF m(2)] obtain mz where
    mf: "dec_slice_field (dec_struct message_field) zero_message ([], []) (JArr (json_list fl il vs)) = Some (ms, mz)"
    by blast
  obtain cts where t: "dec_elems (dec_struct tool_field) zero_tool [] (json_list fl il (encode_chat_tools (req_tools q))) = Some cts"
    "chat_tools cts = req_tools q"
    using tools_read_back [of "req_tools q" fl il] assms(4) by (auto simp: prints_def)
  from slice_field_fresh [OF t(1)] obtain tz where
    tf: "dec_slice_field (dec_struct tool_field) zero_tool ([], [])
      (JArr (json_list fl il (encode_chat_tools (req_tools q)))) = Some (cts, tz)" by blast
  let ?r = "\<lparr>cr_model = req_model q, cr_messages = (ms, mz), cr_stream = True,
     cr_temperature = gen_temperature ?g, cr_top_p = gen_top_p ?g, cr_max_tokens = None,
     cr_max_completion_tokens = gen_max_output_tokens ?g,
     cr_stop = (if gen_stop ?g = [] then None else Some (json_of fl il (ASlice (map AStr (gen_stop ?g))))),
     cr_tools = (if req_tools q = [] then ([], []) else (cts, tz)),
     cr_tool_choice = (if choice_name (req_tool_choice q) = [] then None
       else Some (json_of fl il (obj [(''type'', AStr ''function''),
         (''function'', obj [(''name'', AStr (choice_name (req_tool_choice q)))])]))),
     cr_response_format = None\<rparr>"
  obtain v where v: "encode_request q = Some v"
    and d: "dec_struct chat_request_field zero_chat_request (json_of fl il v) = Some ?r"
  proof
    show "encode_request q = Some (obj
      ([(''model'', AStr (req_model q)), (''stream'', ABool True), (''messages'', ASlice vs),
        (''stream_options'', obj [(''include_usage'', ABool True)])] @
       float_entry ''temperature'' (gen_temperature ?g) @ float_entry ''top_p'' (gen_top_p ?g) @
       int_entry ''max_completion_tokens'' (gen_max_output_tokens ?g) @
       (if gen_stop ?g \<noteq> [] then [(''stop'', ASlice (map AStr (gen_stop ?g)))] else []) @
       (if req_tools q \<noteq> [] then [(''tools'', ASlice (encode_chat_tools (req_tools q)))] else []) @
       (if choice_name (req_tool_choice q) \<noteq> []
        then [(''tool_choice'', obj [(''type'', AStr ''function''),
                (''function'', obj [(''name'', AStr (choice_name (req_tool_choice q)))])])]
        else [])))" (is "_ = Some ?v")
      using assms(2) m(1) by (simp add: encode_request_def Let_def)
    show "dec_struct chat_request_field zero_chat_request (json_of fl il ?v) = Some ?r"
      using assms(4) mf tf
      by (simp add: obj_def dec_struct_def prints_def dec_fields_append member_fields zero_chat_request_def)
  qed
  have st: "decode_stop (cr_stop ?r) = Inr (gen_stop ?g)"
    using stop_reads_back [of fl il "gen_stop ?g"] by (cases "gen_stop ?g") (simp_all add: decode_stop_def)
  have ch: "decode_chat_tool_choice (cr_tool_choice ?r) = Inr (req_tool_choice q)"
    using choice_reads_back [of "choice_name (req_tool_choice q)" fl il]
    by (cases "choice_name (req_tool_choice q) = []")
       (simp_all add: decode_chat_tool_choice_def [of None] no_choice_def)
  have tl: "chat_tools (fst (cr_tools ?r)) = req_tools q" using t(2) by simp
  have mx: "(case cr_max_completion_tokens ?r of None \<Rightarrow> cr_max_tokens ?r | Some n \<Rightarrow> Some n) =
    gen_max_output_tokens ?g" by (simp split: option.splits)
  have cm: "collect chat_turn (fst (cr_messages ?r)) = Inr (req_conversation q)" using m(3) by simp
  have "chat_of_request ?r = Inr (q\<lparr>req_stream := True, req_contract := no_contract\<rparr>)"
    unfolding chat_of_request_def st ch tl mx cm sum.case
    using assms(2,3) by (auto intro!: request.equality generation.equality
        simp: decode_chat_response_contract_def)
  with v d show ?thesis by blast
qed


lemma chat_decode_metadata:
  "decode_chat_completion_request body = Inr q \<Longrightarrow> req_metadata q = None"
  by (auto simp: decode_chat_completion_request_def chat_of_request_def split: option.splits sum.splits)

end
