(* ===== verification/Samples.thy ===== *)
theory Samples
  imports App_Props Roundtrip
begin

text \<open>
  Concrete inputs for the witnesses: one configuration with an OpenAI upstream and an
  Anthropic fallback, a client for which the first is unavailable and the second answers, and
  a chat request.  In the texts a backquote stands for a double quote.
\<close>

definition dq :: "string \<Rightarrow> string" where
  "dq s = map (\<lambda>c. if c = CHR 0x60 then CHR 0x22 else c) s"

definition no_probe :: probe_config where
  "no_probe = \<lparr>prb_method = [], prb_path = [], prb_headers = None, prb_expected_statuses = [],
     prb_interval = [], prb_timeout = []\<rparr>"

definition sample_openai :: provider_config where
  "sample_openai = \<lparr>prv_name = ''a'', prv_provider = ''openai'', prv_base_url = ''https://a/'',
     prv_api_key_env = ''A_KEY'', prv_probe = no_probe\<rparr>"

definition sample_anthropic :: provider_config where
  "sample_anthropic = \<lparr>prv_name = ''b'', prv_provider = ''anthropic'', prv_base_url = ''https://b'',
     prv_api_key_env = ''B_KEY'', prv_probe = no_probe\<rparr>"

definition sample_key :: client_key_config where
  "sample_key = \<lparr>key_id = ''c1'', key_secret = ''s1'', key_active = True,
     key_allowed_model_patterns = [], key_allow_streaming = True, key_allow_tools = True,
     key_allow_vision = True, key_allow_structured = False\<rparr>"

definition sample_group :: route_group_config where
  "sample_group = \<lparr>grp_name = ''g'', grp_primary = ''a'', grp_fallbacks = [''b'']\<rparr>"

definition sample_config :: config where
  "sample_config =
     \<lparr>cfg_server = \<lparr>srv_listen_addr = [], srv_admin_listen_addr = '':9'',
        srv_tls = \<lparr>tls_mode = [], tls_cert_file = [], tls_key_file = []\<rparr>\<rparr>,
      cfg_auth = \<lparr>auth_client_keys = [sample_key]\<rparr>,
      cfg_models = [\<lparr>mdl_pattern = ''openai/gpt-*'', mdl_route_group = ''g''\<rparr>],
      cfg_providers = [sample_openai, sample_anthropic],
      cfg_routing = \<lparr>rt_route_groups = [sample_group]\<rparr>,
      cfg_health = \<lparr>hl_probe_interval = ''15s'', hl_probe_timeout = ''2s'',
        hl_require_initial_probe = False\<rparr>,
      cfg_breaker = \<lparr>brk_failure_threshold = 2, brk_recovery_success_threshold = 1,
        brk_open_interval = ''30s''\<rparr>,
      cfg_limits = \<lparr>lim_max_request_bytes = 0\<rparr>\<rparr>"

definition sample_env :: "string \<Rightarrow> string option" where
  "sample_env v = (if v = ''A_KEY'' then Some ''ka'' else if v = ''B_KEY'' then Some ''kb'' else None)"

definition sample_stream :: string where
  "sample_stream = dq (''event: content_block_delta'' @ [newline] @
     ''data: {`delta`:{`text`:`hi`}}'' @ [newline] @
     ''event: message_stop'' @ [newline] @ ''data: {}'' @ [newline])"

definition sample_client :: "unit http_client" where
  "sample_client q w =
     (if has_prefix (hr_url q) ''https://b/''
      then (Inr \<lparr>hs_status = 200, hs_body = (sample_stream, None)\<rparr>, w)
      else (Inr \<lparr>hs_status = 503, hs_body = (''busy'', None)\<rparr>, w))"

definition sample_clock :: wall_clock where
  "sample_clock n = n + 2"

definition sample_oob :: "float64 \<Rightarrow> go_int" where
  "sample_oob x = 0"

definition sample_system :: "unit system" where
  "sample_system = \<lparr>sys_health = app_runtime sample_config 1, sys_ticks = 0, sys_net = ()\<rparr>"

definition sample_chat :: string where
  "sample_chat = dq ''{`model`:`openai/gpt-4`,`messages`:[{`role`:`user`,`content`:`q`}]}''"

definition sample_deps :: "unit system deps" where
  "sample_deps = app_deps sample_config sample_oob sample_env sample_clock sample_client None 255"

definition sample_request :: server_request where
  "sample_request = \<lparr>sq_path = ''/v1/chat/completions'',
     sq_header = [(''Authorization'', [''bearer s1''])], sq_body = (sample_chat, None)\<rparr>"

definition sample_serve :: "(response_writer \<times> unit system) option" where
  "sample_serve = serve sample_deps new_public_router sample_request (new_writer None) sample_system"

section \<open>Small instances of the interfaces\<close>

definition demo_exec :: "unit exec_fn" where
  "demo_exec u req s =
     (if u = ''a'' then Some (Inl (ExecutionError None True False), s) else Some (Inr no_result, s))"

definition demo_plan :: "unit plan_fn" where
  "demo_plan m s = (Inr \<lparr>plan_attempts = map (\<lambda>u. \<lparr>att_upstream = u\<rparr>) [''a'', ''b'', ''c'']\<rparr>, s)"

definition demo_request :: request where
  "demo_request = \<lparr>req_endpoint = EndpointKindChatCompletions, req_model = ''openai/gpt-4'',
     req_conversation = [\<lparr>turn_role = RoleUser, turn_content = [text_block ''q'']\<rparr>],
     req_generation = \<lparr>gen_temperature = None, gen_top_p = None, gen_max_output_tokens = None,
       gen_stop = []\<rparr>,
     req_tools = [], req_tool_choice = no_choice, req_contract = no_contract, req_stream = False,
     req_metadata = None\<rparr>"

definition demo_options :: runtime_options where
  "demo_options = \<lparr>opt_upstreams = [\<lparr>up_name = ''a'', up_provider = ''openai''\<rparr>],
     opt_failure_threshold = 2, opt_recovery_threshold = 2, opt_open_interval = 10\<rparr>"

definition demo_runtime :: runtime where
  "demo_runtime = new_runtime demo_options"

definition demo_policy :: client_policy where
  "demo_policy = policy_of_key sample_key"

lemma sample_inv: "sys_inv sample_system"
  by (simp add: sample_system_def app_runtime_inv)

lemma demo_reachable: "reachable demo_options demo_runtime"
  unfolding demo_runtime_def by (rule reachable.init)

lemma sample_config_ok: "config_ok sample_config"
  unfolding validate_None_iff [symmetric] by code_simp

end
