(* ===== verification/Divergences.thy ===== *)
theory Divergences
  imports Samples
begin

text \<open>
  Where the parts of the program disagree with each other or with its documents, as facts about
  the model: which of two providers of one name the health store and the registry keep, what the
  Anthropic encoder keeps of a request, what the OpenAI decoder keeps of a chat stream, and
  which tools survive the decoding of a chat request.
\<close>

section \<open>Two providers of one name\<close>

text \<open>The health store keeps the first entry of a name, the registry the last.\<close>

lemma add_upstreams_lookup:
  "u \<noteq> [] \<Longrightarrow> rt_upstreams (fold add_upstream ups r) u =
     (case rt_upstreams r u of Some s \<Rightarrow> Some s
      | None \<Rightarrow> map_option initial_upstream (find (\<lambda>up. up_name up = u) ups))"
  by (induction ups arbitrary: r) (auto simp: add_upstream_def split: option.splits)

lemma health_store_keeps_first:
  assumes "u \<noteq> []"
  shows "rt_upstreams (new_runtime o') u =
     map_option initial_upstream (find (\<lambda>up. up_name up = u) (opt_upstreams o'))"
  using assms by (simp add: new_runtime_def add_upstreams_lookup)

lemma registry_keeps_last:
  "rg_providers (new_registry ps) u = find (\<lambda>p. prv_name p = u) (rev ps)"
  by (simp add: new_registry_def index_by_apply option.map_ident)

lemma find_runtime_upstream:
  "u \<noteq> [] \<Longrightarrow> find (\<lambda>up. up_name up = u) (runtime_upstreams ps) =
     map_option (\<lambda>p. \<lparr>up_name = prv_name p, up_provider = prv_provider p\<rparr>)
       (find (\<lambda>p. prv_name p = u) ps)"
  by (induction ps) (auto simp: runtime_upstreams_def)

text \<open>In the service built from one configuration: the provider the store shows for a name, and
  the one its requests are sent to.\<close>

lemma duplicate_provider_mismatch:
  assumes "cfg_providers cfg = p # qs @ [q]" "prv_name p = u" "prv_name q = u" "u \<noteq> []"
  shows "map_option us_provider (rt_upstreams (new_runtime (app_runtime_options cfg)) u) =
       Some (prv_provider p)"
    and "registry_resolve (new_registry (cfg_providers cfg)) u = Inr q"
  using assms
  by (simp_all add: health_store_keeps_first app_runtime_options_def find_runtime_upstream
        initial_upstream_def registry_resolve_def registry_keeps_last)

text \<open>Validation accepts such a configuration.\<close>

definition doubled_config :: config where
  "doubled_config = sample_config\<lparr>cfg_providers :=
     [sample_openai, sample_anthropic, sample_openai\<lparr>prv_provider := ''anthropic''\<rparr>]\<rparr>"

lemma doubled_config_accepted: "validate doubled_config = None"
  by code_simp

section \<open>Two route groups of one name\<close>

text \<open>The readiness probe judges the last group of a name, the planner uses the first: with the
  second group's upstream healthy and the first one's not, the router is ready and plans
  nothing.\<close>

definition doubled_groups :: config where
  "doubled_groups = sample_config\<lparr>cfg_routing := \<lparr>rt_route_groups =
     [\<lparr>grp_name = ''g'', grp_primary = ''a'', grp_fallbacks = []\<rparr>,
      \<lparr>grp_name = ''g'', grp_primary = ''b'', grp_fallbacks = []\<rparr>]\<rparr>\<rparr>"

definition half_ejected :: "unit system" where
  "half_ejected = sample_system\<lparr>sys_health :=
     record_request_failure ''a'' 3 True False [] (record_request_failure ''a'' 2 True False []
       (app_runtime doubled_groups 1))\<rparr>"

lemma doubled_groups_accepted: "validate doubled_groups = None"
  by code_simp

lemma ready_but_nothing_planned:
  "all_required_route_groups_ready doubled_groups (fst (sys_snapshot sample_clock half_ejected))"
  "case fst (app_planner doubled_groups sample_clock ''openai/gpt-4'' half_ejected) of
     Inl e \<Rightarrow> True | Inr p \<Rightarrow> plan_attempts p = []"
  by code_simp+

section \<open>The Anthropic encoder\<close>

definition system_texts :: "turn list \<Rightarrow> string list" where
  "system_texts ts = List.map_filter (\<lambda>t. if turn_role t = RoleSystem
     then first_text (turn_content t) else None) ts"

text \<open>Of the system turns only the first text of the last one with text is sent.\<close>

lemma last_system_prompt_wins:
  "encode_turns ts sys = Some (s, ms) \<Longrightarrow> s = last (sys # system_texts ts)"
proof (induction ts arbitrary: sys s ms)
  case Nil
  then show ?case by (simp add: system_texts_def)
next
  case (Cons t ts)
  show ?case
  proof (cases "turn_role t = RoleSystem")
    case True
    with Cons.prems Cons.IH show ?thesis
      by (cases "first_text (turn_content t)") (auto simp: system_texts_def List.map_filter_simps)
  next
    case False
    with Cons.prems Cons.IH [of sys s] show ?thesis
      by (auto simp: system_texts_def List.map_filter_simps split: option.splits)
  qed
qed

text \<open>The generation parameters and the response contract never reach the request body.\<close>

lemma anthropic_ignores_generation:
  "anthropic_encode_request (req\<lparr>req_generation := g, req_contract := c\<rparr>) =
   anthropic_encode_request req"
  by (cases "encode_turns (req_conversation req) []") (simp_all add: anthropic_encode_request_def)

section \<open>The OpenAI chat stream\<close>

definition tool_event :: "event \<Rightarrow> bool" where
  "tool_event e \<longleftrightarrow> ev_type e \<in> {EventToolCallStart, EventToolCallDelta}"

lemma usage_event_no_tool: "e \<in> set (usage_event oob u) \<Longrightarrow> \<not> tool_event e"
  by (auto simp: usage_event_def tool_event_def split: option.splits if_splits prod.splits)

lemma decode_line_no_tool:
  "decode_line oob kind l = Inr es \<Longrightarrow> e \<in> set es \<Longrightarrow> \<not> tool_event e"
  using usage_event_no_tool [of e oob]
  by (auto simp: decode_line_def decode_responses_event_def decode_chat_event_def Let_def
        tool_event_def stop_event_def text_delta_event_def chunk_event_def finish_event_def
      split: if_splits option.splits)

text \<open>Whatever an OpenAI upstream streams, no tool call reaches the router.\<close>

lemma openai_stream_drops_tool_calls:
  assumes "decode_lines oob kind ls err [] = Inr es" "e \<in> set es"
  shows "\<not> tool_event e"
proof -
  from assms obtain l where l: "l \<in> set ls" and e: "e \<in> set (projr (decode_line oob kind l))"
    by (auto simp: decode_lines_Inr)
  moreover from assms l obtain xs where "decode_line oob kind l = Inr xs"
    by (auto simp: decode_lines_Inr)
  ultimately show ?thesis by (simp add: decode_line_no_tool)
qed

section \<open>Tools of a chat request\<close>

text \<open>A tool that is not a function tool is dropped, not refused.\<close>

lemma chat_tools_keeps_functions:
  "map tool_name (chat_tools ts) =
   map (\<lambda>t. ctf_name (the (ct_function t)))
     (filter (\<lambda>t. ct_function t \<noteq> None \<and> ct_type t = ''function'') ts)"
  by (induction ts) (auto split: option.splits)

end
