(* ===== verification/Spec2Isabelle.thy ===== *)
theory Spec2Isabelle
  imports Breaker Health_Manager Divergences
begin

text \<open>
  \<^bold>\<open>A verification development for nexus-router.\<close>  nexus-router is a gateway with an
  OpenAI-compatible public interface: it authenticates a client, decodes and validates its
  request, plans an ordered list of upstreams from the configuration and from what it knows of
  their health, calls them one after the other until one answers, and relays the answer.  A prober
  and the outcomes of the requests feed the health store.

  \<^bold>\<open>The parts, in the order of the code, and the theories that model them.\<close>
  \<^item> The language and its standard library, as far as the source uses them: \<open>Prelude\<close> (times as
    integers of nanoseconds after the zero time, index tables, the collections \<open>inv_intros\<close> and
    \<open>frame\<close>), \<open>Go_Strings\<close> (package \<open>strings\<close>), \<open>Go_Numbers\<close> (64-bit integers, binary64 values,
    \<open>time.ParseDuration\<close>), \<open>Go_Json\<close> (the JSON syntax, the typed and untyped decoding),
    \<open>Go_Url\<close> (\<open>url.Parse\<close> and the checks of \<open>http.NewRequest\<close>).
  \<^item> \<open>Canonical\<close>: \<open>internal/canonical\<close>.  \<open>Errors\<close>: the error types of all packages as one
    datatype, with \<open>errors.Is\<close>, \<open>errors.As\<close> and \<open>Unwrap\<close>.
  \<^item> \<open>Config\<close>, \<open>Config_Load\<close>: \<open>internal/config\<close>.  \<open>Auth\<close>: \<open>internal/auth\<close>.
    \<open>Capabilities\<close>: \<open>internal/capabilities\<close>.  \<open>Router\<close>: \<open>internal/router\<close>.
  \<^item> \<open>Health_Runtime\<close> (\<open>internal/health/runtime.go\<close>, \<open>types.go\<close>) with its invariant in
    \<open>Health_Props\<close>, its abstract machine in \<open>Health_Moves\<close> and its contracts in
    \<open>Health_Contracts\<close>; \<open>Prober\<close> (\<open>prober.go\<close>); \<open>Health_Manager\<close> (\<open>manager.go\<close>) and \<open>Breaker\<close>
    (\<open>internal/circuitbreaker\<close>), which the running service does not use.
  \<^item> \<open>Usage\<close>: \<open>internal/usage\<close>.  \<open>Providers\<close>, \<open>Stream_Lines\<close>, \<open>Openai_Provider\<close>,
    \<open>Anthropic_Provider\<close>: \<open>internal/providers\<close>.  \<open>Outcome_Writer\<close>, \<open>Executor\<close>:
    \<open>internal/runtime\<close>.  \<open>Orchestrator\<close>: \<open>internal/orchestrator\<close>.  \<open>Service\<close>: \<open>internal/service\<close>.
  \<^item> \<open>Public_Images\<close>, \<open>Chat_Decode\<close>, \<open>Responses_Decode\<close>, \<open>Finalize\<close>: \<open>internal/httpapi/openai\<close>,
    with what the decoders guarantee in \<open>Decode_Props\<close> and the reading back of an encoded request
    in \<open>Roundtrip\<close>.  \<open>Streaming\<close>: \<open>internal/streaming\<close>.  \<open>Http_Reply\<close>, \<open>Handlers\<close>:
    \<open>internal/httpapi/handlers\<close>.  \<open>Httpapi\<close>: \<open>internal/httpapi\<close>.
  \<^item> \<open>System\<close>, \<open>App\<close>, \<open>App_Props\<close>: \<open>internal/app\<close> and \<open>cmd/nexus-router\<close>, the wiring of all parts
    over one state.  \<open>Samples\<close>: the concrete inputs of the witnesses.  \<open>Divergences\<close>: where two
    parts disagree, or the code and its documents (duplicate names, dropped request fields and
    tool calls).

  \<^bold>\<open>How state and operations correspond.\<close>  A struct is a record, an enumeration a datatype, a
  method a function on the record that returns it updated.  Every exported operation of the health
  store, the breaker and the manager holds its mutex, so it is one atomic step, and a concurrent
  execution is a sequence of steps (\<open>reachable\<close>) or, with the prober's goroutines, a run of the
  transition system \<open>prober_step\<close>.  A running router is the record \<open>system\<close>: health store, clock
  readings, network.  Errors are values of a sum; a panic (the nil dereference of an image block)
  is \<open>None\<close>; the interfaces of the Go code that one part calls and another provides are locales:
  \<open>eligibility\<close> (planner and health), \<open>outcome_writer\<close> (executor and health),
  \<open>provider_executor\<close> and \<open>routed\<close> (orchestrator, executor and planner), each interpreted on the
  code's own operations (\<open>mgr\<close>, \<open>rt\<close>, \<open>rtw\<close>, \<open>sysw\<close>, \<open>sysr\<close>).

  \<^bold>\<open>What the theorems show.\<close>  Requests: serving never panics and keeps the health invariant;
  nothing happens without a bearer token of an active key; an upstream is called only for a
  request the client's policy and the model family allow, only when configured and healthy, in
  plan order, and never after output was committed; a failed call is judged retryable and committed
  by what the upstream answered; the text of an upstream's error never reaches the client of the
  public endpoints; decoded requests name their endpoint and have images only in user turns, with
  URLs that are well formed up to white space; what is sent upstream reads back as the client's
  request.  Health: an invariant of the store, a refinement of an abstract
  machine, ejection at the threshold, recovery by probes, stale events, agreement of snapshot,
  readiness and planner, completion of the initial probe under every interleaving, and when a probe
  can succeed at all.  Streams and answers: exactness of the committed flag, prefixes delivered by the relay, text, finish
  reason and usage of an answer.  Configuration and assembly: validation against a declarative
  reading, use of the document's values, separation of the admin server, secrets kept out of its
  two configuration views (its view of the upstreams shows the names of key variables, as one
  theorem says), lifetime of the prober, and the errors of serving.

  \<^bold>\<open>Parameters and bounds.\<close>  Arguments of the model, never definitions: the HTTP client and the
  network's state, the process environment, the clock (a function from the number of the reading
  to a time), random bytes, Go's result for a float that does not fit an \<open>int\<close> (\<open>oob\<close>), the
  decodes of \<open>yaml.v3\<close>, the printing of numbers in \<open>Roundtrip\<close>, the answers of \<open>Listen\<close>, \<open>Serve\<close> and
  \<open>Shutdown\<close>, and the number of writes the peer of a relay accepts.  No definition has fuel: every
  recursion is structural or has a measure.  Where Go ranges over a map, the model ranges over
  its entries in the order they were stored; only the choice among several possible error
  messages depends on it.

  \<^bold>\<open>Not modelled, and why.\<close>  \<open>internal/observability\<close> (one call of the logger); the bytes
  \<open>json.Marshal\<close> prints (replies and payloads stay values; quoted pieces of error messages stay
  unrendered); the body of a \<open>ServeMux\<close> redirect; the timing of tickers and timeouts (the scheduler
  of \<open>prober_step\<close> may fire a tick at any moment); cancellation of a request by its client;
  \<open>internal/streaming/sse.go\<close> (no code); the exported request types of \<open>responses_types.go\<close> that
  nothing decodes into; the tests under \<open>tests\<close>.
\<close>

section \<open>Routing a request\<close>

text \<open>C2: A run tries a prefix of the planned upstreams, in order.  Every upstream it passes over
  failed with an execution error that is retryable and not committed; it stops before the end of
  the plan only on an answer that ends it (a success, a committed or final error, or an error of
  another type); and what it returns is the last answer, or the no-attempts error of an empty
  plan.\<close>

theorem failover_discipline:
  assumes "plan_fn (req_model req) s = (Inr p, s0)"
    and "run plan_fn exec req s = Some ((oc, err), s')"
  shows "\<exists>xs rest. plan_upstreams p = out_attempts oc @ rest \<and>
     calls exec req (out_attempts oc) s0 = Some (xs, s') \<and>
     list_all goes_on (butlast xs) \<and>
     (rest \<noteq> [] \<longrightarrow> xs \<noteq> [] \<and> \<not> goes_on (last xs)) \<and>
     (case err of None \<Rightarrow> xs \<noteq> [] \<and> last xs = Inr (out_result oc)
      | Some e \<Rightarrow> if xs = [] then e = no_attempts_error else last xs = Inl e)"
  using run_failover [OF assms] by (simp add: failover_def answers_def)

theorem failover_discipline_witness:
  "\<exists>xs rest. [''a'', ''b'', ''c''] = [''a'', ''b''] @ rest \<and>
     calls demo_exec demo_request [''a'', ''b''] () = Some (xs, ()) \<and>
     list_all goes_on (butlast xs) \<and> (rest \<noteq> [] \<longrightarrow> xs \<noteq> [] \<and> \<not> goes_on (last xs)) \<and>
     xs \<noteq> [] \<and> last xs = Inr no_result"
proof -
  let ?p = "\<lparr>plan_attempts = map (\<lambda>u. \<lparr>att_upstream = u\<rparr>) [''a'', ''b'', ''c'']\<rparr>"
  have "demo_plan (req_model demo_request) () = (Inr ?p, ())" by code_simp
  moreover have "run demo_plan demo_exec demo_request () =
      Some ((\<lparr>out_attempts = [''a'', ''b''], out_result = no_result\<rparr>, None), ())" by code_simp
  ultimately show ?thesis
    using failover_discipline [of demo_plan demo_request "()" ?p "()" demo_exec
      "\<lparr>out_attempts = [''a'', ''b''], out_result = no_result\<rparr>" None "()"]
    by (simp add: plan_upstreams_def)
qed

text \<open>C4: The service calls only upstreams that were healthy in the health store, and configured,
  when the request was planned.\<close>

theorem only_healthy_upstreams_called:
  assumes "runtime_inv (sys_health s)"
    and "app_service cfg oob env clock client policy req s = Some ((r, tried, err), s')"
    and "u \<in> set tried"
  shows "healthy_in (sys_health s) u \<and> u \<in> known_providers (cfg_providers cfg)"
  by (rule app_service_tries_healthy [OF assms])

theorem only_healthy_upstreams_called_witness:
  "healthy_in (sys_health sample_system) ''b'' \<and> ''b'' \<in> known_providers (cfg_providers sample_config)"
proof -
  let ?run = "app_service sample_config sample_oob sample_env sample_clock sample_client demo_policy
    demo_request sample_system"
  have "case ?run of None \<Rightarrow> False | Some ((r, tried, err), s') \<Rightarrow> ''b'' \<in> set tried" by code_simp
  then obtain r tried err s' where "?run = Some ((r, tried, err), s')" "''b'' \<in> set tried"
    by (auto split: option.splits)
  from only_healthy_upstreams_called [OF sample_inv this] show ?thesis .
qed

text \<open>C3: Readiness means routable: when \<open>/readyz\<close> answers 200 on a valid configuration whose
  group names are distinct, the plan of every model the configuration matches is not empty and
  holds healthy upstreams only.\<close>

theorem ready_means_routable:
  assumes "runtime_inv (sys_health s)" "config_ok cfg" "distinct (map grp_name (cfg_groups cfg))"
    and "readyz cfg (Some (sys_snapshot clock)) w s = (w', s')" "rw_status w = None"
    and "rw_status w' = Some 200" "match_model x (cfg_models cfg) = Some m"
  shows "\<exists>p s''. app_planner cfg clock x s' = (Inr p, s'') \<and> plan_upstreams p \<noteq> [] \<and>
     (\<forall>u \<in> set (plan_upstreams p). healthy_in (sys_health s') u)"
  by (rule ready_plan [OF assms])

definition ready_system :: "unit system" where
  "ready_system = sample_system\<lparr>sys_health := mark_started (sys_health sample_system)\<rparr>"

theorem ready_means_routable_witness:
  "\<exists>p s' s''. app_planner sample_config sample_clock ''openai/gpt-4'' s' = (Inr p, s'' :: unit system) \<and>
     plan_upstreams p \<noteq> []"
proof -
  let ?run = "readyz sample_config (Some (sys_snapshot sample_clock)) (new_writer None) ready_system"
  obtain w' s' where r: "?run = (w', s')" by fastforce
  have "rw_status (fst ?run) = Some 200" by code_simp
  with r have "rw_status w' = Some 200" by simp
  moreover have "runtime_inv (sys_health ready_system)"
    using sample_inv by (simp add: ready_system_def mark_started_inv)
  moreover have "distinct (map grp_name (cfg_groups sample_config))"
    "rw_status (new_writer None) = None" by code_simp+
  moreover have "match_model ''openai/gpt-4'' (cfg_models sample_config) =
    Some \<lparr>mdl_pattern = ''openai/gpt-*'', mdl_route_group = ''g''\<rparr>" by code_simp
  ultimately show ?thesis
    using ready_means_routable [OF _ sample_config_ok _ r] by blast
qed

text \<open>C1: No request makes the service panic: whatever the route table, the path, the headers and
  the body, the network's answers and the clock, serving it returns a reply.  In particular no
  image block without an image reaches the provider encoders, which dereference it.\<close>

theorem no_request_panics:
  "\<exists>w' s'. serve (app_deps cfg oob env clock client rand nanos) m q w s = Some (w', s')"
  using serve_total [of cfg oob env clock client rand nanos m q w s] by auto

text \<open>C21: Serving any request keeps the invariant of the health store.\<close>

theorem serving_keeps_health_invariant:
  assumes "runtime_inv (sys_health s)"
    and "serve (app_deps cfg oob env clock client rand nanos) m q w s = Some (w', s')"
  shows "runtime_inv (sys_health s')"
  by (rule serve_inv [OF assms])

theorem serving_keeps_health_invariant_witness:
  "\<exists>w' s'. sample_serve = Some (w', s') \<and> runtime_inv (sys_health s')"
proof -
  obtain w' s' where r: "sample_serve = Some (w', s')"
    using serve_total [of sample_config sample_oob sample_env sample_clock sample_client None 255
      new_public_router sample_request "new_writer None" sample_system]
    by (auto simp: sample_serve_def sample_deps_def)
  with serving_keeps_health_invariant [OF sample_inv, of sample_config sample_oob sample_env
      sample_clock sample_client None 255 new_public_router sample_request "new_writer None" w' s']
  show ?thesis by (simp add: sample_serve_def sample_deps_def)
qed

text \<open>C10: A request to a public completion endpoint whose bearer token is missing, or is not the
  secret of an active client key, gets 401 and changes nothing: no upstream is called.\<close>

theorem unauthenticated_requests_rejected:
  assumes "sq_path q \<in> {''/v1/chat/completions'', ''/v1/responses''}"
    and "m \<in> {new_router, new_public_router}" "rw_status w = None"
    and "\<And>t k. parse_bearer (header_get (sq_header q) ''Authorization'') = Some t \<Longrightarrow>
      k \<in> set (auth_client_keys (cfg_auth cfg)) \<Longrightarrow> key_active k \<Longrightarrow> key_secret k \<noteq> t"
  shows "\<exists>w'. serve (app_deps cfg oob env clock client rand nanos) m q w s = Some (w', s) \<and>
     rw_status w' = Some 401"
proof -
  let ?res = "new_resolver (auth_client_keys (cfg_auth cfg))"
  have r: "case parse_bearer (header_get (sq_header q) ''Authorization'') of None \<Rightarrow> True
     | Some t \<Rightarrow> resolve_bearer ?res t = None"
    using assms(4) by (auto simp: resolve_bearer_None split: option.splits)
  have "clean_path ''/v1/chat/completions'' = ''/v1/chat/completions''"
    "clean_path ''/v1/responses'' = ''/v1/responses''" by code_simp+
  with assms(1) have c: "clean_path (sq_path q) = sq_path q" by auto
  have "map_of m (sq_path q) \<in> {Some ChatCompletions, Some Responses}"
    using assms(1,2) by (auto simp: new_router_def new_public_router_def mount_public_routes_def
        mount_admin_routes_def)
  then show ?thesis
    using require_bearer_rejects [OF r assms(3)] c
    by (auto simp: serve_def serve_endpoint_def app_deps_def)
qed

theorem unauthenticated_requests_rejected_witness:
  "\<exists>w'. serve sample_deps new_public_router (sample_request\<lparr>sq_header := []\<rparr>) (new_writer None)
       sample_system = Some (w', sample_system) \<and> rw_status w' = Some 401"
proof -
  let ?q = "sample_request\<lparr>sq_header := []\<rparr>"
  have "sq_path ?q \<in> {''/v1/chat/completions'', ''/v1/responses''}" by code_simp
  moreover have "rw_status (new_writer None) = None" by code_simp
  moreover have "parse_bearer (header_get (sq_header ?q) ''Authorization'') = None" by code_simp
  ultimately show ?thesis
    unfolding sample_deps_def by (intro unauthenticated_requests_rejected) auto
qed

text \<open>C9: A request for which the service called an upstream, or which it answered, was allowed:
  its model belongs to a managed family and matches the client's patterns, streaming, tools and
  images are granted by the client's policy, tool schemas are inside the supported subset, tools
  came over the chat endpoint, and no structured output was asked for.\<close>

theorem upstream_calls_are_authorised:
  assumes "app_service cfg oob env clock client policy req s = Some ((r, tried, err), s')"
    and "err = None \<or> tried \<noteq> []"
  shows "allowed default_registry policy req \<and>
     rc_kind (req_contract req) = ResponseContractNone \<and>
     (req_tools req \<noteq> [] \<longrightarrow> req_endpoint req = EndpointKindChatCompletions)"
  using service_calls_allowed [OF assms(1) [unfolded app_service_def] assms(2)] .

theorem upstream_calls_are_authorised_witness:
  "allowed default_registry demo_policy demo_request"
proof -
  let ?run = "app_service sample_config sample_oob sample_env sample_clock sample_client demo_policy
    demo_request sample_system"
  have "case ?run of None \<Rightarrow> False | Some ((r, tried, err), s') \<Rightarrow> err = None" by code_simp
  then obtain r tried err s' where "?run = Some ((r, tried, err), s')" "err = None"
    by (auto split: option.splits)
  with upstream_calls_are_authorised [of sample_config sample_oob sample_env sample_clock
      sample_client demo_policy demo_request sample_system r tried err s'] show ?thesis by simp
qed

text \<open>C8: What an upstream or the planner answered never reaches the client: when a validated chat
  request fails, the reply is 502 with one fixed error body, whatever the error was.\<close>

theorem upstream_errors_hidden:
  assumes "decode_chat_completion_request body = Inr req"
    and "validate_public_surface req = None" "validate_request default_registry pol req = None"
    and "app_service cfg oob env clock client pol req s = Some ((r, tried, Some e), s')"
    and "en_service en = app_service cfg oob env clock client"
  shows "chat_completions en (Some pol) body w s =
     Some (write_error 502 ''upstream_error'' [Lit ''upstream request failed''] w, s')"
  using assms app_service_error [OF assms(2-4)] write_execution_error_internal
  by (simp add: chat_completions_def upstream_failed_def)

definition failing_client :: "unit http_client" where
  "failing_client q w = (Inl ''dial tcp: refused'', w)"

theorem upstream_errors_hidden_witness:
  "\<exists>s'. chat_completions
      \<lparr>en_oob = sample_oob, en_rand = None, en_nanos = 1,
       en_service = app_service sample_config sample_oob sample_env sample_clock failing_client\<rparr>
      (Some demo_policy) (sample_chat, None) (new_writer None) sample_system =
     Some (write_error 502 ''upstream_error'' [Lit ''upstream request failed''] (new_writer None), s')"
proof -
  let ?en = "\<lparr>en_oob = sample_oob, en_rand = None, en_nanos = 1,
       en_service = app_service sample_config sample_oob sample_env sample_clock failing_client\<rparr>"
  let ?run = "app_service sample_config sample_oob sample_env sample_clock failing_client demo_policy
    demo_request sample_system"
  have "case ?run of None \<Rightarrow> False | Some ((r, tried, err), s') \<Rightarrow> err \<noteq> None" by code_simp
  then obtain r tried e s' where "?run = Some ((r, tried, Some e), s')"
    by (auto split: option.splits)
  moreover have "decode_chat_completion_request (sample_chat, None) = Inr demo_request" by code_simp
  moreover have "validate_public_surface demo_request = None"
    "validate_request default_registry demo_policy demo_request = None" by code_simp+
  ultimately show ?thesis
    using upstream_errors_hidden [of "(sample_chat, None)" demo_request demo_policy sample_config
      sample_oob sample_env sample_clock failing_client sample_system r tried e s' ?en] by auto
qed

text \<open>C22: One execution of the wired executor touches the health of no upstream but the one it
  called, and an error never makes that one healthy.\<close>

theorem execution_affects_one_upstream:
  assumes "runtime_inv (sys_health s)"
    and "app_executor cfg oob env clock client u req s = Some (r, s')"
  shows "(\<forall>v. v \<noteq> u \<longrightarrow> healthy_in (sys_health s') v = healthy_in (sys_health s) v) \<and>
     (isl r \<longrightarrow> healthy_in (sys_health s') u \<longrightarrow> healthy_in (sys_health s) u)"
  using sysw.execute_laws [OF new_executor_wired assms(1) assms(2) [unfolded app_executor_def]]
  by blast

theorem execution_affects_one_upstream_witness:
  "\<exists>r s'. app_executor sample_config sample_oob sample_env sample_clock sample_client ''a''
       demo_request sample_system = Some (r, s') \<and>
     healthy_in (sys_health s') ''b'' = healthy_in (sys_health sample_system) ''b''"
proof -
  let ?run = "app_executor sample_config sample_oob sample_env sample_clock sample_client ''a''
       demo_request sample_system"
  have "case ?run of None \<Rightarrow> False | Some _ \<Rightarrow> True" by code_simp
  then obtain r s' where r: "?run = Some (r, s')" by (auto split: option.splits)
  from execution_affects_one_upstream [OF sample_inv r] r show ?thesis by auto
qed

section \<open>Upstream health\<close>

text \<open>C6: In every state reachable by any interleaving of probes, requests and reads, the store's
  invariant holds: the failure count of an open upstream is at least 1 and that of a closed one
  below the threshold, windows and recovery counts are set exactly in the states that use them,
  and the configuration order lists each upstream once.\<close>

theorem health_store_invariant:
  assumes "reachable opts r"
  shows "distinct (rt_order r) \<and> set (rt_order r) = dom (rt_upstreams r) \<and>
     (\<forall>u s. rt_upstreams r u = Some s \<longrightarrow> us_name s = u \<and>
        upstream_inv (rt_failure_threshold r) (rt_recovery_threshold r) (rt_open_interval r) s)"
  using reachable_inv [OF assms] by (auto simp: runtime_inv_def runtime_shape_def)

theorem health_store_invariant_witness: "distinct (rt_order demo_runtime)"
  using health_store_invariant [OF demo_reachable] by blast

text \<open>C5: Every operation on a reachable store makes, for every upstream, a move of the abstract
  health machine that its kind of event allows.  So requests never heal an upstream that is open
  or recovering, and only probes do.\<close>

theorem health_refines_machine:
  assumes "reachable opts r" "op_ok op" "state_of r u = Some a"
  shows "\<exists>b. state_of (runtime_step r op) u = Some b \<and> health_move (op_kind op) a b"
proof -
  from assms(3) obtain s where s: "rt_upstreams r u = Some s" "a = us_state s"
    by (auto simp: state_of_def)
  from step_refines [OF reachable_inv [OF assms(1)] assms(2) s(1)] s(2) show ?thesis
    by (auto simp: state_of_def)
qed

theorem health_refines_machine_witness:
  "\<exists>b. state_of (runtime_step demo_runtime (ProbeSuccess ''a'' 5)) ''a'' = Some b \<and>
     health_move KProbeSuccess Health_Runtime.StateUnknown b"
proof -
  have "op_ok (ProbeSuccess ''a'' 5)" by code_simp
  moreover have "state_of demo_runtime ''a'' = Some Health_Runtime.StateUnknown" by code_simp
  ultimately show ?thesis using health_refines_machine [OF demo_reachable] by fastforce
qed

text \<open>C13: Ejection.  Failures that count (failed probes, retryable request failures before any
  output) at increasing times leave an upstream that is not recovering in its state while their
  number is below the threshold, and the one that reaches the threshold opens it until its own
  time plus the open interval.\<close>

theorem failures_eject_upstream:
  assumes "rt_upstreams r u = Some s" "us_state s \<in> {Health_Runtime.StateUnknown, StateHealthy}"
    and "\<forall>op \<in> set ops. counts_against u op"
    and "sorted_wrt (<) (us_last_applied_event_at s # map op_time ops)"
    and "us_failures s + int (length ops) \<le> rt_failure_threshold r" "ops \<noteq> []"
  shows "\<exists>s'. rt_upstreams (runtime_run r ops) u = Some s' \<and>
      us_failures s' = us_failures s + int (length ops) \<and>
      (if us_failures s' < rt_failure_threshold r then us_state s' = us_state s
       else us_state s' = Health_Runtime.StateOpen \<and>
         us_open_window_until s' = op_time (last ops) + rt_open_interval r)"
  by (rule failures_run [OF assms])

theorem failures_eject_upstream_witness:
  "\<exists>s'. rt_upstreams (runtime_run demo_runtime
       [ProbeFailure ''a'' 3 [], RequestFailure ''a'' 5 True False []]) ''a'' = Some s' \<and>
     us_state s' = Health_Runtime.StateOpen \<and> us_open_window_until s' = 15"
proof -
  let ?s = "initial_upstream \<lparr>up_name = ''a'', up_provider = ''openai''\<rparr>"
  let ?ops = "[ProbeFailure ''a'' 3 [], RequestFailure ''a'' 5 True False []]"
  have u: "rt_upstreams demo_runtime ''a'' = Some ?s" by code_simp
  have f: "rt_failure_threshold demo_runtime = 2" "rt_open_interval demo_runtime = 10" by code_simp+
  have "us_state ?s = Health_Runtime.StateUnknown" "us_failures ?s = 0"
    "us_last_applied_event_at ?s = 0" by code_simp+
  with failures_eject_upstream [OF u, of ?ops] f show ?thesis by auto
qed

text \<open>C14: Recovery.  Whatever state an upstream is in, probe successes at increasing times after
  its ejection window, as many as the recovery threshold still asks for, make it healthy.\<close>

theorem probes_recover_upstream:
  assumes "reachable opts r" "rt_upstreams r u = Some s"
    and "sorted_wrt (<) (us_last_applied_event_at s # ts)"
    and "\<forall>t \<in> set ts. us_open_window_until s \<le> t"
    and "us_state s \<noteq> Health_Runtime.StateHalfOpen \<Longrightarrow> rt_recovery_threshold r \<le> int (length ts)"
    and "us_state s = Health_Runtime.StateHalfOpen \<Longrightarrow>
           rt_recovery_threshold r \<le> us_half_open_successes s + int (length ts)"
  shows "healthy_in (runtime_run r (probe_successes u ts)) u"
  using recovery_run [OF assms(2) reachable_inv [OF assms(1)] assms(3-6)]
  by (simp add: healthy_in_def)

theorem probes_recover_upstream_witness:
  "healthy_in (runtime_run demo_runtime (probe_successes ''a'' [4, 9])) ''a''"
proof -
  have u: "rt_upstreams demo_runtime ''a'' =
    Some (initial_upstream \<lparr>up_name = ''a'', up_provider = ''openai''\<rparr>)" by code_simp
  have "rt_recovery_threshold demo_runtime = 2" by code_simp
  then show ?thesis
    by (intro probes_recover_upstream [OF demo_reachable u]) (simp_all add: initial_upstream_def)
qed

text \<open>C15: Stale news is ignored: an event of any kind that is not later than the last one applied,
  or that lies inside the ejection window of an open or recovering upstream, changes nothing.\<close>

theorem stale_events_ignored:
  assumes "reachable opts r" "rt_upstreams r u = Some s"
    and "(us_last_applied_event_at s \<noteq> 0 \<and> at \<le> us_last_applied_event_at s) \<or>
      (us_state s \<in> {Health_Runtime.StateOpen, Health_Runtime.StateHalfOpen} \<and> at < us_open_window_until s)"
  shows "record_probe_success u at r = r \<and> record_probe_failure u at e r = r \<and>
     record_request_success u at r = r \<and> record_request_failure u at rb oc e r = r"
  using assms(3) stale_event_ignored [OF assms(2)]
    window_event_ignored [OF reachable_inv [OF assms(1)] assms(2)]
  by (auto simp: record_probe_success_def record_probe_failure_def record_request_success_def
      record_request_failure_def)

definition opened_runtime :: runtime where
  "opened_runtime = runtime_run demo_runtime [ProbeFailure ''a'' 3 [], ProbeFailure ''a'' 5 []]"

theorem stale_events_ignored_witness:
  "record_probe_success ''a'' 14 opened_runtime = opened_runtime"
proof -
  have r: "reachable demo_options opened_runtime"
    unfolding opened_runtime_def runtime_run_def
    by (simp only: foldl.simps) (intro reachable.step demo_reachable; code_simp)
  have "case rt_upstreams opened_runtime ''a'' of None \<Rightarrow> False
    | Some s \<Rightarrow> us_state s = Health_Runtime.StateOpen \<and> us_open_window_until s = 15" by code_simp
  then obtain s where "rt_upstreams opened_runtime ''a'' = Some s"
    "us_state s = Health_Runtime.StateOpen" "us_open_window_until s = 15"
    by (auto split: option.splits)
  with stale_events_ignored [OF r, of "''a''" s 14] show ?thesis by simp
qed

text \<open>C29: When the service starts, a provider is eligible exactly if the configuration does not ask
  for the initial probe and names it.\<close>

theorem startup_eligibility:
  assumes "0 \<le> now"
  shows "healthy_in (app_runtime cfg now) u \<longleftrightarrow>
     \<not> hl_require_initial_probe (cfg_health cfg) \<and> u \<noteq> [] \<and> u \<in> known_providers (cfg_providers cfg)"
  by (rule app_runtime_eligible [OF assms])

theorem startup_eligibility_witness: "healthy_in (app_runtime sample_config 7) ''a''"
proof -
  have "\<not> hl_require_initial_probe (cfg_health sample_config) \<and>
    ''a'' \<in> known_providers (cfg_providers sample_config)" by code_simp
  with startup_eligibility [of 7 sample_config "''a''"] show ?thesis by simp
qed

text \<open>C20: The snapshot behind \<open>/admin/upstreams\<close> and \<open>/readyz\<close> lists every named upstream of the
  options the store was built from exactly once, in their order (a repeated name at its first
  occurrence), after whatever the store has been through; its eligible bits and their disjunction
  are the planner's own verdicts.\<close>

theorem snapshot_agrees_with_planner:
  assumes "reachable opts r"
  shows "map st_name (snap_upstreams (fst (snapshot clock r))) =
       rev (remdups (rev (filter (\<lambda>n. n \<noteq> []) (map up_name (opt_upstreams opts))))) \<and>
     distinct (map st_name (snap_upstreams (fst (snapshot clock r)))) \<and>
     (\<forall>st \<in> set (snap_upstreams (fst (snapshot clock r))).
        st_eligible st = fst (is_eligible now r (st_name st))) \<and>
     snap_has_eligible (fst (snapshot clock r)) = (\<exists>u. fst (is_eligible now r u))"
  using snapshot_names [of r clock] snapshot_eligible snapshot_has_eligible reachable_inv [OF assms]
    reachable_order [OF assms]
  by (simp add: is_eligible_answer listed_names_def)

theorem snapshot_agrees_with_planner_witness:
  "map st_name (snap_upstreams (fst (snapshot (\<lambda>_. 20) opened_runtime))) = [''a'']"
proof -
  have "reachable demo_options opened_runtime"
    unfolding opened_runtime_def runtime_run_def
    by (simp only: foldl.simps) (intro reachable.step demo_reachable; code_simp)
  from snapshot_agrees_with_planner [OF this, of "\<lambda>_. 20"] show ?thesis by (simp add: demo_options_def)
qed

text \<open>C7: The initial probe is reported complete exactly when the loop of every target has recorded
  its first result, however the loops, the cancellation and the requests interleave.\<close>

theorem initial_probe_complete_iff:
  assumes "prober_reachable tgs r st" "runtime_inv r" "\<not> rt_initial_probe_complete r"
  shows "rt_started (pr_runtime st) \<and> pr_targets st = tgs \<and>
     (rt_initial_probe_complete (pr_runtime st) \<longleftrightarrow>
        (\<forall>i < length tgs. pr_phase st i \<noteq> LoopStart \<and> pr_phase st i \<noteq> LoopProbed \<and>
           (\<forall>t. pr_phase st i \<noteq> LoopProbing t)))"
  using prober_reachable_inv [OF assms] first_count_full [of st]
  by (auto simp: prober_inv_def past_first_def split: loop_phase.splits)

definition demo_target :: probe_target where
  "demo_target = build_probe_target sample_env (sample_openai\<lparr>prv_api_key_env := ''A_KEY''\<rparr>) second second"

theorem initial_probe_complete_iff_witness:
  "\<exists>st. prober_reachable [demo_target] demo_runtime st \<and> rt_initial_probe_complete (pr_runtime st)"
proof -
  let ?st = "prober_start [demo_target] demo_runtime"
  let ?begun = "set_phase 0 (if pr_cancelled ?st then LoopProbed else LoopProbing 5) ?st"
  let ?probed = "set_phase 0 LoopProbed (record_probe 0 5 (\<lambda>_. ProbeStatus 200) False ?begun)"
  let ?marked = "set_phase 0 LoopTicking (mark_first_result ?probed)"
  have "prober_step ?st ?begun" by (rule prober_step.first_begin) (simp_all add: prober_start_def)
  moreover have "prober_step ?begun ?probed"
    by (rule prober_step.first_end) (simp_all add: prober_start_def)
  moreover have "prober_step ?probed ?marked"
    by (rule prober_step.first_result) (simp_all add: prober_start_def set_phase_def)
  ultimately have r: "prober_reachable [demo_target] demo_runtime ?marked"
    by (meson prober_reachable.init prober_reachable.step)
  have "pr_phase ?marked 0 = LoopTicking" by (simp add: set_phase_def)
  moreover have "\<not> rt_initial_probe_complete demo_runtime" by code_simp
  ultimately show ?thesis
    using initial_probe_complete_iff [OF r reachable_inv [OF demo_reachable]] r by auto
qed

text \<open>C36: A probe target has positive interval and timeout, a method and an expected status.  The
  outcome of a probe is the same whatever the network answers exactly when no request can be sent:
  the provider's type needs a key the environment does not have, or method and URL make no request;
  the probe then fails.  A probe succeeds exactly when it is not cancelled, can be sent, and its
  request is answered with one of the provider's expected statuses.\<close>

theorem probe_targets_sound:
  assumes "tg = build_probe_target env p di dt"
  shows "0 < tg_interval tg \<and> 0 < tg_timeout tg \<and> tg_method tg \<noteq> [] \<and>
     ((\<forall>c c'. probe_once tg False at c dn = probe_once tg False at c' dn) \<longleftrightarrow>
        \<not> (key_available env p \<and> new_request_ok (tg_method tg) (tg_url tg))) \<and>
     (\<not> (key_available env p \<and> new_request_ok (tg_method tg) (tg_url tg)) \<longrightarrow>
        (\<exists>m. \<forall>c. probe_once tg False at c dn = Some (ProbeFailure (prv_name p) at m))) \<and>
     (probe_once tg cancelled at client dn = Some (ProbeSuccess u t) \<longleftrightarrow>
        u = prv_name p \<and> t = at \<and> \<not> cancelled \<and>
        key_available env p \<and> new_request_ok (tg_method tg) (tg_url tg) \<and>
        (\<exists>st. client \<lparr>hr_method = tg_method tg, hr_url = tg_url tg, hr_header = tg_headers tg,
             hr_body = None\<rparr> = ProbeStatus st \<and>
           st \<in> set (if prb_expected_statuses (prv_probe p) = [] then [200]
                  else prb_expected_statuses (prv_probe p))))"
proof -
  have e: "tg_expected_codes tg = set (if prb_expected_statuses (prv_probe p) = [] then [200]
      else prb_expected_statuses (prv_probe p))" "tg_name tg = prv_name p"
    by (simp_all add: assms build_probe_target_def Let_def case_prod_beta)
  have k: "tg_fail_fast_error tg = None \<longleftrightarrow> key_available env p" unfolding assms by (rule target_key)
  have "finite (tg_expected_codes tg)" "tg_expected_codes tg \<noteq> {}" by (auto simp: e)
  note n = probe_needs_network [OF this, of at dn]
  from probe_without_call [of tg at] have f: "\<exists>m. \<forall>c. probe_once tg False at c dn = Some (ProbeFailure (prv_name p) at m)"
    if "\<not> (key_available env p \<and> new_request_ok (tg_method tg) (tg_url tg))"
    using that unfolding e(2) k by blast
  have u: "probe_once tg cancelled at client dn = Some (ProbeSuccess u t) \<longleftrightarrow>
      u = prv_name p \<and> t = at \<and> \<not> cancelled \<and> key_available env p \<and>
      new_request_ok (tg_method tg) (tg_url tg) \<and>
      (\<exists>st \<in> tg_expected_codes tg. client \<lparr>hr_method = tg_method tg, hr_url = tg_url tg,
        hr_header = tg_headers tg, hr_body = None\<rparr> = ProbeStatus st)"
    unfolding probe_once_success_iff k e(2) by blast
  show ?thesis
    using target_durations [of env p di dt] target_method [of env p di dt] n f u
    unfolding assms [symmetric] k e(1) by blast
qed

theorem probe_targets_sound_witness:
  "key_available sample_env (sample_openai\<lparr>prv_api_key_env := ''A_KEY''\<rparr>) \<and>
   probe_once demo_target False 5 (\<lambda>_. ProbeStatus 503) False \<noteq> Some (ProbeSuccess ''a'' 5) \<and>
   probe_once demo_target False 5 (\<lambda>_. ProbeStatus 200) False = Some (ProbeSuccess ''a'' 5)"
proof -
  have k: "prv_api_key_env (sample_openai\<lparr>prv_api_key_env := ''A_KEY''\<rparr>) = ''A_KEY''"
    "prb_expected_statuses (prv_probe (sample_openai\<lparr>prv_api_key_env := ''A_KEY''\<rparr>)) = []"
    "prv_name (sample_openai\<lparr>prv_api_key_env := ''A_KEY''\<rparr>) = ''a''"
    "trim_space ''ka'' \<noteq> []" "sample_env ''A_KEY'' = Some ''ka''"
    "new_request_ok (tg_method demo_target) (tg_url demo_target)" by code_simp+
  then have a: "key_available sample_env (sample_openai\<lparr>prv_api_key_env := ''A_KEY''\<rparr>)"
    by (auto simp: key_available_def)
  with k probe_targets_sound [OF demo_target_def, of 5 False False "\<lambda>_. ProbeStatus 503" "''a''" 5]
    probe_targets_sound [OF demo_target_def, of 5 False False "\<lambda>_. ProbeStatus 200" "''a''" 5]
  show ?thesis by simp
qed

section \<open>Requests and replies\<close>

text \<open>C11: A decoded request is for the endpoint its decoder serves, and has images only in user
  turns and only with a URL that, without the white space around it, is an absolute http or https
  URL with a host; every other block is text.  (The URL that is sent on keeps its white space.)\<close>

theorem decoded_requests_are_safe:
  assumes "(decode_chat_completion_request body = Inr q \<and> ep = EndpointKindChatCompletions) \<or>
      (decode_responses_request body = Inr q \<and> ep = EndpointKindResponses)"
  shows "req_endpoint q = ep \<and>
     (\<forall>t \<in> set (req_conversation q). \<forall>b \<in> set (turn_content t).
        b = text_block (blk_text b) \<or>
        (turn_role t = RoleUser \<and> (\<exists>u. b = image_block u \<and> image_url_ok u)))"
proof -
  have "accepted q \<and> req_endpoint q = ep" using assms chat_accepted responses_accepted by blast
  then have "req_endpoint q = ep" and
    a: "\<And>t b. t \<in> set (req_conversation q) \<Longrightarrow> b \<in> set (turn_content t) \<Longrightarrow> accepted_block (turn_role t) b"
    by (auto simp: accepted_def accepted_turn_def)
  moreover have "b = text_block (blk_text b) \<or> (r = RoleUser \<and> (\<exists>u. b = image_block u \<and> image_url_ok u))"
    if "accepted_block r b" for r b
    using that by (auto simp: accepted_block_def text_block_def)
  ultimately show ?thesis by blast
qed

definition image_chat :: string where
  "image_chat = dq ''{`model`:`m`,`messages`:[{`role`:`user`,`content`:[{`type`:`image_url`,`image_url`:{`url`:`https://h/p.png`}}]}]}''"

theorem decoded_requests_are_safe_witness:
  "image_url_ok ''https://h/p.png'' \<and>
   (\<exists>q. decode_chat_completion_request (image_chat, None) = Inr q \<and> req_endpoint q = EndpointKindChatCompletions)"
proof -
  let ?b = "image_block ''https://h/p.png''"
  have "case decode_chat_completion_request (image_chat, None) of Inl e \<Rightarrow> False
    | Inr q \<Rightarrow> req_conversation q = [\<lparr>turn_role = RoleUser, turn_content = [?b]\<rparr>]" by code_simp
  then obtain q where d: "decode_chat_completion_request (image_chat, None) = Inr q"
    and c: "req_conversation q = [\<lparr>turn_role = RoleUser, turn_content = [?b]\<rparr>]"
    by (auto split: sum.splits)
  from decoded_requests_are_safe [OF disjI1 [OF conjI [OF d refl]]] c
  have "req_endpoint q = EndpointKindChatCompletions" "image_url_ok ''https://h/p.png''"
    by (auto simp: text_block_def image_block_def)
  with d show ?thesis by blast
qed

text \<open>C12: What an OpenAI upstream receives says what the client said: the payload of a decoded chat
  request, marshalled and decoded again as a chat request, is the client's request with its
  conversation, images, tools with their schemas, tool choice, stop sequences and sampling
  parameters, except that it asks for a stream and carries no response format.  The hypothesis is
  about \<open>encoding/json\<close> only: the request's numbers print so that they read back, and its schemas are
  values \<open>json.Unmarshal\<close> can produce.\<close>

theorem chat_request_roundtrip:
  assumes "decode_chat_completion_request body = Inr q" "prints fl il q"
  shows "\<exists>payload r. encode_request q = Some payload \<and>
     dec_struct chat_request_field zero_chat_request (json_of fl il payload) = Some r \<and>
     chat_of_request r = Inr (q\<lparr>req_stream := True, req_contract := no_contract\<rparr>)"
  using request_reads_back [OF _ _ chat_decode_metadata [OF assms(1)] assms(2)] chat_accepted [OF assms(1)]
  by blast

definition tuned_chat :: string where
  "tuned_chat = dq ''{`model`:`m`,`messages`:[{`role`:`user`,`content`:`q`}],`temperature`:0.5,`stop`:[`x`,`y`]}''"

theorem chat_request_roundtrip_witness:
  "\<exists>q payload r. decode_chat_completion_request (tuned_chat, None) = Inr q \<and>
     gen_stop (req_generation q) = [''x'', ''y''] \<and> encode_request q = Some payload \<and>
     dec_struct chat_request_field zero_chat_request (json_of (\<lambda>_. ''0.5'') (\<lambda>_. []) payload) = Some r \<and>
     chat_of_request r = Inr (q\<lparr>req_stream := True, req_contract := no_contract\<rparr>)"
proof -
  have "case decode_chat_completion_request (tuned_chat, None) of Inl e \<Rightarrow> False
    | Inr q \<Rightarrow> gen_stop (req_generation q) = [''x'', ''y''] \<and> req_tools q = [] \<and>
        gen_temperature (req_generation q) = parse_float ''0.5'' \<and>
        gen_top_p (req_generation q) = None \<and> gen_max_output_tokens (req_generation q) = None"
    by code_simp
  then obtain q where q: "decode_chat_completion_request (tuned_chat, None) = Inr q"
    "gen_stop (req_generation q) = [''x'', ''y'']"
    and p: "prints (\<lambda>_. ''0.5'') (\<lambda>_. []) q"
    by (auto simp: prints_def split: sum.splits)
  from chat_request_roundtrip [OF q(1) p] q show ?thesis by blast
qed

text \<open>C23: The schema check accepts a tool schema exactly when no schema reachable in it (itself, its
  object members, and the objects in its array members) has one of the unsupported keywords or an
  \<open>additionalProperties\<close> other than \<open>false\<close>, and a refusal names a keyword that a reachable schema
  has; the order in which Go ranges over the maps does not matter for the verdict.  (Nothing else
  is checked: a \<open>$ref\<close>, a missing \<open>type\<close> and any depth are accepted.)\<close>

theorem schema_check_exact:
  "(validate_schema_subset schema = None \<longleftrightarrow>
      (\<forall>n. subschema (entries schema) n \<longrightarrow> list_all entry_allowed n)) \<and>
   (\<forall>e. validate_schema_subset schema = Some e \<longrightarrow>
      (\<exists>n k v. subschema (entries schema) n \<and> (k, v) \<in> set n \<and> \<not> entry_allowed (k, v) \<and>
         e = schema_keyword_error k))"
proof (intro conjI allI impI)
  show "validate_schema_subset schema = None \<longleftrightarrow>
      (\<forall>n. subschema (entries schema) n \<longrightarrow> list_all entry_allowed n)"
    by (simp add: validate_schema_subset_def walk_entries_iff schema_in_subset_def)
next
  fix e
  assume "validate_schema_subset schema = Some e"
  then show "\<exists>n k v. subschema (entries schema) n \<and> (k, v) \<in> set n \<and> \<not> entry_allowed (k, v) \<and>
      e = schema_keyword_error k"
    unfolding validate_schema_subset_def by (rule walk_error(1))
qed

theorem schema_check_exact_witness:
  "validate_schema_subset (Some [(''additionalProperties'', ABool True)]) \<noteq> None"
proof -
  let ?m = "[(''additionalProperties'', ABool True)]"
  have "subschema (entries (Some ?m)) ?m" by (auto simp: entries_def intro: subschema.here)
  moreover have "\<not> list_all entry_allowed ?m" by (simp add: entry_allowed_def)
  ultimately show ?thesis using schema_check_exact [of "Some ?m"] by blast
qed

text \<open>C24: \<open>ValidateRequest\<close> accepts exactly the requests that the client's policy and the model
  family's profile allow, whatever the registry; for the registry the service runs with, it accepts
  exactly when the model begins with a managed family's prefix and is covered by a pattern of the
  client (or the client has none), a stream, an image in any turn, or a tool is granted by the
  policy, and every schema reachable in a tool's schema, or in the schema of a structured answer
  the policy grants, is inside the supported subset.\<close>

theorem request_validation_exact:
  "(validate_request reg policy req = None \<longleftrightarrow> allowed reg policy req) \<and>
   (validate_request default_registry policy req = None \<longleftrightarrow>
     (\<exists>rest. req_model req = ''openai/gpt-'' @ rest \<or> req_model req = ''anthropic/claude-'' @ rest) \<and>
     (pol_allowed_model_patterns policy = [] \<or>
      (\<exists>p \<in> set (pol_allowed_model_patterns policy). covers p (req_model req))) \<and>
     (req_stream req \<longrightarrow> pol_allow_streaming policy) \<and>
     ((\<exists>t \<in> set (req_conversation req). \<exists>b \<in> set (turn_content t). blk_type b = ContentTypeImage) \<longrightarrow>
        pol_allow_vision policy) \<and>
     (req_tools req \<noteq> [] \<longrightarrow> pol_allow_tools policy) \<and>
     (\<forall>t \<in> set (req_tools req). \<forall>n. subschema (entries (tool_schema t)) n \<longrightarrow> list_all entry_allowed n) \<and>
     (rc_kind (req_contract req) = ResponseContractJSONSchema \<longrightarrow> pol_allow_structured policy \<and>
        (\<forall>n. subschema (entries (rc_schema (req_contract req))) n \<longrightarrow> list_all entry_allowed n)))"
proof -
  have "(req_tools req \<noteq> [] \<longrightarrow> P \<and> (\<forall>t \<in> set (req_tools req). Q t)) \<longleftrightarrow>
      (req_tools req \<noteq> [] \<longrightarrow> P) \<and> (\<forall>t \<in> set (req_tools req). Q t)" for P Q
    by (cases "req_tools req") auto
  then show ?thesis
    by (simp only: validate_request_None allowed_default has_image_def schema_in_subset_def conj_assoc simp_thms)
qed

theorem request_validation_exact_witness:
  "validate_request default_registry demo_policy demo_request = None \<and>
   (\<exists>rest. req_model demo_request = ''openai/gpt-'' @ rest)"
proof -
  have v: "validate_request default_registry demo_policy demo_request = None"
    "req_model demo_request = ''openai/gpt-4''" by code_simp+
  with request_validation_exact [of default_registry demo_policy demo_request] show ?thesis by auto
qed

text \<open>C17: Decoding an OpenAI stream fails with a stream error whose committed flag says exactly
  whether the lines before the failing one produced an event; a body that decodes is the
  concatenation of the events of its lines.\<close>

theorem openai_stream_commit:
  assumes "decode_stream oob kind body = x" "scan_body body = (ls, err)"
  shows "(case x of
      Inr es \<Rightarrow> err = None \<and> es = concat (map (\<lambda>l. projr (decode_line oob kind l)) ls)
    | Inl e \<Rightarrow> \<exists>e0 pre. e = OpenAIStreamError (Some e0)
          (concat (map (\<lambda>l. projr (decode_line oob kind l)) pre) \<noteq> []) \<and>
        (\<forall>l \<in> set pre. \<exists>xs. decode_line oob kind l = Inr xs) \<and>
        ((pre = ls \<and> err = Some e0) \<or>
         (\<exists>l post. ls = pre @ l # post \<and> decode_line oob kind l = Inl e0)))"
proof (cases x)
  case (Inl e)
  with assms decode_lines_Inl [of oob kind ls err "[]" e] show ?thesis
    by (simp add: decode_stream_def)
next
  case (Inr es)
  with assms decode_lines_Inr [of oob kind ls err "[]" es] show ?thesis
    by (simp add: decode_stream_def)
qed

definition openai_lines :: "string list" where
  "openai_lines = [dq ''data: {`choices`:[{`delta`:{`content`:`x`}}]}'', ''data: {'']"

theorem openai_stream_commit_witness:
  "\<exists>e0 c. decode_stream sample_oob EndpointKindChatCompletions
       (concat (map (\<lambda>l. l @ [newline]) openai_lines), None) = Inl (OpenAIStreamError (Some e0) c) \<and> c"
proof -
  let ?b = "(concat (map (\<lambda>l. l @ [newline]) openai_lines), None :: gerror option)"
  have s: "scan_body ?b = (openai_lines, None)" by code_simp
  have d: "decode_stream sample_oob EndpointKindChatCompletions ?b =
    Inl (OpenAIStreamError (Some unmarshal_error) True)" by code_simp
  from openai_stream_commit [OF d s] d show ?thesis by auto
qed

text \<open>C18: The same for an Anthropic stream, whose lines drive a decoder: the committed flag says
  whether the decoder, run on the lines before the failing one, had produced an event.\<close>

theorem anthropic_stream_commit:
  assumes "anthropic_decode_stream oob kind body = x" "scan_body body = (ls, err)"
  shows "(case x of
      Inr es \<Rightarrow> err = None \<and> (\<exists>d. decoder_run oob kind ls new_decoder = Inr d \<and> es = dc_events d)
    | Inl e \<Rightarrow> \<exists>e0 pre d. e = AnthropicStreamError (Some e0) (dc_events d \<noteq> []) \<and>
        decoder_run oob kind pre new_decoder = Inr d \<and>
        ((pre = ls \<and> err = Some e0) \<or>
         (\<exists>l post. ls = pre @ l # post \<and> anthropic_decode_line oob kind l d = Inl e0)))"
proof (cases x)
  case (Inl e)
  with assms anthropic_lines_Inl [of oob kind ls err new_decoder e] show ?thesis
    by (simp add: anthropic_decode_stream_def)
next
  case (Inr es)
  with assms anthropic_lines_Inr [of oob kind ls err new_decoder es] show ?thesis
    by (simp add: anthropic_decode_stream_def)
qed

theorem anthropic_stream_commit_witness:
  "\<exists>d. decoder_run sample_oob EndpointKindChatCompletions
       (fst (scan_body (sample_stream, None))) new_decoder = Inr d \<and>
     dc_events d = [chunk_event ''chat.completion.chunk'' ''hi'', stop_event]"
proof -
  have d: "anthropic_decode_stream sample_oob EndpointKindChatCompletions (sample_stream, None) =
    Inr [chunk_event ''chat.completion.chunk'' ''hi'', stop_event]" by code_simp
  obtain ls err where s: "scan_body (sample_stream, None) = (ls, err)" by fastforce
  from anthropic_stream_commit [OF d s] s show ?thesis by auto
qed

text \<open>C25: The chat relay delivers the frames of the events in order: all of them to a peer that
  stays, and to one that leaves after \<open>n\<close> writes exactly the first \<open>n\<close> pieces, reporting an error
  when something was left.\<close>

theorem relay_delivers_prefix:
  "(rw_budget w = None \<longrightarrow>
     fst (write_chat_completion_sse w es) = None \<and>
     rw_body (snd (write_chat_completion_sse w es)) = rw_body w @ concat (map chat_event_parts es)) \<and>
   (rw_budget w = Some n \<longrightarrow>
     rw_body (snd (write_chat_completion_sse w es)) =
       rw_body w @ take n (concat (map chat_event_parts es)) \<and>
     (fst (write_chat_completion_sse w es) = None \<longleftrightarrow>
       length (concat (map chat_event_parts es)) \<le> n))"
  using write_parts_unlimited [of w] write_parts_limited [of w n] by (simp add: chat_sse_parts)

theorem relay_delivers_prefix_witness:
  "rw_body (snd (write_chat_completion_sse (new_writer (Some 2)) [stop_event, stop_event, stop_event])) =
     take 2 (concat (map chat_event_parts [stop_event, stop_event, stop_event]))"
  using relay_delivers_prefix [of "new_writer (Some 2)" "[stop_event, stop_event, stop_event]" 2]
  by (simp add: new_writer_def)

text \<open>C26: A non-streaming chat answer is the concatenation of the text deltas, and its finish reason
  is the last one the stream reported, \<open>stop\<close> when there was none; it is never empty.\<close>

theorem final_chat_answer:
  "\<exists>c. fc_choices (finalize_chat_completion oob rand nanos es model) = [c] \<and>
     fm_content (fch_message c) = concat (map chat_text es) \<and>
     fch_finish_reason c = last_finish ''stop'' es \<and> fch_finish_reason c \<noteq> []"
  by (simp add: finalize_chat_completion_def aggregate_final_text_eq last_finish_nonempty)

text \<open>C27: The usage of an answer: the last report of each count wins, a missing or zero total is the
  wrapping sum of the two others, and there is no usage exactly when no usage event has a count.\<close>

theorem usage_last_report_wins:
  "from_events oob es =
     (let ps = usage_reports oob es; i = last_count ps_input ps; out = last_count ps_output ps;
          t = last_count ps_total ps
      in if ps = [] then None
         else Some \<lparr>sum_input_tokens = i, sum_output_tokens = out,
                    sum_total_tokens = (if t = 0 then i + out else t)\<rparr>)"
  by (simp add: from_events_fold merge_all derive_total_def Let_def)



text \<open>C28: A credential is used only for the provider it was configured for: a successful
  preparation of a provider's headers carries exactly the key of its own environment variable,
  which is not blank.\<close>

theorem credentials_come_from_own_key:
  assumes "prv_provider p \<in> {''openai'', ''anthropic''}" "provider_auth_headers env p = Inr h"
  shows "\<exists>k. env (prv_api_key_env p) = Some k \<and> trim_space k \<noteq> [] \<and> credential p h = credential_text p k"
  using assms merge_headers_ok [OF assms(1), of env "[]" h]
  by (auto simp: provider_auth_headers_def split: prod.splits option.splits)

theorem credentials_come_from_own_key_witness:
  "\<exists>h. provider_auth_headers sample_env sample_openai = Inr h \<and> credential sample_openai h = ''Bearer ka''"
proof -
  have h: "provider_auth_headers sample_env sample_openai = Inr [(''Authorization'', [''Bearer ka''])]"
    by code_simp
  have p: "prv_provider sample_openai = ''openai''" "prv_api_key_env sample_openai = ''A_KEY''"
    by code_simp+
  from credentials_come_from_own_key [OF _ h] p h show ?thesis
    by (auto simp: sample_env_def credential_text_def)
qed


section \<open>Configuration and assembly\<close>

text \<open>C31: \<open>Validate\<close> accepts exactly the configurations that keep what the other packages rely on:
  there is a client key, groups and patterns are named, patterns are distinct and lead to a defined
  group, providers and probes are well formed, durations are positive, thresholds are at least one
  and the certificate files fit the TLS mode.\<close>

theorem validate_exact: "validate c = None \<longleftrightarrow> config_ok c"
  by (rule validate_None_iff)







text \<open>C16: Planning on a valid configuration.  A model that matches no pattern gets the no-route
  error; for one that does, the first matching pattern decides, its group exists, and the plan is
  exactly the group's primary and fallbacks, in order, without the unknown and the unhealthy.\<close>

theorem plan_exact:
  assumes "runtime_inv (sys_health s)" "config_ok cfg"
  shows "case match_model x (cfg_models cfg) of
      None \<Rightarrow> app_planner cfg clock x s =
          (Inl (ErrorString [Lit ''no route configured for model '', Quoted x]), s) \<and>
        list_all (\<lambda>m. \<not> route_matches_pattern x (mdl_pattern m)) (cfg_models cfg)
    | Some m \<Rightarrow> \<exists>before after g p s'. cfg_models cfg = before @ m # after \<and>
        list_all (\<lambda>a. \<not> route_matches_pattern x (mdl_pattern a)) before \<and>
        route_matches_pattern x (mdl_pattern m) \<and>
        g \<in> set (cfg_groups cfg) \<and> grp_name g = mdl_route_group m \<and>
        app_planner cfg clock x s = (Inr p, s') \<and>
        plan_upstreams p = filter (\<lambda>u. u \<in> known_providers (cfg_providers cfg) \<and>
          healthy_in (sys_health s) u) (grp_primary g # grp_fallbacks g)"
proof (cases "match_model x (cfg_models cfg)")
  case None
  then have "list_all (\<lambda>m. \<not> route_matches_pattern x (mdl_pattern m)) (cfg_models cfg)"
    by (simp add: match_model_None list_all_iff)
  with None show ?thesis by (simp add: app_planner_def plan_route_def new_planner_def)
next
  case (Some m)
  from config_ok_group [OF assms(2) Some] obtain g where
    g: "find_route_group (mdl_route_group m) (cfg_groups cfg) = Some g" by auto
  from match_model_split [OF Some] match_model_Some [OF Some] find_route_group_Some [OF g]
    sysr.plan_Inr [OF assms(1) Some g, of clock] Some
  show ?thesis by (fastforce simp: app_planner_def candidates_def list_all_iff)
qed

theorem plan_exact_witness:
  "\<exists>p s'. app_planner sample_config sample_clock ''openai/gpt-4'' sample_system = (Inr p, s') \<and>
     plan_upstreams p = [''a'', ''b'']"
proof -
  have m: "match_model ''openai/gpt-4'' (cfg_models sample_config) =
    Some \<lparr>mdl_pattern = ''openai/gpt-*'', mdl_route_group = ''g''\<rparr>" by code_simp
  have k: "known_providers (cfg_providers sample_config) = {''a'', ''b''}"
    "cfg_groups sample_config = [sample_group]" by code_simp+
  have "\<not> hl_require_initial_probe (cfg_health sample_config)" by code_simp
  then have "healthy_in (sys_health sample_system) ''a''" "healthy_in (sys_health sample_system) ''b''"
    by (simp_all add: sample_system_def app_runtime_eligible k)
  with plan_exact [OF sample_inv sample_config_ok, where x = "''openai/gpt-4''" and clock = sample_clock] m k
  show ?thesis by (auto simp: sample_group_def)
qed

text \<open>C34: The two servers are separate when an admin address is configured: the public one serves
  no admin endpoint, the admin one, which listens at that address, nothing else, and no path is
  on both.  Without an admin address the one server serves all seven endpoints.  Either way the
  servers together serve what the handler of the service serves.\<close>

theorem admin_routes_isolated:
  "case sv_admin_server (app_service_record cfg) of
     None \<Rightarrow> trim_space (srv_admin_listen_addr (cfg_server cfg)) = [] \<and>
       (\<exists>srv. sv_server (app_service_record cfg) = Some srv \<and>
          ran (map_of (hs_mux srv)) = {Livez, Readyz, ChatCompletions, Responses,
            AdminConfig, AdminRoutes, AdminUpstreams} \<and>
          map_of (sv_handler (app_service_record cfg)) = map_of (hs_mux srv))
   | Some adm \<Rightarrow> trim_space (srv_admin_listen_addr (cfg_server cfg)) \<noteq> [] \<and>
       hs_addr adm = srv_admin_listen_addr (cfg_server cfg) \<and>
       (\<exists>srv. sv_server (app_service_record cfg) = Some srv \<and>
          ran (map_of (hs_mux srv)) = {Livez, Readyz, ChatCompletions, Responses} \<and>
          ran (map_of (hs_mux adm)) = {AdminConfig, AdminRoutes, AdminUpstreams} \<and>
          dom (map_of (hs_mux srv)) \<inter> dom (map_of (hs_mux adm)) = {} \<and>
          map_of (sv_handler (app_service_record cfg)) = map_of (hs_mux adm) ++ map_of (hs_mux srv))"
  using public_router_ran admin_router_ran router_ran router_union routers_disjoint
  by (simp add: app_service_record_def Let_def)

text \<open>C32: Non-interference of the two configuration views: the replies of \<open>/admin/config\<close> and
  \<open>/admin/routes\<close> are the same for two services whose configurations differ only in secrets (the
  bearer secrets, the names of key variables, probe header values and certificate paths), whatever
  else differs: the resolver, the environment, the health store and the state.\<close>

theorem admin_hides_secrets:
  assumes "sq_path q \<in> {''/admin/config'', ''/admin/routes''}"
    and "redact (dp_cfg d) = redact (dp_cfg d')"
  shows "\<exists>w'. serve d new_admin_router q w s = Some (w', s) \<and> serve d' new_admin_router q w s' = Some (w', s')"
  using assms(1) admin_views_redacted [OF assms(2), of w]
  by (auto simp: serve_def admin_router_lookup admin_paths_clean serve_endpoint_def)

theorem admin_hides_secrets_witness:
  "\<exists>w'. serve (sample_deps\<lparr>dp_cfg := redact sample_config\<rparr>) new_admin_router
     (sample_request\<lparr>sq_path := ''/admin/config''\<rparr>) (new_writer None) sample_system = Some (w', sample_system) \<and>
   serve sample_deps new_admin_router (sample_request\<lparr>sq_path := ''/admin/config''\<rparr>) (new_writer None)
     sample_system = Some (w', sample_system)"
proof -
  have "redact (redact sample_config) = redact sample_config" by code_simp
  then have "redact (dp_cfg (sample_deps\<lparr>dp_cfg := redact sample_config\<rparr>)) = redact (dp_cfg sample_deps)"
    by (simp add: sample_deps_def app_deps_def)
  moreover have "sq_path (sample_request\<lparr>sq_path := ''/admin/config''\<rparr>) \<in> {''/admin/config'', ''/admin/routes''}"
    by simp
  ultimately show ?thesis by (intro admin_hides_secrets)
qed

text \<open>C33: \<open>/admin/upstreams\<close> shows the name of a provider's key variable: once a probe of a provider
  whose key is missing from the environment has been recorded, the reply carries the variable's name
  in the provider's last error, which the design of the view rules out (14.2: it must not expose
  \<open>api_key_env\<close>).\<close>

theorem admin_upstreams_shows_key_variable:
  assumes "runtime_inv (sys_health s)" "0 \<le> at"
    and "rt_upstreams (sys_health s) (prv_name p) = Some us" "accept_event at us \<noteq> None"
    and "prv_provider p \<in> {''openai'', ''anthropic''}" "prv_api_key_env p \<noteq> []"
    and "env (prv_api_key_env p) = None"
    and "tg = build_probe_target env p di dt"
    and "s1 = s\<lparr>sys_health := apply_op (probe_once tg False at net dn) (sys_health s)\<rparr>"
    and "dp_runtime d = Some (sys_snapshot clock)" "sq_path q = ''/admin/upstreams''"
  shows "\<exists>snap st s'. serve d new_admin_router q w s1 = Some (write_json (SnapshotBody snap) w, s') \<and>
     st \<in> set (snap_upstreams snap) \<and> st_name st = prv_name p \<and>
     st_last_error st = [Lit ''missing provider API key env '', Verbatim (prv_api_key_env p)]"
  using missing_key_shown [OF assms(1-9), of clock w] assms(10,11)
  by (auto simp: serve_def admin_router_lookup admin_paths_clean serve_endpoint_def)

definition no_env :: "string \<Rightarrow> string option" where
  "no_env v = None"

theorem admin_upstreams_shows_key_variable_witness:
  "\<exists>s1 snap st s'. serve sample_deps new_admin_router (sample_request\<lparr>sq_path := ''/admin/upstreams''\<rparr>)
       (new_writer None) s1 = Some (write_json (SnapshotBody snap) (new_writer None), s') \<and>
     st \<in> set (snap_upstreams snap) \<and> st_name st = ''a'' \<and>
     st_last_error st = [Lit ''missing provider API key env '', Verbatim ''A_KEY'']"
proof -
  have "case rt_upstreams (sys_health sample_system) ''a'' of None \<Rightarrow> False | Some us \<Rightarrow> accept_event 5 us \<noteq> None"
    by code_simp
  then obtain us where us: "rt_upstreams (sys_health sample_system) (prv_name sample_openai) = Some us"
    "accept_event 5 us \<noteq> None" by (auto simp: sample_openai_def split: option.splits)
  have p: "prv_provider sample_openai \<in> {''openai'', ''anthropic''}" "prv_api_key_env sample_openai \<noteq> []"
    "no_env (prv_api_key_env sample_openai) = None" by (simp_all add: sample_openai_def no_env_def)
  have d: "dp_runtime sample_deps = Some (sys_snapshot sample_clock)"
    by (simp add: sample_deps_def app_deps_def)
  have q: "sq_path (sample_request\<lparr>sq_path := ''/admin/upstreams''\<rparr>) = ''/admin/upstreams''" by simp
  have "(0 :: time) \<le> 5" by simp
  from admin_upstreams_shows_key_variable [where env = no_env and di = second and dt = second and
      net = "\<lambda>_. ProbeStatus 200" and dn = False and w = "new_writer None",
      OF sample_inv this us p refl refl d q]
  show ?thesis by (simp add: sample_openai_def) blast
qed

text \<open>C39: The health prober runs exactly as long as the service serves: a start that fails to
  listen or to serve stops it, one that ends cleanly does not, and a shutdown always does.\<close>

theorem serving_and_prober:
  "(sv_running (snd (start listen first later admin_first s)) \<longleftrightarrow>
      sv_running s \<and> fst (start listen first later admin_first s) = None) \<and>
   \<not> sv_running (snd (shutdown admin_err server_err s))"
  by (auto simp: start_def serve_one_def serve_all_def stop_runtime_work_def shutdown_def Let_def
      split: option.splits)

text \<open>C40: With two servers, the error of \<open>Start\<close> is a real one whenever either server failed with
  one (an error that is not, and does not wrap, \<open>http.ErrServerClosed\<close>), and it is no error only
  when neither returned any.\<close>

theorem serve_error_reported:
  assumes "sv_server s = Some srv" "sv_admin_server s = Some adm" "listen = (\<lambda>_. None)"
    and "e1 = first (tls_mode (sv_tls s) = ''file'')"
    and "e2 = later (must_close e1) (tls_mode (sv_tls s) = ''file'')"
  shows "case fst (start listen first later admin_first s) of
      None \<Rightarrow> e1 = None \<and> e2 = None
    | Some e \<Rightarrow> (Some e = e1 \<or> Some e = e2) \<and>
        (is_server_closed e \<longrightarrow> (\<forall>e'. e1 = Some e' \<or> e2 = Some e' \<longrightarrow> is_server_closed e'))"
proof -
  have "fst (start listen first later admin_first s) = select_serve_error [e1, e2]"
    using assms(1,2) unfolding assms(3-5)
    by (simp add: start_def serve_all_def serve_http_def Let_def)
  then show ?thesis by (auto simp: select_serve_error_def split: option.splits if_splits)
qed

theorem serve_error_reported_witness:
  "fst (start (\<lambda>_. None) (\<lambda>_. Some err_server_closed) (\<lambda>_ _. Some (ExternalError ''accept''))
     False (app_service_record sample_config)) \<noteq> Some err_server_closed"
proof -
  let ?s = "app_service_record sample_config"
  have "sv_admin_server ?s \<noteq> None" "sv_server ?s \<noteq> None" by code_simp+
  then obtain srv adm where "sv_server ?s = Some srv" "sv_admin_server ?s = Some adm" by blast
  from serve_error_reported [OF this refl refl refl, of "\<lambda>_. Some err_server_closed"
      "\<lambda>_ _. Some (ExternalError ''accept'')" False]
  show ?thesis by (auto simp: err_server_closed_def split: option.splits)
qed

text \<open>C35: A client with an active key of its own, sent in a bearer header with any spelling of the
  scheme, is given exactly its own policy; and a header that is given a policy is a bearer header
  with the secret of an active key, and the policy is that key's.\<close>

theorem bearer_roundtrip:
  assumes "distinct (map key_secret (filter usable_key ks))"
    and "k \<in> set ks" "key_active k" "trim_space (key_secret k) \<noteq> []"
    and "CHR '' '' \<notin> set scheme" "equal_fold scheme ''Bearer''"
  shows "parse_bearer (scheme @ CHR '' '' # key_secret k) = Some (key_secret k) \<and>
     (\<forall>p. resolve_bearer (new_resolver ks) (key_secret k) = Some p \<longleftrightarrow> p = policy_of_key k) \<and>
     (\<forall>header token p. parse_bearer header = Some token \<and> resolve_bearer (new_resolver ks) token = Some p \<longrightarrow>
        (\<exists>k' \<in> set ks. key_active k' \<and> p = policy_of_key k' \<and>
          (\<exists>sch. header = sch @ CHR '' '' # key_secret k' \<and> equal_fold sch ''Bearer'')))"
proof -
  have "usable_key k" using assms(3,4) trim_x(2) by (auto simp: usable_key_def)
  moreover have "\<exists>k' \<in> set ks. key_active k' \<and> p = policy_of_key k' \<and>
      (\<exists>sch. header = sch @ CHR '' '' # key_secret k' \<and> equal_fold sch ''Bearer'')"
    if "parse_bearer header = Some token" "resolve_bearer (new_resolver ks) token = Some p" for header token p
    using parse_bearer_SomeD [OF that(1)] resolve_bearer_usable [OF that(2)] by blast
  ultimately show ?thesis
    using parse_bearer_intro [OF assms(5,6,4)] resolve_bearer_distinct [OF assms(1,2)] by auto
qed

theorem bearer_roundtrip_witness:
  "parse_bearer ''bEARER s1'' = Some ''s1'' \<and>
   resolve_bearer (new_resolver [sample_key]) ''s1'' = Some (policy_of_key sample_key)"
proof -
  have "distinct (map key_secret (filter usable_key [sample_key]))" by simp
  moreover have "key_active sample_key" "key_secret sample_key = ''s1''"
    "trim_space (key_secret sample_key) \<noteq> []" "equal_fold ''bEARER'' ''Bearer''" by code_simp+
  ultimately show ?thesis using bearer_roundtrip [of "[sample_key]" sample_key "''bEARER''"] by simp
qed

section \<open>The two stand-alone health mechanisms\<close>

text \<open>C37: The circuit breaker.  After any run of operations its counters are below their thresholds
  and zero outside the mode that counts them.  From the closed mode the failures below the
  threshold keep it closed and the next one, at \<open>t\<close>, opens it; whatever is recorded or read in any
  number of operations before \<open>t\<close> plus the open interval leaves it open since \<open>t\<close>, and a look at it
  from that moment on finds it half-open.\<close>

theorem breaker_trips:
  assumes "b = breaker_run (new_breaker ft oi rt) ops"
  shows "breaker_inv b \<and>
     (bk_state b = Breaker.StateClosed \<and> bk_failures b + int (length ts) = ft - 1 \<longrightarrow>
        bk_state (breaker_run b (map (\<lambda>t. (t, RecordFailure)) ts)) = Breaker.StateClosed \<and>
        (\<forall>evs. (\<forall>(now, op) \<in> set evs. now - t < oi) \<longrightarrow>
          (let c = breaker_run b (map (\<lambda>t. (t, RecordFailure)) (ts @ [t]) @ evs) in
           bk_state c = Breaker.StateOpen \<and> bk_opened_at c = t \<and>
           (\<forall>now. oi \<le> now - t \<longrightarrow> fst (breaker_query now c) = Breaker.StateHalfOpen))))"
proof -
  have i: "breaker_inv b" unfolding assms by (rule breaker_inv_run [OF breaker_inv_new])
  have f: "bk_failure_threshold b = ft" "bk_open_interval b = oi"
    unfolding assms by (simp_all add: breaker_run_frame new_breaker_def)
  show ?thesis
  proof (intro conjI impI allI i)
    assume a: "bk_state b = Breaker.StateClosed \<and> bk_failures b + int (length ts) = ft - 1"
    with closed_failures [OF _ i, of ts] f
    show "bk_state (breaker_run b (map (\<lambda>t. (t, RecordFailure)) ts)) = Breaker.StateClosed" by simp
    fix evs :: "(time \<times> breaker_op) list"
    assume w: "\<forall>(now, op) \<in> set evs. now - t < oi"
    let ?o = "breaker_run b (map (\<lambda>t. (t, RecordFailure)) (ts @ [t]))"
    have o: "?o = b\<lparr>bk_failures := 0, bk_state := Breaker.StateOpen, bk_opened_at := t\<rparr>"
      by (rule threshold_opens) (use a i f in auto)
    have "bk_state (breaker_run ?o evs) = Breaker.StateOpen \<and> bk_opened_at (breaker_run ?o evs) = t"
      using open_run [of ?o evs] w f unfolding o by simp
    moreover have "bk_open_interval (breaker_run ?o evs) = oi" using f by (simp add: breaker_run_frame)
    ultimately show "let c = breaker_run b (map (\<lambda>t. (t, RecordFailure)) (ts @ [t]) @ evs) in
        bk_state c = Breaker.StateOpen \<and> bk_opened_at c = t \<and>
        (\<forall>now. oi \<le> now - t \<longrightarrow> fst (breaker_query now c) = Breaker.StateHalfOpen)"
      by (simp only: breaker_run_append [of b _ evs] Let_def) (simp add: open_decays)
  qed
qed

theorem breaker_trips_witness:
  "bk_state (breaker_run (new_breaker 2 10 1)
     [(0, RecordFailure), (3, RecordFailure), (9, RecordFailure), (12, RecordSuccess)]) = Breaker.StateOpen \<and>
   fst (breaker_query 13 (breaker_run (new_breaker 2 10 1)
     [(0, RecordFailure), (3, RecordFailure), (9, RecordFailure), (12, RecordSuccess)])) = Breaker.StateHalfOpen"
proof -
  have "new_breaker 2 10 1 = breaker_run (new_breaker 2 10 1) []" by (simp add: breaker_run_def)
  from breaker_trips [OF this, of "[0]" 3, THEN conjunct2] have
    "\<forall>evs. (\<forall>(now, op) \<in> set evs. now - 3 < 10) \<longrightarrow>
      (let c = breaker_run (new_breaker 2 10 1) (map (\<lambda>t. (t, RecordFailure)) ([0] @ [3]) @ evs) in
       bk_state c = Breaker.StateOpen \<and> bk_opened_at c = 3 \<and>
       (\<forall>now. 10 \<le> now - 3 \<longrightarrow> fst (breaker_query now c) = Breaker.StateHalfOpen))"
    by (simp add: new_breaker_def)
  from spec [OF this, of "[(9, RecordFailure), (12, RecordSuccess)]"] show ?thesis by (simp add: Let_def)
qed

text \<open>C38: The ejection manager.  An ejected upstream is refused until its deadline has passed and
  accepted afterwards, other upstreams are not affected, and a query, which may delete an expired
  entry, changes no answer at its own instant or later.\<close>

theorem manager_ejects_until:
  "fst (manager_is_eligible now (eject t u d m) v) =
     (if v = u then t + d < now else fst (manager_is_eligible now m v)) \<and>
   fst (manager_is_eligible (now + int k) (snd (manager_is_eligible now m u)) v) =
     fst (manager_is_eligible (now + int k) m v)"
  using manager_eject_window [of now t u d m] manager_eject_other [of v u now t d m]
    manager_query_later [of now "now + int k" m u v] by (simp add: mgr.answer)

end
